(* ===== verification/Tx_Prelude.thy ===== *)
theory Tx_Prelude
  imports Main "HOL-Library.Word"
begin

text \<open>
  The shared vocabulary of the development: names for the machine integers of the source,
  the theorem collections the component theories feed, and the generic facts about words,
  byte lists and bounded loops that several components use.

  \<^item> \<^verbatim>\<open>uint8_t\<close>, \<^verbatim>\<open>uint16_t\<close>, \<^verbatim>\<open>uint32_t\<close> and \<^verbatim>\<open>uint64_t\<close> are words of that width, so
    that the source's wrap-around is the model's.  A signed \<^verbatim>\<open>int16_t\<close> or \<^verbatim>\<open>int32_t\<close> that is
    only stored and re-read is the word of its width, read by \<^const>\<open>sint\<close>.
  \<^item> \<^verbatim>\<open>int64_t\<close> microsecond timestamps are \<^typ>\<open>int\<close>: a 64-bit microsecond counter does not
    overflow within 290000 years, and signed overflow is undefined in the source language.
  \<^item> A C array is a list; writing one element is a list update, and every model that indexes
    a list says what happens outside its length.
\<close>

unbundle bit_operations_syntax

type_synonym u8 = "8 word"
type_synonym u16 = "16 word"
type_synonym u32 = "32 word"
type_synonym u64 = "64 word"
type_synonym bytes = "u8 list"
type_synonym time_us = int

named_theorems tx_defs "definitions of the operations, for unfolding on concrete inputs"
named_theorems tx_inv "preservation of component invariants"

subsection \<open>Words\<close>

text \<open>The value of a bit flag of the source: \<^verbatim>\<open>b ? flag : 0\<close>.\<close>

definition flag :: "bool \<Rightarrow> 'a::len word \<Rightarrow> 'a word" where
  "flag b m = (if b then m else 0)"

lemma flag_simps [simp]: "flag True m = m" "flag False m = 0"
  by (simp_all add: flag_def)

text \<open>C's implicit conversion of an integer to a condition.\<close>

definition nonzero :: "'a::len word \<Rightarrow> bool" where
  "nonzero w \<longleftrightarrow> w \<noteq> 0"

lemma nonzero_simps [simp]: "\<not> nonzero 0" "nonzero 1"
  by (simp_all add: nonzero_def)

text \<open>Conversions between the widths, as C's casts between unsigned types.\<close>

definition to_u8 :: "'a::len word \<Rightarrow> u8" where "to_u8 w = ucast w"

definition to_u16 :: "'a::len word \<Rightarrow> u16" where "to_u16 w = ucast w"

definition to_u32 :: "'a::len word \<Rightarrow> u32" where "to_u32 w = ucast w"

definition to_u64 :: "'a::len word \<Rightarrow> u64" where "to_u64 w = ucast w"

lemmas to_word_defs = to_u8_def to_u16_def to_u32_def to_u64_def

lemma bit_to_u8: "bit (to_u8 (w :: 'a::len word)) n \<longleftrightarrow> n < 8 \<and> bit w n"
  by (auto simp: to_u8_def bit_simps dest: bit_imp_le_length)

lemma bit_to_u16: "bit (to_u16 (w :: 'a::len word)) n \<longleftrightarrow> n < 16 \<and> bit w n"
  by (auto simp: to_u16_def bit_simps dest: bit_imp_le_length)

lemma bit_to_u32: "bit (to_u32 (w :: 'a::len word)) n \<longleftrightarrow> n < 32 \<and> bit w n"
  by (auto simp: to_u32_def bit_simps dest: bit_imp_le_length)

lemma bit_to_u64: "bit (to_u64 (w :: 'a::len word)) n \<longleftrightarrow> n < 64 \<and> bit w n"
  by (auto simp: to_u64_def bit_simps dest: bit_imp_le_length)

lemmas bit_to_word = bit_to_u8 bit_to_u16 bit_to_u32 bit_to_u64

text \<open>A word is never longer than its type says.\<close>

lemma u8_bit_bound: "bit (w :: u8) n \<Longrightarrow> n < 8"
  using bit_imp_le_length [of w n] by simp

lemma u16_bit_bound: "bit (w :: u16) n \<Longrightarrow> n < 16"
  using bit_imp_le_length [of w n] by simp

lemma u32_bit_bound: "bit (w :: u32) n \<Longrightarrow> n < 32"
  using bit_imp_le_length [of w n] by simp

lemma u64_bit_bound: "bit (w :: u64) n \<Longrightarrow> n < 64"
  using bit_imp_le_length [of w n] by simp

lemmas bit_bounds = u8_bit_bound u16_bit_bound u32_bit_bound u64_bit_bound

text \<open>The simplifier writes a shift by one as a doubling; its bits.\<close>

lemma bit_double_word:
  "bit (w * 2 :: 'a::len word) n \<longleftrightarrow> 0 < n \<and> n < LENGTH('a) \<and> bit w (n - 1)"
proof -
  have "w * 2 = push_bit 1 w" by (simp add: push_bit_eq_mult)
  then show ?thesis by (auto simp only: bit_push_bit_iff possible_bit_word)
qed

text \<open>The bit positions of a byte and of a half word, for proofs that go through them one by one.\<close>

lemma below_8: "n < (8::nat) \<Longrightarrow> n \<in> {0, 1, 2, 3, 4, 5, 6, 7}"
  by auto

lemma below_16: "n < (16::nat) \<Longrightarrow> n \<in> {0, 1, 2, 3, 4, 5, 6, 7, 8, 9, 10, 11, 12, 13, 14, 15}"
  by (simp add: numeral_eq_Suc less_Suc_eq)

text \<open>Widening keeps the value.\<close>

lemma unat_widen:
  "unat (to_u16 (v :: u8)) = unat v" "unat (to_u32 (v :: u8)) = unat v"
  "unat (to_u32 (w :: u16)) = unat w" "unat (to_u64 (x :: u32)) = unat x"
  unfolding unat_eq_nat_uint to_word_defs by (simp_all add: uint_up_ucast is_up)

text \<open>Testing one bit with a mask.\<close>

lemma nonzero_and_bit: "nonzero ((src :: 'a::len word) AND 2 ^ k) \<longleftrightarrow> bit src k"
  by (simp add: nonzero_def and_exp_eq_0_iff_not_bit)

section \<open>Integers\<close>

text \<open>C's division of signed numbers truncates towards zero.\<close>

definition c_div :: "int \<Rightarrow> int \<Rightarrow> int" where
  "c_div a b = (if (a < 0) = (b < 0) then \<bar>a\<bar> div \<bar>b\<bar> else - (\<bar>a\<bar> div \<bar>b\<bar>))"

lemma c_div_nonneg [simp]: "0 \<le> a \<Longrightarrow> 0 < b \<Longrightarrow> c_div a b = a div b"
  by (simp add: c_div_def)

lemma c_div_neg: "a < 0 \<Longrightarrow> 0 < b \<Longrightarrow> c_div a b = - ((- a) div b)"
  by (simp add: c_div_def)

lemma c_div_mono:
  assumes "a \<le> a'" "0 < b"
  shows "c_div a b \<le> c_div a' b"
proof (cases "a < 0")
  case True
  then show ?thesis
    using assms zdiv_mono1 [of "- a'" "- a" b] pos_imp_zdiv_nonneg_iff [of b a']
      pos_imp_zdiv_nonneg_iff [of b "- a"]
    by (cases "a' < 0") (auto simp: c_div_neg intro: order.trans [of _ 0])
next
  case False
  then show ?thesis using assms by (simp add: zdiv_mono1)
qed

end
