(* ===== verification/Failsafe.thy ===== *)
theory Failsafe
  imports Tx_Prelude
begin

text \<open>
  The safety state machine of \<^verbatim>\<open>src/main/safety/failsafe.cpp\<close>: the eight states of
  \<^verbatim>\<open>enum SystemState\<close>, the module's two static variables, and one function per operation.
  The lemmas describe the machine as a step relation over its operations: which steps can
  arm it, what every run to the active state has gone through, that a lost gamepad never
  leaves it armed, and that a radio error is final.
\<close>

datatype SystemState =
    STATE_BOOT
  | STATE_WAIT_GAMEPAD
  | STATE_BINDING
  | STATE_LOCKED
  | STATE_ACTIVE
  | STATE_GAMEPAD_FAILSAFE
  | STATE_RADIO_ERROR
  | STATE_PREARM_MODE

text \<open>The values the C enumeration gives the states (the casts and the wire rely on them).\<close>

fun state_code :: "SystemState \<Rightarrow> nat" where
  "state_code STATE_BOOT = 0"
| "state_code STATE_WAIT_GAMEPAD = 1"
| "state_code STATE_BINDING = 2"
| "state_code STATE_LOCKED = 3"
| "state_code STATE_ACTIVE = 4"
| "state_code STATE_GAMEPAD_FAILSAFE = 5"
| "state_code STATE_RADIO_ERROR = 6"
| "state_code STATE_PREARM_MODE = 7"

text \<open>The timeouts of \<^verbatim>\<open>config.h\<close> the machine uses.\<close>

definition GAMEPAD_TIMEOUT_MS :: int where "GAMEPAD_TIMEOUT_MS = 500"

definition BIND_DURATION_US :: int where "BIND_DURATION_US = 2000000"

record failsafe =
  current_state :: SystemState
  bind_start :: time_us

definition failsafe_boot :: failsafe where
  "failsafe_boot = \<lparr>current_state = STATE_BOOT, bind_start = 0\<rparr>"

definition failsafe_init :: "failsafe \<Rightarrow> failsafe" where
  "failsafe_init fs = fs\<lparr>current_state := STATE_WAIT_GAMEPAD\<rparr>"

text \<open>The arguments of one \<^verbatim>\<open>failsafe_update_at\<close> call.\<close>

record failsafe_inputs =
  fi_now :: time_us
  gamepad_connected :: bool
  last_gamepad_update :: time_us
  throttle_idle :: bool
  unlock_clicked :: bool
  bind_clicked :: bool
  disarm_clicked :: bool

definition gamepad_timeout :: "failsafe_inputs \<Rightarrow> bool" where
  "gamepad_timeout i =
     (if gamepad_connected i
      then fi_now i - last_gamepad_update i > GAMEPAD_TIMEOUT_MS * 1000
      else True)"

definition failsafe_update_at :: "failsafe_inputs \<Rightarrow> failsafe \<Rightarrow> failsafe" where
  "failsafe_update_at i fs =
    (case current_state fs of
       STATE_WAIT_GAMEPAD \<Rightarrow>
         if \<not> gamepad_timeout i then fs\<lparr>current_state := STATE_LOCKED\<rparr> else fs
     | STATE_LOCKED \<Rightarrow>
         if gamepad_timeout i then fs\<lparr>current_state := STATE_WAIT_GAMEPAD\<rparr>
         else if bind_clicked i \<and> throttle_idle i
           then fs\<lparr>current_state := STATE_BINDING, bind_start := fi_now i\<rparr>
         else if unlock_clicked i \<and> throttle_idle i
           then fs\<lparr>current_state := STATE_PREARM_MODE\<rparr>
         else fs
     | STATE_PREARM_MODE \<Rightarrow>
         if gamepad_timeout i then fs\<lparr>current_state := STATE_GAMEPAD_FAILSAFE\<rparr>
         else if disarm_clicked i \<or> \<not> throttle_idle i
           then fs\<lparr>current_state := STATE_LOCKED\<rparr>
         else fs
     | STATE_BINDING \<Rightarrow>
         if gamepad_timeout i then fs\<lparr>current_state := STATE_WAIT_GAMEPAD\<rparr>
         else if fi_now i - bind_start fs > BIND_DURATION_US
           then fs\<lparr>current_state := STATE_LOCKED\<rparr>
         else fs
     | STATE_ACTIVE \<Rightarrow>
         if gamepad_timeout i then fs\<lparr>current_state := STATE_GAMEPAD_FAILSAFE\<rparr>
         else if disarm_clicked i then fs\<lparr>current_state := STATE_LOCKED\<rparr>
         else fs
     | STATE_GAMEPAD_FAILSAFE \<Rightarrow>
         if \<not> gamepad_timeout i then fs\<lparr>current_state := STATE_LOCKED\<rparr> else fs
     | STATE_RADIO_ERROR \<Rightarrow> fs
     | STATE_BOOT \<Rightarrow> fs)"

definition failsafe_report_radio_error :: "failsafe \<Rightarrow> failsafe" where
  "failsafe_report_radio_error fs = fs\<lparr>current_state := STATE_RADIO_ERROR\<rparr>"

definition failsafe_complete_prearm :: "failsafe \<Rightarrow> failsafe" where
  "failsafe_complete_prearm fs =
     (if current_state fs = STATE_PREARM_MODE then fs\<lparr>current_state := STATE_ACTIVE\<rparr> else fs)"

definition failsafe_cancel_prearm :: "failsafe \<Rightarrow> failsafe" where
  "failsafe_cancel_prearm fs =
     (if current_state fs = STATE_PREARM_MODE then fs\<lparr>current_state := STATE_LOCKED\<rparr> else fs)"

definition failsafe_get_state :: "failsafe \<Rightarrow> SystemState" where
  "failsafe_get_state fs = current_state fs"

text \<open>
  The module's operations as the events of a machine.  After \<^const>\<open>failsafe_init\<close> the module
  is changed only through these four.
\<close>

datatype fs_event = Update failsafe_inputs | RadioError | CompletePrearm | CancelPrearm

fun fs_step :: "failsafe \<Rightarrow> fs_event \<Rightarrow> failsafe" where
  "fs_step fs (Update i) = failsafe_update_at i fs"
| "fs_step fs RadioError = failsafe_report_radio_error fs"
| "fs_step fs CompletePrearm = failsafe_complete_prearm fs"
| "fs_step fs CancelPrearm = failsafe_cancel_prearm fs"

fun fs_run :: "failsafe \<Rightarrow> fs_event list \<Rightarrow> failsafe" where
  "fs_run fs [] = fs"
| "fs_run fs (e # es) = fs_run (fs_step fs e) es"

text \<open>
  The abstract safety specification: the transition graph the machine may move along, with the
  guard of each edge.  A step may also stay where it is.
\<close>

inductive fs_edge :: "SystemState \<Rightarrow> fs_event \<Rightarrow> SystemState \<Rightarrow> bool" where
  stay: "fs_edge s e s"
| found: "\<not> gamepad_timeout i \<Longrightarrow> s \<in> {STATE_WAIT_GAMEPAD, STATE_GAMEPAD_FAILSAFE} \<Longrightarrow>
    fs_edge s (Update i) STATE_LOCKED"
| lost_safe: "gamepad_timeout i \<Longrightarrow> s \<in> {STATE_LOCKED, STATE_BINDING} \<Longrightarrow>
    fs_edge s (Update i) STATE_WAIT_GAMEPAD"
| lost_armed: "gamepad_timeout i \<Longrightarrow> s \<in> {STATE_ACTIVE, STATE_PREARM_MODE} \<Longrightarrow>
    fs_edge s (Update i) STATE_GAMEPAD_FAILSAFE"
| bind: "\<not> gamepad_timeout i \<Longrightarrow> bind_clicked i \<Longrightarrow> throttle_idle i \<Longrightarrow>
    fs_edge STATE_LOCKED (Update i) STATE_BINDING"
| bound: "\<not> gamepad_timeout i \<Longrightarrow> fs_edge STATE_BINDING (Update i) STATE_LOCKED"
| unlock: "\<not> gamepad_timeout i \<Longrightarrow> unlock_clicked i \<Longrightarrow> throttle_idle i \<Longrightarrow> \<not> bind_clicked i \<Longrightarrow>
    fs_edge STATE_LOCKED (Update i) STATE_PREARM_MODE"
| abort: "\<not> gamepad_timeout i \<Longrightarrow> disarm_clicked i \<or> \<not> throttle_idle i \<Longrightarrow>
    fs_edge STATE_PREARM_MODE (Update i) STATE_LOCKED"
| disarm: "\<not> gamepad_timeout i \<Longrightarrow> disarm_clicked i \<Longrightarrow> fs_edge STATE_ACTIVE (Update i) STATE_LOCKED"
| arm: "fs_edge STATE_PREARM_MODE CompletePrearm STATE_ACTIVE"
| cancel: "fs_edge STATE_PREARM_MODE CancelPrearm STATE_LOCKED"
| radio: "fs_edge s RadioError STATE_RADIO_ERROR"

inductive_cases fs_edge_to_activeE: "fs_edge s e STATE_ACTIVE"
inductive_cases fs_edge_to_prearmE: "fs_edge s e STATE_PREARM_MODE"
inductive_simps fs_edge_from_error: "fs_edge STATE_RADIO_ERROR e t"
inductive_simps fs_edge_from_active_update: "fs_edge STATE_ACTIVE (Update i) t"

lemmas failsafe_defs =
  failsafe_update_at_def failsafe_report_radio_error_def failsafe_complete_prearm_def
  failsafe_cancel_prearm_def failsafe_get_state_def failsafe_init_def

declare failsafe_defs [tx_defs] gamepad_timeout_def [tx_defs]
  GAMEPAD_TIMEOUT_MS_def [tx_defs] BIND_DURATION_US_def [tx_defs]

subsection \<open>The machine refines its transition graph\<close>

lemma update_refines_edge:
  "fs_edge (current_state fs) (Update i) (current_state (failsafe_update_at i fs))"
  by (cases "current_state fs") (auto simp: failsafe_update_at_def intro: fs_edge.intros)

lemma fs_step_refines_edge: "fs_edge (current_state fs) e (current_state (fs_step fs e))"
proof (cases e)
  case (Update i)
  then show ?thesis using update_refines_edge by simp
qed (auto simp: failsafe_defs intro: fs_edge.intros)

lemma edge_into_active:
  "fs_edge s e STATE_ACTIVE \<Longrightarrow> s \<noteq> STATE_ACTIVE \<Longrightarrow> s = STATE_PREARM_MODE \<and> e = CompletePrearm"
  by (auto elim: fs_edge_to_activeE)

lemma edge_into_prearm:
  assumes "fs_edge s e STATE_PREARM_MODE" "s \<noteq> STATE_PREARM_MODE"
  shows "s = STATE_LOCKED \<and>
    (\<exists>i. e = Update i \<and> unlock_clicked i \<and> throttle_idle i \<and> \<not> bind_clicked i \<and> \<not> gamepad_timeout i)"
  using assms by (auto elim: fs_edge_to_prearmE)

lemma fs_run_append: "fs_run fs (xs @ ys) = fs_run (fs_run fs xs) ys"
  by (induction xs arbitrary: fs) auto

lemma fs_run_snoc [simp]: "fs_run fs (xs @ [e]) = fs_step (fs_run fs xs) e"
  by (simp add: fs_run_append)

text \<open>
  Arming is never accidental: the last event that left the disarmed states was an unlock click
  with the throttle idle and a live gamepad, and the arming itself was the completion of the
  pre-arm check.
\<close>

definition unlock_event :: "fs_event \<Rightarrow> bool" where
  "unlock_event e \<longleftrightarrow> (\<exists>i. e = Update i \<and> unlock_clicked i \<and> throttle_idle i \<and>
     \<not> bind_clicked i \<and> \<not> gamepad_timeout i)"

lemma run_to_prearm_unlocks:
  assumes "current_state (fs_run fs es) = STATE_PREARM_MODE"
    and "current_state fs \<notin> {STATE_PREARM_MODE}"
  shows "\<exists>e \<in> set es. unlock_event e"
  using assms
proof (induction es rule: rev_induct)
  case Nil
  then show ?case by simp
next
  case (snoc e es)
  show ?case
  proof (cases "current_state (fs_run fs es) = STATE_PREARM_MODE")
    case True
    with snoc.IH snoc.prems(2) show ?thesis by auto
  next
    case False
    with snoc.prems(1) fs_step_refines_edge [of "fs_run fs es" e]
    have "unlock_event e"
      using edge_into_prearm unfolding unlock_event_def by (metis fs_run_snoc)
    then show ?thesis by auto
  qed
qed

lemma run_to_active_arms:
  assumes "current_state (fs_run fs es) = STATE_ACTIVE"
    and "current_state fs \<noteq> STATE_ACTIVE"
  shows "\<exists>us vs. es = us @ CompletePrearm # vs \<and>
    current_state (fs_run fs us) = STATE_PREARM_MODE \<and>
    current_state (fs_run fs (us @ [CompletePrearm])) = STATE_ACTIVE"
  using assms
proof (induction es rule: rev_induct)
  case Nil
  then show ?case by simp
next
  case (snoc e es)
  show ?case
  proof (cases "current_state (fs_run fs es) = STATE_ACTIVE")
    case True
    with snoc.IH snoc.prems(2) obtain us vs where "es = us @ CompletePrearm # vs"
      "current_state (fs_run fs us) = STATE_PREARM_MODE"
      "current_state (fs_run fs (us @ [CompletePrearm])) = STATE_ACTIVE" by blast
    then show ?thesis by (intro exI [of _ us] exI [of _ "vs @ [e]"]) simp
  next
    case False
    with snoc.prems(1) fs_step_refines_edge [of "fs_run fs es" e]
    have "current_state (fs_run fs es) = STATE_PREARM_MODE \<and> e = CompletePrearm"
      using edge_into_active by (metis fs_run_snoc)
    with snoc.prems(1) show ?thesis by (intro exI [of _ es] exI [of _ "[]"]) simp
  qed
qed


subsection \<open>Properties\<close>

text \<open>
  C8: arming is never accidental.  Whatever sequence of operations follows initialisation, if the
  machine ends in \<^verbatim>\<open>STATE_ACTIVE\<close> then it was armed by a completed pre-arm check performed in
  \<^verbatim>\<open>STATE_PREARM_MODE\<close>, and before that some update saw an unlock click with the throttle idle,
  no bind click and a live gamepad.
\<close>

theorem armed_only_after_unlock_and_prearm:
  assumes "current_state (fs_run (failsafe_init fs) es) = STATE_ACTIVE"
  shows "\<exists>us vs. es = us @ CompletePrearm # vs \<and>
    current_state (fs_run (failsafe_init fs) us) = STATE_PREARM_MODE \<and>
    (\<exists>e \<in> set us. unlock_event e)"
proof -
  have "current_state (failsafe_init fs) \<noteq> STATE_ACTIVE"
    and p: "current_state (failsafe_init fs) \<notin> {STATE_PREARM_MODE}"
    by (simp_all add: failsafe_init_def)
  with assms obtain us vs where us: "es = us @ CompletePrearm # vs"
    "current_state (fs_run (failsafe_init fs) us) = STATE_PREARM_MODE"
    using run_to_active_arms by blast
  with run_to_prearm_unlocks [OF us(2) p] show ?thesis by blast
qed

definition idle_inputs :: failsafe_inputs where
  "idle_inputs = \<lparr>fi_now = 1000, gamepad_connected = True, last_gamepad_update = 900,
     throttle_idle = True, unlock_clicked = False, bind_clicked = False, disarm_clicked = False\<rparr>"

theorem armed_only_after_unlock_and_prearm_witness:
  "\<exists>us vs. [Update idle_inputs, Update (idle_inputs\<lparr>unlock_clicked := True\<rparr>), CompletePrearm] =
      us @ CompletePrearm # vs \<and>
    current_state (fs_run (failsafe_init failsafe_boot) us) = STATE_PREARM_MODE \<and>
    (\<exists>e \<in> set us. unlock_event e)"
  by (rule armed_only_after_unlock_and_prearm) (simp add: tx_defs idle_inputs_def)

text \<open>
  C9: a lost gamepad disarms.  After any update in which the gamepad is disconnected or has been
  silent for more than 500 ms the machine is in neither \<^verbatim>\<open>STATE_ACTIVE\<close> nor
  \<^verbatim>\<open>STATE_PREARM_MODE\<close>, and if it was armed it is in \<^verbatim>\<open>STATE_GAMEPAD_FAILSAFE\<close>.
\<close>

theorem lost_gamepad_disarms:
  assumes "\<not> gamepad_connected i \<or> fi_now i - last_gamepad_update i > 500000"
  shows "current_state (failsafe_update_at i fs) \<notin> {STATE_ACTIVE, STATE_PREARM_MODE} \<and>
    (current_state fs = STATE_ACTIVE \<longrightarrow>
      current_state (failsafe_update_at i fs) = STATE_GAMEPAD_FAILSAFE)"
proof -
  from assms have "gamepad_timeout i"
    by (auto simp: gamepad_timeout_def GAMEPAD_TIMEOUT_MS_def)
  then show ?thesis by (auto simp: failsafe_update_at_def split: SystemState.splits)
qed

theorem lost_gamepad_disarms_witness:
  "current_state (failsafe_update_at (idle_inputs\<lparr>fi_now := 600000\<rparr>)
      \<lparr>current_state = STATE_ACTIVE, bind_start = 0\<rparr>) = STATE_GAMEPAD_FAILSAFE"
  using lost_gamepad_disarms [of "idle_inputs\<lparr>fi_now := 600000\<rparr>"
      "\<lparr>current_state = STATE_ACTIVE, bind_start = 0\<rparr>"]
  by (simp add: idle_inputs_def)

text \<open>
  A radio error is final.  Once the machine is in \<^verbatim>\<open>STATE_RADIO_ERROR\<close> no sequence of its
  operations changes anything: only a reboot leaves that state.
\<close>

theorem radio_error_is_final:
  assumes "current_state fs = STATE_RADIO_ERROR"
  shows "fs_run fs es = fs"
  using assms
proof (induction es)
  case (Cons e es)
  then have "fs_step fs e = fs" by (cases e) (simp_all add: failsafe_defs)
  with Cons show ?case by simp
qed simp

theorem radio_error_is_final_witness:
  "fs_run (failsafe_report_radio_error failsafe_boot) [Update idle_inputs, CompletePrearm, CancelPrearm] =
   failsafe_report_radio_error failsafe_boot"
  by (rule radio_error_is_final) (simp add: failsafe_defs)

text \<open>
  The binding window is exactly bounded.  A bind click in \<^verbatim>\<open>STATE_LOCKED\<close> (throttle idle,
  gamepad live) opens the window at the time of the click; while the gamepad stays live, every later
  update before \<^verbatim>\<open>BIND_DURATION_US\<close> has passed keeps binding, and every update after it leaves
  for \<^verbatim>\<open>STATE_LOCKED\<close>.
\<close>

theorem binding_window:
  assumes "current_state fs = STATE_LOCKED" "\<not> gamepad_timeout i" "bind_clicked i" "throttle_idle i"
    and "\<not> gamepad_timeout j"
  shows "current_state (failsafe_update_at i fs) = STATE_BINDING \<and>
    current_state (failsafe_update_at j (failsafe_update_at i fs)) =
      (if fi_now j - fi_now i > 2000000 then STATE_LOCKED else STATE_BINDING)"
  using assms by (simp add: failsafe_update_at_def BIND_DURATION_US_def)

theorem binding_window_witness:
  "current_state (failsafe_update_at (idle_inputs\<lparr>fi_now := 2001001, last_gamepad_update := 2000000\<rparr>)
     (failsafe_update_at (idle_inputs\<lparr>bind_clicked := True\<rparr>)
       \<lparr>current_state = STATE_LOCKED, bind_start = 0\<rparr>)) = STATE_LOCKED"
  using binding_window [of "\<lparr>current_state = STATE_LOCKED, bind_start = 0\<rparr>"
      "idle_inputs\<lparr>bind_clicked := True\<rparr>" "idle_inputs\<lparr>fi_now := 2001001, last_gamepad_update := 2000000\<rparr>"]
  by (simp add: idle_inputs_def gamepad_timeout_def GAMEPAD_TIMEOUT_MS_def)

end
