(* ===== verification/Bayang.thy ===== *)
theory Bayang
  imports Tx_Prelude
begin

text \<open>
  The Bayang packet layer of \<^verbatim>\<open>src/main/radio/bayang.cpp\<close> and \<^verbatim>\<open>bayang.h\<close>: the module's address
  and hopping table, the bind and data packets, and the additive checksum.  A pointer the code
  tests against \<^verbatim>\<open>nullptr\<close> is an \<^typ>\<open>'a option\<close>; a packet is a list of \<open>BAYANG_PACKET_SIZE\<close> bytes.
\<close>

definition BAYANG_PACKET_SIZE :: nat where "BAYANG_PACKET_SIZE = 15"

definition BAYANG_ADDRESS_LENGTH :: nat where "BAYANG_ADDRESS_LENGTH = 5"

definition BAYANG_RF_CHANNELS :: nat where "BAYANG_RF_CHANNELS = 4"

definition BAYANG_BIND_A1 :: u8 where "BAYANG_BIND_A1 = 0xA1"

definition BAYANG_BIND_A2 :: u8 where "BAYANG_BIND_A2 = 0xA2"

definition BAYANG_BIND_A3 :: u8 where "BAYANG_BIND_A3 = 0xA3"

definition BAYANG_BIND_A4 :: u8 where "BAYANG_BIND_A4 = 0xA4"

definition BAYANG_DATA :: u8 where "BAYANG_DATA = 0xA5"

definition BAYANG_FLAG_FLIP :: u8 where "BAYANG_FLAG_FLIP = 0x08"

definition BAYANG_FLAG_RTH :: u8 where "BAYANG_FLAG_RTH = 0x01"

definition BAYANG_FLAG_HEADLESS :: u8 where "BAYANG_FLAG_HEADLESS = 0x02"

definition BAYANG_FLAG_PICTURE :: u8 where "BAYANG_FLAG_PICTURE = 0x20"

definition BAYANG_FLAG_VIDEO :: u8 where "BAYANG_FLAG_VIDEO = 0x10"

definition BAYANG_FLAG_TAKE_OFF :: u8 where "BAYANG_FLAG_TAKE_OFF = 0x20"

definition BAYANG_FLAG_INVERTED :: u8 where "BAYANG_FLAG_INVERTED = 0x80"

definition BAYANG_FLAG_EMG_STOP :: u8 where "BAYANG_FLAG_EMG_STOP = 0x04 OR 0x08"

record BayangControlState =
  bc_roll :: u16
  bc_pitch :: u16
  bc_throttle :: u16
  bc_yaw :: u16
  aux_flip :: bool
  aux_rth :: bool
  aux_headless :: bool
  aux_picture :: bool
  aux_video :: bool
  aux_take_off :: bool
  aux_inverted :: bool
  aux_emg_stop :: bool

text \<open>The value of \<^verbatim>\<open>BayangControlState state = {}\<close>.\<close>

definition bayang_control_zero :: BayangControlState where
  "bayang_control_zero = \<lparr>bc_roll = 0, bc_pitch = 0, bc_throttle = 0, bc_yaw = 0, aux_flip = False,
     aux_rth = False, aux_headless = False, aux_picture = False, aux_video = False,
     aux_take_off = False, aux_inverted = False, aux_emg_stop = False\<rparr>"

text \<open>The module's static variables.\<close>

record bayang =
  rx_tx_addr :: bytes
  bay_hopping_channels :: bytes

definition dynamic_trim :: "u16 \<Rightarrow> u8" where
  "dynamic_trim v = to_u8 (drop_bit 2 v AND 0xFC)"

definition clamp_channel :: "u16 \<Rightarrow> u16" where
  "clamp_channel v = (if v > 1023 then 1023 else v)"

text \<open>\<^verbatim>\<open>tx_id\<close> points to at least five bytes; only the first five are copied.\<close>

definition bayang_init :: "bytes \<Rightarrow> bayang" where
  "bayang_init tx_id =
     (let a = take BAYANG_ADDRESS_LENGTH tx_id;
          h1 = (a ! 3 AND 0x1F) + 0x10;
          h2 = h1 + 0x20;
          h3 = h2 + 0x20
      in \<lparr>rx_tx_addr = a, bay_hopping_channels = [0, h1, h2, h3]\<rparr>)"

definition bayang_get_hopping_channels :: "bayang \<Rightarrow> bytes" where
  "bayang_get_hopping_channels b = bay_hopping_channels b"

definition bayang_select_bind_header :: "bool \<Rightarrow> bool \<Rightarrow> u8" where
  "bayang_select_bind_header telemetry_enabled analog_aux_enabled =
     (if analog_aux_enabled
      then (if telemetry_enabled then BAYANG_BIND_A1 else BAYANG_BIND_A2)
      else (if telemetry_enabled then BAYANG_BIND_A3 else BAYANG_BIND_A4))"

text \<open>The loop of \<^verbatim>\<open>bayang_calculate_checksum\<close>: the bytes before the last, summed modulo 256.\<close>

definition checksum_loop :: "bytes \<Rightarrow> u8" where
  "checksum_loop packet = foldl (+) 0 (take (BAYANG_PACKET_SIZE - 1) packet)"

definition bayang_calculate_checksum :: "bytes option \<Rightarrow> u8" where
  "bayang_calculate_checksum packet = (case packet of None \<Rightarrow> 0 | Some p \<Rightarrow> checksum_loop p)"

definition bayang_build_bind_packet :: "bayang \<Rightarrow> u8 \<Rightarrow> bytes" where
  "bayang_build_bind_packet b bind_header =
     (let p = [bind_header] @ rx_tx_addr b @ bay_hopping_channels b @
          [rx_tx_addr b ! 0, rx_tx_addr b ! 1, rx_tx_addr b ! 2,
           if bind_header = BAYANG_BIND_A1 \<or> bind_header = BAYANG_BIND_A2 then 0x00 else 0x0A, 0]
      in p[14 := bayang_calculate_checksum (Some p)])"

text \<open>The two flag bytes of a data packet.\<close>

definition data_flags_2 :: "BayangControlState \<Rightarrow> u8" where
  "data_flags_2 s = flag (aux_flip s) BAYANG_FLAG_FLIP OR flag (aux_rth s) BAYANG_FLAG_RTH OR
     flag (aux_headless s) BAYANG_FLAG_HEADLESS OR flag (aux_picture s) BAYANG_FLAG_PICTURE OR
     flag (aux_video s) BAYANG_FLAG_VIDEO"

definition data_flags_3 :: "BayangControlState \<Rightarrow> u8" where
  "data_flags_3 s = flag (aux_take_off s) BAYANG_FLAG_TAKE_OFF OR
     flag (aux_inverted s) BAYANG_FLAG_INVERTED OR flag (aux_emg_stop s) BAYANG_FLAG_EMG_STOP"

text \<open>The two bytes of a channel: the high byte carries the trim, the low byte the low eight bits.\<close>

definition channel_hi :: "bool \<Rightarrow> u16 \<Rightarrow> u8" where
  "channel_hi headless v = to_u8 (drop_bit 8 v) + (if headless then 0x7C else dynamic_trim v)"

definition channel_lo :: "u16 \<Rightarrow> u8" where
  "channel_lo v = to_u8 (v AND 0xFF)"

definition bayang_build_data_packet :: "bayang \<Rightarrow> BayangControlState \<Rightarrow> bytes" where
  "bayang_build_data_packet b state =
     (let headless = aux_headless state;
          roll = clamp_channel (bc_roll state);
          pitch = clamp_channel (bc_pitch state);
          throttle = clamp_channel (bc_throttle state);
          yaw = clamp_channel (bc_yaw state);
          p = [BAYANG_DATA, 0xFA, data_flags_2 state, data_flags_3 state,
               channel_hi headless roll, channel_lo roll,
               channel_hi headless pitch, channel_lo pitch,
               to_u8 (drop_bit 8 throttle) + 0x7C, channel_lo throttle,
               channel_hi headless yaw, channel_lo yaw,
               rx_tx_addr b ! 2, 0x0A, 0]
      in p[14 := bayang_calculate_checksum (Some p)])"

definition bayang_check_telemetry :: "bytes option \<Rightarrow> bool" where
  "bayang_check_telemetry packet =
     (case packet of None \<Rightarrow> False
      | Some p \<Rightarrow>
          if p ! 0 \<noteq> 0x85 \<and> p ! 0 \<noteq> 0x86 then False
          else if bayang_calculate_checksum packet \<noteq> p ! 14 then False
          else True)"

text \<open>
  What a Bayang receiver reads from a data packet: ten bits per channel and the flag bits.  This is
  the specification the packet builder is checked against.
\<close>

definition read_channel :: "bytes \<Rightarrow> nat \<Rightarrow> u16" where
  "read_channel p i = push_bit 8 (to_u16 (p ! i) AND 3) OR to_u16 (p ! Suc i)"

definition receiver_decode :: "bytes \<Rightarrow> BayangControlState" where
  "receiver_decode p = \<lparr>bc_roll = read_channel p 4, bc_pitch = read_channel p 6,
     bc_throttle = read_channel p 8, bc_yaw = read_channel p 10,
     aux_flip = nonzero (p ! 2 AND BAYANG_FLAG_FLIP), aux_rth = nonzero (p ! 2 AND BAYANG_FLAG_RTH),
     aux_headless = nonzero (p ! 2 AND BAYANG_FLAG_HEADLESS),
     aux_picture = nonzero (p ! 2 AND BAYANG_FLAG_PICTURE),
     aux_video = nonzero (p ! 2 AND BAYANG_FLAG_VIDEO),
     aux_take_off = nonzero (p ! 3 AND BAYANG_FLAG_TAKE_OFF),
     aux_inverted = nonzero (p ! 3 AND BAYANG_FLAG_INVERTED),
     aux_emg_stop = nonzero (p ! 3 AND BAYANG_FLAG_EMG_STOP)\<rparr>"

definition clamped :: "BayangControlState \<Rightarrow> BayangControlState" where
  "clamped s = s\<lparr>bc_roll := clamp_channel (bc_roll s), bc_pitch := clamp_channel (bc_pitch s),
     bc_throttle := clamp_channel (bc_throttle s), bc_yaw := clamp_channel (bc_yaw s)\<rparr>"

lemmas bayang_consts = BAYANG_PACKET_SIZE_def BAYANG_ADDRESS_LENGTH_def BAYANG_RF_CHANNELS_def
  BAYANG_BIND_A1_def BAYANG_BIND_A2_def BAYANG_BIND_A3_def BAYANG_BIND_A4_def BAYANG_DATA_def

lemmas bayang_flag_consts = BAYANG_FLAG_FLIP_def BAYANG_FLAG_RTH_def BAYANG_FLAG_HEADLESS_def
  BAYANG_FLAG_PICTURE_def BAYANG_FLAG_VIDEO_def BAYANG_FLAG_TAKE_OFF_def BAYANG_FLAG_INVERTED_def
  BAYANG_FLAG_EMG_STOP_def

lemmas bayang_defs = bayang_init_def bayang_get_hopping_channels_def bayang_select_bind_header_def
  checksum_loop_def bayang_calculate_checksum_def bayang_build_bind_packet_def data_flags_2_def
  data_flags_3_def channel_hi_def channel_lo_def dynamic_trim_def clamp_channel_def
  bayang_build_data_packet_def bayang_check_telemetry_def

declare bayang_consts [tx_defs] bayang_flag_consts [tx_defs] bayang_defs [tx_defs]

subsection \<open>The hopping table\<close>

lemma length_bind_packet:
  "length (rx_tx_addr b) = 5 \<Longrightarrow> length (bay_hopping_channels b) = 4 \<Longrightarrow>
   length (bayang_build_bind_packet b h) = BAYANG_PACKET_SIZE"
  by (simp add: bayang_build_bind_packet_def Let_def BAYANG_PACKET_SIZE_def)

lemma length_data_packet [simp]: "length (bayang_build_data_packet b s) = 15"
  by (simp add: bayang_build_data_packet_def Let_def)

lemma checksum_loop_ignores_last:
  "checksum_loop (p[14 := v]) = checksum_loop p"
  by (simp add: checksum_loop_def BAYANG_PACKET_SIZE_def)

lemma clamp_channel_le: "clamp_channel v \<le> 1023"
  by (simp add: clamp_channel_def not_less)

lemma clamp_channel_id: "v \<le> 1023 \<Longrightarrow> clamp_channel v = v"
  by (simp add: clamp_channel_def leD)


subsection \<open>Channels survive the trim\<close>

lemma and_3_take_bit: "(w :: 'a::len word) AND 3 = take_bit 2 w"
proof -
  have "(3 :: 'a word) = mask 2" by (simp add: mask_eq_exp_minus_1)
  then show ?thesis by (simp only: take_bit_eq_mask)
qed

lemma take_bit_trim: "take_bit 2 (dynamic_trim v) = 0"
  by (rule bit_word_eqI)
    (auto simp: dynamic_trim_def bit_to_word bit_simps numeral_2_eq_2 less_Suc_eq bit_numeral_rec(1))

lemma take_bit_add_u8: "take_bit 2 (a + b :: u8) = take_bit 2 (take_bit 2 a + take_bit 2 b)"
proof (rule word_uint_eqI)
  have "(uint a + uint b) mod 256 mod 4 = (uint a mod 4 + uint b mod 4) mod 256 mod (4 :: int)"
    by (simp add: mod_mod_cancel mod_simps)
  then show "uint (take_bit 2 (a + b)) = uint (take_bit 2 (take_bit 2 a + take_bit 2 b))"
    by (simp only: unsigned_take_bit_eq uint_word_ariths)
      (simp add: take_bit_eq_mod mod_mod_cancel mod_simps)
qed

lemma channel_hi_low_bits: "take_bit 2 (channel_hi h v) = take_bit 2 (to_u8 (drop_bit 8 v))"
proof -
  have t: "take_bit 2 (if h then 0x7C else dynamic_trim v) = 0"
    using take_bit_trim by simp
  have "take_bit 2 (channel_hi h v) =
      take_bit 2 (take_bit 2 (to_u8 (drop_bit 8 v)) + take_bit 2 (if h then 0x7C else dynamic_trim v))"
    unfolding channel_hi_def by (rule take_bit_add_u8)
  then show ?thesis unfolding t by simp
qed

lemma le_1023_bits: "(v :: u16) \<le> 1023 \<Longrightarrow> bit v n \<Longrightarrow> n < 10"
proof (rule ccontr)
  assume v: "v \<le> 1023" and b: "bit v n" and "\<not> n < 10"
  from v have "take_bit 10 (unat v) = unat v"
    by (simp add: take_bit_nat_eq_self_iff word_le_nat_alt)
  moreover from b have "bit (unat v) n" by (simp add: bit_simps)
  ultimately show False using \<open>\<not> n < 10\<close> by (metis bit_take_bit_iff)
qed

lemma join_channel:
  assumes "v \<le> 1023"
  shows "push_bit 8 (take_bit 2 (to_u16 (to_u8 (drop_bit 8 v)))) OR to_u16 (channel_lo v) = (v :: u16)"
proof (rule bit_word_eqI)
  fix n assume "n < LENGTH(16)"
  have m: "(0xFF :: u16) = mask 8" by (simp add: mask_eq_exp_minus_1)
  show "bit (push_bit 8 (take_bit 2 (to_u16 (to_u8 (drop_bit 8 v)))) OR to_u16 (channel_lo v)) n = bit v n"
    using le_1023_bits [OF assms, of n] \<open>n < LENGTH(16)\<close>
    by (auto simp: channel_lo_def m bit_simps bit_to_word)
qed

lemma take_bit_to_u16: "take_bit 2 (to_u16 (w :: u8)) = to_u16 (take_bit 2 w)"
  by (rule bit_word_eqI) (auto simp: bit_simps bit_to_word)

lemma channel_roundtrip:
  assumes "v \<le> 1023"
  shows "push_bit 8 (to_u16 (channel_hi h v) AND 3) OR to_u16 (channel_lo v) = v"
  using join_channel [OF assms] by (simp add: and_3_take_bit take_bit_to_u16 channel_hi_low_bits)

lemma read_channel_eq:
  assumes "p ! i = channel_hi h v" "p ! Suc i = channel_lo v" "v \<le> 1023"
  shows "read_channel p i = v"
  unfolding read_channel_def assms(1,2) using assms(3) by (rule channel_roundtrip)

lemma throttle_hi: "to_u8 (drop_bit 8 v) + 0x7C = channel_hi True v"
  by (simp add: channel_hi_def)

lemma flags_2_decode:
  "nonzero (data_flags_2 s AND BAYANG_FLAG_FLIP) = aux_flip s"
  "nonzero (data_flags_2 s AND BAYANG_FLAG_RTH) = aux_rth s"
  "nonzero (data_flags_2 s AND BAYANG_FLAG_HEADLESS) = aux_headless s"
  "nonzero (data_flags_2 s AND BAYANG_FLAG_PICTURE) = aux_picture s"
  "nonzero (data_flags_2 s AND BAYANG_FLAG_VIDEO) = aux_video s"
  by (cases "aux_flip s"; cases "aux_rth s"; cases "aux_headless s"; cases "aux_picture s";
      cases "aux_video s"; simp add: data_flags_2_def bayang_flag_consts nonzero_def)+

lemma flags_3_decode:
  "nonzero (data_flags_3 s AND BAYANG_FLAG_TAKE_OFF) = aux_take_off s"
  "nonzero (data_flags_3 s AND BAYANG_FLAG_INVERTED) = aux_inverted s"
  "nonzero (data_flags_3 s AND BAYANG_FLAG_EMG_STOP) = aux_emg_stop s"
  by (cases "aux_take_off s"; cases "aux_inverted s"; cases "aux_emg_stop s";
      simp add: data_flags_3_def bayang_flag_consts nonzero_def)+

lemma data_packet_nth:
  "bayang_build_data_packet b s ! 0 = BAYANG_DATA"
  "bayang_build_data_packet b s ! 2 = data_flags_2 s"
  "bayang_build_data_packet b s ! 3 = data_flags_3 s"
  "bayang_build_data_packet b s ! 4 = channel_hi (aux_headless s) (clamp_channel (bc_roll s))"
  "bayang_build_data_packet b s ! 5 = channel_lo (clamp_channel (bc_roll s))"
  "bayang_build_data_packet b s ! 6 = channel_hi (aux_headless s) (clamp_channel (bc_pitch s))"
  "bayang_build_data_packet b s ! 7 = channel_lo (clamp_channel (bc_pitch s))"
  "bayang_build_data_packet b s ! 8 = channel_hi True (clamp_channel (bc_throttle s))"
  "bayang_build_data_packet b s ! 9 = channel_lo (clamp_channel (bc_throttle s))"
  "bayang_build_data_packet b s ! 10 = channel_hi (aux_headless s) (clamp_channel (bc_yaw s))"
  "bayang_build_data_packet b s ! 11 = channel_lo (clamp_channel (bc_yaw s))"
  by (simp_all add: bayang_build_data_packet_def Let_def throttle_hi)

lemma checksum_of_data_packet:
  "bayang_build_data_packet b s ! 14 = checksum_loop (bayang_build_data_packet b s)"
  by (simp add: bayang_build_data_packet_def Let_def bayang_calculate_checksum_def
      checksum_loop_def BAYANG_PACKET_SIZE_def)

lemma receiver_decode_data_packet:
  "receiver_decode (bayang_build_data_packet b s) = clamped s"
proof -
  let ?p = "bayang_build_data_packet b s"
  have "read_channel ?p 4 = clamp_channel (bc_roll s)" "read_channel ?p 6 = clamp_channel (bc_pitch s)"
    "read_channel ?p 8 = clamp_channel (bc_throttle s)" "read_channel ?p 10 = clamp_channel (bc_yaw s)"
    by (rule read_channel_eq; simp add: data_packet_nth clamp_channel_le)+
  then show ?thesis
    by (simp add: receiver_decode_def clamped_def data_packet_nth flags_2_decode flags_3_decode)
qed

subsection \<open>Properties\<close>

text \<open>
  C10: a data packet carries its control state losslessly.  A Bayang receiver that reads the ten
  channel bits and the flag bits of a packet built by \<^verbatim>\<open>bayang_build_data_packet\<close> gets back the
  control state, with its channels clamped to 1023: neither the dynamic trim nor the headless
  constant disturbs the channel bits.
\<close>

theorem data_packet_roundtrip:
  "receiver_decode (bayang_build_data_packet b s) = clamped s"
  by (rule receiver_decode_data_packet)

text \<open>the hopping table is legal.  Whatever the transmitter id, the four hopping channels are
  pairwise distinct, start with channel 0, and stay within the 0..125 channels an nRF24 can tune,
  without 8-bit wrap-around.
\<close>

theorem hopping_channels_legal:
  assumes "length tx_id = 5"
  shows "let h = bayang_get_hopping_channels (bayang_init tx_id)
    in length h = BAYANG_RF_CHANNELS \<and> distinct h \<and> h ! 0 = 0 \<and> list_all (\<lambda>c. unat c \<le> 125) h"
proof -
  define n where "n = unat (tx_id ! 3 AND 0x1F)"
  have "tx_id ! 3 AND 0x1F \<le> 0x1F" by (rule word_and_le1)
  then have n: "n \<le> 31" by (simp add: n_def word_le_nat_alt)
  have w: "tx_id ! 3 AND 0x1F = of_nat n" by (simp add: n_def)
  have u: "unat (of_nat n + 0x10 :: u8) = n + 16" "unat (of_nat n + 0x10 + 0x20 :: u8) = n + 48"
    "unat (of_nat n + 0x10 + 0x20 + 0x20 :: u8) = n + 80"
    using n by (simp_all add: unat_word_ariths unat_of_nat)
  have "length (take BAYANG_ADDRESS_LENGTH tx_id) = 5" and a: "take BAYANG_ADDRESS_LENGTH tx_id = tx_id"
    using assms by (simp_all add: BAYANG_ADDRESS_LENGTH_def)
  have d: "distinct (map unat [0, of_nat n + 0x10, of_nat n + 0x10 + 0x20, of_nat n + 0x10 + 0x20 + 0x20 :: u8])"
    by (simp only: list.map u) simp
  then have "distinct [0, of_nat n + 0x10, of_nat n + 0x10 + 0x20, of_nat n + 0x10 + 0x20 + 0x20 :: u8]"
    by (simp only: distinct_map)
  moreover have "list_all (\<lambda>c. unat c \<le> 125)
      [0, of_nat n + 0x10, of_nat n + 0x10 + 0x20, of_nat n + 0x10 + 0x20 + 0x20 :: u8]"
    using n by (simp only: list.pred_inject u) simp
  ultimately show ?thesis
    by (simp only: bayang_get_hopping_channels_def bayang_init_def Let_def a w
        bayang.select_convs BAYANG_RF_CHANNELS_def) simp
qed

theorem hopping_channels_legal_witness:
  "let h = bayang_get_hopping_channels (bayang_init [1, 2, 3, 0xFF, 5])
   in length h = BAYANG_RF_CHANNELS \<and> distinct h \<and> h ! 0 = 0 \<and> list_all (\<lambda>c. unat c \<le> 125) h"
  by (rule hopping_channels_legal) simp

end
