(* ===== verification/Nfe_Profile.thy ===== *)
theory Nfe_Profile
  imports Bayang "HOL-Library.Signed_Division"
begin

text \<open>
  The NFE Silverware profile of \<^verbatim>\<open>src/main/radio/nfe_silverware_profile.cpp\<close> and \<^verbatim>\<open>.h\<close>: the AUX
  selections with their button edges and their stored form, the player that replays a stick
  gesture over time, and the control states a locked transmitter sends.
\<close>

definition NFE_SILVERWARE_AUX_LEVEL :: u8 where "NFE_SILVERWARE_AUX_LEVEL = 1"

definition NFE_SILVERWARE_AUX_RACE :: u8 where "NFE_SILVERWARE_AUX_RACE = 2"

definition NFE_SILVERWARE_AUX_HORIZON :: u8 where "NFE_SILVERWARE_AUX_HORIZON = 4"

definition NFE_SILVERWARE_AUX_PID_PROFILE :: u8 where "NFE_SILVERWARE_AUX_PID_PROFILE = 8"

definition NFE_SILVERWARE_AUX_LEDS :: u8 where "NFE_SILVERWARE_AUX_LEDS = 16"

definition NFE_SILVERWARE_AUX_MASK :: u8 where
  "NFE_SILVERWARE_AUX_MASK = NFE_SILVERWARE_AUX_LEVEL OR NFE_SILVERWARE_AUX_RACE OR
     NFE_SILVERWARE_AUX_HORIZON OR NFE_SILVERWARE_AUX_PID_PROFILE OR NFE_SILVERWARE_AUX_LEDS"

record NfeSilverwareAuxState =
  levelMode :: bool
  raceMode :: bool
  horizonMode :: bool
  aux_pidProfile :: bool
  leds :: bool
  previousA :: bool
  previousX :: bool
  previousY :: bool
  previousRB :: bool
  previousLB :: bool

definition aux_zero :: NfeSilverwareAuxState where
  "aux_zero = \<lparr>levelMode = False, raceMode = False, horizonMode = False, aux_pidProfile = False,
     leds = False, previousA = False, previousX = False, previousY = False, previousRB = False,
     previousLB = False\<rparr>"

datatype NfeSilverwareGesture =
    GNone
  | Save
  | ToggleBindStorage
  | StickTravelOff
  | StickTravelOn
  | NextPidTerm
  | NextPidAxis
  | IncreasePid
  | DecreasePid
  | ToggleFeature1
  | ToggleLowVoltageLanding
  | TogglePropsDirection

record NfeSilverwareGesturePlayer =
  gp_command :: NfeSilverwareGesture
  previousRequest :: NfeSilverwareGesture
  startedUs :: time_us

definition player_zero :: NfeSilverwareGesturePlayer where
  "player_zero = \<lparr>gp_command = GNone, previousRequest = GNone, startedUs = 0\<rparr>"

record NfeSilverwareGestureOutput =
  go_active :: bool
  go_roll :: u16
  go_pitch :: u16

definition gesture_output_zero :: NfeSilverwareGestureOutput where
  "gesture_output_zero = \<lparr>go_active = False, go_roll = 0, go_pitch = 0\<rparr>"

definition GESTURE_IDLE_US :: int where "GESTURE_IDLE_US = 800000"

definition GESTURE_STEP_US :: int where "GESTURE_STEP_US = 200000"

definition GESTURE_LOW :: u16 where "GESTURE_LOW = 0"

definition GESTURE_CENTER :: u16 where "GESTURE_CENTER = 512"

definition GESTURE_HIGH :: u16 where "GESTURE_HIGH = 1023"

text \<open>\<^verbatim>\<open>toggle_on_rising_edge\<close> returns the new \<^verbatim>\<open>*previous\<close> and \<^verbatim>\<open>*value\<close>.\<close>

definition toggle_on_rising_edge :: "bool \<Rightarrow> bool \<Rightarrow> bool \<Rightarrow> bool \<times> bool" where
  "toggle_on_rising_edge cur previous val =
     (cur, if cur \<and> \<not> previous then \<not> val else val)"

fun gesture_directions :: "NfeSilverwareGesture \<Rightarrow> int list" where
  "gesture_directions Save = [-2, -2, -2]"
| "gesture_directions ToggleBindStorage = [2, 2, 2]"
| "gesture_directions StickTravelOff = [-1, -1, -2]"
| "gesture_directions StickTravelOn = [1, 1, -2]"
| "gesture_directions NextPidTerm = [2, -2, 2]"
| "gesture_directions NextPidAxis = [2, -2, -2]"
| "gesture_directions IncreasePid = [2, -2, 1]"
| "gesture_directions DecreasePid = [2, -2, -1]"
| "gesture_directions ToggleFeature1 = [1, 1, 1]"
| "gesture_directions ToggleLowVoltageLanding = [-1, -1, -1]"
| "gesture_directions TogglePropsDirection = [-2, 2, -2]"
| "gesture_directions GNone = [0, 0, 0]"

definition gesture_center :: NfeSilverwareGestureOutput where
  "gesture_center = \<lparr>go_active = False, go_roll = GESTURE_CENTER, go_pitch = GESTURE_CENTER\<rparr>"

definition direction_output :: "int \<Rightarrow> NfeSilverwareGestureOutput \<Rightarrow> NfeSilverwareGestureOutput" where
  "direction_output direction out =
     (if direction = -1 then out\<lparr>go_roll := GESTURE_LOW\<rparr>
      else if direction = 1 then out\<lparr>go_roll := GESTURE_HIGH\<rparr>
      else if direction = -2 then out\<lparr>go_pitch := GESTURE_LOW\<rparr>
      else if direction = 2 then out\<lparr>go_pitch := GESTURE_HIGH\<rparr>
      else out)"

text \<open>
  \<^verbatim>\<open>nfe_silverware_update_gesture\<close>: the player pointer may be null.  \<^verbatim>\<open>step\<close> divides a
  non-negative \<^verbatim>\<open>int64_t\<close>, so C's division is \<^const>\<open>divide\<close> there.
\<close>

definition update_gesture_live ::
  "NfeSilverwareGesturePlayer \<Rightarrow> NfeSilverwareGesture \<Rightarrow> time_us \<Rightarrow>
   NfeSilverwareGesturePlayer \<times> NfeSilverwareGestureOutput" where
  "update_gesture_live player request now_us =
    (let player1 =
           (if gp_command player = GNone \<and> request \<noteq> GNone \<and> previousRequest player = GNone
            then player\<lparr>gp_command := request, startedUs := now_us\<rparr> else player);
         player2 = player1\<lparr>previousRequest := request\<rparr>;
         elapsed = now_us - startedUs player2;
         total_us = GESTURE_IDLE_US + 6 * GESTURE_STEP_US;
         step = (elapsed - GESTURE_IDLE_US) sdiv GESTURE_STEP_US;
         live = gesture_center\<lparr>go_active := True\<rparr>
     in if gp_command player2 = GNone then (player2, gesture_center)
        else if elapsed < 0 \<or> elapsed \<ge> total_us
          then (player2\<lparr>gp_command := GNone\<rparr>, gesture_center)
        else if elapsed < GESTURE_IDLE_US then (player2, live)
        else if odd step then (player2, live)
        else (player2, direction_output (gesture_directions (gp_command player2) ! nat (step sdiv 2)) live))"

definition nfe_silverware_update_gesture ::
  "NfeSilverwareGesturePlayer option \<Rightarrow> NfeSilverwareGesture \<Rightarrow> time_us \<Rightarrow>
   NfeSilverwareGesturePlayer option \<times> NfeSilverwareGestureOutput" where
  "nfe_silverware_update_gesture player request now_us =
     (case player of None \<Rightarrow> (None, gesture_center)
      | Some pl \<Rightarrow> (case update_gesture_live pl request now_us of (pl', out) \<Rightarrow> (Some pl', out)))"

definition nfe_silverware_cancel_gesture ::
  "NfeSilverwareGesturePlayer option \<Rightarrow> NfeSilverwareGesturePlayer option" where
  "nfe_silverware_cancel_gesture player = map_option (\<lambda>_. player_zero) player"

definition nfe_silverware_aux_flags :: "NfeSilverwareAuxState \<Rightarrow> u8" where
  "nfe_silverware_aux_flags s = flag (levelMode s) NFE_SILVERWARE_AUX_LEVEL OR
     flag (raceMode s) NFE_SILVERWARE_AUX_RACE OR flag (horizonMode s) NFE_SILVERWARE_AUX_HORIZON OR
     flag (aux_pidProfile s) NFE_SILVERWARE_AUX_PID_PROFILE OR flag (leds s) NFE_SILVERWARE_AUX_LEDS"

definition nfe_silverware_restore_aux ::
  "NfeSilverwareAuxState option \<Rightarrow> u8 \<Rightarrow> NfeSilverwareAuxState option" where
  "nfe_silverware_restore_aux state flags =
     map_option (\<lambda>_. aux_zero\<lparr>levelMode := nonzero (flags AND NFE_SILVERWARE_AUX_LEVEL),
        raceMode := nonzero (flags AND NFE_SILVERWARE_AUX_RACE),
        horizonMode := nonzero (flags AND NFE_SILVERWARE_AUX_HORIZON),
        aux_pidProfile := nonzero (flags AND NFE_SILVERWARE_AUX_PID_PROFILE),
        leds := nonzero (flags AND NFE_SILVERWARE_AUX_LEDS)\<rparr>) state"

definition nfe_silverware_update_aux ::
  "NfeSilverwareAuxState \<Rightarrow> bool \<Rightarrow> bool \<Rightarrow> bool \<Rightarrow> bool \<Rightarrow> bool \<Rightarrow> bool \<Rightarrow> NfeSilverwareAuxState" where
  "nfe_silverware_update_aux s active button_a button_x button_y button_rb button_lb =
    (if \<not> active then s
     else
       let (pa, level) = toggle_on_rising_edge button_a (previousA s) (levelMode s);
           (px, race) = toggle_on_rising_edge button_x (previousX s) (raceMode s);
           (py, horizon) = toggle_on_rising_edge button_y (previousY s) (horizonMode s);
           (prb, pid) = toggle_on_rising_edge button_rb (previousRB s) (aux_pidProfile s);
           (plb, led) = toggle_on_rising_edge button_lb (previousLB s) (leds s)
       in \<lparr>levelMode = level, raceMode = race, horizonMode = horizon, aux_pidProfile = pid, leds = led,
           previousA = pa, previousX = px, previousY = py, previousRB = prb, previousLB = plb\<rparr>)"

definition nfe_silverware_apply_multi_aux ::
  "BayangControlState \<Rightarrow> bool \<Rightarrow> NfeSilverwareAuxState \<Rightarrow> BayangControlState" where
  "nfe_silverware_apply_multi_aux controls active state =
     controls\<lparr>aux_flip := active, aux_rth := levelMode state, aux_picture := raceMode state,
       aux_video := horizonMode state, aux_headless := aux_pidProfile state,
       aux_inverted := leds state\<rparr>"

definition nfe_silverware_make_locked_control :: "bool \<Rightarrow> u16 \<Rightarrow> u16 \<Rightarrow> BayangControlState" where
  "nfe_silverware_make_locked_control gesture_enabled gesture_roll gesture_pitch =
     bayang_control_zero\<lparr>bc_roll := if gesture_enabled then gesture_roll else 512,
       bc_pitch := if gesture_enabled then gesture_pitch else 512, bc_yaw := 512, bc_throttle := 0\<rparr>"

lemmas nfe_aux_consts = NFE_SILVERWARE_AUX_LEVEL_def NFE_SILVERWARE_AUX_RACE_def
  NFE_SILVERWARE_AUX_HORIZON_def NFE_SILVERWARE_AUX_PID_PROFILE_def NFE_SILVERWARE_AUX_LEDS_def
  NFE_SILVERWARE_AUX_MASK_def

lemmas gesture_consts = GESTURE_IDLE_US_def GESTURE_STEP_US_def GESTURE_LOW_def GESTURE_CENTER_def
  GESTURE_HIGH_def

lemmas nfe_defs = toggle_on_rising_edge_def gesture_center_def direction_output_def
  update_gesture_live_def nfe_silverware_update_gesture_def nfe_silverware_cancel_gesture_def
  nfe_silverware_aux_flags_def nfe_silverware_restore_aux_def nfe_silverware_update_aux_def
  nfe_silverware_apply_multi_aux_def nfe_silverware_make_locked_control_def

declare nfe_aux_consts [tx_defs] gesture_consts [tx_defs] nfe_defs [tx_defs]
  aux_zero_def [tx_defs] player_zero_def [tx_defs] bayang_control_zero_def [tx_defs]


subsection \<open>AUX selections\<close>

lemma aux_flags_bits:
  "nonzero (nfe_silverware_aux_flags s AND NFE_SILVERWARE_AUX_LEVEL) = levelMode s"
  "nonzero (nfe_silverware_aux_flags s AND NFE_SILVERWARE_AUX_RACE) = raceMode s"
  "nonzero (nfe_silverware_aux_flags s AND NFE_SILVERWARE_AUX_HORIZON) = horizonMode s"
  "nonzero (nfe_silverware_aux_flags s AND NFE_SILVERWARE_AUX_PID_PROFILE) = aux_pidProfile s"
  "nonzero (nfe_silverware_aux_flags s AND NFE_SILVERWARE_AUX_LEDS) = leds s"
  by (cases "levelMode s"; cases "raceMode s"; cases "horizonMode s"; cases "aux_pidProfile s";
      cases "leds s"; simp add: nfe_silverware_aux_flags_def nfe_aux_consts nonzero_def)+

lemma aux_flags_within_mask: "nfe_silverware_aux_flags s AND NOT NFE_SILVERWARE_AUX_MASK = 0"
  by (cases "levelMode s"; cases "raceMode s"; cases "horizonMode s"; cases "aux_pidProfile s";
      cases "leds s"; simp add: nfe_silverware_aux_flags_def nfe_aux_consts)

lemma flag_of_and_bit: "flag (nonzero (f AND push_bit n 1)) (push_bit n 1) = (f AND push_bit n 1 :: u8)"
proof (cases "bit f n")
  case True
  then have "f AND push_bit n 1 = push_bit n 1"
    by (intro bit_word_eqI) (auto simp: bit_simps bit_push_bit_iff)
  then show ?thesis by (simp add: flag_def nonzero_def)
next
  case False
  then have "f AND push_bit n 1 = 0" by (intro bit_word_eqI) (auto simp: bit_simps)
  then show ?thesis by (simp add: flag_def nonzero_def)
qed

lemma flag_nonzero_and:
  "flag (nonzero (f AND 1)) 1 = (f AND 1 :: u8)" "flag (nonzero (f AND 2)) 2 = (f AND 2 :: u8)"
  "flag (nonzero (f AND 4)) 4 = (f AND 4 :: u8)" "flag (nonzero (f AND 8)) 8 = (f AND 8 :: u8)"
  "flag (nonzero (f AND 16)) 16 = (f AND 16 :: u8)"
  using flag_of_and_bit [of f 0] flag_of_and_bit [of f 1] flag_of_and_bit [of f 2]
    flag_of_and_bit [of f 3] flag_of_and_bit [of f 4] by simp_all

lemma flags_of_restored:
  "nfe_silverware_aux_flags (the (nfe_silverware_restore_aux (Some s) f)) = f AND NFE_SILVERWARE_AUX_MASK"
proof -
  have "nfe_silverware_aux_flags (the (nfe_silverware_restore_aux (Some s) f)) =
      (f AND 1) OR (f AND 2) OR (f AND 4) OR (f AND 8) OR (f AND 16)"
    by (simp add: nfe_silverware_aux_flags_def nfe_silverware_restore_aux_def aux_zero_def
        nfe_aux_consts flag_nonzero_and)
  also have "\<dots> = f AND (1 OR 2 OR 4 OR 8 OR 16)"
    by (simp only: bit.conj_disj_distrib)
  finally show ?thesis by (simp add: nfe_aux_consts)
qed

text \<open>
  The number of rising edges of a button over a sequence of cycles, counting only the cycles in
  which the transmitter is active; \<open>prev\<close> is the level last seen while active.
\<close>

fun rising_edges :: "bool \<Rightarrow> (bool \<times> bool) list \<Rightarrow> nat" where
  "rising_edges prev [] = 0"
| "rising_edges prev ((active, level) # xs) =
     (if active then (if level \<and> \<not> prev then 1 else 0) + rising_edges level xs
      else rising_edges prev xs)"

text \<open>One control cycle as the AUX update sees it.\<close>

record aux_cycle =
  ac_active :: bool
  ac_a :: bool
  ac_x :: bool
  ac_y :: bool
  ac_rb :: bool
  ac_lb :: bool

definition aux_step :: "NfeSilverwareAuxState \<Rightarrow> aux_cycle \<Rightarrow> NfeSilverwareAuxState" where
  "aux_step s c = nfe_silverware_update_aux s (ac_active c) (ac_a c) (ac_x c) (ac_y c) (ac_rb c) (ac_lb c)"

text \<open>
  The contract every selection meets: a memory of the button's level, updated only while active,
  and a selection that flips exactly when the button is newly pressed while active.
\<close>

locale latched_selection =
  fixes step :: "'s \<Rightarrow> 'c \<Rightarrow> 's"
    and sel :: "'s \<Rightarrow> bool"
    and prev :: "'s \<Rightarrow> bool"
    and act :: "'c \<Rightarrow> bool"
    and btn :: "'c \<Rightarrow> bool"
  assumes prev_step: "prev (step s c) = (if act c then btn c else prev s)"
    and sel_step: "sel (step s c) = (if act c \<and> btn c \<and> \<not> prev s then \<not> sel s else sel s)"
begin

lemma toggles_per_press:
  "sel (foldl step s cs) = (sel s \<noteq> odd (rising_edges (prev s) (map (\<lambda>c. (act c, btn c)) cs)))"
  by (induction cs arbitrary: s) (auto simp: prev_step sel_step)

lemma no_press_no_change:
  assumes "\<And>c. c \<in> set cs \<Longrightarrow> \<not> act c"
  shows "sel (foldl step s cs) = sel s \<and> prev (foldl step s cs) = prev s"
  using assms by (induction cs arbitrary: s) (simp_all add: prev_step sel_step)

end

lemmas aux_step_unfold = aux_step_def nfe_silverware_update_aux_def toggle_on_rising_edge_def

interpretation sel_level: latched_selection aux_step levelMode previousA ac_active ac_a
  by unfold_locales (auto simp: aux_step_unfold)

interpretation sel_race: latched_selection aux_step raceMode previousX ac_active ac_x
  by unfold_locales (auto simp: aux_step_unfold)

interpretation sel_horizon: latched_selection aux_step horizonMode previousY ac_active ac_y
  by unfold_locales (auto simp: aux_step_unfold)

interpretation sel_pid: latched_selection aux_step aux_pidProfile previousRB ac_active ac_rb
  by unfold_locales (auto simp: aux_step_unfold)

interpretation sel_leds: latched_selection aux_step leds previousLB ac_active ac_lb
  by unfold_locales (auto simp: aux_step_unfold)

subsection \<open>Gesture playback\<close>

text \<open>
  The schedule a gesture is played on, as a specification: centred for 0.8 s, then its three
  directions, each held for 0.2 s and followed by 0.2 s centred.
\<close>

definition gesture_schedule :: "NfeSilverwareGesture \<Rightarrow> int \<Rightarrow> NfeSilverwareGestureOutput" where
  "gesture_schedule c t =
    (let live = gesture_center\<lparr>go_active := True\<rparr>; d = gesture_directions c
     in if t < 0 \<or> t \<ge> 2000000 then gesture_center
        else if 800000 \<le> t \<and> t < 1000000 then direction_output (d ! 0) live
        else if 1200000 \<le> t \<and> t < 1400000 then direction_output (d ! 1) live
        else if 1600000 \<le> t \<and> t < 1800000 then direction_output (d ! 2) live
        else live)"

lemma gesture_step_cases:
  fixes e k :: int
  assumes "800000 \<le> e" "e < 2000000" and k: "k = (e - 800000) div 200000"
  shows "0 \<le> k" "k \<le> 5"
    "(k = 0) = (e < 1000000)" "(k = 2) = (1200000 \<le> e \<and> e < 1400000)"
    "(k = 4) = (1600000 \<le> e \<and> e < 1800000)"
proof -
  define r where "r = (e - 800000) mod 200000"
  have "e - 800000 = 200000 * k + r" "0 \<le> r" "r < 200000"
    unfolding k r_def by simp_all
  with assms(1,2) show "0 \<le> k" "k \<le> 5" "(k = 0) = (e < 1000000)"
    "(k = 2) = (1200000 \<le> e \<and> e < 1400000)" "(k = 4) = (1600000 \<le> e \<and> e < 1800000)"
    by linarith+
qed

lemma int_le_5_cases: "0 \<le> (k::int) \<Longrightarrow> k \<le> 5 \<Longrightarrow> k = 0 \<or> k = 1 \<or> k = 2 \<or> k = 3 \<or> k = 4 \<or> k = 5"
  by arith

lemma sdiv_nonneg: "0 \<le> (a::int) \<Longrightarrow> 0 < b \<Longrightarrow> a sdiv b = a div b"
  by (cases "a = 0") (simp_all add: signed_divide_int_def)

lemma gesture_playback:
  assumes "gp_command pl \<noteq> GNone"
  shows "snd (update_gesture_live pl req (startedUs pl + t)) = gesture_schedule (gp_command pl) t"
proof -
  let ?c = "gp_command pl"
  consider (out) "t < 0 \<or> t \<ge> 2000000" | (idle) "0 \<le> t" "t < 800000" | (run) "800000 \<le> t" "t < 2000000"
    by linarith
  then show ?thesis
  proof cases
    case run
    define k where "k = (t - 800000) div 200000"
    have k: "0 \<le> k" "k \<le> 5" "(k = 0) = (t < 1000000)" "(k = 2) = (1200000 \<le> t \<and> t < 1400000)"
      "(k = 4) = (1600000 \<le> t \<and> t < 1800000)"
      using gesture_step_cases [OF run k_def] by simp_all
    have kd: "(t - GESTURE_IDLE_US) sdiv GESTURE_STEP_US = k"
      using run by (simp add: k_def gesture_consts sdiv_nonneg)
    have "snd (update_gesture_live pl req (startedUs pl + t)) =
       (if odd k then gesture_center\<lparr>go_active := True\<rparr>
        else direction_output (gesture_directions ?c ! nat (k sdiv 2)) (gesture_center\<lparr>go_active := True\<rparr>))"
      using assms run kd by (simp add: update_gesture_live_def Let_def GESTURE_IDLE_US_def GESTURE_STEP_US_def)
    also have "\<dots> = gesture_schedule ?c t"
      using int_le_5_cases [OF k(1,2)] k(3,4,5) run
      by (elim disjE) (auto simp: gesture_schedule_def Let_def sdiv_nonneg)
    finally show ?thesis .
  qed (use assms in \<open>auto simp: update_gesture_live_def gesture_schedule_def Let_def gesture_consts\<close>)
qed

lemma gesture_command_after:
  assumes "gp_command pl \<noteq> GNone"
  shows "gp_command (fst (update_gesture_live pl req (startedUs pl + t))) =
     (if 0 \<le> t \<and> t < 2000000 then gp_command pl else GNone)"
  using assms by (auto simp: update_gesture_live_def Let_def gesture_consts)

subsection \<open>Properties\<close>

text \<open>the AUX selections survive storage.  Restoring the flags computed from an AUX state gives back
  its five selections with all button memories cleared, and the flags of any restored byte are that
  byte restricted to the five defined bits.
\<close>

theorem aux_storage_roundtrip:
  "nfe_silverware_restore_aux (Some t) (nfe_silverware_aux_flags s) =
     Some (aux_zero\<lparr>levelMode := levelMode s, raceMode := raceMode s, horizonMode := horizonMode s,
       aux_pidProfile := aux_pidProfile s, leds := leds s\<rparr>) \<and>
   nfe_silverware_aux_flags (the (nfe_silverware_restore_aux (Some t) f)) = f AND NFE_SILVERWARE_AUX_MASK"
  by (simp add: flags_of_restored) (simp add: nfe_silverware_restore_aux_def aux_flags_bits)

text \<open>
  A selection toggles exactly once per press.  Over any sequence of control cycles the level mode
  flips once for each rising edge of button A among the active cycles, and likewise for the other
  four selections; a button held through a disarm and re-arm does not toggle again.
\<close>

theorem aux_toggles_per_press:
  "levelMode (foldl aux_step s cs) =
     (levelMode s \<noteq> odd (rising_edges (previousA s) (map (\<lambda>c. (ac_active c, ac_a c)) cs))) \<and>
   raceMode (foldl aux_step s cs) =
     (raceMode s \<noteq> odd (rising_edges (previousX s) (map (\<lambda>c. (ac_active c, ac_x c)) cs))) \<and>
   horizonMode (foldl aux_step s cs) =
     (horizonMode s \<noteq> odd (rising_edges (previousY s) (map (\<lambda>c. (ac_active c, ac_y c)) cs))) \<and>
   aux_pidProfile (foldl aux_step s cs) =
     (aux_pidProfile s \<noteq> odd (rising_edges (previousRB s) (map (\<lambda>c. (ac_active c, ac_rb c)) cs))) \<and>
   leds (foldl aux_step s cs) =
     (leds s \<noteq> odd (rising_edges (previousLB s) (map (\<lambda>c. (ac_active c, ac_lb c)) cs)))"
  by (intro conjI sel_level.toggles_per_press sel_race.toggles_per_press
      sel_horizon.toggles_per_press sel_pid.toggles_per_press sel_leds.toggles_per_press)

text \<open>
  C30: a gesture plays exactly its schedule.  For a player that is replaying a gesture, the output of
  an update \<open>t\<close> microseconds after the start is the gesture's schedule (0.8 s centred, then its three
  directions of 0.2 s each separated by 0.2 s centred), and the gesture ends exactly when 2 s have
  passed.
\<close>

theorem gesture_plays_schedule:
  assumes "gp_command pl \<noteq> GNone"
  shows "case nfe_silverware_update_gesture (Some pl) req (startedUs pl + t) of
    (pl', out) \<Rightarrow> out = gesture_schedule (gp_command pl) t \<and>
      map_option gp_command pl' = Some (if 0 \<le> t \<and> t < 2000000 then gp_command pl else GNone)"
  using gesture_playback [OF assms, of req t] gesture_command_after [OF assms, of req t]
  by (auto simp: nfe_silverware_update_gesture_def split: prod.splits)

theorem gesture_plays_schedule_witness:
  "snd (nfe_silverware_update_gesture (Some (player_zero\<lparr>gp_command := Save, startedUs := 7\<rparr>)) GNone 1200007) =
     \<lparr>go_active = True, go_roll = 512, go_pitch = 0\<rparr>"
  using gesture_plays_schedule [where pl = "player_zero\<lparr>gp_command := Save, startedUs := 7\<rparr>"
      and req = GNone and t = 1200000]
  by (auto simp: gesture_schedule_def direction_output_def gesture_center_def gesture_consts
      split: prod.splits)

end
