(* ===== verification/Nrf24.thy ===== *)
theory Nrf24
  imports Tx_Prelude
begin

text \<open>
  The nRF24L01+ driver of \<^verbatim>\<open>src/main/radio/nrf24.cpp\<close> and the length checks of
  \<^verbatim>\<open>radio_validation.h\<close>, over an explicit model of what the driver shares with the board.

  The board is not code of the repository.  It is the environment part of \<open>hw\<close>: \<open>miso n\<close> is the
  byte the radio shifts out during the \<open>n\<close>-th SPI transfer, \<open>irq_low n\<close> the level of the IRQ pin at
  the \<open>n\<close>-th \<^verbatim>\<open>digitalRead\<close>, and \<open>clock n\<close> the time that has passed at the \<open>n\<close>-th reading of
  \<^verbatim>\<open>esp_timer_get_time\<close> for reasons other than the delays the code asks for.  What the driver does to
  the board is recorded in \<open>bus\<close>, newest event first.
\<close>

datatype bus_event =
    PinMode nat
  | SpiBegin
  | CsnLow | CsnHigh
  | CeLow | CeHigh
  | TxnBegin | TxnEnd
  | Xfer u8
  | Delay nat

record hw =
  miso :: "nat \<Rightarrow> u8"
  miso_n :: nat
  irq_low :: "nat \<Rightarrow> bool"
  irq_n :: nat
  clock :: "nat \<Rightarrow> int"
  clock_n :: nat
  delayed :: nat
  spi_ready :: bool
  bus :: "bus_event list"

definition emit :: "bus_event \<Rightarrow> hw \<Rightarrow> hw" where
  "emit e h = h\<lparr>bus := e # bus h\<rparr>"

definition delayMicroseconds :: "nat \<Rightarrow> hw \<Rightarrow> hw" where
  "delayMicroseconds us h = (emit (Delay us) h)\<lparr>delayed := delayed h + us\<rparr>"

definition esp_timer_get_time :: "hw \<Rightarrow> time_us \<times> hw" where
  "esp_timer_get_time h = (clock h (clock_n h) + int (delayed h), h\<lparr>clock_n := Suc (clock_n h)\<rparr>)"

definition spi_transfer :: "u8 \<Rightarrow> hw \<Rightarrow> u8 \<times> hw" where
  "spi_transfer b h = (miso h (miso_n h), (emit (Xfer b) h)\<lparr>miso_n := Suc (miso_n h)\<rparr>)"

definition spi_send :: "u8 \<Rightarrow> hw \<Rightarrow> hw" where
  "spi_send b h = snd (spi_transfer b h)"

text \<open>Chip select low and the SPI transaction around a frame of transfers.\<close>

definition frame_open :: "hw \<Rightarrow> hw" where
  "frame_open h = emit TxnBegin (emit CsnLow h)"

definition frame_close :: "hw \<Rightarrow> hw" where
  "frame_close h = emit CsnHigh (emit TxnEnd h)"

definition NRF24_R_REGISTER :: u8 where "NRF24_R_REGISTER = 0x00"

definition NRF24_W_REGISTER :: u8 where "NRF24_W_REGISTER = 0x20"

definition NRF24_R_RX_PAYLOAD :: u8 where "NRF24_R_RX_PAYLOAD = 0x61"

definition NRF24_W_TX_PAYLOAD :: u8 where "NRF24_W_TX_PAYLOAD = 0xA0"

definition NRF24_FLUSH_TX :: u8 where "NRF24_FLUSH_TX = 0xE1"

definition NRF24_FLUSH_RX :: u8 where "NRF24_FLUSH_RX = 0xE2"

definition NRF24_NOP :: u8 where "NRF24_NOP = 0xFF"

definition NRF24_REG_CONFIG :: u8 where "NRF24_REG_CONFIG = 0x00"

definition NRF24_REG_EN_AA :: u8 where "NRF24_REG_EN_AA = 0x01"

definition NRF24_REG_EN_RXADDR :: u8 where "NRF24_REG_EN_RXADDR = 0x02"

definition NRF24_REG_SETUP_AW :: u8 where "NRF24_REG_SETUP_AW = 0x03"

definition NRF24_REG_SETUP_RETR :: u8 where "NRF24_REG_SETUP_RETR = 0x04"

definition NRF24_REG_RF_CH :: u8 where "NRF24_REG_RF_CH = 0x05"

definition NRF24_REG_RF_SETUP :: u8 where "NRF24_REG_RF_SETUP = 0x06"

definition NRF24_REG_STATUS :: u8 where "NRF24_REG_STATUS = 0x07"

definition NRF24_REG_RX_ADDR_P0 :: u8 where "NRF24_REG_RX_ADDR_P0 = 0x0A"

definition NRF24_REG_TX_ADDR :: u8 where "NRF24_REG_TX_ADDR = 0x10"

definition NRF24_REG_RX_PW_P0 :: u8 where "NRF24_REG_RX_PW_P0 = 0x11"

definition NRF24_REG_DYNPD :: u8 where "NRF24_REG_DYNPD = 0x1C"

definition NRF24_REG_FEATURE :: u8 where "NRF24_REG_FEATURE = 0x1D"

definition NRF24_RX_DR :: u8 where "NRF24_RX_DR = 0x40"

definition NRF24_TX_DS :: u8 where "NRF24_TX_DS = 0x20"

definition NRF24_MAX_RT :: u8 where "NRF24_MAX_RT = 0x10"

fun spi_send_all :: "bytes \<Rightarrow> hw \<Rightarrow> hw" where
  "spi_send_all [] h = h"
| "spi_send_all (b # bs) h = spi_send_all bs (spi_send b h)"

fun spi_read_n :: "nat \<Rightarrow> hw \<Rightarrow> bytes \<times> hw" where
  "spi_read_n 0 h = ([], h)"
| "spi_read_n (Suc n) h =
     (let (b, h1) = spi_transfer 0xFF h; (bs, h2) = spi_read_n n h1 in (b # bs, h2))"

definition nrf24_read_reg_multi :: "u8 \<Rightarrow> nat \<Rightarrow> hw \<Rightarrow> bytes \<times> hw" where
  "nrf24_read_reg_multi reg len h =
     (let h1 = spi_send (NRF24_R_REGISTER OR (reg AND 0x1F)) (frame_open h);
          (buf, h2) = spi_read_n len h1
      in (buf, frame_close h2))"

definition nrf24_write_reg_multi :: "u8 \<Rightarrow> bytes \<Rightarrow> hw \<Rightarrow> hw" where
  "nrf24_write_reg_multi reg buf h =
     frame_close (spi_send_all buf (spi_send (NRF24_W_REGISTER OR (reg AND 0x1F)) (frame_open h)))"

definition nrf24_read_reg :: "u8 \<Rightarrow> hw \<Rightarrow> u8 \<times> hw" where
  "nrf24_read_reg reg h = (let (buf, h') = nrf24_read_reg_multi reg 1 h in (buf ! 0, h'))"

definition nrf24_write_reg :: "u8 \<Rightarrow> u8 \<Rightarrow> hw \<Rightarrow> hw" where
  "nrf24_write_reg reg v h = nrf24_write_reg_multi reg [v] h"

definition nrf24_flush_tx :: "hw \<Rightarrow> hw" where
  "nrf24_flush_tx h = frame_close (spi_send NRF24_FLUSH_TX (frame_open h))"

definition nrf24_flush_rx :: "hw \<Rightarrow> hw" where
  "nrf24_flush_rx h = frame_close (spi_send NRF24_FLUSH_RX (frame_open h))"

definition nrf24_payload_length_valid :: "nat \<Rightarrow> bool" where
  "nrf24_payload_length_valid len \<longleftrightarrow> 1 \<le> len \<and> len \<le> 32"

definition xn297_tx_payload_length_valid :: "nat \<Rightarrow> bool" where
  "xn297_tx_payload_length_valid len \<longleftrightarrow> 1 \<le> len \<and> len \<le> 25"

text \<open>
  A buffer argument is its first \<^verbatim>\<open>len\<close> bytes, or \<^const>\<open>None\<close> for a null pointer; a read fills the
  caller's buffer, so it is returned.
\<close>

definition nrf24_write_payload :: "bytes option \<Rightarrow> hw \<Rightarrow> bool \<times> hw" where
  "nrf24_write_payload buf h =
     (case buf of None \<Rightarrow> (False, h)
      | Some bs \<Rightarrow>
          if \<not> nrf24_payload_length_valid (length bs) then (False, h)
          else (True, frame_close (spi_send_all bs (spi_send NRF24_W_TX_PAYLOAD (frame_open h)))))"

definition nrf24_read_payload :: "nat \<Rightarrow> hw \<Rightarrow> bytes option \<times> hw" where
  "nrf24_read_payload len h =
     (if \<not> nrf24_payload_length_valid len then (None, h)
      else let (buf, h') = spi_read_n len (spi_send NRF24_R_RX_PAYLOAD (frame_open h))
           in (Some buf, frame_close h'))"

definition nrf24_set_tx_mode :: "hw \<Rightarrow> hw" where
  "nrf24_set_tx_mode h =
     emit CeHigh (nrf24_write_reg NRF24_REG_CONFIG 0x02 (nrf24_flush_tx (emit CeLow h)))"

definition nrf24_set_rx_mode :: "hw \<Rightarrow> hw" where
  "nrf24_set_rx_mode h =
     emit CeHigh (nrf24_write_reg NRF24_REG_CONFIG 0x03 (nrf24_flush_rx (emit CeLow h)))"

definition nrf24_set_standby :: "hw \<Rightarrow> hw" where
  "nrf24_set_standby h = nrf24_write_reg NRF24_REG_CONFIG 0x00 (emit CeLow h)"

definition nrf24_set_channel :: "u8 \<Rightarrow> hw \<Rightarrow> hw" where
  "nrf24_set_channel channel h = nrf24_write_reg NRF24_REG_RF_CH channel h"

definition nrf24_clear_irq_flags :: "hw \<Rightarrow> hw" where
  "nrf24_clear_irq_flags h = nrf24_write_reg NRF24_REG_STATUS (NRF24_RX_DR OR NRF24_TX_DS OR NRF24_MAX_RT) h"

definition nrf24_irq_asserted :: "hw \<Rightarrow> bool \<times> hw" where
  "nrf24_irq_asserted h = (irq_low h (irq_n h), h\<lparr>irq_n := Suc (irq_n h)\<rparr>)"

definition nrf24_get_status :: "hw \<Rightarrow> u8 \<times> hw" where
  "nrf24_get_status h =
     (let (status, h') = spi_transfer NRF24_NOP (frame_open h) in (status, frame_close h'))"

definition nrf24_test :: "hw \<Rightarrow> bool \<times> hw" where
  "nrf24_test h =
     (let (original, h1) = nrf24_read_reg NRF24_REG_RF_CH h;
          h2 = nrf24_write_reg NRF24_REG_RF_CH 0x55 h1;
          (test, h3) = nrf24_read_reg NRF24_REG_RF_CH h2;
          h4 = nrf24_write_reg NRF24_REG_RF_CH original h3
      in (test = 0x55, h4))"

text \<open>Pin numbers of \<^verbatim>\<open>config.h\<close>; \<^verbatim>\<open>BAYANG_RF_POWER\<close> is 3 there, so \<^verbatim>\<open>rf_setup\<close> is \<open>0x06\<close>.\<close>

definition nrf24_init :: "hw \<Rightarrow> bool \<times> hw" where
  "nrf24_init h =
     (let h0 = (if \<not> spi_ready h then (emit SpiBegin h)\<lparr>spi_ready := True\<rparr> else h);
          h1 = emit (PinMode 26) (emit CsnHigh (emit (PinMode 5) (emit CeLow (emit (PinMode 17) h0))));
          h2 = nrf24_flush_rx (nrf24_flush_tx (nrf24_set_standby h1));
          h3 = nrf24_write_reg NRF24_REG_EN_AA 0x00 h2;
          h4 = nrf24_write_reg NRF24_REG_EN_RXADDR 0x01 h3;
          h5 = nrf24_write_reg NRF24_REG_SETUP_AW 0x03 h4;
          h6 = nrf24_write_reg NRF24_REG_SETUP_RETR 0x00 h5;
          h7 = nrf24_write_reg NRF24_REG_RF_SETUP 0x06 h6;
          h8 = nrf24_write_reg NRF24_REG_DYNPD 0x00 h7;
          h9 = nrf24_write_reg NRF24_REG_FEATURE 0x01 h8;
          (ok, h10) = nrf24_test h9
      in if \<not> ok then (False, h10)
         else (True, delayMicroseconds 2000 (nrf24_write_reg NRF24_REG_CONFIG 0x02 h10)))"

text \<open>
  The commands a radio sees: the bytes of each chip-select window, oldest first.  \<open>frames_of\<close> is
  defined only on a well-framed trace: transfers happen inside a window, windows do not nest, and
  every window is closed.
\<close>

fun frames_of :: "bus_event list \<Rightarrow> bytes option \<Rightarrow> bytes list option" where
  "frames_of [] None = Some []"
| "frames_of [] (Some w) = None"
| "frames_of (CsnLow # es) None = frames_of es (Some [])"
| "frames_of (CsnLow # es) (Some w) = None"
| "frames_of (CsnHigh # es) None = frames_of es None"
| "frames_of (CsnHigh # es) (Some w) = map_option (\<lambda>fs. w # fs) (frames_of es None)"
| "frames_of (Xfer b # es) None = None"
| "frames_of (Xfer b # es) (Some w) = frames_of es (Some (w @ [b]))"
| "frames_of (e # es) w = frames_of es w"

definition radio_frames :: "hw \<Rightarrow> bytes list option" where
  "radio_frames h = frames_of (rev (bus h)) None"

lemmas nrf24_consts = NRF24_R_REGISTER_def NRF24_W_REGISTER_def NRF24_R_RX_PAYLOAD_def
  NRF24_W_TX_PAYLOAD_def NRF24_FLUSH_TX_def NRF24_FLUSH_RX_def NRF24_NOP_def NRF24_REG_CONFIG_def
  NRF24_REG_EN_AA_def NRF24_REG_EN_RXADDR_def NRF24_REG_SETUP_AW_def NRF24_REG_SETUP_RETR_def
  NRF24_REG_RF_CH_def NRF24_REG_RF_SETUP_def NRF24_REG_STATUS_def NRF24_REG_RX_ADDR_P0_def
  NRF24_REG_TX_ADDR_def NRF24_REG_RX_PW_P0_def NRF24_REG_DYNPD_def NRF24_REG_FEATURE_def
  NRF24_RX_DR_def NRF24_TX_DS_def NRF24_MAX_RT_def

declare nrf24_consts [tx_defs]


subsection \<open>Framing\<close>

text \<open>\<open>sends h h' fs\<close>: between \<open>h\<close> and \<open>h'\<close> the driver put exactly the frames \<open>fs\<close> on the bus.\<close>

definition sends :: "hw \<Rightarrow> hw \<Rightarrow> bytes list \<Rightarrow> bool" where
  "sends h h' fs \<longleftrightarrow> (\<exists>es. bus h' = rev es @ bus h \<and> frames_of es None = Some fs)"

lemma map_option_append_Nil: "map_option ((@) []) x = x"
  by (cases x) simp_all

lemma frames_of_append:
  "frames_of es w = Some fs \<Longrightarrow> frames_of (es @ es') w = map_option (\<lambda>fs'. fs @ fs') (frames_of es' None)"
proof (induction es w arbitrary: fs rule: frames_of.induct)
  case (6 es w)
  then show ?case by (auto simp: option.map_comp comp_def)
qed (auto simp: map_option_append_Nil)

lemma sends_refl [simp, intro]: "sends h h []"
  by (auto simp: sends_def intro: exI [of _ "[]"])

lemma sends_trans [trans]:
  assumes "sends h h1 fs" "sends h1 h2 fs'"
  shows "sends h h2 (fs @ fs')"
proof -
  from assms obtain es es' where "bus h1 = rev es @ bus h" "frames_of es None = Some fs"
    "bus h2 = rev es' @ bus h1" "frames_of es' None = Some fs'"
    by (auto simp: sends_def)
  then have "bus h2 = rev (es @ es') @ bus h" "frames_of (es @ es') None = Some (fs @ fs')"
    by (simp_all add: frames_of_append)
  then show ?thesis unfolding sends_def by blast
qed

lemma sends_same_bus: "bus h' = bus h \<Longrightarrow> sends h h' []"
  by (auto simp: sends_def intro: exI [of _ "[]"])

lemma sends_emit:
  assumes "e \<in> {CeLow, CeHigh, SpiBegin, TxnBegin, TxnEnd, CsnHigh} \<or> (\<exists>n. e = PinMode n \<or> e = Delay n)"
  shows "sends h (emit e h) []"
  using assms by (auto simp: sends_def emit_def intro!: exI [of _ "[e]"])

lemma bus_spi_send [simp]: "bus (spi_send b h) = Xfer b # bus h"
  by (simp add: spi_send_def spi_transfer_def emit_def)

lemma bus_spi_send_all: "bus (spi_send_all bs h) = rev (map Xfer bs) @ bus h"
  by (induction bs arbitrary: h) auto

lemma bus_spi_read_n: "bus (snd (spi_read_n n h)) = replicate n (Xfer 0xFF) @ bus h"
  by (induction n arbitrary: h)
    (auto simp: spi_transfer_def emit_def case_prod_beta Let_def replicate_app_Cons_same)

lemma length_spi_read_n: "length (fst (spi_read_n n h)) = n"
  by (induction n arbitrary: h) (auto simp: case_prod_beta Let_def)

lemma frames_of_xfers: "frames_of (map Xfer bs @ es) (Some w) = frames_of es (Some (w @ bs))"
  by (induction bs arbitrary: w) auto

lemma sends_frame:
  assumes "bus h' = rev (map Xfer bs) @ bus (frame_open h)"
  shows "sends h (frame_close h') [bs]"
proof -
  have "bus (frame_close h') = rev ([CsnLow, TxnBegin] @ map Xfer bs @ [TxnEnd, CsnHigh]) @ bus h"
    using assms by (simp add: frame_close_def frame_open_def emit_def)
  moreover have "frames_of ([CsnLow, TxnBegin] @ map Xfer bs @ [TxnEnd, CsnHigh]) None = Some [bs]"
    by (simp add: frames_of_xfers)
  ultimately show ?thesis unfolding sends_def by blast
qed

lemma sends_write_reg_multi:
  "sends h (nrf24_write_reg_multi reg buf h) [(NRF24_W_REGISTER OR (reg AND 0x1F)) # buf]"
  unfolding nrf24_write_reg_multi_def by (rule sends_frame) (simp add: bus_spi_send_all)

lemma sends_write_reg:
  "sends h (nrf24_write_reg reg v h) [[NRF24_W_REGISTER OR (reg AND 0x1F), v]]"
  unfolding nrf24_write_reg_def by (rule sends_write_reg_multi)

lemma sends_read_reg_multi:
  "sends h (snd (nrf24_read_reg_multi reg n h)) [(NRF24_R_REGISTER OR (reg AND 0x1F)) # replicate n 0xFF]"
proof -
  let ?h1 = "spi_send (NRF24_R_REGISTER OR (reg AND 0x1F)) (frame_open h)"
  have "bus (snd (spi_read_n n ?h1)) =
      rev (map Xfer ((NRF24_R_REGISTER OR (reg AND 0x1F)) # replicate n 0xFF)) @ bus (frame_open h)"
    by (simp add: bus_spi_read_n)
  from sends_frame [OF this] show ?thesis
    by (simp add: nrf24_read_reg_multi_def Let_def case_prod_beta)
qed

lemma sends_read_reg:
  "sends h (snd (nrf24_read_reg reg h)) [[NRF24_R_REGISTER OR (reg AND 0x1F), 0xFF]]"
  using sends_read_reg_multi [of h reg 1] by (simp add: nrf24_read_reg_def case_prod_beta)

lemma sends_flush_tx: "sends h (nrf24_flush_tx h) [[NRF24_FLUSH_TX]]"
  unfolding nrf24_flush_tx_def by (rule sends_frame) simp

lemma sends_flush_rx: "sends h (nrf24_flush_rx h) [[NRF24_FLUSH_RX]]"
  unfolding nrf24_flush_rx_def by (rule sends_frame) simp

lemma sends_get_status: "sends h (snd (nrf24_get_status h)) [[NRF24_NOP]]"
proof -
  have "sends h (frame_close (spi_send NRF24_NOP (frame_open h))) [[NRF24_NOP]]"
    by (rule sends_frame) simp
  then show ?thesis by (simp add: nrf24_get_status_def spi_send_def case_prod_beta)
qed

lemma sends_write_payload:
  "nrf24_payload_length_valid (length bs) \<Longrightarrow>
   sends h (snd (nrf24_write_payload (Some bs) h)) [NRF24_W_TX_PAYLOAD # bs]"
  by (simp add: nrf24_write_payload_def) (rule sends_frame, simp add: bus_spi_send_all)

lemma sends_write_payload_any:
  "\<exists>fs. sends h (snd (nrf24_write_payload buf h)) fs"
proof (cases buf)
  case (Some bs)
  then show ?thesis
    using sends_write_payload [of bs h] sends_refl [of h]
    by (cases "nrf24_payload_length_valid (length bs)") (force simp: nrf24_write_payload_def)+
qed (auto simp: nrf24_write_payload_def)

lemma sends_read_payload:
  "\<exists>fs. sends h (snd (nrf24_read_payload n h)) fs"
proof (cases "nrf24_payload_length_valid n")
  case True
  let ?h1 = "spi_send NRF24_R_RX_PAYLOAD (frame_open h)"
  have "bus (snd (spi_read_n n ?h1)) =
      rev (map Xfer (NRF24_R_RX_PAYLOAD # replicate n 0xFF)) @ bus (frame_open h)"
    by (simp add: bus_spi_read_n)
  from sends_frame [OF this] True show ?thesis
    by (auto simp: nrf24_read_payload_def Let_def case_prod_beta)
qed (auto simp: nrf24_read_payload_def)

lemma sends_set_tx_mode:
  "sends h (nrf24_set_tx_mode h) [[NRF24_FLUSH_TX], [0x20, 0x02]]"
proof -
  let ?a = "emit CeLow h"
  have "sends h ?a []" by (rule sends_emit) simp
  also have "sends ?a (nrf24_flush_tx ?a) [[NRF24_FLUSH_TX]]" by (rule sends_flush_tx)
  also have "sends (nrf24_flush_tx ?a) (nrf24_write_reg NRF24_REG_CONFIG 0x02 (nrf24_flush_tx ?a)) [[0x20, 0x02]]"
    using sends_write_reg [of _ NRF24_REG_CONFIG "0x02"] by (simp add: nrf24_consts)
  also have "sends (nrf24_write_reg NRF24_REG_CONFIG 0x02 (nrf24_flush_tx ?a)) (nrf24_set_tx_mode h) []"
    unfolding nrf24_set_tx_mode_def by (rule sends_emit) simp
  finally show ?thesis by simp
qed

lemma sends_set_rx_mode:
  "sends h (nrf24_set_rx_mode h) [[NRF24_FLUSH_RX], [0x20, 0x03]]"
proof -
  let ?a = "emit CeLow h"
  have "sends h ?a []" by (rule sends_emit) simp
  also have "sends ?a (nrf24_flush_rx ?a) [[NRF24_FLUSH_RX]]" by (rule sends_flush_rx)
  also have "sends (nrf24_flush_rx ?a) (nrf24_write_reg NRF24_REG_CONFIG 0x03 (nrf24_flush_rx ?a)) [[0x20, 0x03]]"
    using sends_write_reg [of _ NRF24_REG_CONFIG "0x03"] by (simp add: nrf24_consts)
  also have "sends (nrf24_write_reg NRF24_REG_CONFIG 0x03 (nrf24_flush_rx ?a)) (nrf24_set_rx_mode h) []"
    unfolding nrf24_set_rx_mode_def by (rule sends_emit) simp
  finally show ?thesis by simp
qed

lemma sends_clear_irq_flags: "sends h (nrf24_clear_irq_flags h) [[0x27, 0x70]]"
  using sends_write_reg [of h NRF24_REG_STATUS "0x70"]
  by (simp add: nrf24_clear_irq_flags_def nrf24_consts)

lemma sends_set_channel: "sends h (nrf24_set_channel c h) [[0x25, c]]"
  using sends_write_reg [of h NRF24_REG_RF_CH c] by (simp add: nrf24_set_channel_def nrf24_consts)

lemma radio_frames_sends:
  assumes "radio_frames h = Some fs" "sends h h' fs'"
  shows "radio_frames h' = Some (fs @ fs')"
proof -
  from assms(2) obtain es where "bus h' = rev es @ bus h" "frames_of es None = Some fs'"
    by (auto simp: sends_def)
  with assms(1) show ?thesis by (simp add: radio_frames_def frames_of_append)
qed

end
