(* ===== verification/Xn297.thy ===== *)
theory Xn297
  imports Nrf24
begin

text \<open>
  The XN297 emulation of \<^verbatim>\<open>src/main/radio/xn297.cpp\<close>: whitening, bit reversal, the CRC of a
  transmitted payload, address set-up and the mode changes, on top of the nRF24 driver.
\<close>

datatype Xn297TxStatus = Pending | Sent | TxError

definition xn297_scramble :: bytes where
  "xn297_scramble = [0xE3, 0xB1, 0x4B, 0xEA, 0x85, 0xBC, 0xE5, 0x66, 0x0D, 0xAE, 0x8C, 0x88, 0x12,
     0x69, 0xEE, 0x1F, 0xC7, 0x62, 0x97, 0xD5, 0x0B, 0x79, 0xCA, 0xCC, 0x1B, 0x5D,
     0x19, 0x10, 0x24, 0xD3, 0xDC, 0x3F, 0x8E, 0xC5, 0x2F, 0xAA, 0x16, 0xF3, 0x95]"

definition xn297_crc_xorout_scrambled :: "u16 list" where
  "xn297_crc_xorout_scrambled = [0x0000, 0x3448, 0x9BA7, 0x8BBB, 0x85E1, 0x3E8C, 0x451E, 0x18E6, 0x6B24,
     0xE7AB, 0x3828, 0x814B, 0xD461, 0xF494, 0x2503, 0x691D, 0xFE8B, 0x9BA7,
     0x8B17, 0x2920, 0x8B5F, 0x61B1, 0xD391, 0x7401, 0x2138, 0x129F, 0xB3A0,
     0x2988, 0x23CA, 0xC0CB, 0x0C6C, 0xB329, 0xA0A1, 0x0A16, 0xA9D0]"

text \<open>Each line of \<^verbatim>\<open>bit_reverse\<close> computes in \<^verbatim>\<open>int\<close> and stores back into the byte.\<close>

definition bit_reverse :: "u8 \<Rightarrow> u8" where
  "bit_reverse b0 =
     (let b1 = drop_bit 4 (b0 AND 0xF0) OR push_bit 4 (b0 AND 0x0F);
          b2 = drop_bit 2 (b1 AND 0xCC) OR push_bit 2 (b1 AND 0x33);
          b3 = drop_bit 1 (b2 AND 0xAA) OR push_bit 1 (b2 AND 0x55)
      in b3)"

text \<open>One bit of \<^verbatim>\<open>crc16_update\<close>: the CRC and the remaining data byte.\<close>

definition crc16_bit :: "u16 \<times> u8 \<Rightarrow> u16 \<times> u8" where
  "crc16_bit = (\<lambda>(crc, data).
     (if nonzero ((drop_bit 8 crc XOR to_u16 data) AND 0x80) then push_bit 1 crc XOR 0x1021
      else push_bit 1 crc, push_bit 1 data))"

definition crc16_update :: "u16 \<Rightarrow> u8 \<Rightarrow> u16" where
  "crc16_update crc data = fst ((crc16_bit ^^ 8) (crc, data))"

record xradio =
  xn297_tx_addr :: bytes
  xhw :: hw

definition xn297_init :: "xradio \<Rightarrow> bool \<times> xradio" where
  "xn297_init r = (let (ok, h) = nrf24_init (xhw r) in (ok, r\<lparr>xhw := h\<rparr>))"

definition xn297_set_tx_address :: "bytes \<Rightarrow> xradio \<Rightarrow> xradio" where
  "xn297_set_tx_address addr r =
     r\<lparr>xn297_tx_addr := take 5 addr,
       xhw := nrf24_write_reg_multi NRF24_REG_TX_ADDR [0x55, 0x0F, 0x71, 0x0C, 0x00] (xhw r)\<rparr>"

definition xn297_set_rx_address :: "bytes option \<Rightarrow> nat \<Rightarrow> xradio \<Rightarrow> bool \<times> xradio" where
  "xn297_set_rx_address addr payload_len r =
     (case addr of None \<Rightarrow> (False, r)
      | Some a \<Rightarrow>
          if \<not> nrf24_payload_length_valid payload_len then (False, r)
          else
            let physical_rx_addr = map (\<lambda>i. a ! i XOR xn297_scramble ! (4 - i)) [0..<5];
                h1 = nrf24_write_reg_multi NRF24_REG_RX_ADDR_P0 physical_rx_addr (xhw r);
                h2 = nrf24_write_reg NRF24_REG_RX_PW_P0 (of_nat payload_len) h1
            in (True, r\<lparr>xhw := h2\<rparr>))"

text \<open>The buffer \<^verbatim>\<open>xn297_write_payload\<close> builds: address, whitened payload, CRC.\<close>

definition encode_address :: "bytes \<Rightarrow> bytes" where
  "encode_address a = map (\<lambda>i. a ! (4 - i) XOR xn297_scramble ! i) [0..<5]"

definition encode_payload :: "bytes \<Rightarrow> bytes" where
  "encode_payload msg = map (\<lambda>i. bit_reverse (msg ! i) XOR xn297_scramble ! (5 + i)) [0..<length msg]"

definition xn297_crc :: "bytes \<Rightarrow> nat \<Rightarrow> u16" where
  "xn297_crc buf len = foldl crc16_update 0xb5d2 buf XOR xn297_crc_xorout_scrambled ! (5 - 3 + len)"

definition xn297_buffer :: "bytes \<Rightarrow> bytes \<Rightarrow> bytes" where
  "xn297_buffer a msg =
     (let buf = encode_address a @ encode_payload msg; crc = xn297_crc buf (length msg)
      in buf @ [to_u8 (drop_bit 8 crc), to_u8 (crc AND 0xFF)])"

definition xn297_write_payload :: "bytes option \<Rightarrow> xradio \<Rightarrow> bool \<times> xradio" where
  "xn297_write_payload msg r =
     (case msg of None \<Rightarrow> (False, r)
      | Some m \<Rightarrow>
          if \<not> xn297_tx_payload_length_valid (length m) then (False, r)
          else let (ok, h) = nrf24_write_payload (Some (xn297_buffer (xn297_tx_addr r) m)) (xhw r)
               in (ok, r\<lparr>xhw := h\<rparr>))"

definition decode_payload :: "bytes \<Rightarrow> bytes" where
  "decode_payload buf = map (\<lambda>i. bit_reverse (buf ! i XOR xn297_scramble ! (5 + i))) [0..<length buf]"

definition xn297_read_payload :: "nat \<Rightarrow> xradio \<Rightarrow> bytes option \<times> xradio" where
  "xn297_read_payload len r =
     (if \<not> nrf24_payload_length_valid len then (None, r)
      else let (buf, h) = nrf24_read_payload len (xhw r)
           in (map_option decode_payload buf, r\<lparr>xhw := h\<rparr>))"

definition xn297_set_channel :: "u8 \<Rightarrow> xradio \<Rightarrow> xradio" where
  "xn297_set_channel channel r = r\<lparr>xhw := nrf24_set_channel channel (xhw r)\<rparr>"

definition xn297_is_rx_ready :: "xradio \<Rightarrow> bool \<times> xradio" where
  "xn297_is_rx_ready r =
     (let (status, h) = nrf24_get_status (xhw r) in (nonzero (status AND NRF24_RX_DR), r\<lparr>xhw := h\<rparr>))"

definition xn297_irq_asserted :: "xradio \<Rightarrow> bool \<times> xradio" where
  "xn297_irq_asserted r = (let (low, h) = nrf24_irq_asserted (xhw r) in (low, r\<lparr>xhw := h\<rparr>))"

definition xn297_decode_tx_status :: "u8 \<Rightarrow> Xn297TxStatus" where
  "xn297_decode_tx_status status =
     (let tx_sent = 0x20; max_retries = 0x10
      in if status AND max_retries \<noteq> 0 then TxError
         else if status AND tx_sent \<noteq> 0 then Sent
         else Pending)"

definition xn297_get_tx_status :: "xradio \<Rightarrow> Xn297TxStatus \<times> xradio" where
  "xn297_get_tx_status r =
     (let (status, h) = nrf24_get_status (xhw r) in (xn297_decode_tx_status status, r\<lparr>xhw := h\<rparr>))"

definition xn297_set_tx_mode :: "xradio \<Rightarrow> xradio" where
  "xn297_set_tx_mode r = r\<lparr>xhw := nrf24_set_tx_mode (nrf24_clear_irq_flags (xhw r))\<rparr>"

definition xn297_set_rx_mode :: "xradio \<Rightarrow> xradio" where
  "xn297_set_rx_mode r = r\<lparr>xhw := nrf24_set_rx_mode (nrf24_clear_irq_flags (xhw r))\<rparr>"

text \<open>The CRC-16 step as its definition has it: add the byte at the top, then divide bit by bit.\<close>

definition ccitt_bit :: "u16 \<Rightarrow> u16" where
  "ccitt_bit crc = (if nonzero (crc AND 0x8000) then push_bit 1 crc XOR 0x1021 else push_bit 1 crc)"

definition ccitt_update :: "u16 \<Rightarrow> u8 \<Rightarrow> u16" where
  "ccitt_update crc data = (ccitt_bit ^^ 8) (crc XOR push_bit 8 (to_u16 data))"

subsection \<open>Bit reversal and whitening\<close>

lemma less_8_cases: "n < 8 \<Longrightarrow> n = 0 \<or> n = 1 \<or> n = 2 \<or> n = 3 \<or> n = 4 \<or> n = 5 \<or> n = 6 \<or> n = (7::nat)"
  by arith

lemma bit_bit_reverse: "n < 8 \<Longrightarrow> bit (bit_reverse b) n = bit b (7 - n)"
  by (drule less_8_cases)
    (elim disjE; simp add: bit_reverse_def Let_def bit_simps bit_double_word bit_numeral_rec(1))

lemma bit_reverse_involution [simp]: "bit_reverse (bit_reverse b) = b"
  by (rule bit_word_eqI) (simp add: bit_bit_reverse)

lemma length_encode [simp]: "length (encode_address a) = 5" "length (encode_payload m) = length m"
  "length (decode_payload m) = length m"
  by (simp_all add: encode_address_def encode_payload_def decode_payload_def)

lemma decode_encode_payload: "decode_payload (encode_payload m) = m"
  by (rule nth_equalityI) (simp_all add: encode_payload_def decode_payload_def xor.assoc)

lemma length_tables: "length xn297_scramble = 39" "length xn297_crc_xorout_scrambled = 35"
  by (simp_all add: xn297_scramble_def xn297_crc_xorout_scrambled_def)

lemma length_xn297_buffer: "length (xn297_buffer a m) = 5 + length m + 2"
  by (simp add: xn297_buffer_def Let_def)

subsection \<open>The CRC\<close>

lemma crc16_bit_simulates:
  "ccitt_bit (crc XOR push_bit 8 (to_u16 data)) =
     (case crc16_bit (crc, data) of (crc', data') \<Rightarrow> crc' XOR push_bit 8 (to_u16 data'))"
proof -
  have a: "nonzero ((crc XOR push_bit 8 (to_u16 data)) AND 0x8000) =
      nonzero ((drop_bit 8 crc XOR to_u16 data) AND 0x80)" (is "?l = ?r")
  proof -
    have m: "(0x8000 :: u16) = push_bit 15 1" "(0x80 :: u16) = push_bit 7 1" by simp_all
    have n: "nonzero (w AND push_bit n 1) = bit w n" if "n < 16" for w :: u16 and n
    proof (cases "bit w n")
      case True
      then have "bit (w AND push_bit n 1) n" using that by (simp add: bit_simps)
      then show ?thesis using True by (auto simp: nonzero_def)
    next
      case False
      then have "w AND push_bit n 1 = 0" by (intro bit_word_eqI) (auto simp: bit_simps)
      then show ?thesis using False by (simp add: nonzero_def)
    qed
    have "?l = bit (crc XOR push_bit 8 (to_u16 data)) 15" unfolding m by (rule n) simp
    also have "\<dots> = bit (drop_bit 8 crc XOR to_u16 data) 7" by (simp add: bit_simps bit_to_word)
    also have "\<dots> = ?r" unfolding m by (rule n [symmetric]) simp
    finally show ?thesis .
  qed
  have b: "push_bit 1 (crc XOR push_bit 8 (to_u16 data)) =
      push_bit 1 crc XOR push_bit 8 (to_u16 (push_bit 1 data))"
    by (rule bit_word_eqI) (auto simp: bit_simps bit_to_word bit_double_word)
  show ?thesis
    unfolding ccitt_bit_def crc16_bit_def a b by (simp add: xor.assoc xor.commute xor.left_commute)
qed

lemma crc16_bits_simulate:
  "(ccitt_bit ^^ n) (crc XOR push_bit 8 (to_u16 data)) =
     (case (crc16_bit ^^ n) (crc, data) of (crc', data') \<Rightarrow> crc' XOR push_bit 8 (to_u16 data'))"
proof (induction n)
  case (Suc n)
  obtain c d where cd: "(crc16_bit ^^ n) (crc, data) = (c, d)" by fastforce
  with Suc crc16_bit_simulates [of c d] show ?case by simp
qed simp

lemma crc16_data_shift: "snd ((crc16_bit ^^ n) (crc, data)) = push_bit n data"
  by (induction n) (auto simp: crc16_bit_def case_prod_beta push_bit_push_bit simp flip: push_bit_Suc)

subsection \<open>Properties\<close>

text \<open>
  Whitening is transparent.  What \<^verbatim>\<open>xn297_write_payload\<close> writes for the payload part of a
  message, read back by the decoding of \<^verbatim>\<open>xn297_read_payload\<close>, is the message.
\<close>

theorem whitening_roundtrip:
  "decode_payload (take (length m) (drop 5 (xn297_buffer a m))) = m"
  by (simp add: xn297_buffer_def Let_def decode_encode_payload)

text \<open>
  C31: the driver's CRC is CRC-16 with polynomial \<open>0x1021\<close>.  The interleaved shift-and-compare loop
  of \<^verbatim>\<open>crc16_update\<close> computes the same function as adding the byte at the top of the register
  and dividing bit by bit, for every register and byte.
\<close>

theorem crc16_update_is_ccitt: "crc16_update crc data = ccitt_update crc data"
proof -
  have "push_bit 8 data = 0" by (rule bit_word_eqI) (simp add: bit_simps)
  then have z: "push_bit 8 (to_u16 (snd ((crc16_bit ^^ 8) (crc, data)))) = 0"
    by (simp add: crc16_data_shift to_u16_def)
  show ?thesis
    using crc16_bits_simulate [of 8 crc data] z
    by (simp add: crc16_update_def ccitt_update_def case_prod_beta)
qed

text \<open>
  A valid payload becomes exactly one radio frame and stays in bounds.  For a message of 1 to 25
  bytes \<^verbatim>\<open>xn297_write_payload\<close> succeeds, sends a single \<^verbatim>\<open>W_TX_PAYLOAD\<close> frame with the 5
  address bytes, the whitened message and the 2 CRC bytes (at most the 32 the radio takes), and every
  table index it uses lies inside its table; any other length sends nothing and fails.
\<close>

theorem write_payload_one_frame:
  "(if 1 \<le> length m \<and> length m \<le> 25
    then fst (xn297_write_payload (Some m) r) \<and>
      sends (xhw r) (xhw (snd (xn297_write_payload (Some m) r)))
        [0xA0 # xn297_buffer (xn297_tx_addr r) m] \<and>
      length (xn297_buffer (xn297_tx_addr r) m) \<le> 32 \<and>
      4 + length m < length xn297_scramble \<and>
      2 + length m < length xn297_crc_xorout_scrambled
    else xn297_write_payload (Some m) r = (False, r))"
  using sends_write_payload [of "xn297_buffer (xn297_tx_addr r) m" "xhw r"]
  by (auto simp: xn297_write_payload_def xn297_tx_payload_length_valid_def nrf24_payload_length_valid_def
      length_xn297_buffer nrf24_write_payload_def length_tables NRF24_W_TX_PAYLOAD_def split: prod.splits)

end
