(* ===== verification/F32.thy ===== *)
theory F32
  imports Complex_Main Tx_Prelude
begin

text \<open>
  IEEE-754 single precision for the source's \<^verbatim>\<open>float\<close> arithmetic.  A finite float is the rational
  number it denotes; every operation is the exact operation followed by \<open>f32_round\<close>, rounding to
  nearest with ties to even at 24 significant bits and exponent at least -126 (so subnormals too).
  The values of this program are far below the overflow threshold, and the operations it uses cannot
  produce a NaN, so neither is represented; the two zeros are identified.  The source's expressions
  are evaluated operation by operation in single precision, without contraction.

  The interface \<open>rounding\<close> states what the clients rely on: rounding is monotone and leaves the
  dyadic numbers of at most 24 bits alone.  The interpretation at the end discharges it for
  \<open>f32_round\<close>.
\<close>

type_synonym f32 = rat

text \<open>Round to nearest integer, ties to even.\<close>

definition rne :: "rat \<Rightarrow> int" where
  "rne x = (let f = \<lfloor>x\<rfloor>; d = x - of_int f
     in if d < 1 / 2 then f else if d > 1 / 2 then f + 1 else if even f then f else f + 1)"

fun log2n :: "nat \<Rightarrow> nat" where
  "log2n n = (if n < 2 then 0 else Suc (log2n (n div 2)))"

declare log2n.simps [simp del]

text \<open>The binary exponent: \<open>2 powi f32_exp x \<le> \<bar>x\<bar> < 2 powi (f32_exp x + 1)\<close> for \<open>x \<noteq> 0\<close>.\<close>

definition f32_exp :: "rat \<Rightarrow> int" where
  "f32_exp x = (case quotient_of \<bar>x\<bar> of (n, d) \<Rightarrow>
     let e = int (log2n (nat n)) - int (log2n (nat d))
     in if 2 powi e \<le> \<bar>x\<bar> then e else e - 1)"

definition f32_ulp :: "rat \<Rightarrow> rat" where
  "f32_ulp x = 2 powi (max (f32_exp x) (-126) - 23)"

definition f32_round :: "rat \<Rightarrow> f32" where
  "f32_round x = (if x = 0 then 0 else of_int (rne (x / f32_ulp x)) * f32_ulp x)"

definition f32_add :: "f32 \<Rightarrow> f32 \<Rightarrow> f32" where "f32_add x y = f32_round (x + y)"

definition f32_sub :: "f32 \<Rightarrow> f32 \<Rightarrow> f32" where "f32_sub x y = f32_round (x - y)"

definition f32_mul :: "f32 \<Rightarrow> f32 \<Rightarrow> f32" where "f32_mul x y = f32_round (x * y)"

definition f32_div :: "f32 \<Rightarrow> f32 \<Rightarrow> f32" where "f32_div x y = f32_round (x / y)"

definition f32_of_int :: "int \<Rightarrow> f32" where "f32_of_int i = f32_round (of_int i)"

text \<open>The conversion \<^verbatim>\<open>static_cast<uint16_t>(x)\<close>: truncation towards zero, for the values in range.\<close>

definition f32_to_u16 :: "f32 \<Rightarrow> u16" where
  "f32_to_u16 x = word_of_int (if x < 0 then \<lceil>x\<rceil> else \<lfloor>x\<rfloor>)"

lemmas f32_ops = f32_add_def f32_sub_def f32_mul_def f32_div_def f32_of_int_def

locale rounding =
  fixes fl :: "rat \<Rightarrow> rat"
  assumes fl_mono: "x \<le> y \<Longrightarrow> fl x \<le> fl y"
    and fl_dyadic: "\<bar>k\<bar> < 2 ^ 24 \<Longrightarrow> n \<le> 126 \<Longrightarrow> fl (of_int k / 2 ^ n) = of_int k / 2 ^ n"
begin

lemma fl_half: "\<bar>k\<bar> < 2 ^ 24 \<Longrightarrow> fl (of_int k / 2) = of_int k / 2"
  using fl_dyadic [of k 1] by simp

lemma fl_int: "\<bar>k\<bar> < 2 ^ 24 \<Longrightarrow> fl (of_int k) = of_int k"
  using fl_dyadic [of k 0] by simp

lemma fl_0: "fl 0 = 0" using fl_int [of 0] by simp

lemma fl_1: "fl 1 = 1" using fl_int [of 1] by simp

lemma fl_neg_1: "fl (- 1) = - 1" using fl_int [of "-1"] by simp

lemma fl_numeral: "(numeral n :: int) < 2 ^ 24 \<Longrightarrow> fl (numeral n) = numeral n"
  using fl_int [of "numeral n"] by simp

lemma fl_le_int: "x \<le> of_int k \<Longrightarrow> \<bar>k\<bar> < 2 ^ 24 \<Longrightarrow> fl x \<le> of_int k"
  using fl_mono [of x "of_int k"] fl_int by simp

lemma fl_ge_int: "of_int k \<le> x \<Longrightarrow> \<bar>k\<bar> < 2 ^ 24 \<Longrightarrow> of_int k \<le> fl x"
  using fl_mono [of "of_int k" x] fl_int by simp

lemma fl_le_half: "x \<le> of_int k / 2 \<Longrightarrow> \<bar>k\<bar> < 2 ^ 24 \<Longrightarrow> fl x \<le> of_int k / 2"
  using fl_mono [of x "of_int k / 2"] fl_half by simp

lemma fl_le_dyadic: "x \<le> of_int k / 2 ^ n \<Longrightarrow> \<bar>k\<bar> < 2 ^ 24 \<Longrightarrow> n \<le> 126 \<Longrightarrow> fl x \<le> of_int k / 2 ^ n"
  using fl_mono [of x "of_int k / 2 ^ n"] fl_dyadic by simp

lemma fl_ge_dyadic: "of_int k / 2 ^ n \<le> x \<Longrightarrow> \<bar>k\<bar> < 2 ^ 24 \<Longrightarrow> n \<le> 126 \<Longrightarrow> of_int k / 2 ^ n \<le> fl x"
  using fl_mono [of "of_int k / 2 ^ n" x] fl_dyadic by simp

lemma fl_nonneg: "0 \<le> x \<Longrightarrow> 0 \<le> fl x" using fl_ge_int [of 0 x] by simp

lemma fl_nonpos: "x \<le> 0 \<Longrightarrow> fl x \<le> 0" using fl_le_int [of x 0] by simp

lemma fl_le_1: "x \<le> 1 \<Longrightarrow> fl x \<le> 1" using fl_le_int [of x 1] by simp

lemma fl_ge_neg_1: "- 1 \<le> x \<Longrightarrow> - 1 \<le> fl x" using fl_ge_int [of "-1" x] by simp

text \<open>The product of a fixed non-negative factor and the square of the argument, as \<^verbatim>\<open>e * n * n * n\<close>
  computes it, is monotone in \<open>n\<close>.\<close>

lemma cube_mono_nonneg:
  assumes "0 \<le> e" "0 \<le> a" "a \<le> b"
  shows "fl (fl (fl (e * a) * a) * a) \<le> fl (fl (fl (e * b) * b) * b)"
proof -
  have 1: "0 \<le> fl (e * a)" "fl (e * a) \<le> fl (e * b)"
    using assms by (auto intro!: fl_nonneg fl_mono mult_left_mono)
  have 2: "0 \<le> fl (fl (e * a) * a)" "fl (fl (e * a) * a) \<le> fl (fl (e * b) * b)"
    using assms 1 by (auto intro!: fl_nonneg fl_mono mult_mono)
  have "0 \<le> fl (fl (e * b) * b)" using 2 by linarith
  then have "fl (fl (e * a) * a) * a \<le> fl (fl (e * b) * b) * b"
    using assms 2 by (intro mult_mono)
  then show ?thesis by (rule fl_mono)
qed

lemma cube_mono_nonpos:
  assumes "0 \<le> e" "a \<le> b" "b \<le> 0"
  shows "fl (fl (fl (e * a) * a) * a) \<le> fl (fl (fl (e * b) * b) * b)"
proof -
  have 1: "fl (e * b) \<le> 0" "fl (e * a) \<le> fl (e * b)"
    using assms by (auto intro!: fl_nonpos fl_mono mult_left_mono simp: mult_nonneg_nonpos)
  have "fl (e * b) * b \<le> fl (e * a) * a"
    using mult_mono [of "- fl (e * b)" "- fl (e * a)" "- b" "- a"] assms 1 by simp
  then have 2: "fl (fl (e * b) * b) \<le> fl (fl (e * a) * a)" by (rule fl_mono)
  have 3: "0 \<le> fl (fl (e * b) * b)" using assms 1 by (intro fl_nonneg) (simp add: mult_nonpos_nonpos)
  have "fl (fl (e * a) * a) * a \<le> fl (fl (e * b) * b) * b"
    using mult_mono [of "fl (fl (e * b) * b)" "fl (fl (e * a) * a)" "- b" "- a"] assms 2 3 by simp
  then show ?thesis by (rule fl_mono)
qed

lemma cube_sign:
  assumes "0 \<le> e"
  shows "0 \<le> n \<Longrightarrow> 0 \<le> fl (fl (fl (e * n) * n) * n)" "n \<le> 0 \<Longrightarrow> fl (fl (fl (e * n) * n) * n) \<le> 0"
  using cube_mono_nonneg [OF assms, of 0 n] cube_mono_nonpos [OF assms, of n 0] by (simp_all add: fl_0)

lemma cube_mono:
  assumes "0 \<le> e" "a \<le> b"
  shows "fl (fl (fl (e * a) * a) * a) \<le> fl (fl (fl (e * b) * b) * b)"
proof (cases "0 \<le> a")
  case True
  then show ?thesis by (rule cube_mono_nonneg [OF assms(1) _ assms(2)])
next
  case False
  show ?thesis
  proof (cases "b \<le> 0")
    case True
    then show ?thesis by (rule cube_mono_nonpos [OF assms])
  next
    case nb: False
    with False cube_sign [OF assms(1), of a] cube_sign [OF assms(1), of b] show ?thesis by linarith
  qed
qed

end

subsection \<open>Single precision is a rounding\<close>

lemma log2n_bounds: "0 < n \<Longrightarrow> 2 ^ log2n n \<le> n \<and> n < 2 ^ Suc (log2n n)"
proof (induction n rule: log2n.induct)
  case (1 n)
  show ?case
  proof (cases "n < 2")
    case True
    with "1.prems" show ?thesis by (simp add: log2n.simps)
  next
    case False
    with "1.IH" have "2 ^ log2n (n div 2) \<le> n div 2" "n div 2 < 2 ^ Suc (log2n (n div 2))" by auto
    moreover have "log2n n = Suc (log2n (n div 2))" using False by (simp add: log2n.simps)
    ultimately show ?thesis by auto
  qed
qed

lemma powi_less: "a < b \<Longrightarrow> (2 :: rat) powi a < 2 powi b"
  by (rule power_int_strict_increasing) simp_all

lemma powi_le: "a \<le> b \<Longrightarrow> (2 :: rat) powi a \<le> 2 powi b"
  by (rule power_int_increasing) simp_all

lemma powi_le_iff: "(2 :: rat) powi a \<le> 2 powi b \<longleftrightarrow> a \<le> b"
  using powi_less [of b a] powi_le [of a b] by linarith

lemma powi_less_iff: "(2 :: rat) powi a < 2 powi b \<longleftrightarrow> a < b"
  using powi_less [of a b] powi_le [of b a] by linarith

lemma powi_pos: "0 < (2 :: rat) powi e"
  by simp

lemma f32_exp_bounds:
  assumes "x \<noteq> 0"
  shows "2 powi f32_exp x \<le> \<bar>x\<bar>" "\<bar>x\<bar> < 2 powi (f32_exp x + 1)"
proof -
  obtain n d where q: "quotient_of \<bar>x\<bar> = (n, d)" by fastforce
  then have d: "0 < d" and x: "\<bar>x\<bar> = of_int n / of_int d"
    by (simp_all add: quotient_of_denom_pos quotient_of_div)
  from assms have "0 < \<bar>x\<bar>" by simp
  with d have n: "0 < n" unfolding x by (simp add: zero_less_divide_iff)
  define a b where "a = log2n (nat n)" and "b = log2n (nat d)"
  have "2 ^ a \<le> nat n" "nat n < 2 ^ Suc a" "2 ^ b \<le> nat d" "nat d < 2 ^ Suc b"
    unfolding a_def b_def using log2n_bounds [of "nat n"] log2n_bounds [of "nat d"] n d by simp_all
  then have "2 ^ a \<le> n" "n < 2 ^ Suc a" "2 ^ b \<le> d" "d < 2 ^ Suc b"
    using n d by (simp_all add: le_nat_iff nat_less_iff zle_int)
  then have r: "(2 ^ a :: rat) \<le> of_int n" "of_int n < (2 ^ Suc a :: rat)"
      "(2 ^ b :: rat) \<le> of_int d" "of_int d < (2 ^ Suc b :: rat)"
    by (metis of_int_le_iff of_int_less_iff of_int_numeral of_int_power)+
  define e where "e = int a - int b"
  have p: "(2 :: rat) powi int a = 2 ^ a" "(2 :: rat) powi int b = 2 ^ b" by simp_all
  have up: "\<bar>x\<bar> < 2 powi (e + 1)"
  proof -
    have "\<bar>x\<bar> < 2 ^ Suc a / 2 ^ b"
      unfolding x using r n d by (intro frac_less) auto
    also have "\<dots> = 2 powi (e + 1)"
      by (simp add: e_def power_int_add power_int_diff p)
    finally show ?thesis .
  qed
  have lo: "2 powi (e - 1) \<le> \<bar>x\<bar>"
  proof -
    have "2 powi (e - 1) = 2 ^ a / (2 ^ Suc b :: rat)"
      by (simp add: e_def power_int_diff p)
    also have "\<dots> \<le> \<bar>x\<bar>"
      unfolding x using r n d by (intro frac_le) auto
    finally show ?thesis .
  qed
  have e: "f32_exp x = (if 2 powi e \<le> \<bar>x\<bar> then e else e - 1)"
    by (simp add: f32_exp_def q e_def a_def b_def Let_def)
  show "2 powi f32_exp x \<le> \<bar>x\<bar>" "\<bar>x\<bar> < 2 powi (f32_exp x + 1)"
    using up lo by (simp_all add: e)
qed

lemma f32_exp_mono:
  assumes "0 < x" "x \<le> y"
  shows "f32_exp x \<le> f32_exp y"
proof -
  have "2 powi f32_exp x < (2 :: rat) powi (f32_exp y + 1)"
    using f32_exp_bounds [of x] f32_exp_bounds [of y] assms by simp
  then show ?thesis by (simp add: powi_less_iff)
qed


lemma rne_of_int: "rne (of_int k) = k"
  by (simp add: rne_def)

lemma rne_bounds: "of_int (rne x) - 1 / 2 \<le> x" "x \<le> of_int (rne x) + 1 / 2"
proof -
  define f where "f = \<lfloor>x\<rfloor>"
  have f: "of_int f \<le> x" "x < of_int f + 1" using floor_correct [of x] by (simp_all only: f_def of_int_add of_int_1)
  have r: "rne x = (if x - of_int f < 1 / 2 then f else if x - of_int f > 1 / 2 then f + 1
      else if even f then f else f + 1)"
    by (simp add: rne_def f_def Let_def)
  show "of_int (rne x) - 1 / 2 \<le> x" "x \<le> of_int (rne x) + 1 / 2"
    unfolding r using f by auto
qed

lemma rne_mono:
  assumes "x \<le> y"
  shows "rne x \<le> rne y"
proof (rule ccontr)
  assume "\<not> rne x \<le> rne y"
  then have "rne y + 1 \<le> rne x" by simp
  then have le: "of_int (rne y) + (1 :: rat) \<le> of_int (rne x)"
    by (metis of_int_1 of_int_add of_int_le_iff)
  have "x = of_int (rne y) + 1 / 2" "y = of_int (rne y) + 1 / 2"
    using rne_bounds [of x] rne_bounds [of y] le assms by linarith+
  then have "x = y" by simp
  with \<open>\<not> rne x \<le> rne y\<close> show False by simp
qed

lemma rne_minus: "rne (- x) = - rne x"
proof -
  define f where "f = \<lfloor>x\<rfloor>"
  define d where "d = x - of_int f"
  have d: "0 \<le> d" "d < 1" using floor_correct [of x] by (simp_all add: d_def f_def)
  have x: "x = of_int f + d" by (simp add: d_def)
  have r: "rne x = (if d < 1 / 2 then f else if d > 1 / 2 then f + 1 else if even f then f else f + 1)"
    by (simp add: rne_def d_def f_def Let_def)
  show ?thesis
  proof (cases "d = 0")
    case True
    then show ?thesis using x rne_of_int [of f] rne_of_int [of "- f"] by simp
  next
    case False
    then have fm: "\<lfloor>- x\<rfloor> = - f - 1" using d x by (simp add: floor_eq_iff)
    have "- x - of_int (- f - 1) = 1 - d" using x by simp
    then have "rne (- x) = (if 1 - d < 1 / 2 then - f - 1 else if 1 - d > 1 / 2 then - f
        else if even (- f - 1) then - f - 1 else - f)"
      by (simp add: rne_def fm Let_def)
    then show ?thesis using r by auto
  qed
qed

lemma f32_exp_minus: "f32_exp (- x) = f32_exp x"
  by (simp add: f32_exp_def)

lemma f32_round_minus: "f32_round (- x) = - f32_round x"
  by (simp add: f32_round_def f32_ulp_def f32_exp_minus rne_minus)

lemma f32_ulp_pos: "0 < f32_ulp x"
  unfolding f32_ulp_def by (rule powi_pos)

lemma f32_round_nonneg: "0 \<le> x \<Longrightarrow> 0 \<le> f32_round x"
proof -
  assume "0 \<le> x"
  then have "rne 0 \<le> rne (x / f32_ulp x)"
    using f32_ulp_pos [of x] by (intro rne_mono) (simp add: less_imp_le)
  then have "0 \<le> rne (x / f32_ulp x)" using rne_of_int [of 0] by simp
  then show ?thesis using f32_ulp_pos [of x] by (simp add: f32_round_def)
qed

text \<open>Against a multiple of the unit in the last place, rounding does not cross over.\<close>

lemma f32_round_le_grid: "0 < x \<Longrightarrow> x \<le> of_int k * f32_ulp x \<Longrightarrow> f32_round x \<le> of_int k * f32_ulp x"
proof -
  assume x: "0 < x" "x \<le> of_int k * f32_ulp x"
  then have "x / f32_ulp x \<le> of_int k" using f32_ulp_pos [of x] by (simp add: divide_le_eq)
  from rne_mono [OF this] have "rne (x / f32_ulp x) \<le> k" by (simp add: rne_of_int)
  then show ?thesis using x f32_ulp_pos [of x] by (simp add: f32_round_def)
qed

lemma f32_round_ge_grid: "0 < x \<Longrightarrow> of_int k * f32_ulp x \<le> x \<Longrightarrow> of_int k * f32_ulp x \<le> f32_round x"
proof -
  assume x: "0 < x" "of_int k * f32_ulp x \<le> x"
  then have "of_int k \<le> x / f32_ulp x" using f32_ulp_pos [of x] by (simp add: le_divide_eq)
  from rne_mono [OF this] have "k \<le> rne (x / f32_ulp x)" by (simp add: rne_of_int)
  then show ?thesis using x f32_ulp_pos [of x] by (simp add: f32_round_def)
qed

lemma f32_round_mono_pos:
  assumes "0 < x" "x \<le> y"
  shows "f32_round x \<le> f32_round y"
proof (cases "f32_ulp x = f32_ulp y")
  case True
  have "x / f32_ulp x \<le> y / f32_ulp y"
    using assms f32_ulp_pos [of y] True by (simp add: divide_right_mono)
  then have "rne (x / f32_ulp x) \<le> rne (y / f32_ulp y)" by (rule rne_mono)
  then have "of_int (rne (x / f32_ulp x)) * f32_ulp x \<le> of_int (rne (y / f32_ulp y)) * f32_ulp y"
    using True f32_ulp_pos [of y] by (simp add: mult_right_mono)
  then show ?thesis using assms by (simp add: f32_round_def)
next
  case False
  define ex ey where "ex = max (f32_exp x) (-126)" and "ey = f32_exp y"
  have "f32_exp x \<le> ey" using f32_exp_mono [OF assms] by (simp add: ey_def)
  moreover have "f32_exp x \<noteq> ey" using False by (auto simp: f32_ulp_def ey_def)
  ultimately have "f32_exp x < ey" by simp
  moreover have "-126 < ey"
  proof (rule ccontr)
    assume "\<not> -126 < ey"
    with \<open>f32_exp x < ey\<close> have "max (f32_exp x) (-126) = max (f32_exp y) (-126)" by (simp add: ey_def)
    with False show False by (simp add: f32_ulp_def)
  qed
  ultimately have lt: "f32_exp x < ey" "-126 < ey" "ex < ey" by (simp_all add: ex_def)
  define c :: rat where "c = 2 powi ey"
  have cy: "c \<le> y" using f32_exp_bounds(1) [of y] assms by (simp add: c_def ey_def)
  have "x < 2 powi (f32_exp x + 1)" using f32_exp_bounds(2) [of x] assms by simp
  also have "\<dots> \<le> c" unfolding c_def using lt by (intro powi_le) simp
  finally have cx: "x \<le> c" by simp
  have ux: "c = of_int (2 ^ nat (ey - ex + 23)) * f32_ulp x"
  proof -
    have "(of_int (2 ^ nat (ey - ex + 23)) :: rat) = 2 powi (ey - ex + 23)"
      using lt by (simp add: power_int_def)
    then show ?thesis by (simp add: c_def f32_ulp_def ex_def flip: power_int_add)
  qed
  have uy: "c = of_int (2 ^ 23) * f32_ulp y"
  proof -
    have "f32_ulp y = 2 powi (ey - 23)" using lt by (simp add: f32_ulp_def ey_def)
    then show ?thesis by (simp add: c_def power_int_diff)
  qed
  have "f32_round x \<le> c" using f32_round_le_grid [OF assms(1)] cx ux by metis
  also have "c \<le> f32_round y" using f32_round_ge_grid [of y] assms cy uy by (metis less_le_trans)
  finally show ?thesis .
qed

lemma f32_round_mono:
  assumes "x \<le> y"
  shows "f32_round x \<le> f32_round y"
proof -
  consider "0 < x" | "x \<le> 0" "0 \<le> y" | "y < 0" by linarith
  then show ?thesis
  proof cases
    case 1
    then show ?thesis using assms by (rule f32_round_mono_pos)
  next
    case 2
    then have "f32_round (- x) \<ge> 0" "f32_round y \<ge> 0" by (simp_all add: f32_round_nonneg)
    then show ?thesis by (simp add: f32_round_minus)
  next
    case 3
    then have "f32_round (- y) \<le> f32_round (- x)" using assms by (intro f32_round_mono_pos) auto
    then show ?thesis by (simp add: f32_round_minus)
  qed
qed

lemma f32_round_dyadic_pos:
  assumes "0 < k" "k < 2 ^ 24" "n \<le> 126"
  shows "f32_round (of_int k / 2 ^ n) = of_int k / 2 ^ n"
proof -
  let ?x = "of_int k / 2 ^ n :: rat"
  have "0 < ?x" using assms by simp
  then have x: "\<bar>?x\<bar> = ?x" "?x \<noteq> 0" by linarith+
  define e where "e = f32_exp ?x"
  have k: "?x = of_int k * 2 powi (- int n)" by (simp add: power_int_minus field_simps)
  have "2 powi e \<le> ?x" using f32_exp_bounds(1) [OF x(2)] unfolding e_def x(1) .
  also have "?x < 2 powi 24 * 2 powi (- int n)"
    unfolding k using assms by (intro mult_strict_right_mono) (simp_all add: of_int_less_numeral_iff)
  also have "\<dots> = 2 powi (24 - int n)" by (simp add: power_int_diff power_int_minus field_simps)
  finally have e1: "e < 24 - int n" by (simp only: powi_less_iff)
  have "1 * 2 powi (- int n) \<le> ?x"
    unfolding k using assms by (intro mult_right_mono) simp_all
  also have "?x < 2 powi (e + 1)" using f32_exp_bounds(2) [OF x(2)] unfolding e_def x(1) .
  finally have "- int n < e + 1" by (simp only: powi_less_iff mult_1)
  then have e2: "-126 \<le> e" using assms by simp
  have u: "f32_ulp ?x = 2 powi (e - 23)" using e2 by (simp add: f32_ulp_def e_def)
  have "?x / 2 powi (e - 23) = of_int k * (2 powi (- int n) / 2 powi (e - 23))"
    by (subst k) simp
  then have "?x / f32_ulp ?x = of_int k * (2 powi (- int n) / 2 powi (e - 23))"
    unfolding u .
  also have "2 powi (- int n) / 2 powi (e - 23) = (2 :: rat) powi (23 - int n - e)"
    using power_int_diff [of "2 :: rat" "- int n" "e - 23"] by (simp add: algebra_simps)
  also have "(2 :: rat) powi (23 - int n - e) = of_int (2 ^ nat (23 - int n - e))"
    using e1 by (simp add: power_int_def)
  finally have g: "?x / f32_ulp ?x = of_int (k * 2 ^ nat (23 - int n - e))" by simp
  then have "of_int (rne (?x / f32_ulp ?x)) = ?x / f32_ulp ?x" by (simp only: rne_of_int)
  then show ?thesis using f32_ulp_pos [of ?x] by (simp add: f32_round_def)
qed

lemma f32_round_dyadic:
  assumes "\<bar>k\<bar> < 2 ^ 24" "n \<le> 126"
  shows "f32_round (of_int k / 2 ^ n) = of_int k / 2 ^ n"
proof -
  consider "k = 0" | "0 < k" | "k < 0" by linarith
  then show ?thesis
  proof cases
    case 3
    then have "f32_round (of_int (- k) / 2 ^ n) = of_int (- k) / 2 ^ n"
      using assms by (intro f32_round_dyadic_pos) auto
    then show ?thesis by (simp add: f32_round_minus)
  qed (use assms f32_round_dyadic_pos in \<open>auto simp: f32_round_def\<close>)
qed

interpretation f32: rounding f32_round
  by unfold_locales (simp_all add: f32_round_mono f32_round_dyadic)

text \<open>Evaluation of a rounding when the binary exponent is known.\<close>

lemma f32_round_eval:
  assumes "2 powi e \<le> x" "x < 2 powi (e + 1)" "-126 \<le> e"
  shows "f32_round x = of_int (rne (x * 2 powi (23 - e))) * 2 powi (e - 23)"
proof -
  have x: "0 < x" using assms(1) powi_pos [of e] by linarith
  have "2 powi e < (2 :: rat) powi (f32_exp x + 1)" "2 powi f32_exp x < (2 :: rat) powi (e + 1)"
    using f32_exp_bounds [of x] x assms by simp_all
  then have "f32_exp x = e" by (simp only: powi_less_iff)
  then have u: "f32_ulp x = 2 powi (e - 23)" using assms(3) by (simp add: f32_ulp_def)
  have "x / f32_ulp x = x * 2 powi (23 - e)"
    unfolding u using power_int_minus [of "2 :: rat" "e - 23"] by (simp add: field_simps)
  then show ?thesis using x by (simp add: f32_round_def u)
qed

end
