(* ===== verification/Control_Mapping.thy ===== *)
theory Control_Mapping
  imports F32
begin

text \<open>
  The stick and trigger curves of \<^verbatim>\<open>src/main/gamepad/control_mapping.cpp\<close>, in single precision, and
  the tuning constants of \<^verbatim>\<open>config.h\<close>.
\<close>

definition clamp_float :: "f32 \<Rightarrow> f32 \<Rightarrow> f32 \<Rightarrow> f32" where
  "clamp_float val minimum maximum =
     (if val < minimum then minimum else if val > maximum then maximum else val)"

text \<open>Literals: the decimal constant rounded to single precision.\<close>

definition STICK_DEADBAND :: f32 where "STICK_DEADBAND = f32_round (5 / 100)"

definition F32_0_99 :: f32 where "F32_0_99 = f32_round (99 / 100)"

definition THROTTLE_MAX_PERCENT :: int where "THROTTLE_MAX_PERCENT = 50"

definition ROLL_EXPO :: f32 where "ROLL_EXPO = 0"

definition PITCH_EXPO :: f32 where "PITCH_EXPO = 0"

definition YAW_EXPO :: f32 where "YAW_EXPO = 0"

definition map_trigger_throttle :: "int \<Rightarrow> u16" where
  "map_trigger_throttle raw_value =
     (if raw_value < 0 then 0 else if raw_value > 1023 then 1023 else word_of_int raw_value)"

definition map_half_stick_throttle :: "int \<Rightarrow> f32 \<Rightarrow> u16" where
  "map_half_stick_throttle raw_axis_y deadband0 =
     (let deadband = clamp_float deadband0 0 F32_0_99;
          normalized = clamp_float (f32_div (- f32_of_int raw_axis_y) 511) (-1) 1
      in if normalized \<le> deadband then 0
         else
           let normalized2 = f32_div (f32_sub normalized deadband) (f32_sub 1 deadband)
           in f32_to_u16 (f32_mul (clamp_float normalized2 0 1) 1023))"

text \<open>The throttle branch of \<^verbatim>\<open>map_bayang_channel\<close>; the percentage is an \<^verbatim>\<open>int\<close>, converted to float.\<close>

definition map_throttle_channel :: "int \<Rightarrow> bool \<Rightarrow> u16" where
  "map_throttle_channel raw_value reversed =
     (let n0 = clamp_float (f32_div (f32_of_int raw_value) 1023) 0 1;
          n1 = (if reversed then f32_sub 1 n0 else n0)
      in f32_to_u16 (f32_div (f32_mul (f32_mul n1 1023) (f32_of_int THROTTLE_MAX_PERCENT)) 100))"

definition apply_deadband :: "f32 \<Rightarrow> f32 \<Rightarrow> f32" where
  "apply_deadband deadband n =
     (if \<bar>n\<bar> < deadband then 0
      else
        let sign = (if n > 0 then 1 else -1)
        in f32_mul sign (f32_div (f32_sub \<bar>n\<bar> deadband) (f32_sub 1 deadband)))"

definition apply_expo :: "f32 \<Rightarrow> f32 \<Rightarrow> f32" where
  "apply_expo expo n =
     f32_add (f32_mul (f32_mul (f32_mul expo n) n) n) (f32_mul (f32_sub 1 expo) n)"

definition map_bayang_channel :: "int \<Rightarrow> bool \<Rightarrow> bool \<Rightarrow> f32 \<Rightarrow> f32 \<Rightarrow> u16" where
  "map_bayang_channel raw_value is_throttle reversed deadband0 expo0 =
     (if is_throttle then map_throttle_channel raw_value reversed
      else
        let deadband = clamp_float deadband0 0 F32_0_99;
            expo = clamp_float expo0 0 1;
            n0 = clamp_float (f32_div (f32_of_int raw_value) 512) (-1) 1;
            n1 = (if reversed then - n0 else n0);
            n2 = apply_deadband deadband n1;
            n3 = apply_expo expo n2
        in f32_to_u16 (f32_add (f32_mul (f32_add (clamp_float n3 (-1) 1) 1) (1023 / 2)) (1 / 2)))"

lemmas mapping_defs = clamp_float_def map_trigger_throttle_def map_half_stick_throttle_def
  map_throttle_channel_def apply_deadband_def apply_expo_def map_bayang_channel_def

subsection \<open>Clamping and the positive denominators\<close>

lemma clamp_float_range: "lo \<le> hi \<Longrightarrow> lo \<le> clamp_float x lo hi \<and> clamp_float x lo hi \<le> hi"
  by (auto simp: clamp_float_def)

lemma clamp_float_mono: "lo \<le> hi \<Longrightarrow> x \<le> y \<Longrightarrow> clamp_float x lo hi \<le> clamp_float y lo hi"
  by (auto simp: clamp_float_def)

lemma F32_0_99_bounds: "0 \<le> F32_0_99" "F32_0_99 \<le> 1"
  unfolding F32_0_99_def by (rule f32.fl_nonneg, simp) (rule f32.fl_le_1, simp)

lemma deadband_range: "0 \<le> clamp_float d 0 F32_0_99" "clamp_float d 0 F32_0_99 \<le> F32_0_99"
  using clamp_float_range [OF F32_0_99_bounds(1), of d] by auto

lemma one_minus_0_99: "0 < f32_round (1 - F32_0_99)"
proof -
  have "F32_0_99 \<le> of_int 255 / 2 ^ 8"
    unfolding F32_0_99_def by (rule f32.fl_le_dyadic) simp_all
  then have "of_int 1 / 2 ^ 8 \<le> f32_round (1 - F32_0_99)"
    by (intro f32.fl_ge_dyadic) simp_all
  then show ?thesis by simp
qed

lemma one_minus_deadband: "0 < f32_sub 1 (clamp_float d 0 F32_0_99)"
proof -
  have "f32_round (1 - F32_0_99) \<le> f32_round (1 - clamp_float d 0 F32_0_99)"
    using deadband_range(2) [of d] by (intro f32.fl_mono) simp
  with one_minus_0_99 show ?thesis unfolding f32_sub_def by linarith
qed

lemma f32_div_mono: "x \<le> y \<Longrightarrow> 0 < c \<Longrightarrow> f32_div x c \<le> f32_div y c"
  unfolding f32_div_def by (intro f32.fl_mono divide_right_mono) auto

lemma f32_mul_mono: "x \<le> y \<Longrightarrow> 0 \<le> c \<Longrightarrow> f32_mul x c \<le> f32_mul y c"
  unfolding f32_mul_def by (intro f32.fl_mono mult_right_mono) auto

lemma f32_mul_left_mono: "x \<le> y \<Longrightarrow> 0 \<le> c \<Longrightarrow> f32_mul c x \<le> f32_mul c y"
  unfolding f32_mul_def by (intro f32.fl_mono mult_left_mono) auto

lemma f32_add_mono: "x \<le> y \<Longrightarrow> u \<le> v \<Longrightarrow> f32_add x u \<le> f32_add y v"
  unfolding f32_add_def by (intro f32.fl_mono add_mono)

lemma f32_sub_mono: "x \<le> y \<Longrightarrow> f32_sub x c \<le> f32_sub y c"
  unfolding f32_sub_def by (intro f32.fl_mono) simp

lemma f32_of_int_mono: "i \<le> j \<Longrightarrow> f32_of_int i \<le> f32_of_int j"
  unfolding f32_of_int_def by (intro f32.fl_mono) simp

text \<open>Truncation to an unsigned value, for arguments between 0 and an integer bound.\<close>

lemma unat_f32_to_u16:
  assumes "0 \<le> x" "x < 65536"
  shows "unat (f32_to_u16 x) = nat \<lfloor>x\<rfloor>"
proof -
  have "0 \<le> \<lfloor>x\<rfloor>" "\<lfloor>x\<rfloor> < 65536" using assms by (simp_all add: floor_less_iff)
  then show ?thesis using assms
    by (simp add: f32_to_u16_def uint_word_of_int unat_eq_nat_uint)
qed


subsection \<open>The stick curve\<close>

lemma apply_deadband_sign:
  assumes "0 \<le> d" "0 < f32_sub 1 d"
  shows "0 \<le> n \<Longrightarrow> 0 \<le> apply_deadband d n" "n \<le> 0 \<Longrightarrow> apply_deadband d n \<le> 0"
proof -
  have q: "0 \<le> f32_div (f32_sub \<bar>n\<bar> d) (f32_sub 1 d)" if "\<not> \<bar>n\<bar> < d"
  proof -
    have "0 \<le> f32_sub \<bar>n\<bar> d" unfolding f32_sub_def using that by (intro f32.fl_nonneg) simp
    then show ?thesis using assms unfolding f32_div_def by (intro f32.fl_nonneg) simp
  qed
  show "0 \<le> apply_deadband d n" if "0 \<le> n"
  proof (cases "\<bar>n\<bar> < d \<or> n = 0")
    case True
    then show ?thesis using assms that q
      by (auto simp: apply_deadband_def f32_mul_def f32_div_def f32_sub_def f32.fl_0)
  next
    case False
    then show ?thesis using that q
      by (auto simp: apply_deadband_def f32_mul_def Let_def intro!: f32.fl_nonneg)
  qed
  show "apply_deadband d n \<le> 0" if "n \<le> 0"
    using that q by (auto simp: apply_deadband_def f32_mul_def Let_def intro!: f32.fl_nonpos)
qed

lemma apply_deadband_mono:
  assumes d: "0 \<le> d" "0 < f32_sub 1 d" and "a \<le> b"
  shows "apply_deadband d a \<le> apply_deadband d b"
proof -
  let ?q = "\<lambda>n. f32_div (f32_sub \<bar>n\<bar> d) (f32_sub 1 d)"
  consider "0 < a" | "a \<le> 0" "0 \<le> b" | "b < 0" by linarith
  then show ?thesis
  proof cases
    case 1
    have "?q a \<le> ?q b" using 1 assms by (intro f32_div_mono f32_sub_mono) auto
    then have "f32_mul 1 (?q a) \<le> f32_mul 1 (?q b)" by (intro f32_mul_left_mono) auto
    moreover have "0 \<le> apply_deadband d b" using 1 assms by (intro apply_deadband_sign) auto
    ultimately show ?thesis using 1 assms by (auto simp: apply_deadband_def Let_def)
  next
    case 2
    then show ?thesis using apply_deadband_sign [OF d, of a] apply_deadband_sign [OF d, of b] by linarith
  next
    case 3
    have "?q b \<le> ?q a" using 3 assms by (intro f32_div_mono f32_sub_mono) auto
    then have "f32_mul (-1) (?q a) \<le> f32_mul (-1) (?q b)"
      unfolding f32_mul_def by (intro f32.fl_mono) simp
    moreover have "apply_deadband d a \<le> 0" using 3 assms by (intro apply_deadband_sign) auto
    ultimately show ?thesis using 3 assms by (auto simp: apply_deadband_def Let_def)
  qed
qed

lemma apply_expo_mono:
  assumes "0 \<le> e" "e \<le> 1" "a \<le> b"
  shows "apply_expo e a \<le> apply_expo e b"
proof -
  have "0 \<le> f32_sub 1 e" using assms unfolding f32_sub_def by (intro f32.fl_nonneg) simp
  then have "f32_mul (f32_sub 1 e) a \<le> f32_mul (f32_sub 1 e) b"
    using assms by (intro f32_mul_left_mono)
  moreover have "f32_mul (f32_mul (f32_mul e a) a) a \<le> f32_mul (f32_mul (f32_mul e b) b) b"
    unfolding f32_mul_def by (rule f32.cube_mono [OF assms(1,3)])
  ultimately show ?thesis unfolding apply_expo_def by (intro f32_add_mono)
qed

text \<open>The last step of the stick curve: from \<open>[-1, 1]\<close> to \<open>0 .. 1023\<close>.\<close>

definition channel_scale :: "f32 \<Rightarrow> f32" where
  "channel_scale n = f32_add (f32_mul (f32_add (clamp_float n (-1) 1) 1) (1023 / 2)) (1 / 2)"

lemma channel_scale_mono: "a \<le> b \<Longrightarrow> channel_scale a \<le> channel_scale b"
  unfolding channel_scale_def by (intro f32_add_mono f32_mul_mono clamp_float_mono) auto

lemma f32_halves [simp]:
  "f32_round (1 / 2) = 1 / 2" "f32_round (1023 / 2) = 1023 / 2" "f32_round (2047 / 2) = 2047 / 2"
  "f32_round (1025 / 2) = 1025 / 2"
  using f32.fl_half [of 1] f32.fl_half [of 1023] f32.fl_half [of 2047] f32.fl_half [of 1025] by simp_all

lemma f32_round_numeral [simp]: "(numeral n :: int) < 2 ^ 24 \<Longrightarrow> f32_round (numeral n) = numeral n"
  by (rule f32.fl_numeral)

lemma f32_round_01 [simp]: "f32_round 0 = 0" "f32_round 1 = 1" "f32_round (- 1) = - 1"
  by (rule f32.fl_0 f32.fl_1 f32.fl_neg_1)+

lemma channel_scale_ends:
  "channel_scale (-1) = 1 / 2" "channel_scale 1 = 2047 / 2" "channel_scale 0 = 512"
  by (simp_all add: channel_scale_def clamp_float_def f32_add_def f32_mul_def)

lemma channel_scale_clamps: "channel_scale n = channel_scale (clamp_float n (-1) 1)"
  by (simp add: channel_scale_def clamp_float_def)

lemma channel_scale_range: "1 / 2 \<le> channel_scale n" "channel_scale n \<le> 2047 / 2"
proof -
  have "-1 \<le> clamp_float n (-1) 1" "clamp_float n (-1) 1 \<le> 1"
    using clamp_float_range [of "-1" 1 n] by auto
  then have "channel_scale (-1) \<le> channel_scale (clamp_float n (-1) 1)"
    "channel_scale (clamp_float n (-1) 1) \<le> channel_scale 1"
    by (auto intro: channel_scale_mono)
  then show "1 / 2 \<le> channel_scale n" "channel_scale n \<le> 2047 / 2"
    by (simp_all add: channel_scale_ends flip: channel_scale_clamps)
qed

lemma unat_channel_scale: "unat (f32_to_u16 (channel_scale n)) = nat \<lfloor>channel_scale n\<rfloor>"
  using channel_scale_range [of n] by (intro unat_f32_to_u16) auto

lemma stick_channel:
  "map_bayang_channel raw False rvd d e =
    (let n0 = clamp_float (f32_div (f32_of_int raw) 512) (-1) 1
     in f32_to_u16 (channel_scale (apply_expo (clamp_float e 0 1)
          (apply_deadband (clamp_float d 0 F32_0_99) (if rvd then - n0 else n0)))))"
  by (simp add: map_bayang_channel_def channel_scale_def Let_def)

lemma stick_channel_range: "unat (map_bayang_channel raw False rvd d e) \<le> 1023"
proof -
  have "unat (f32_to_u16 (channel_scale n)) \<le> 1023" for n
    unfolding unat_channel_scale using channel_scale_range(2) [of n] by (simp add: nat_le_iff floor_le_iff)
  then show ?thesis by (simp add: stick_channel Let_def)
qed

lemma stick_curve_mono:
  assumes "m \<le> n"
  shows "unat (f32_to_u16 (channel_scale (apply_expo (clamp_float e 0 1)
           (apply_deadband (clamp_float d 0 F32_0_99) m))))
       \<le> unat (f32_to_u16 (channel_scale (apply_expo (clamp_float e 0 1)
           (apply_deadband (clamp_float d 0 F32_0_99) n))))"
    (is "unat (f32_to_u16 ?a) \<le> unat (f32_to_u16 ?b)")
proof -
  have "?a \<le> ?b"
    using clamp_float_range [of 0 1 e] assms
    by (intro channel_scale_mono apply_expo_mono apply_deadband_mono deadband_range one_minus_deadband) auto
  then have "nat \<lfloor>?a\<rfloor> \<le> nat \<lfloor>?b\<rfloor>" by (intro nat_mono floor_mono)
  then show ?thesis by (simp only: unat_channel_scale)
qed

lemma normalized_mono: "i \<le> j \<Longrightarrow>
  clamp_float (f32_div (f32_of_int i) 512) (-1) 1 \<le> clamp_float (f32_div (f32_of_int j) 512) (-1) 1"
  by (intro clamp_float_mono f32_div_mono f32_of_int_mono) auto

subsection \<open>The throttle curves\<close>

lemma throttle_channel_cap: "unat (map_throttle_channel raw rvd) \<le> 511"
proof -
  define n where "n = (let n0 = clamp_float (f32_div (f32_of_int raw) 1023) 0 1
    in if rvd then f32_sub 1 n0 else n0)"
  define x where "x = f32_div (f32_mul (f32_mul n 1023) (f32_of_int THROTTLE_MAX_PERCENT)) 100"
  have c: "0 \<le> clamp_float y 0 1" "clamp_float y 0 1 \<le> 1" for y
    using clamp_float_range [of 0 1 y] by auto
  have n: "0 \<le> n" "n \<le> 1"
    unfolding n_def Let_def f32_sub_def using c by (auto intro!: f32.fl_nonneg f32.fl_le_1)
  have "f32_mul n 1023 \<le> f32_mul 1 1023" using n by (intro f32_mul_mono) auto
  then have "f32_mul (f32_mul n 1023) 50 \<le> f32_mul 1023 50" by (intro f32_mul_mono) (auto simp: f32_mul_def)
  then have "x \<le> f32_div 51150 100"
    unfolding x_def f32_of_int_def THROTTLE_MAX_PERCENT_def by (intro f32_div_mono) (auto simp: f32_mul_def)
  then have hi: "x \<le> 1023 / 2" by (simp add: f32_div_def)
  have lo: "0 \<le> x"
    unfolding x_def f32_ops THROTTLE_MAX_PERCENT_def using n by (auto intro!: f32.fl_nonneg mult_nonneg_nonneg)
  have "unat (f32_to_u16 x) \<le> 511"
    using lo hi by (subst unat_f32_to_u16) (auto simp: nat_le_iff floor_le_iff)
  then show ?thesis by (simp add: map_throttle_channel_def x_def n_def Let_def)
qed

text \<open>The half-stick throttle as a function of the normalised stick.\<close>

definition half_throttle :: "f32 \<Rightarrow> f32 \<Rightarrow> f32" where
  "half_throttle d n = f32_mul (clamp_float (f32_div (f32_sub n d) (f32_sub 1 d)) 0 1) 1023"

lemma half_throttle_range: "0 \<le> half_throttle d n" "half_throttle d n \<le> 1023"
proof -
  let ?c = "clamp_float (f32_div (f32_sub n d) (f32_sub 1 d)) 0 1"
  have c: "0 \<le> ?c" "?c \<le> 1" using clamp_float_range [of 0 1] by auto
  then show "0 \<le> half_throttle d n" unfolding half_throttle_def f32_mul_def by (intro f32.fl_nonneg) simp
  have "half_throttle d n \<le> f32_mul 1 1023" unfolding half_throttle_def using c by (intro f32_mul_mono) auto
  then show "half_throttle d n \<le> 1023" by (simp add: f32_mul_def)
qed

lemma unat_half_throttle: "unat (f32_to_u16 (half_throttle d n)) = nat \<lfloor>half_throttle d n\<rfloor>"
  using half_throttle_range [of d n] by (intro unat_f32_to_u16) auto

lemma half_stick_eq:
  "map_half_stick_throttle raw d0 =
    (let d = clamp_float d0 0 F32_0_99; n = clamp_float (f32_div (- f32_of_int raw) 511) (-1) 1
     in if n \<le> d then 0 else f32_to_u16 (half_throttle d n))"
  by (simp add: map_half_stick_throttle_def half_throttle_def Let_def)

lemma half_stick_antimono:
  assumes "i \<le> j"
  shows "unat (map_half_stick_throttle j d0) \<le> unat (map_half_stick_throttle i d0)"
proof -
  define d where "d = clamp_float d0 0 F32_0_99"
  define n where "n k = clamp_float (f32_div (- f32_of_int k) 511) (-1) 1" for k
  have n: "n j \<le> n i"
    unfolding n_def using f32_of_int_mono [OF assms] by (intro clamp_float_mono f32_div_mono) auto
  have eq: "map_half_stick_throttle k d0 = (if n k \<le> d then 0 else f32_to_u16 (half_throttle d (n k)))" for k
    by (simp add: half_stick_eq n_def d_def Let_def)
  show ?thesis
  proof (cases "n j \<le> d")
    case False
    with n have i: "\<not> n i \<le> d" by linarith
    have "half_throttle d (n j) \<le> half_throttle d (n i)"
      unfolding half_throttle_def using n one_minus_deadband [of d0]
      by (intro f32_mul_mono clamp_float_mono f32_div_mono f32_sub_mono) (auto simp: d_def)
    then have "nat \<lfloor>half_throttle d (n j)\<rfloor> \<le> nat \<lfloor>half_throttle d (n i)\<rfloor>"
      by (intro nat_mono floor_mono)
    then show ?thesis using False i by (simp add: eq unat_half_throttle)
  qed (simp add: eq)
qed

lemma half_stick_range: "unat (map_half_stick_throttle raw d0) \<le> 1023"
proof -
  have "unat (f32_to_u16 (half_throttle d n)) \<le> 1023" for d n
    unfolding unat_half_throttle using half_throttle_range(2) [of d n] by (simp add: nat_le_iff floor_le_iff)
  then show ?thesis by (simp add: half_stick_eq Let_def)
qed

subsection \<open>The deadband at its configured value\<close>

lemma stick_deadband_bounds: "of_int 51 / 2 ^ 10 \<le> STICK_DEADBAND" "STICK_DEADBAND \<le> of_int 1 / 2 ^ 4"
  unfolding STICK_DEADBAND_def by (rule f32.fl_ge_dyadic, simp_all) (rule f32.fl_le_dyadic [of _ 1 4, simplified], simp)

lemma stick_deadband_clamp: "clamp_float STICK_DEADBAND 0 F32_0_99 = STICK_DEADBAND"
proof -
  have "of_int 1 / 2 ^ 1 \<le> F32_0_99" unfolding F32_0_99_def by (rule f32.fl_ge_dyadic) simp_all
  then show ?thesis using stick_deadband_bounds by (simp add: clamp_float_def)
qed


lemma normalized_exact:
  assumes "\<bar>raw\<bar> \<le> 512"
  shows "clamp_float (f32_div (f32_of_int raw) 512) (-1) 1 = of_int raw / 512"
proof -
  have 1: "f32_of_int raw = of_int raw" unfolding f32_of_int_def using assms by (intro f32.fl_int) simp
  have 2: "f32_round (of_int raw / 512) = of_int raw / 512"
    using f32.fl_dyadic [of raw 9] assms by simp
  have "-512 \<le> raw" "raw \<le> 512" using assms by auto
  then have "(-512 :: rat) \<le> of_int raw" "of_int raw \<le> (512 :: rat)"
    using of_int_le_iff [of "-512" raw, where 'a = rat] by simp_all
  then show ?thesis by (simp add: clamp_float_def f32_div_def 1 2)
qed

lemma apply_expo_0: "apply_expo (clamp_float e 0 1) 0 = 0"
  by (simp add: apply_expo_def f32_mul_def f32_add_def)

lemma deadband_centre:
  assumes "\<bar>raw\<bar> \<le> 25"
  shows "apply_deadband STICK_DEADBAND (of_int raw / 512) = 0"
proof -
  have "\<bar>of_int raw :: rat\<bar> \<le> 25" using assms by (metis of_int_abs of_int_le_iff of_int_numeral)
  then have "\<bar>of_int raw / 512 :: rat\<bar> \<le> 25 / 512" by (simp add: abs_divide)
  also have "\<dots> < of_int 51 / 2 ^ 10" by simp
  also have "\<dots> \<le> STICK_DEADBAND" by (rule stick_deadband_bounds)
  finally show ?thesis by (simp add: apply_deadband_def)
qed

lemma half_stick_idle:
  assumes "-25 \<le> raw"
  shows "map_half_stick_throttle raw STICK_DEADBAND = 0"
proof -
  have "f32_of_int (-25) = - 25"
    using f32.fl_int [of "-25"] unfolding f32_of_int_def by simp
  then have "- 25 \<le> f32_of_int raw" using f32_of_int_mono [OF assms] by simp
  then have "f32_div (- f32_of_int raw) 511 \<le> f32_div 25 511" by (intro f32_div_mono) auto
  also have "f32_div 25 511 \<le> of_int 51 / 2 ^ 10"
    unfolding f32_div_def by (rule f32.fl_le_dyadic) simp_all
  also have "\<dots> \<le> STICK_DEADBAND" by (rule stick_deadband_bounds)
  finally have "clamp_float (f32_div (- f32_of_int raw) 511) (-1) 1 \<le> STICK_DEADBAND"
    using stick_deadband_bounds by (simp add: clamp_float_def)
  then show ?thesis by (simp add: half_stick_eq stick_deadband_clamp Let_def)
qed

subsection \<open>Properties\<close>

text \<open>
  C29: every transmitted channel is in range and the throttle is capped.  For every raw 32-bit input
  and every deadband and expo setting a stick channel is at most 1023, and a throttle channel never
  exceeds 511, the configured 50 percent, in either direction.
\<close>

theorem channel_ranges:
  "unat (map_bayang_channel raw False reversed deadband expo) \<le> 1023 \<and>
   unat (map_bayang_channel raw True reversed deadband expo) \<le> 511 \<and>
   unat (map_half_stick_throttle raw deadband) \<le> 1023 \<and>
   unat (map_trigger_throttle raw) \<le> 1023"
proof -
  have "unat (word_of_int raw :: u16) \<le> 1023" if "0 \<le> raw" "raw \<le> 1023"
  proof -
    have "uint (word_of_int raw :: u16) = raw" using that by (simp add: uint_word_of_int)
    with that show ?thesis by (simp add: unat_eq_nat_uint)
  qed
  then have "unat (map_trigger_throttle raw) \<le> 1023"
    by (simp add: map_trigger_throttle_def)
  then show ?thesis
    using stick_channel_range throttle_channel_cap half_stick_range
    by (simp add: map_bayang_channel_def [of _ True])
qed

text \<open>the stick curve is monotone.  For any deadband and expo, pushing a stick further never moves
  its channel backwards (and a reversed channel never forwards), although every step of the curve is
  rounded to single precision; likewise pushing the throttle stick up never lowers the throttle.
\<close>

theorem stick_curve_monotone:
  assumes "raw \<le> raw'"
  shows "unat (map_bayang_channel raw False False deadband expo)
      \<le> unat (map_bayang_channel raw' False False deadband expo) \<and>
    unat (map_bayang_channel raw' False True deadband expo)
      \<le> unat (map_bayang_channel raw False True deadband expo) \<and>
    unat (map_half_stick_throttle raw' deadband) \<le> unat (map_half_stick_throttle raw deadband)"
  using normalized_mono [OF assms] half_stick_antimono [OF assms, of deadband]
  by (auto simp: stick_channel Let_def intro!: stick_curve_mono)

theorem stick_curve_monotone_witness:
  "unat (map_bayang_channel (-3) False False STICK_DEADBAND 0)
     \<le> unat (map_bayang_channel 400 False False STICK_DEADBAND 0)"
  using stick_curve_monotone [of "-3" 400 STICK_DEADBAND 0] by simp

text \<open>a released stick is exactly centred and gives no throttle.  With the configured deadband, raw
  values within 25 of the centre map to channel value 512 for every expo and direction, and to
  throttle 0 on the throttle stick.
\<close>

theorem released_stick_is_centred:
  assumes "\<bar>raw\<bar> \<le> 25"
  shows "map_bayang_channel raw False reversed STICK_DEADBAND expo = 512 \<and>
    map_half_stick_throttle raw STICK_DEADBAND = 0"
proof -
  have idle: "map_half_stick_throttle raw STICK_DEADBAND = 0" using assms by (intro half_stick_idle) simp
  have n: "clamp_float (f32_div (f32_of_int raw) 512) (-1) 1 = of_int raw / 512"
    using assms by (intro normalized_exact) simp
  have z: "apply_deadband STICK_DEADBAND (of_int raw / 512) = 0"
    "apply_deadband STICK_DEADBAND (- (of_int raw / 512)) = 0"
    using deadband_centre [of raw] deadband_centre [of "- raw"] assms by simp_all
  have "map_bayang_channel raw False reversed STICK_DEADBAND expo = 512"
    by (cases reversed; simp only: stick_channel Let_def n stick_deadband_clamp if_True if_False z apply_expo_0
        channel_scale_ends) (simp_all add: f32_to_u16_def)
  with idle show ?thesis by simp
qed

theorem released_stick_is_centred_witness:
  "map_bayang_channel (-25) False True STICK_DEADBAND 0 = 512 \<and>
    map_half_stick_throttle (-25) STICK_DEADBAND = 0"
  by (rule released_stick_is_centred) simp

end
