(* ===== verification/Telemetry.thy ===== *)
theory Telemetry
  imports Bayang F32
begin

text \<open>
  Telemetry received from the flight controller: \<^verbatim>\<open>src/main/telemetry/telemetry.cpp\<close> and
  \<^verbatim>\<open>telemetry.h\<close>.  The statics of the file are the record \<^verbatim>\<open>telemetry\<close>; the data it keeps is
  the struct \<^verbatim>\<open>TelemetryData\<close>, field by field.  Packets are the 15 received bytes; a null pointer is
  \<^verbatim>\<open>None\<close>.  Floats are single precision values (theory F32).
\<close>

datatype TelemetryProtocol = Original | ExtendedV1

datatype FlightMode = Unknown | Acro | Level | Race | Horizon | RaceHorizon

definition TELEMETRY_EXTENDED_PAGE_CONTROL :: u16 where "TELEMETRY_EXTENDED_PAGE_CONTROL = 1"

definition TELEMETRY_EXTENDED_PAGE_FLIGHT :: u16 where "TELEMETRY_EXTENDED_PAGE_FLIGHT = 2"

definition TELEMETRY_EXTENDED_PAGE_POWER :: u16 where "TELEMETRY_EXTENDED_PAGE_POWER = 4"

definition TELEMETRY_EXTENDED_PAGE_SYSTEM :: u16 where "TELEMETRY_EXTENDED_PAGE_SYSTEM = 8"

definition TELEMETRY_SYSTEM_SUBPAGE_HEALTH :: u8 where "TELEMETRY_SYSTEM_SUBPAGE_HEALTH = 1"

definition TELEMETRY_SYSTEM_SUBPAGE_COUNTERS :: u8 where "TELEMETRY_SYSTEM_SUBPAGE_COUNTERS = 2"

definition TELEMETRY_TIMEOUT_MS :: int where "TELEMETRY_TIMEOUT_MS = 500"

record TelemetryData =
  batteryRawV :: f32
  batteryCompensatedV :: f32
  lowVoltage :: bool
  receiverPacketsPerSecond :: u16
  pidP :: u16
  pidI :: u16
  pidD :: u16
  protocol :: TelemetryProtocol
  flightMode :: FlightMode
  extendedPagesSeen :: u16
  systemSubpagesSeen :: u8
  sequence :: u8
  telemetryPacketsLost :: u32
  rollDeg :: f32
  pitchDeg :: f32
  relativeYawDeg :: f32
  accelXG :: f32
  accelYG :: f32
  accelZG :: f32
  gyroRollDps :: f32
  gyroPitchDps :: f32
  gyroYawDps :: f32
  setpointRollDps :: f32
  setpointPitchDps :: f32
  setpointYawDps :: f32
  armed :: bool
  onGround :: bool
  failsafe :: bool
  idleUp :: bool
  pidProfile :: bool
  commandedThrottlePercent :: f32
  appliedThrottlePercent :: f32
  motorOutputPercent :: "f32 list"
  flightTimeSeconds :: u16
  lastFlightPageUs :: time_us
  packetsLostPerSecond :: u8
  linkQualityPercent :: u8
  maximumRxGapMs :: f32
  currentRxGapMs :: f32
  failsafeCount :: u8
  loopTimeAverageUs :: u16
  loopTimeMaximumUs :: u16
  loopOverrunCount :: u16
  imuTemperatureRaw :: u16
  imuType :: u8
  cpuLoadPercent :: u8
  telemetryTxCount :: u32
  receiverPacketTotal :: u32
  estimatedLostPacketTotal :: u32
  lastValidUs :: time_us

text \<open>The value-initialised struct \<^verbatim>\<open>TelemetryData{}\<close>.\<close>

definition telemetry_data_zero :: TelemetryData where
  "telemetry_data_zero =
     \<lparr> batteryRawV = 0, batteryCompensatedV = 0, lowVoltage = False, receiverPacketsPerSecond = 0,
       pidP = 0, pidI = 0, pidD = 0, protocol = Original, flightMode = Unknown,
       extendedPagesSeen = 0, systemSubpagesSeen = 0, sequence = 0, telemetryPacketsLost = 0,
       rollDeg = 0, pitchDeg = 0, relativeYawDeg = 0, accelXG = 0, accelYG = 0, accelZG = 0,
       gyroRollDps = 0, gyroPitchDps = 0, gyroYawDps = 0, setpointRollDps = 0,
       setpointPitchDps = 0, setpointYawDps = 0, armed = False, onGround = False,
       failsafe = False, idleUp = False, pidProfile = False, commandedThrottlePercent = 0,
       appliedThrottlePercent = 0, motorOutputPercent = [0, 0, 0, 0], flightTimeSeconds = 0,
       lastFlightPageUs = 0, packetsLostPerSecond = 0, linkQualityPercent = 0,
       maximumRxGapMs = 0, currentRxGapMs = 0, failsafeCount = 0, loopTimeAverageUs = 0,
       loopTimeMaximumUs = 0, loopOverrunCount = 0, imuTemperatureRaw = 0, imuType = 0,
       cpuLoadPercent = 0, telemetryTxCount = 0, receiverPacketTotal = 0,
       estimatedLostPacketTotal = 0, lastValidUs = 0 \<rparr>"

record telemetry =
  current_telemetry :: TelemetryData
  has_telemetry :: bool
  has_sequence :: bool
  last_sequence :: u8

text \<open>The statics before \<^verbatim>\<open>telemetry_init\<close>.\<close>

definition telemetry_boot :: telemetry where
  "telemetry_boot = \<lparr> current_telemetry = telemetry_data_zero, has_telemetry = False,
     has_sequence = False, last_sequence = 0 \<rparr>"

text \<open>
  The bit reader.  The page starts at byte 2 of the packet and is read most significant bit first;
  the offset never exceeds the 96 bits of a page, so it is a natural number here.
\<close>

definition read_bit_step :: "bytes \<Rightarrow> u32 \<times> nat \<Rightarrow> u32 \<times> nat" where
  "read_bit_step packet = (\<lambda>(val, bit_offset).
     let byte_index = 2 + bit_offset div 8;
         byte_bit = 7 - bit_offset mod 8
     in (push_bit 1 val OR (to_u32 (drop_bit byte_bit (packet ! byte_index)) AND 1),
         bit_offset + 1))"

definition read_bits :: "bytes \<Rightarrow> nat \<Rightarrow> nat \<Rightarrow> u32 \<times> nat" where
  "read_bits packet bit_offset bit_count = (read_bit_step packet ^^ bit_count) (0, bit_offset)"

definition read_signed_bits :: "bytes \<Rightarrow> nat \<Rightarrow> nat \<Rightarrow> int \<times> nat" where
  "read_signed_bits packet bit_offset bit_count =
     (let (v, off) = read_bits packet bit_offset bit_count;
          sign_bit = push_bit (bit_count - 1) 1;
          v2 = (if nonzero (v AND sign_bit) then v OR NOT (push_bit bit_count 1 - 1) else v)
      in (sint v2, off))"

definition unit_value_to_percent :: "u32 \<Rightarrow> nat \<Rightarrow> f32" where
  "unit_value_to_percent val bits =
     f32_div (f32_mul (f32_of_int (uint val)) 100) (f32_of_int (uint (push_bit bits 1 - 1 :: u32)))"

definition decode_flight_mode :: "u8 \<Rightarrow> FlightMode" where
  "decode_flight_mode flags =
     (let level = bit flags 3; race = bit flags 4; horizon = bit flags 5
      in if \<not> level then Acro
         else if race \<and> horizon then RaceHorizon
         else if horizon then Horizon
         else if race then Race
         else Level)"

definition clear_extended_data :: "telemetry \<Rightarrow> telemetry" where
  "clear_extended_data t =
     t\<lparr> current_telemetry := (current_telemetry t)
       \<lparr> batteryRawV := 0, batteryCompensatedV := 0, lowVoltage := False,
         receiverPacketsPerSecond := 0, flightMode := Unknown,
         extendedPagesSeen := 0, systemSubpagesSeen := 0, sequence := 0, telemetryPacketsLost := 0,
         rollDeg := 0, pitchDeg := 0, relativeYawDeg := 0, accelXG := 0, accelYG := 0, accelZG := 0,
         gyroRollDps := 0, gyroPitchDps := 0, gyroYawDps := 0, setpointRollDps := 0,
         setpointPitchDps := 0, setpointYawDps := 0, armed := False, onGround := False,
         failsafe := False, idleUp := False, pidProfile := False, commandedThrottlePercent := 0,
         appliedThrottlePercent := 0, motorOutputPercent := [0, 0, 0, 0], flightTimeSeconds := 0,
         lastFlightPageUs := 0, packetsLostPerSecond := 0, linkQualityPercent := 0,
         maximumRxGapMs := 0, currentRxGapMs := 0, failsafeCount := 0, loopTimeAverageUs := 0,
         loopTimeMaximumUs := 0, loopOverrunCount := 0, imuTemperatureRaw := 0, imuType := 0,
         cpuLoadPercent := 0, telemetryTxCount := 0, receiverPacketTotal := 0,
         estimatedLostPacketTotal := 0 \<rparr>,
       has_sequence := False \<rparr>"

text \<open>The four pages; each reader works on the data struct.\<close>

definition parse_control :: "bytes \<Rightarrow> TelemetryData \<Rightarrow> TelemetryData" where
  "parse_control packet d =
     (let (g1, o1) = read_signed_bits packet 0 10; (g2, o2) = read_signed_bits packet o1 10;
          (g3, o3) = read_signed_bits packet o2 10; (s1, o4) = read_signed_bits packet o3 10;
          (s2, o5) = read_signed_bits packet o4 10; (s3, o6) = read_signed_bits packet o5 10;
          (ct, o7) = read_bits packet o6 6; (appt, o8) = read_bits packet o7 6;
          (m1, o9) = read_bits packet o8 6; (m2, o10) = read_bits packet o9 6;
          (m3, o11) = read_bits packet o10 6; (m4, o12) = read_bits packet o11 6
      in d\<lparr> gyroRollDps := f32_mul (f32_of_int g1) 4, gyroPitchDps := f32_mul (f32_of_int g2) 4,
            gyroYawDps := f32_mul (f32_of_int g3) 4, setpointRollDps := f32_mul (f32_of_int s1) 4,
            setpointPitchDps := f32_mul (f32_of_int s2) 4,
            setpointYawDps := f32_mul (f32_of_int s3) 4,
            commandedThrottlePercent := unit_value_to_percent ct 6,
            appliedThrottlePercent := unit_value_to_percent appt 6,
            motorOutputPercent := [unit_value_to_percent m1 6, unit_value_to_percent m2 6,
                                   unit_value_to_percent m3 6, unit_value_to_percent m4 6],
            extendedPagesSeen := extendedPagesSeen d OR TELEMETRY_EXTENDED_PAGE_CONTROL \<rparr>)"

definition F32_0_1 :: f32 where "F32_0_1 = f32_round (1 / 10)"

definition parse_flight :: "bytes \<Rightarrow> time_us \<Rightarrow> TelemetryData \<Rightarrow> TelemetryData" where
  "parse_flight packet current_time_us d =
     (let (r, o1) = read_signed_bits packet 0 12; (p, o2) = read_signed_bits packet o1 12;
          (y, o3) = read_signed_bits packet o2 12; (ax, o4) = read_signed_bits packet o3 12;
          (ay, o5) = read_signed_bits packet o4 12; (az, o6) = read_signed_bits packet o5 12;
          (ft, o7) = read_bits packet o6 16; (fl, o8) = read_bits packet o7 8;
          flags = to_u8 fl
      in d\<lparr> rollDeg := f32_mul (f32_of_int r) F32_0_1, pitchDeg := f32_mul (f32_of_int p) F32_0_1,
            relativeYawDeg := f32_mul (f32_of_int y) F32_0_1,
            accelXG := f32_div (f32_of_int ax) 256, accelYG := f32_div (f32_of_int ay) 256,
            accelZG := f32_div (f32_of_int az) 256, flightTimeSeconds := to_u16 ft,
            onGround := bit flags 0, idleUp := bit flags 1, lowVoltage := bit flags 2,
            pidProfile := bit flags 6, flightMode := decode_flight_mode flags,
            lastFlightPageUs := current_time_us,
            extendedPagesSeen := extendedPagesSeen d OR TELEMETRY_EXTENDED_PAGE_FLIGHT \<rparr>)"

definition parse_power :: "bytes \<Rightarrow> TelemetryData \<Rightarrow> TelemetryData" where
  "parse_power packet d =
     (let (raw, o1) = read_bits packet 0 16; (comp, o2) = read_bits packet o1 16;
          (pps, o3) = read_bits packet o2 8; (lost, o4) = read_bits packet o3 8;
          (lq, o5) = read_bits packet o4 8; (fl, o6) = read_bits packet o5 8;
          (mg, o7) = read_bits packet o6 16; (cg, o8) = read_bits packet o7 8;
          (fc, o9) = read_bits packet o8 8; flags = to_u8 fl
      in d\<lparr> batteryRawV := f32_div (f32_of_int (uint raw)) 1000,
            batteryCompensatedV := f32_div (f32_of_int (uint comp)) 1000,
            receiverPacketsPerSecond := to_u16 pps, packetsLostPerSecond := to_u8 lost,
            linkQualityPercent := to_u8 lq, lowVoltage := bit flags 0,
            maximumRxGapMs := f32_mul (f32_of_int (uint mg)) F32_0_1,
            currentRxGapMs := f32_mul (f32_of_int (uint cg)) F32_0_1,
            failsafeCount := to_u8 fc,
            extendedPagesSeen := extendedPagesSeen d OR TELEMETRY_EXTENDED_PAGE_POWER \<rparr>)"

definition parse_system :: "bytes \<Rightarrow> TelemetryData \<Rightarrow> TelemetryData" where
  "parse_system packet d =
     (let (c, o1) = read_bits packet 0 1;
          d2 = (if \<not> nonzero c then
                  let (avg, o2) = read_bits packet o1 16; (mx, o3) = read_bits packet o2 16;
                      (ovr, o4) = read_bits packet o3 16; (temp, o5) = read_signed_bits packet o4 16;
                      (it, o6) = read_bits packet o5 8; (cpu, o7) = read_bits packet o6 8;
                      (tx, o8) = read_bits packet o7 15
                  in d\<lparr> loopTimeAverageUs := to_u16 avg, loopTimeMaximumUs := to_u16 mx,
                        loopOverrunCount := to_u16 ovr, imuTemperatureRaw := word_of_int temp,
                        imuType := to_u8 it, cpuLoadPercent := to_u8 cpu, telemetryTxCount := tx,
                        systemSubpagesSeen := systemSubpagesSeen d OR TELEMETRY_SYSTEM_SUBPAGE_HEALTH \<rparr>
                else
                  let (tot, o2) = read_bits packet o1 32; (lost, o3) = read_bits packet o2 32;
                      (tx, o4) = read_bits packet o3 31
                  in d\<lparr> receiverPacketTotal := tot, estimatedLostPacketTotal := lost,
                        telemetryTxCount := tx,
                        systemSubpagesSeen := systemSubpagesSeen d OR TELEMETRY_SYSTEM_SUBPAGE_COUNTERS \<rparr>)
      in d2\<lparr> extendedPagesSeen := extendedPagesSeen d2 OR TELEMETRY_EXTENDED_PAGE_SYSTEM \<rparr>)"

text \<open>\<^verbatim>\<open>(sequence - expected) & 0x0F\<close> is computed at int width and masked to four bits.\<close>

definition sequence_gap :: "u8 \<Rightarrow> u8 \<Rightarrow> u32" where
  "sequence_gap prev new =
     (let expected = (prev + 1) AND 0x0F in (to_u32 new - to_u32 expected) AND 0x0F)"

definition parse_extended :: "bytes \<Rightarrow> time_us \<Rightarrow> telemetry \<Rightarrow> telemetry" where
  "parse_extended packet current_time_us t =
     (let common = packet ! 1;
          page = drop_bit 6 common;
          seq = common AND 0x0F;
          d = (current_telemetry t)\<lparr> armed := bit common 5, failsafe := bit common 4 \<rparr>;
          d = (if has_sequence t
               then d\<lparr> telemetryPacketsLost := telemetryPacketsLost d + sequence_gap (last_sequence t) seq \<rparr>
               else d);
          d = d\<lparr> sequence := seq \<rparr>;
          d = (if page = 0 then parse_control packet d
               else if page = 1 then parse_flight packet current_time_us d
               else if page = 2 then parse_power packet d
               else parse_system packet d)
      in t\<lparr> current_telemetry := d, last_sequence := seq, has_sequence := True \<rparr>)"

definition parse_original :: "bytes \<Rightarrow> TelemetryData \<Rightarrow> TelemetryData" where
  "parse_original packet d =
     (let raw_centivolts = push_bit 8 (to_u16 (packet ! 3 AND 0x07)) OR to_u16 (packet ! 4);
          comp_centivolts = push_bit 8 (to_u16 (packet ! 5 AND 0x07)) OR to_u16 (packet ! 6);
          d = d\<lparr> batteryRawV := f32_div (f32_of_int (uint raw_centivolts)) 100,
                 batteryCompensatedV := f32_div (f32_of_int (uint comp_centivolts)) 100,
                 lowVoltage := bit (packet ! 3) 3,
                 receiverPacketsPerSecond := to_u16 (packet ! 7) * 2 \<rparr>;
          pid_term = drop_bit 6 (packet ! 8);
          pid_value = push_bit 8 (to_u16 (packet ! 8 AND 0x3F)) OR to_u16 (packet ! 9)
      in if pid_term = 0 then d\<lparr> pidP := pid_value \<rparr>
         else if pid_term = 1 then d\<lparr> pidI := pid_value \<rparr>
         else if pid_term = 2 then d\<lparr> pidD := pid_value \<rparr>
         else d)"

definition telemetry_init :: "telemetry \<Rightarrow> telemetry" where
  "telemetry_init t =
     \<lparr> current_telemetry = telemetry_data_zero\<lparr> flightMode := Unknown \<rparr>, has_telemetry = False,
       has_sequence = False, last_sequence = 0 \<rparr>"

definition telemetry_parse :: "bytes option \<Rightarrow> time_us \<Rightarrow> telemetry \<Rightarrow> bool \<times> telemetry" where
  "telemetry_parse packet current_time_us t =
     (case packet of None \<Rightarrow> (False, t)
      | Some p \<Rightarrow>
          if \<not> bayang_check_telemetry packet then (False, t)
          else
            let proto = (if p ! 0 = 0x86 then ExtendedV1 else Original);
                t1 = (if protocol (current_telemetry t) \<noteq> proto
                      then let c = clear_extended_data t
                           in c\<lparr> current_telemetry := (current_telemetry c)\<lparr> protocol := proto \<rparr> \<rparr>
                      else t);
                t2 = (if proto = ExtendedV1 then parse_extended p current_time_us t1
                      else t1\<lparr> current_telemetry := parse_original p (current_telemetry t1) \<rparr>)
            in (True, t2\<lparr> current_telemetry := (current_telemetry t2)\<lparr> lastValidUs := current_time_us \<rparr>,
                          has_telemetry := True \<rparr>))"

datatype TelemetryFreshness = Never | Fresh | Stale

record TelemetrySnapshot =
  ts_data :: TelemetryData
  freshness :: TelemetryFreshness
  ageUs :: time_us

definition telemetry_get_snapshot :: "time_us \<Rightarrow> telemetry \<Rightarrow> TelemetrySnapshot" where
  "telemetry_get_snapshot current_time_us t =
     (let d = current_telemetry t
      in if \<not> has_telemetry t then \<lparr> ts_data = d, freshness = Never, ageUs = 0 \<rparr>
         else
           let age0 = current_time_us - lastValidUs d;
               age = (if age0 < 0 then 0 else age0)
           in \<lparr> ts_data = d,
                freshness = (if age \<le> TELEMETRY_TIMEOUT_MS * 1000 then Fresh else Stale),
                ageUs = age \<rparr>)"

end
