(* ===== verification/Telemetry_Laws.thy ===== *)
theory Telemetry_Laws
  imports Telemetry
begin

text \<open>
  Laws of the telemetry decoder of theory Telemetry: the bit reader against a page layout, the
  counting of lost packets, freshness, and rejection of bad packets.
\<close>

section \<open>The bit reader against a page layout\<close>

text \<open>
  The specification of a page: a list of fields, each written with its width, most significant bit
  first, into the 96 payload bits of the packet.
\<close>

definition payload_bit :: "bytes \<Rightarrow> nat \<Rightarrow> bool" where
  "payload_bit p k = bit (p ! (2 + k div 8)) (7 - k mod 8)"

definition payload_from :: "bytes \<Rightarrow> nat \<Rightarrow> bool list \<Rightarrow> bool" where
  "payload_from p off bs = (\<forall>i < length bs. payload_bit p (off + i) = bs ! i)"

definition field_bits :: "nat \<Rightarrow> int \<Rightarrow> bool list" where
  "field_bits n v = map (\<lambda>i. bit v (n - 1 - i)) [0..<n]"

definition page_bytes :: "bool list \<Rightarrow> bytes" where
  "page_bytes bs = map (\<lambda>j. horner_sum of_bool 2 (map (\<lambda>i. bs ! (8 * j + (7 - i))) [0..<8])) [0..<12]"

definition extended_packet :: "u8 \<Rightarrow> bool list \<Rightarrow> bytes" where
  "extended_packet common bs =
     (let p = [0x86, common] @ page_bytes bs in p @ [checksum_loop p])"

lemma length_field_bits [simp]: "length (field_bits n v) = n"
  by (simp add: field_bits_def)

lemma bit_read_bit_step:
  "bit (fst (read_bit_step p (v, off))) i \<longleftrightarrow>
     i < 32 \<and> (if i = 0 then payload_bit p off else bit v (i - 1))"
  unfolding read_bit_step_def payload_bit_def to_u32_def
  by (cases i)
     (simp_all add: bit_or_iff bit_and_iff bit_1_iff bit_push_bit_iff bit_unsigned_iff bit_drop_bit_eq
        Let_def bit_double_word min_def)

lemma snd_read_bit_step [simp]: "snd (read_bit_step p vo) = snd vo + 1"
  by (cases vo) (simp add: read_bit_step_def Let_def)

lemma read_bits_Suc: "read_bits p off (Suc n) = read_bit_step p (read_bits p off n)"
  by (simp add: read_bits_def)

lemma snd_read_bits [simp]: "snd (read_bits p off n) = off + n"
  by (induction n) (simp_all add: read_bits_Suc, simp add: read_bits_def)

lemma bit_read_bits:
  "bit (fst (read_bits p off n)) i \<longleftrightarrow> i < 32 \<and> i < n \<and> payload_bit p (off + (n - 1 - i))"
proof (induction n arbitrary: i)
  case 0
  then show ?case by (simp add: read_bits_def)
next
  case (Suc n)
  define w where "w = fst (read_bits p off n)"
  have "read_bits p off n = (w, off + n)" by (simp add: prod_eq_iff w_def)
  then show ?case
    using Suc [of "i - 1"] by (cases i) (auto simp: read_bits_Suc bit_read_bit_step w_def [symmetric])
qed

lemma payload_from_append:
  "payload_from p off (xs @ ys) \<longleftrightarrow> payload_from p off xs \<and> payload_from p (off + length xs) ys"
proof -
  have "(\<forall>i < length xs + length ys. payload_bit p (off + i) = (xs @ ys) ! i) \<longleftrightarrow>
        (\<forall>i < length xs. payload_bit p (off + i) = xs ! i) \<and>
        (\<forall>i < length ys. payload_bit p (off + length xs + i) = ys ! i)"
    (is "?L \<longleftrightarrow> ?R1 \<and> ?R2")
  proof
    assume L: ?L
    have ?R2
    proof (intro allI impI)
      fix i assume "i < length ys"
      then show "payload_bit p (off + length xs + i) = ys ! i"
        using L [rule_format, of "length xs + i"] by (simp add: add.assoc)
    qed
    moreover have ?R1 using L by (auto simp: nth_append)
    ultimately show "?R1 \<and> ?R2" by simp
  next
    assume R: "?R1 \<and> ?R2"
    show ?L
    proof (intro allI impI)
      fix i assume "i < length xs + length ys"
      then show "payload_bit p (off + i) = (xs @ ys) ! i"
        using R by (cases "i < length xs") (auto simp: nth_append dest!: spec [of _ "i - length xs"])
    qed
  qed
  then show ?thesis by (simp add: payload_from_def)
qed

lemma read_bits_field:
  assumes "payload_from p off (field_bits n v)" "n \<le> 32"
  shows "read_bits p off n = (word_of_int (take_bit n v), off + n)"
proof -
  have "fst (read_bits p off n) = word_of_int (take_bit n v)"
  proof (rule bit_word_eqI)
    fix i assume "i < LENGTH(32)"
    moreover have "payload_bit p (off + (n - 1 - i)) = bit v i" if "i < n"
    proof -
      have "n - 1 - i < n" "n - 1 - (n - 1 - i) = i" using that by auto
      then show ?thesis
        using assms(1) [unfolded payload_from_def, rule_format, of "n - 1 - i"]
        by (simp add: field_bits_def)
    qed
    ultimately show "bit (fst (read_bits p off n)) i = bit (word_of_int (take_bit n v) :: u32) i"
      by (auto simp: bit_read_bits bit_word_of_int_iff bit_take_bit_iff)
  qed
  then show ?thesis by (simp add: prod_eq_iff)
qed

lemma sint_signed_extension:
  assumes "0 < n" "n < 32"
  shows "sint (if nonzero ((word_of_int (take_bit n v) :: u32) AND push_bit (n - 1) 1)
               then word_of_int (take_bit n v) OR NOT (push_bit n 1 - 1)
               else word_of_int (take_bit n v) :: u32) = signed_take_bit (n - 1) v"
proof -
  have m: "(push_bit n 1 - 1 :: u32) = mask n" by (simp add: mask_eq_exp_minus_1)
  have s: "nonzero ((word_of_int (take_bit n v) :: u32) AND push_bit (n - 1) 1) = bit v (n - 1)"
  proof -
    have b: "bit ((2 :: u32) ^ (n - Suc 0)) i \<longleftrightarrow> i = n - 1" for i
      using assms by (auto simp: bit_exp_iff)
    have "(w :: u32) AND push_bit (n - 1) 1 = (if bit w (n - 1) then push_bit (n - 1) 1 else 0)" for w
      by (rule bit_word_eqI) (auto simp: bit_and_iff b)
    moreover have "push_bit (n - 1) (1 :: u32) \<noteq> 0"
      using b [of "n - Suc 0"] by (metis bit_0_eq bot_apply bot_bool_def push_bit_of_1 One_nat_def)
    ultimately show ?thesis
      using assms by (simp add: nonzero_def bit_word_of_int_iff bit_take_bit_iff)
  qed
  have "(if bit v (n - 1) then word_of_int (take_bit n v) OR NOT (mask n)
         else word_of_int (take_bit n v)) = (word_of_int (signed_take_bit (n - 1) v) :: u32)"
  proof (rule bit_word_eqI)
    fix i assume "i < LENGTH(32)"
    then show "bit (if bit v (n - 1) then word_of_int (take_bit n v) OR NOT (mask n)
                    else word_of_int (take_bit n v) :: u32) i =
               bit (word_of_int (signed_take_bit (n - 1) v) :: u32) i"
      using assms
      by (cases "i < n - 1"; cases "i = n - 1")
         (simp_all add: bit_or_iff bit_not_iff_eq bit_mask_iff bit_word_of_int_iff bit_take_bit_iff
            bit_signed_take_bit_iff min_def, auto)
  qed
  moreover have "sint (word_of_int (signed_take_bit (n - 1) v) :: u32) = signed_take_bit (n - 1) v"
    using assms by (auto simp: sint_sbintrunc' signed_take_bit_signed_take_bit min_def)
  ultimately show ?thesis unfolding m s by simp
qed

lemma read_signed_bits_field:
  assumes "payload_from p off (field_bits n v)" "0 < n" "n < 32"
  shows "read_signed_bits p off n = (signed_take_bit (n - 1) v, off + n)"
  using read_bits_field [OF assms(1)] assms(2,3) sint_signed_extension [OF assms(2,3), of v]
  by (simp add: read_signed_bits_def Let_def)

lemma page_bytes_payload:
  assumes "length bs = 96"
  shows "payload_from (extended_packet c bs) 0 bs"
proof -
  have "payload_bit (extended_packet c bs) k = bs ! k" if "k < 96" for k
  proof -
    have j: "k div 8 < 12" using that by auto
    have e: "8 * (k div 8) + (7 - (7 - k mod 8)) = k"
      using mod_less_divisor [of 8 k] mult_div_mod_eq [of 8 k] by linarith
    have "extended_packet c bs ! (2 + k div 8) = page_bytes bs ! (k div 8)"
      using j by (simp add: extended_packet_def Let_def nth_append page_bytes_def)
    then show ?thesis
      unfolding payload_bit_def using j e diff_le_self [of 7 "k mod 8", THEN le_imp_less_Suc]
      by (simp add: page_bytes_def bit_horner_sum_bit_word_iff del: upt_rec_numeral)
  qed
  then show ?thesis by (simp add: payload_from_def assms)
qed

section \<open>Acceptance and freshness\<close>

text \<open>A run of the receiver: packets (or null) with their reception times.\<close>

definition tel_step :: "telemetry \<Rightarrow> bytes option \<times> time_us \<Rightarrow> telemetry" where
  "tel_step t e = snd (telemetry_parse (fst e) (snd e) t)"

definition tel_run :: "telemetry \<Rightarrow> (bytes option \<times> time_us) list \<Rightarrow> telemetry" where
  "tel_run = foldl tel_step"

abbreviation accepted :: "bytes option \<times> time_us \<Rightarrow> bool" where
  "accepted e \<equiv> bayang_check_telemetry (fst e)"

lemma check_telemetry_None [simp]: "\<not> bayang_check_telemetry None"
  by (simp add: bayang_check_telemetry_def)

lemma telemetry_parse_result [simp]: "fst (telemetry_parse p now t) = bayang_check_telemetry p"
  by (simp add: telemetry_parse_def Let_def split: option.splits)

lemma telemetry_parse_rejects: "\<not> bayang_check_telemetry p \<Longrightarrow> telemetry_parse p now t = (False, t)"
  by (cases p) (simp_all add: telemetry_parse_def)

lemma telemetry_parse_stamps:
  assumes "bayang_check_telemetry p"
  shows "has_telemetry (snd (telemetry_parse p now t))"
    and "lastValidUs (current_telemetry (snd (telemetry_parse p now t))) = now"
  using assms by (auto simp: telemetry_parse_def Let_def split: option.splits)

lemma tel_run_append: "tel_run t (es @ [e]) = tel_step (tel_run t es) e"
  by (simp add: tel_run_def)

lemma tel_run_stamps:
  assumes "\<not> has_telemetry t"
  shows "has_telemetry (tel_run t es) = (filter accepted es \<noteq> []) \<and>
         (filter accepted es \<noteq> [] \<longrightarrow>
            lastValidUs (current_telemetry (tel_run t es)) = snd (last (filter accepted es)))"
proof (induction es rule: rev_induct)
  case Nil
  then show ?case using assms by (simp add: tel_run_def)
next
  case (snoc e es)
  then show ?case
    by (cases "accepted e")
       (simp_all add: tel_run_append tel_step_def telemetry_parse_stamps telemetry_parse_rejects)
qed

lemma not_has_telemetry_init [simp]: "\<not> has_telemetry (telemetry_init t)"
  by (simp add: telemetry_init_def)


section \<open>Lost packets\<close>

lemma parse_pages_keep_lost [simp]:
  "telemetryPacketsLost (parse_control p d) = telemetryPacketsLost d"
  "telemetryPacketsLost (parse_flight p now d) = telemetryPacketsLost d"
  "telemetryPacketsLost (parse_power p d) = telemetryPacketsLost d"
  "telemetryPacketsLost (parse_system p d) = telemetryPacketsLost d"
  by (simp_all add: parse_control_def parse_flight_def parse_power_def parse_system_def Let_def
        case_prod_beta)

lemma parse_pages_keep_protocol [simp]:
  "protocol (parse_control p d) = protocol d"
  "protocol (parse_flight p now d) = protocol d"
  "protocol (parse_power p d) = protocol d"
  "protocol (parse_system p d) = protocol d"
  by (simp_all add: parse_control_def parse_flight_def parse_power_def parse_system_def Let_def
        case_prod_beta)

lemma parse_extended_sequence [simp]:
  "has_sequence (parse_extended p now t)"
  "last_sequence (parse_extended p now t) = p ! 1 AND 0x0F"
  "protocol (current_telemetry (parse_extended p now t)) = protocol (current_telemetry t)"
  "telemetryPacketsLost (current_telemetry (parse_extended p now t)) =
     telemetryPacketsLost (current_telemetry t) +
     (if has_sequence t then sequence_gap (last_sequence t) (p ! 1 AND 0x0F) else 0)"
  by (simp_all add: parse_extended_def Let_def)

definition extended_ok :: "bytes option \<times> time_us \<Rightarrow> nat \<Rightarrow> bool" where
  "extended_ok e n = (case fst e of None \<Rightarrow> False
     | Some p \<Rightarrow> bayang_check_telemetry (Some p) \<and> p ! 0 = 0x86 \<and> unat (p ! 1 AND 0x0F) = n mod 16)"

text \<open>The invariant of the loss counter: what the receiver remembers of the counter it last saw.\<close>

definition seen :: "telemetry \<Rightarrow> nat \<Rightarrow> nat \<Rightarrow> bool" where
  "seen t n lost \<longleftrightarrow> has_sequence t \<and> protocol (current_telemetry t) = ExtendedV1 \<and>
     unat (last_sequence t) = n mod 16 \<and> telemetryPacketsLost (current_telemetry t) = of_nat lost"

lemma uint_and_15: "uint ((w :: 'a::len word) AND 0x0F) = uint w mod 16"
proof -
  have "w AND 0x0F = take_bit 4 w" by (simp only: take_bit_eq_mask mask_eq_exp_minus_1) simp
  then have "uint (w AND 0x0F) = take_bit 4 (uint w)" by (simp only: unsigned_take_bit_eq)
  then show ?thesis by (simp add: take_bit_eq_mod)
qed

lemma sequence_gap_exact:
  assumes "unat a = m mod 16" "unat b = n mod 16" "m < n" "n \<le> m + 16"
  shows "sequence_gap a b = of_nat (n - m - 1)"
proof -
  have a: "uint a = int m mod 16" and b: "uint b = int n mod 16"
    using assms(1,2) by (simp_all add: uint_nat zmod_int)
  have up: "uint (to_u32 w) = uint w" for w :: u8
    by (simp add: to_u32_def uint_up_ucast is_up)
  have a1: "uint (a + 1) = int m mod 16 + 1"
    using pos_mod_bound [of 16 "int m"] by (simp add: uint_plus_if' a)
  have "uint (sequence_gap a b) = (int n mod 16 - (int m mod 16 + 1) mod 16) mod 2 ^ 32 mod 16"
    by (simp add: sequence_gap_def Let_def uint_and_15 uint_sub_lem [THEN iffD1] uint_word_arith_bintrs(2)
          take_bit_eq_mod up a1 b)
  also have "\<dots> = (int n mod 16 - (int m mod 16 + 1) mod 16) mod 16"
    by (rule mod_mod_cancel) simp
  also have "\<dots> = (int n - int m - 1) mod 16"
    by (simp add: mod_simps algebra_simps)
  also have "\<dots> = int (n - m - 1)"
    using assms(3,4) by (simp add: of_nat_diff)
  finally have "uint (sequence_gap a b) = int (n - m - 1)" .
  then have "word_of_int (uint (sequence_gap a b)) = (word_of_int (int (n - m - 1)) :: u32)" by simp
  then show ?thesis by simp
qed

lemma parse_extended_ok:
  assumes "extended_ok e n" "seen t m lost" "m < n" "n \<le> m + 16"
  shows "seen (tel_step t e) n (lost + (n - m - 1))"
proof -
  obtain p now where e: "e = (Some p, now)" "bayang_check_telemetry (Some p)" "p ! 0 = 0x86"
      "unat (p ! 1 AND 0x0F) = n mod 16"
    using assms(1) by (cases e) (auto simp: extended_ok_def split: option.splits)
  show ?thesis
    using assms(2) e sequence_gap_exact [OF _ e(4) assms(3,4), of "last_sequence t"]
    by (simp add: seen_def tel_step_def telemetry_parse_def Let_def)
qed

lemma first_extended_ok:
  assumes "extended_ok e n"
  shows "seen (tel_step (telemetry_init t) e) n 0"
  using assms
  by (cases e)
     (auto simp: extended_ok_def seen_def tel_step_def telemetry_parse_def telemetry_init_def
        telemetry_data_zero_def clear_extended_data_def Let_def split: option.splits)

fun gaps_ok :: "nat list \<Rightarrow> bool" where
  "gaps_ok (m # n # ns) = (m < n \<and> n \<le> m + 16 \<and> gaps_ok (n # ns))"
| "gaps_ok _ = True"

lemma gaps_sorted:
  assumes "gaps_ok (n # ns)"
  shows "distinct (n # ns)" and "set (n # ns) \<subseteq> {n..last (n # ns)}"
proof -
  have "distinct (n # ns) \<and> (\<forall>x \<in> set (n # ns). n \<le> x \<and> x \<le> last (n # ns))"
    using assms
  proof (induction ns arbitrary: n)
    case (Cons m ns)
    then show ?case using Cons.IH [of m] by fastforce
  qed simp
  then show "distinct (n # ns)" and "set (n # ns) \<subseteq> {n..last (n # ns)}" by auto
qed

lemma seen_run:
  assumes "list_all2 extended_ok es ns" "seen t m lost" "gaps_ok (m # ns)"
  shows "seen (tel_run t es) (last (m # ns)) (lost + (last (m # ns) - m - length ns)) \<and>
         m + length ns \<le> last (m # ns)"
  using assms
proof (induction es ns arbitrary: t m lost rule: list_all2_induct)
  case Nil
  then show ?case by (simp add: tel_run_def)
next
  case (Cons e es n ns)
  have s: "seen (tel_step t e) n (lost + (n - m - 1))"
    using parse_extended_ok Cons.hyps(1) Cons.prems by simp
  have *: "seen (tel_run (tel_step t e) es) (last (n # ns))
          (lost + (n - m - 1) + (last (n # ns) - n - length ns)) \<and> n + length ns \<le> last (n # ns)"
    by (rule Cons.IH [OF s]) (use Cons.prems(2) in simp)
  then have eq: "lost + (n - m - 1) + (last (n # ns) - n - length ns) =
             lost + (last (m # n # ns) - m - length (n # ns))"
    using Cons.prems(2) by simp
  have "m + length (n # ns) \<le> last (m # n # ns)" using * Cons.prems(2) by simp
  then show ?case
    using * [THEN conjunct1, unfolded eq] by (simp add: tel_run_def del: last.simps) (simp add: last.simps)
qed

text \<open>C11: The loss counter is exact.  Let the flight controller number its packets \<^verbatim>\<open>n, n+1, \<dots>\<close> and
  put the low four bits of the number into each; if the receiver gets the packets numbered \<^verbatim>\<open>n # ns\<close>
  (never missing sixteen in a row), \<^verbatim>\<open>telemetryPacketsLost\<close> afterwards is the number of packets sent
  between the first and the last that were not received, modulo the 32 bits of the counter.\<close>

theorem lost_packets_counted:
  assumes "list_all2 extended_ok es (n # ns)" "gaps_ok (n # ns)"
  shows "telemetryPacketsLost (current_telemetry (tel_run (telemetry_init t) es)) =
           of_nat (card ({n..last (n # ns)} - set (n # ns)))"
proof -
  obtain e es' where es: "es = e # es'" "extended_ok e n" "list_all2 extended_ok es' ns"
    using assms(1) by (cases es) auto
  have "seen (tel_run (telemetry_init t) es) (last (n # ns)) (last (n # ns) - n - length ns) \<and>
        n + length ns \<le> last (n # ns)"
    using seen_run [OF es(3) first_extended_ok [OF es(2)] assms(2)] es(1) by (simp add: tel_run_def)
  moreover have "card ({n..last (n # ns)} - set (n # ns)) = last (n # ns) - n - length ns"
  proof -
    note sub = gaps_sorted(2) [OF assms(2)]
    have "distinct (n # ns)" by (rule gaps_sorted(1) [OF assms(2)])
    then have "card (set (n # ns)) = Suc (length ns)" using distinct_card by fastforce
    then show ?thesis using sub by (simp add: card_Diff_subset)
  qed
  ultimately show ?thesis by (simp add: seen_def)
qed

text \<open>Packets numbered 3, 4, 7 and 20: thirteen of the numbers between are missing.\<close>

definition numbered_packet :: "u8 \<Rightarrow> bytes option \<times> time_us" where
  "numbered_packet c = (Some ([0x86, c, 0, 0, 0, 0, 0, 0, 0, 0, 0, 0, 0, 0, 0x86 + c]), 0)"

theorem lost_packets_counted_witness:
  "telemetryPacketsLost (current_telemetry (tel_run (telemetry_init telemetry_boot)
     (map numbered_packet [0x43, 0x84, 0x07, 0xC4]))) =
     of_nat (card ({3..last [3, 4, 7, 20 :: nat]} - set [3, 4, 7, 20]))"
  by (rule lost_packets_counted)
     (simp_all add: extended_ok_def numbered_packet_def bayang_check_telemetry_def
        bayang_calculate_checksum_def checksum_loop_def BAYANG_PACKET_SIZE_def)

section \<open>The flight page\<close>

lemma extended_packet_shape:
  "extended_packet c bs ! 0 = 0x86" "extended_packet c bs ! 1 = c"
  "bayang_check_telemetry (Some (extended_packet c bs))"
proof -
  define p where "p = [0x86, c] @ page_bytes bs"
  have l: "length p = 14" by (simp add: p_def page_bytes_def)
  have e: "extended_packet c bs = p @ [checksum_loop p]" by (simp add: extended_packet_def p_def Let_def)
  show "extended_packet c bs ! 0 = 0x86" "extended_packet c bs ! 1 = c"
    by (simp_all add: extended_packet_def Let_def)
  moreover have "checksum_loop (p @ [x]) = checksum_loop p" for x
    using l by (simp add: checksum_loop_def BAYANG_PACKET_SIZE_def)
  ultimately show "bayang_check_telemetry (Some (extended_packet c bs))"
    using l by (simp add: bayang_check_telemetry_def bayang_calculate_checksum_def e nth_append)
qed

definition flight_page :: "int list \<Rightarrow> int \<Rightarrow> int \<Rightarrow> bool list" where
  "flight_page axes secs flags =
     concat (map (field_bits 12) axes) @ field_bits 16 secs @ field_bits 8 flags"

lemma parse_flight_page:
  assumes "payload_from p 0 (flight_page [r, pt, y, ax, ay, az] secs flags)"
  shows "parse_flight p now d =
    d\<lparr> rollDeg := f32_mul (f32_of_int (signed_take_bit 11 r)) F32_0_1,
       pitchDeg := f32_mul (f32_of_int (signed_take_bit 11 pt)) F32_0_1,
       relativeYawDeg := f32_mul (f32_of_int (signed_take_bit 11 y)) F32_0_1,
       accelXG := f32_div (f32_of_int (signed_take_bit 11 ax)) 256,
       accelYG := f32_div (f32_of_int (signed_take_bit 11 ay)) 256,
       accelZG := f32_div (f32_of_int (signed_take_bit 11 az)) 256,
       flightTimeSeconds := word_of_int secs,
       onGround := bit flags 0, idleUp := bit flags 1, lowVoltage := bit flags 2,
       pidProfile := bit flags 6, flightMode := decode_flight_mode (word_of_int flags),
       lastFlightPageUs := now,
       extendedPagesSeen := extendedPagesSeen d OR TELEMETRY_EXTENDED_PAGE_FLIGHT \<rparr>"
proof -
  have f: "payload_from p 0 (field_bits 12 r)" "payload_from p 12 (field_bits 12 pt)"
    "payload_from p 24 (field_bits 12 y)" "payload_from p 36 (field_bits 12 ax)"
    "payload_from p 48 (field_bits 12 ay)" "payload_from p 60 (field_bits 12 az)"
    "payload_from p 72 (field_bits 16 secs)" "payload_from p 88 (field_bits 8 flags)"
    using assms by (simp_all add: flight_page_def payload_from_append)
  have c: "(to_u16 (word_of_int (take_bit 16 secs) :: u32)) = word_of_int secs"
    "(to_u8 (word_of_int (take_bit 8 flags) :: u32)) = word_of_int flags"
    unfolding to_u16_def to_u8_def
    by (rule bit_word_eqI; simp add: bit_unsigned_iff bit_word_of_int_iff bit_take_bit_iff)+
  note r = f(1-6) [THEN read_signed_bits_field, simplified] f(7,8) [THEN read_bits_field, simplified]
  show ?thesis
    by (simp add: parse_flight_def r c Let_def bit_word_of_int_iff)
qed

text \<open>C13: Decoding a flight page inverts its layout.  Whatever the previous state, a packet with page
  number 1 whose payload carries attitude and acceleration as 12 bit signed fields, the flight time as
  16 bits and eight flags is accepted, and the state afterwards holds exactly those values (scaled),
  the flags, the armed and failsafe bits and sequence number of the header, and the reception time
  as the time of the last flight page.\<close>

theorem flight_page_decodes:
  "let common = 0x40 OR flag arm 0x20 OR flag fs 0x10 OR (seq AND 0x0F);
       res = telemetry_parse
               (Some (extended_packet common (flight_page [r, pt, y, ax, ay, az] secs flags))) now t;
       d = current_telemetry (snd res)
   in fst res \<and> protocol d = ExtendedV1 \<and> armed d = arm \<and> failsafe d = fs \<and>
      sequence d = seq AND 0x0F \<and>
      rollDeg d = f32_mul (f32_of_int (signed_take_bit 11 r)) F32_0_1 \<and>
      pitchDeg d = f32_mul (f32_of_int (signed_take_bit 11 pt)) F32_0_1 \<and>
      relativeYawDeg d = f32_mul (f32_of_int (signed_take_bit 11 y)) F32_0_1 \<and>
      accelXG d = f32_div (f32_of_int (signed_take_bit 11 ax)) 256 \<and>
      accelYG d = f32_div (f32_of_int (signed_take_bit 11 ay)) 256 \<and>
      accelZG d = f32_div (f32_of_int (signed_take_bit 11 az)) 256 \<and>
      flightTimeSeconds d = word_of_int secs \<and> onGround d = bit flags 0 \<and> idleUp d = bit flags 1 \<and>
      lowVoltage d = bit flags 2 \<and> pidProfile d = bit flags 6 \<and>
      flightMode d = decode_flight_mode (word_of_int flags) \<and>
      lastFlightPageUs d = now \<and> lastValidUs d = now"
proof -
  define c where "c = (0x40 OR flag arm 0x20 OR flag fs 0x10 OR (seq AND 0x0F) :: u8)"
  define bs where "bs = flight_page [r, pt, y, ax, ay, az] secs flags"
  have c: "drop_bit 6 c = 1" "bit c 5 = arm" "bit c 4 = fs" "c AND 0x0F = seq AND 0x0F"
  proof -
    have b: "bit c n \<longleftrightarrow> n = 6 \<or> n = 5 \<and> arm \<or> n = 4 \<and> fs \<or> n < 4 \<and> bit seq n" if "n < 8" for n
    proof -
      have "n \<in> {0, 1, 2, 3, 4, 5, 6, 7}" using that by auto
      then show ?thesis by (elim insertE) (simp_all add: c_def flag_def bit_or_iff bit_and_iff)
    qed
    have m: "bit (0x0F :: u8) n \<longleftrightarrow> n < 4" if "n < 8" for n
    proof -
      have "n \<in> {0, 1, 2, 3, 4, 5, 6, 7}" using that by auto
      then show ?thesis by (elim insertE) simp_all
    qed
    show "bit c 5 = arm" "bit c 4 = fs" by (simp_all add: b)
    show "drop_bit 6 c = 1"
    proof (rule bit_word_eqI)
      fix n assume "n < LENGTH(8)"
      show "bit (drop_bit 6 c) n = bit 1 n"
        using bit_bounds(1) [of c "6 + n"] b [of "6 + n"] by (auto simp: bit_drop_bit_eq bit_1_iff)
    qed
    show "c AND 0x0F = seq AND 0x0F"
      by (rule bit_word_eqI) (use m b in \<open>auto simp: bit_and_iff\<close>)
  qed
  have pay: "payload_from (extended_packet c bs) 0 (flight_page [r, pt, y, ax, ay, az] secs flags)"
    unfolding bs_def by (rule page_bytes_payload) (simp add: flight_page_def)
  show ?thesis
    unfolding c_def [symmetric] bs_def [symmetric] Let_def
    by (simp add: telemetry_parse_def extended_packet_shape [unfolded One_nat_def] parse_extended_def c parse_flight_page [OF pay] Let_def)
qed

end
