(* ===== verification/Uni_Controller.thy ===== *)
theory Uni_Controller
  imports Tx_Prelude
begin

text \<open>
  The virtual controller of Bluepad32 (\<^verbatim>\<open>src/components/bluepad32/controller/uni_gamepad.c\<close> and the
  structs of \<^verbatim>\<open>include/controller/\<close>): the gamepad, mouse, keyboard and balance board reports, the
  tagged union that carries one of them, and the remapping of buttons and axes.

  Axis values are C's \<^verbatim>\<open>int32_t\<close> as integers; bit sets keep their width.  The members of the union
  \<^verbatim>\<open>uni_controller_t\<close> are separate fields here: reading a member other than the one the class tag
  names, which C would reinterpret bytewise, is outside the model.
\<close>

datatype uni_controller_class =
    UNI_CONTROLLER_CLASS_NONE
  | UNI_CONTROLLER_CLASS_GAMEPAD
  | UNI_CONTROLLER_CLASS_MOUSE
  | UNI_CONTROLLER_CLASS_KEYBOARD
  | UNI_CONTROLLER_CLASS_BALANCE_BOARD

record uni_gamepad =
  dpad :: u8
  axis_x :: int
  axis_y :: int
  axis_rx :: int
  axis_ry :: int
  brake :: int
  throttle :: int
  buttons :: u16
  misc_buttons :: u8
  gyro :: "int list"
  accel :: "int list"

definition uni_gamepad_zero :: uni_gamepad where
  "uni_gamepad_zero = \<lparr> dpad = 0, axis_x = 0, axis_y = 0, axis_rx = 0, axis_ry = 0, brake = 0,
     throttle = 0, buttons = 0, misc_buttons = 0, gyro = [0, 0, 0], accel = [0, 0, 0] \<rparr>"

record uni_mouse =
  delta_x :: int
  delta_y :: int
  ms_buttons :: u16
  scroll_wheel :: int
  ms_misc_buttons :: u8

definition uni_mouse_zero :: uni_mouse where
  "uni_mouse_zero = \<lparr> delta_x = 0, delta_y = 0, ms_buttons = 0, scroll_wheel = 0,
     ms_misc_buttons = 0 \<rparr>"

definition UNI_KEYBOARD_PRESSED_KEYS_MAX :: nat where "UNI_KEYBOARD_PRESSED_KEYS_MAX = 10"

record uni_keyboard =
  modifiers :: u8
  pressed_keys :: "u8 list"

definition uni_keyboard_zero :: uni_keyboard where
  "uni_keyboard_zero = \<lparr> modifiers = 0, pressed_keys = replicate UNI_KEYBOARD_PRESSED_KEYS_MAX 0 \<rparr>"

record uni_balance_board =
  tr :: u16
  br :: u16
  tl :: u16
  bl :: u16
  temperature :: int

definition uni_balance_board_zero :: uni_balance_board where
  "uni_balance_board_zero = \<lparr> tr = 0, br = 0, tl = 0, bl = 0, temperature = 0 \<rparr>"

record uni_controller =
  klass :: uni_controller_class
  gamepad :: uni_gamepad
  mouse :: uni_mouse
  balance_board :: uni_balance_board
  keyboard :: uni_keyboard
  battery :: u8

definition uni_controller_zero :: uni_controller where
  "uni_controller_zero = \<lparr> klass = UNI_CONTROLLER_CLASS_NONE, gamepad = uni_gamepad_zero,
     mouse = uni_mouse_zero, balance_board = uni_balance_board_zero, keyboard = uni_keyboard_zero,
     battery = 0 \<rparr>"

section \<open>Button and axis numbers\<close>

definition DPAD_UP :: u8 where "DPAD_UP = 1"

definition DPAD_DOWN :: u8 where "DPAD_DOWN = 2"

definition DPAD_RIGHT :: u8 where "DPAD_RIGHT = 4"

definition DPAD_LEFT :: u8 where "DPAD_LEFT = 8"

definition BUTTON_A :: u16 where "BUTTON_A = 0x0001"

definition BUTTON_B :: u16 where "BUTTON_B = 0x0002"

definition BUTTON_X :: u16 where "BUTTON_X = 0x0004"

definition BUTTON_Y :: u16 where "BUTTON_Y = 0x0008"

definition BUTTON_SHOULDER_L :: u16 where "BUTTON_SHOULDER_L = 0x0010"

definition BUTTON_SHOULDER_R :: u16 where "BUTTON_SHOULDER_R = 0x0020"

definition BUTTON_TRIGGER_L :: u16 where "BUTTON_TRIGGER_L = 0x0040"

definition BUTTON_TRIGGER_R :: u16 where "BUTTON_TRIGGER_R = 0x0080"

definition BUTTON_THUMB_L :: u16 where "BUTTON_THUMB_L = 0x0100"

definition BUTTON_THUMB_R :: u16 where "BUTTON_THUMB_R = 0x0200"

definition MISC_BUTTON_SYSTEM :: u8 where "MISC_BUTTON_SYSTEM = 1"

definition MISC_BUTTON_SELECT :: u8 where "MISC_BUTTON_SELECT = 2"

definition MISC_BUTTON_START :: u8 where "MISC_BUTTON_START = 4"

definition MISC_BUTTON_CAPTURE :: u8 where "MISC_BUTTON_CAPTURE = 8"

lemmas button_defs = DPAD_UP_def DPAD_DOWN_def DPAD_RIGHT_def DPAD_LEFT_def BUTTON_A_def BUTTON_B_def
  BUTTON_X_def BUTTON_Y_def BUTTON_SHOULDER_L_def BUTTON_SHOULDER_R_def BUTTON_TRIGGER_L_def
  BUTTON_TRIGGER_R_def BUTTON_THUMB_L_def BUTTON_THUMB_R_def MISC_BUTTON_SYSTEM_def
  MISC_BUTTON_SELECT_def MISC_BUTTON_START_def MISC_BUTTON_CAPTURE_def

definition AXIS_NORMALIZE_RANGE :: int where "AXIS_NORMALIZE_RANGE = 1024"

definition AXIS_THRESHOLD :: int where "AXIS_THRESHOLD = 1024 div 8"

section \<open>Mappings\<close>

datatype uni_gamepad_mappings_type =
    UNI_GAMEPAD_MAPPINGS_TYPE_XBOX
  | UNI_GAMEPAD_MAPPINGS_TYPE_SWITCH
  | UNI_GAMEPAD_MAPPINGS_TYPE_CUSTOM

record uni_gamepad_mappings =
  dpad_up :: nat
  dpad_down :: nat
  dpad_left :: nat
  dpad_right :: nat
  button_a :: nat
  button_b :: nat
  button_x :: nat
  button_y :: nat
  button_shoulder_l :: nat
  button_shoulder_r :: nat
  button_trigger_l :: nat
  button_trigger_r :: nat
  button_thumb_l :: nat
  button_thumb_r :: nat
  misc_button_select :: nat
  misc_button_start :: nat
  misc_button_system :: nat
  misc_button_capture :: nat
  map_axis_x :: nat
  map_axis_y :: nat
  map_axis_rx :: nat
  map_axis_ry :: nat
  axis_x_inverted :: bool
  axis_y_inverted :: bool
  axis_rx_inverted :: bool
  axis_ry_inverted :: bool
  map_brake :: nat
  map_throttle :: nat

definition GAMEPAD_DEFAULT_MAPPINGS :: uni_gamepad_mappings where
  "GAMEPAD_DEFAULT_MAPPINGS =
     \<lparr> dpad_up = 0, dpad_down = 1, dpad_left = 3, dpad_right = 2,
       button_a = 0, button_b = 1, button_x = 2, button_y = 3,
       button_shoulder_l = 4, button_shoulder_r = 5, button_trigger_l = 6, button_trigger_r = 7,
       button_thumb_l = 8, button_thumb_r = 9,
       misc_button_select = 1, misc_button_start = 2, misc_button_system = 0, misc_button_capture = 3,
       map_axis_x = 0, map_axis_y = 1, map_axis_rx = 2, map_axis_ry = 3,
       axis_x_inverted = False, axis_y_inverted = False, axis_rx_inverted = False,
       axis_ry_inverted = False, map_brake = 0, map_throttle = 1 \<rparr>"

text \<open>The statics \<^verbatim>\<open>map\<close> and \<^verbatim>\<open>mappings_type\<close>.\<close>

record gamepad_mappings =
  gp_map :: uni_gamepad_mappings
  mappings_type :: uni_gamepad_mappings_type

definition gamepad_mappings_boot :: gamepad_mappings where
  "gamepad_mappings_boot =
     \<lparr> gp_map = \<lparr> dpad_up = 0, dpad_down = 0, dpad_left = 0, dpad_right = 0,
         button_a = 0, button_b = 0, button_x = 0, button_y = 0,
         button_shoulder_l = 0, button_shoulder_r = 0, button_trigger_l = 0, button_trigger_r = 0,
         button_thumb_l = 0, button_thumb_r = 0,
         misc_button_select = 0, misc_button_start = 0, misc_button_system = 0,
         misc_button_capture = 0, map_axis_x = 0, map_axis_y = 0, map_axis_rx = 0, map_axis_ry = 0,
         axis_x_inverted = False, axis_y_inverted = False, axis_rx_inverted = False,
         axis_ry_inverted = False, map_brake = 0, map_throttle = 0 \<rparr>,
       mappings_type = UNI_GAMEPAD_MAPPINGS_TYPE_XBOX \<rparr>"

definition get_mappings_value_for_axis :: "nat \<Rightarrow> uni_gamepad \<Rightarrow> int" where
  "get_mappings_value_for_axis axis_type gp =
     (if axis_type = 0 then axis_x gp
      else if axis_type = 1 then axis_y gp
      else if axis_type = 2 then axis_rx gp
      else if axis_type = 3 then axis_ry gp
      else -1)"

definition get_mappings_value_for_pedal :: "nat \<Rightarrow> uni_gamepad \<Rightarrow> int" where
  "get_mappings_value_for_pedal pedal_type gp =
     (if pedal_type = 1 then throttle gp
      else if pedal_type = 0 then brake gp
      else -1)"

text \<open>\<^verbatim>\<open>if (src & mask) dst |= BIT(n)\<close>, the repeated step of the remapping.\<close>

definition remap_bit :: "'a::len word \<Rightarrow> 'a word \<Rightarrow> nat \<Rightarrow> 'a word \<Rightarrow> 'a word" where
  "remap_bit src m n dst = (if nonzero (src AND m) then dst OR push_bit n 1 else dst)"

definition remap_switch :: "uni_gamepad \<Rightarrow> uni_gamepad" where
  "remap_switch gp =
     (let b = buttons gp;
          n0 = b AND NOT (BUTTON_A OR BUTTON_B OR BUTTON_X OR BUTTON_Y);
          n1 = (if nonzero (b AND BUTTON_A) then n0 OR BUTTON_B else n0);
          n2 = (if nonzero (b AND BUTTON_B) then n1 OR BUTTON_A else n1);
          n3 = (if nonzero (b AND BUTTON_X) then n2 OR BUTTON_Y else n2);
          n4 = (if nonzero (b AND BUTTON_Y) then n3 OR BUTTON_X else n3)
      in gp\<lparr> buttons := n4 \<rparr>)"

definition remap_custom :: "uni_gamepad_mappings \<Rightarrow> uni_gamepad \<Rightarrow> uni_gamepad" where
  "remap_custom m gp =
     (let b = buttons gp; d = dpad gp; mb = misc_buttons gp;
          sgn = (\<lambda>inv v. if inv then - v else v :: int)
      in uni_gamepad_zero\<lparr>
           buttons := remap_bit b BUTTON_THUMB_R (button_thumb_r m)
             (remap_bit b BUTTON_THUMB_L (button_thumb_l m)
             (remap_bit b BUTTON_TRIGGER_R (button_trigger_r m)
             (remap_bit b BUTTON_TRIGGER_L (button_trigger_l m)
             (remap_bit b BUTTON_SHOULDER_R (button_shoulder_r m)
             (remap_bit b BUTTON_SHOULDER_L (button_shoulder_l m)
             (remap_bit b BUTTON_Y (button_y m)
             (remap_bit b BUTTON_X (button_x m)
             (remap_bit b BUTTON_B (button_b m)
             (remap_bit b BUTTON_A (button_a m) 0))))))))),
           dpad := remap_bit d DPAD_RIGHT (dpad_right m)
             (remap_bit d DPAD_LEFT (dpad_left m)
             (remap_bit d DPAD_DOWN (dpad_down m)
             (remap_bit d DPAD_UP (dpad_up m) 0))),
           misc_buttons := remap_bit mb MISC_BUTTON_CAPTURE (misc_button_capture m)
             (remap_bit mb MISC_BUTTON_START (misc_button_start m)
             (remap_bit mb MISC_BUTTON_SELECT (misc_button_select m)
             (remap_bit mb MISC_BUTTON_SYSTEM (misc_button_system m) 0))),
           axis_x := sgn (axis_x_inverted m) (get_mappings_value_for_axis (map_axis_x m) gp),
           axis_y := sgn (axis_y_inverted m) (get_mappings_value_for_axis (map_axis_y m) gp),
           axis_rx := sgn (axis_rx_inverted m) (get_mappings_value_for_axis (map_axis_rx m) gp),
           axis_ry := sgn (axis_ry_inverted m) (get_mappings_value_for_axis (map_axis_ry m) gp),
           brake := get_mappings_value_for_pedal (map_brake m) gp,
           throttle := get_mappings_value_for_pedal (map_throttle m) gp \<rparr>)"

definition uni_gamepad_remap :: "gamepad_mappings \<Rightarrow> uni_gamepad \<Rightarrow> uni_gamepad" where
  "uni_gamepad_remap s gp =
     (case mappings_type s of
        UNI_GAMEPAD_MAPPINGS_TYPE_XBOX \<Rightarrow> gp
      | UNI_GAMEPAD_MAPPINGS_TYPE_SWITCH \<Rightarrow> remap_switch gp
      | UNI_GAMEPAD_MAPPINGS_TYPE_CUSTOM \<Rightarrow> remap_custom (gp_map s) gp)"

definition uni_gamepad_set_mappings :: "uni_gamepad_mappings \<Rightarrow> gamepad_mappings \<Rightarrow> gamepad_mappings" where
  "uni_gamepad_set_mappings mappings s =
     s\<lparr> mappings_type := UNI_GAMEPAD_MAPPINGS_TYPE_CUSTOM, gp_map := mappings \<rparr>"

definition uni_gamepad_set_mappings_type ::
    "uni_gamepad_mappings_type \<Rightarrow> gamepad_mappings \<Rightarrow> gamepad_mappings" where
  "uni_gamepad_set_mappings_type type s = s\<lparr> mappings_type := type \<rparr>"

definition uni_gamepad_get_mappings_type :: "gamepad_mappings \<Rightarrow> uni_gamepad_mappings_type" where
  "uni_gamepad_get_mappings_type s = mappings_type s"

section \<open>Remapping laws\<close>

lemma bit_remap_bit:
  "bit (remap_bit (src :: 'a::len word) m n dst) i \<longleftrightarrow>
     bit dst i \<or> (nonzero (src AND m) \<and> i = n \<and> i < LENGTH('a))"
  by (auto simp: remap_bit_def bit_or_iff bit_exp_iff)

text \<open>Testing a button bit, and the bits of a button constant.\<close>

lemma button_tests:
  "nonzero (w AND DPAD_UP) = bit w 0" "nonzero (w AND DPAD_DOWN) = bit w 1"
  "nonzero (w AND DPAD_RIGHT) = bit w 2" "nonzero (w AND DPAD_LEFT) = bit w 3"
  "nonzero (v AND BUTTON_A) = bit v 0" "nonzero (v AND BUTTON_B) = bit v 1"
  "nonzero (v AND BUTTON_X) = bit v 2" "nonzero (v AND BUTTON_Y) = bit v 3"
  "nonzero (v AND BUTTON_SHOULDER_L) = bit v 4" "nonzero (v AND BUTTON_SHOULDER_R) = bit v 5"
  "nonzero (v AND BUTTON_TRIGGER_L) = bit v 6" "nonzero (v AND BUTTON_TRIGGER_R) = bit v 7"
  "nonzero (v AND BUTTON_THUMB_L) = bit v 8" "nonzero (v AND BUTTON_THUMB_R) = bit v 9"
  "nonzero (w AND MISC_BUTTON_SYSTEM) = bit w 0" "nonzero (w AND MISC_BUTTON_SELECT) = bit w 1"
  "nonzero (w AND MISC_BUTTON_START) = bit w 2" "nonzero (w AND MISC_BUTTON_CAPTURE) = bit w 3"
  using nonzero_and_bit [where k = 0] nonzero_and_bit [where k = 1] nonzero_and_bit [where k = 2]
    nonzero_and_bit [where k = 3] nonzero_and_bit [where k = 4] nonzero_and_bit [where k = 5]
    nonzero_and_bit [where k = 6] nonzero_and_bit [where k = 7] nonzero_and_bit [where k = 8]
    nonzero_and_bit [where k = 9]
  by (simp_all add: button_defs)

lemma face_button_bits:
  "bit BUTTON_A i = (i = 0)" "bit BUTTON_B i = (i = 1)" "bit BUTTON_X i = (i = 2)" "bit BUTTON_Y i = (i = 3)"
  using bit_exp_iff [of 0 i, where 'a = u16] bit_exp_iff [of 1 i, where 'a = u16]
    bit_exp_iff [of 2 i, where 'a = u16] bit_exp_iff [of 3 i, where 'a = u16]
  by (auto simp: button_defs)

definition swap_index :: "nat \<Rightarrow> nat" where
  "swap_index i = (if i = 0 then 1 else if i = 1 then 0 else if i = 2 then 3 else if i = 3 then 2 else i)"

lemma bit_remap_switch: "bit (buttons (remap_switch gp)) i \<longleftrightarrow> bit (buttons gp) (swap_index i)"
  by (auto simp: remap_switch_def Let_def button_tests face_button_bits bit_and_iff bit_or_iff
        bit_not_iff swap_index_def dest: bit_bounds)

lemma remap_switch_involution: "remap_switch (remap_switch gp) = gp"
proof -
  have "buttons (remap_switch (remap_switch gp)) = buttons gp"
    by (rule bit_word_eqI) (auto simp: bit_remap_switch swap_index_def)
  moreover have "remap_switch (remap_switch gp) = gp\<lparr> buttons := buttons (remap_switch (remap_switch gp)) \<rparr>"
    by (simp add: remap_switch_def Let_def)
  ultimately show ?thesis by simp
qed

lemma remap_default:
  "remap_custom GAMEPAD_DEFAULT_MAPPINGS gp =
     gp\<lparr> buttons := buttons gp AND 0x03FF, dpad := dpad gp AND 0x0F,
         misc_buttons := misc_buttons gp AND 0x0F, gyro := [0, 0, 0], accel := [0, 0, 0] \<rparr>"
proof -
  let ?r = "remap_custom GAMEPAD_DEFAULT_MAPPINGS gp"
  note defs = remap_custom_def Let_def GAMEPAD_DEFAULT_MAPPINGS_def bit_remap_bit button_tests bit_and_iff
  have "buttons ?r = buttons gp AND 0x03FF"
  proof (rule bit_word_eqI)
    fix n assume "n < LENGTH(16)"
    then have "n \<in> {0, 1, 2, 3, 4, 5, 6, 7, 8, 9, 10, 11, 12, 13, 14, 15}"
      by (intro below_16) simp
    then show "bit (buttons ?r) n = bit (buttons gp AND 0x03FF) n"
      by (elim insertE) (simp_all add: defs)
  qed
  moreover have "dpad ?r = dpad gp AND 0x0F" "misc_buttons ?r = misc_buttons gp AND 0x0F"
  proof -
    have "bit (dpad ?r) n = bit (dpad gp AND 0x0F) n \<and>
          bit (misc_buttons ?r) n = bit (misc_buttons gp AND 0x0F) n" if "n < 8" for n
      using below_8 [OF that] by (elim insertE) (simp_all add: defs)
    then show "dpad ?r = dpad gp AND 0x0F" "misc_buttons ?r = misc_buttons gp AND 0x0F"
      by (auto intro!: bit_word_eqI)
  qed
  ultimately show ?thesis
    by (simp add: remap_custom_def Let_def GAMEPAD_DEFAULT_MAPPINGS_def uni_gamepad_zero_def
          get_mappings_value_for_axis_def get_mappings_value_for_pedal_def)
qed

text \<open>Button remapping is faithful.  The Switch layout exchanges A with B and X with Y and changes
  nothing else, so that applying it twice gives back the report; and a custom layout set to
  \<^verbatim>\<open>GAMEPAD_DEFAULT_MAPPINGS\<close> passes every axis, pedal and defined button through unchanged (it
  drops the undefined button bits and the motion sensors, which the custom layout never copies).\<close>

theorem gamepad_remap_laws:
  "uni_gamepad_remap (uni_gamepad_set_mappings_type UNI_GAMEPAD_MAPPINGS_TYPE_SWITCH s)
     (uni_gamepad_remap (uni_gamepad_set_mappings_type UNI_GAMEPAD_MAPPINGS_TYPE_SWITCH s) gp) = gp \<and>
   uni_gamepad_remap (uni_gamepad_set_mappings GAMEPAD_DEFAULT_MAPPINGS s) gp =
     gp\<lparr> buttons := buttons gp AND 0x03FF, dpad := dpad gp AND 0x0F,
         misc_buttons := misc_buttons gp AND 0x0F, gyro := [0, 0, 0], accel := [0, 0, 0] \<rparr>"
  by (simp add: uni_gamepad_remap_def uni_gamepad_set_mappings_type_def uni_gamepad_set_mappings_def
        remap_switch_involution remap_default)

end
