(* ===== verification/Hid_Parser.thy ===== *)
theory Hid_Parser
  imports Tx_Prelude
begin

text \<open>
  The HID descriptor and report parser of BTstack (\<^verbatim>\<open>src/components/btstack/src/btstack_hid_parser.c\<close>
  and \<^verbatim>\<open>.h\<close>): the descriptor iterator, the usage iterator, the report parser and the report utilities.

  A descriptor is the list of its bytes and positions in it are natural numbers (the code's 16 bit
  positions never pass the 16 bit descriptor length).  Values keep the width of their C field.
  A failed \<^verbatim>\<open>btstack_assert\<close> (assertions are on, \<^verbatim>\<open>HAVE_ASSERT\<close>) is \<^verbatim>\<open>None\<close>.  A shift by the width of
  the type or more, which C leaves undefined, gives 0 here.  The report parser may read the byte just
  behind the report; that byte is the field \<^verbatim>\<open>report_after\<close>.
\<close>

definition HID_REPORT_ID_UNDEFINED :: u16 where "HID_REPORT_ID_UNDEFINED = 0xffff"

datatype hid_report_type =
    HID_REPORT_TYPE_RESERVED
  | HID_REPORT_TYPE_INPUT
  | HID_REPORT_TYPE_OUTPUT
  | HID_REPORT_TYPE_FEATURE

datatype hid_report_id_status = HID_REPORT_ID_UNDECLARED | HID_REPORT_ID_VALID | HID_REPORT_ID_INVALID

text \<open>Item types and tags, by their numbers in the enums \<^verbatim>\<open>TagType\<close>, \<^verbatim>\<open>MainItemTag\<close>, \<^verbatim>\<open>GlobalItemTag\<close> and
  \<^verbatim>\<open>LocalItemTag\<close>.\<close>

definition Main :: u8 where "Main = 0"

definition Global :: u8 where "Global = 1"

definition Local :: u8 where "Local = 2"

definition Input :: u8 where "Input = 8"

definition Output :: u8 where "Output = 9"

definition Feature :: u8 where "Feature = 11"

definition UsagePage :: u8 where "UsagePage = 0"

definition LogicalMinimum :: u8 where "LogicalMinimum = 1"

definition LogicalMaximum :: u8 where "LogicalMaximum = 2"

definition ReportSize :: u8 where "ReportSize = 7"

definition ReportID :: u8 where "ReportID = 8"

definition ReportCount :: u8 where "ReportCount = 9"

definition Usage :: u8 where "Usage = 0"

definition UsageMinimum :: u8 where "UsageMinimum = 1"

definition UsageMaximum :: u8 where "UsageMaximum = 2"

lemmas hid_tag_defs = Main_def Global_def Local_def Input_def Output_def Feature_def UsagePage_def
  LogicalMinimum_def LogicalMaximum_def ReportSize_def ReportID_def ReportCount_def Usage_def
  UsageMinimum_def UsageMaximum_def

record hid_descriptor_item =
  item_value :: u32
  item_size :: nat
  item_type :: u8
  item_tag :: u8
  data_size :: nat

definition hid_descriptor_item_zero :: hid_descriptor_item where
  "hid_descriptor_item_zero = \<lparr> item_value = 0, item_size = 0, item_type = 0, item_tag = 0, data_size = 0 \<rparr>"

section \<open>Descriptor items\<close>

text \<open>The loop that collects a little-endian value of up to four bytes.\<close>

fun item_value_loop :: "bytes \<Rightarrow> nat \<Rightarrow> u32 \<Rightarrow> u32" where
  "item_value_loop [] i val = val"
| "item_value_loop (b # bs) i val = item_value_loop bs (Suc i) (push_bit (8 * i) (to_u32 b) OR val)"

definition btstack_hid_descriptor_parse_item :: "hid_descriptor_item \<Rightarrow> bytes \<Rightarrow> bool \<times> hid_descriptor_item" where
  "btstack_hid_descriptor_parse_item item d =
     (case d of [] \<Rightarrow> (False, item)
      | item_header # rest \<Rightarrow>
          let dsz = [0, 1, 2, 4] ! unat (item_header AND 0x03);
              ty = drop_bit 2 (item_header AND 0x0c);
              tg = drop_bit 4 (item_header AND 0xf0);
              item1 = item\<lparr> data_size := dsz, item_type := ty, item_tag := tg \<rparr>
          in if dsz = 2 \<and> tg = 0x0f \<and> ty = 3 \<and> length d < 3 then (False, item1)
             else
               let (item2, pos) =
                     (if dsz = 2 \<and> tg = 0x0f \<and> ty = 3
                      then (item1\<lparr> data_size := unat (rest ! 0), item_tag := rest ! 1 \<rparr>, 3)
                      else (item1, 1));
                   item3 = item2\<lparr> item_size := pos + data_size item2, item_value := 0 \<rparr>
               in if length d < item_size item3 then (False, item3)
                  else if data_size item3 > 4 then (False, item3)
                  else
                    let sgnd = (item_type item3 = Global \<and> item_tag item3 > 0 \<and> item_tag item3 < 5);
                        bs = take (data_size item3) (drop pos d);
                        val = item_value_loop bs 0 0;
                        latest_byte = (if bs = [] then 0 else last bs);
                        val2 = (if sgnd \<and> data_size item3 > 0 \<and> nonzero (latest_byte AND 0x80)
                                then val - push_bit (data_size item3 * 8) 1 else val)
                    in (True, item3\<lparr> item_value := val2 \<rparr>))"

record btstack_hid_descriptor_iterator =
  descriptor :: bytes
  descriptor_pos :: nat
  item_ready :: bool
  valid :: bool
  descriptor_item :: hid_descriptor_item

definition btstack_hid_descriptor_iterator_init ::
    "btstack_hid_descriptor_iterator \<Rightarrow> bytes \<Rightarrow> btstack_hid_descriptor_iterator" where
  "btstack_hid_descriptor_iterator_init iterator hid_descriptor =
     iterator\<lparr> descriptor := hid_descriptor, descriptor_pos := 0, item_ready := False, valid := True \<rparr>"

definition btstack_hid_descriptor_iterator_has_more ::
    "btstack_hid_descriptor_iterator \<Rightarrow> bool \<times> btstack_hid_descriptor_iterator" where
  "btstack_hid_descriptor_iterator_has_more iterator =
     (let it = (if \<not> item_ready iterator \<and> length (descriptor iterator) > descriptor_pos iterator
                then
                  let (ok, item) = btstack_hid_descriptor_parse_item (descriptor_item iterator)
                                     (drop (descriptor_pos iterator) (descriptor iterator));
                      it1 = iterator\<lparr> descriptor_item := item \<rparr>
                  in if ok then it1\<lparr> item_ready := True \<rparr> else it1\<lparr> valid := False \<rparr>
                else iterator)
      in (item_ready it, it))"

definition btstack_hid_descriptor_iterator_get_item ::
    "btstack_hid_descriptor_iterator \<Rightarrow> hid_descriptor_item \<times> btstack_hid_descriptor_iterator" where
  "btstack_hid_descriptor_iterator_get_item iterator =
     (descriptor_item iterator,
      iterator\<lparr> descriptor_pos := descriptor_pos iterator + item_size (descriptor_item iterator),
                item_ready := False \<rparr>)"

definition btstack_hid_descriptor_iterator_valid :: "btstack_hid_descriptor_iterator \<Rightarrow> bool" where
  "btstack_hid_descriptor_iterator_valid iterator = valid iterator"

text \<open>What one round of every descriptor loop does: \<^verbatim>\<open>while (has_more) { item = get_item; ... }\<close>.\<close>

definition next_item ::
    "btstack_hid_descriptor_iterator \<Rightarrow> hid_descriptor_item option \<times> btstack_hid_descriptor_iterator" where
  "next_item it =
     (let (more, it1) = btstack_hid_descriptor_iterator_has_more it
      in if more then (let (item, it2) = btstack_hid_descriptor_iterator_get_item it1 in (Some item, it2))
         else (None, it1))"

text \<open>The descriptor bytes still to read; an item that is ready counts once more.\<close>

definition it_left :: "btstack_hid_descriptor_iterator \<Rightarrow> nat" where
  "it_left it = 2 * (length (descriptor it) - descriptor_pos it) + of_bool (item_ready it)"

lemma parse_item_size:
  assumes "btstack_hid_descriptor_parse_item item d = (True, item')"
  shows "0 < item_size item' \<and> item_size item' \<le> length d"
  using assms
  by (auto simp: btstack_hid_descriptor_parse_item_def Let_def case_prod_beta
      split: list.splits if_splits)

lemma next_item_decreases:
  assumes "next_item it = (Some item, it')"
  shows "it_left it' < it_left it" "descriptor it' = descriptor it" "\<not> item_ready it'"
proof -
  show "descriptor it' = descriptor it" "\<not> item_ready it'"
    using assms
    by (auto simp: next_item_def btstack_hid_descriptor_iterator_has_more_def case_prod_beta Let_def
        btstack_hid_descriptor_iterator_get_item_def split: if_splits)
  show "it_left it' < it_left it"
  proof (cases "item_ready it")
    case True
    then show ?thesis
      using assms
      by (auto simp: next_item_def btstack_hid_descriptor_iterator_has_more_def
          btstack_hid_descriptor_iterator_get_item_def it_left_def Let_def)
  next
    case False
    define r where "r = btstack_hid_descriptor_parse_item (descriptor_item it) (drop (descriptor_pos it) (descriptor it))"
    have pos: "descriptor_pos it < length (descriptor it)" "fst r"
      "it' = it\<lparr> descriptor_item := snd r, descriptor_pos := descriptor_pos it + item_size (snd r),
                 item_ready := False \<rparr>"
      using assms False
      by (auto simp: next_item_def btstack_hid_descriptor_iterator_has_more_def r_def Let_def
          btstack_hid_descriptor_iterator_get_item_def case_prod_beta split: if_splits)
    have "0 < item_size (snd r)"
      using parse_item_size [of "descriptor_item it" "drop (descriptor_pos it) (descriptor it)" "snd r"]
        pos(2) by (auto simp: r_def prod_eq_iff)
    then show ?thesis using pos by (simp add: it_left_def)
  qed
qed

section \<open>The usage iterator\<close>

datatype btstack_hid_usage_iterator_state =
    SCAN_FOR_REPORT_ITEM
  | USAGES_AVAILABLE
  | PARSER_COMPLETE

record btstack_hid_usage_iterator =
  u_descriptor :: bytes
  descriptor_iterator :: btstack_hid_descriptor_iterator
  state :: btstack_hid_usage_iterator_state
  u_descriptor_item :: hid_descriptor_item
  report_type :: hid_report_type
  report_pos_in_bit :: u16
  usage_pos :: nat
  usage_page :: u16
  usage_minimum :: u32
  usage_maximum :: u32
  available_usages :: u16
  required_usages :: u16
  usage_range :: bool
  global_logical_minimum :: u32
  global_logical_maximum :: u32
  global_usage_page :: u16
  global_report_size :: u8
  global_report_count :: u8
  global_report_id :: u16

definition main_item_tag_matches_report_type :: "u8 \<Rightarrow> hid_report_type \<Rightarrow> bool" where
  "main_item_tag_matches_report_type tag rt =
     (if tag = Input then rt = HID_REPORT_TYPE_INPUT
      else if tag = Output then rt = HID_REPORT_TYPE_OUTPUT
      else if tag = Feature then rt = HID_REPORT_TYPE_FEATURE
      else False)"

text \<open>The default branch asserts: the tags 12 to 15 are reserved.\<close>

definition handle_global_item ::
    "hid_descriptor_item \<Rightarrow> btstack_hid_usage_iterator \<Rightarrow> btstack_hid_usage_iterator option" where
  "handle_global_item item it =
     (let tag = item_tag item; v = item_value item
      in if tag = UsagePage then Some (it\<lparr> global_usage_page := to_u16 v \<rparr>)
         else if tag = LogicalMinimum then Some (it\<lparr> global_logical_minimum := v \<rparr>)
         else if tag = LogicalMaximum then Some (it\<lparr> global_logical_maximum := v \<rparr>)
         else if tag = ReportSize then Some (it\<lparr> global_report_size := to_u8 v \<rparr>)
         else if tag = ReportID then Some (it\<lparr> global_report_id := to_u16 v \<rparr>)
         else if tag = ReportCount then Some (it\<lparr> global_report_count := to_u8 v \<rparr>)
         else if tag \<le> 11 then Some it
         else None)"

text \<open>One round of the loop that looks for the usages of a main item, with its two local flags.\<close>

definition usage_round ::
    "hid_descriptor_item \<Rightarrow> btstack_hid_usage_iterator \<times> bool \<times> bool \<Rightarrow> btstack_hid_usage_iterator \<times> bool \<times> bool" where
  "usage_round usage_item = (\<lambda>(it, have_min, have_max).
     let it1 = (if item_type usage_item = Global \<and> item_tag usage_item = UsagePage
                then it\<lparr> usage_page := to_u16 (item_value usage_item) \<rparr> else it)
     in if item_type usage_item = Local
        then
          let usage_value = (if data_size usage_item > 2 then item_value usage_item
                             else push_bit 16 (to_u32 (usage_page it1)) OR item_value usage_item);
              (it2, mn, mx) =
                (if item_tag usage_item = Usage
                 then (it1\<lparr> available_usages := 1, usage_minimum := usage_value \<rparr>, have_min, have_max)
                 else if item_tag usage_item = UsageMinimum
                 then (it1\<lparr> usage_minimum := usage_value \<rparr>, True, have_max)
                 else if item_tag usage_item = UsageMaximum
                 then (it1\<lparr> usage_maximum := usage_value \<rparr>, have_min, True)
                 else (it1, have_min, have_max))
          in (if mn \<and> mx
              then (it2\<lparr> available_usages := to_u16 (usage_maximum it2 - usage_minimum it2 + 1),
                        usage_range := True \<rparr>, mn, mx)
              else (it2, mn, mx))
        else (it1, have_min, have_max))"

function find_usage_loop ::
    "btstack_hid_descriptor_iterator \<Rightarrow> btstack_hid_usage_iterator \<times> bool \<times> bool
     \<Rightarrow> btstack_hid_descriptor_iterator \<times> btstack_hid_usage_iterator" where
  "find_usage_loop li s =
     (if available_usages (fst s) \<noteq> 0 then (li, fst s)
      else (case next_item li of
              (None, li') \<Rightarrow> (li', fst s)
            | (Some item, li') \<Rightarrow> find_usage_loop li' (usage_round item s)))"
  by pat_completeness auto
termination
  by (relation "measure (it_left \<circ> fst)") (auto dest: next_item_decreases(1) [OF sym])

definition descriptor_iterator_on :: "bytes \<Rightarrow> btstack_hid_descriptor_iterator" where
  "descriptor_iterator_on d = \<lparr> descriptor = d, descriptor_pos = 0, item_ready = False, valid = True,
     descriptor_item = hid_descriptor_item_zero \<rparr>"

definition btstack_usage_iterator_hid_find_next_usage ::
    "btstack_hid_usage_iterator \<Rightarrow> btstack_hid_usage_iterator" where
  "btstack_usage_iterator_hid_find_next_usage it =
     (let (li, it') = find_usage_loop (descriptor_iterator_on (drop (usage_pos it) (u_descriptor it)))
                        (it\<lparr> usage_range := False \<rparr>, False, False)
      in it'\<lparr> usage_pos := usage_pos it' + descriptor_pos li \<rparr>)"

definition btstack_parser_usage_iterator_process_item ::
    "hid_descriptor_item \<Rightarrow> btstack_hid_usage_iterator \<Rightarrow> btstack_hid_usage_iterator option" where
  "btstack_parser_usage_iterator_process_item item it =
     (if item_type item = Main then
        if \<not> main_item_tag_matches_report_type (item_tag item) (report_type it) then Some it
        else if bit (item_value item) 0 then
          Some (it\<lparr> report_pos_in_bit := report_pos_in_bit it +
                     to_u16 (global_report_size it) * to_u16 (global_report_count it) \<rparr>)
        else if global_report_count it = 0 then Some it
        else Some (it\<lparr> required_usages := to_u16 (global_report_count it) \<rparr>)
      else if item_type item = Global then
        (case handle_global_item item it of
           None \<Rightarrow> None
         | Some it' \<Rightarrow> Some (if global_report_id it \<noteq> global_report_id it'
                            then it'\<lparr> report_pos_in_bit := 0 \<rparr> else it'))
      else Some it)"

lemma process_item_keeps:
  assumes "btstack_parser_usage_iterator_process_item item it = Some it'"
  shows "descriptor_iterator it' = descriptor_iterator it" "u_descriptor it' = u_descriptor it"
    "state it' = state it" "u_descriptor_item it' = u_descriptor_item it"
  using assms
  by (auto simp: btstack_parser_usage_iterator_process_item_def handle_global_item_def Let_def
      split: if_splits option.splits)

function btstack_hid_usage_iterator_find_next_usage ::
    "btstack_hid_usage_iterator \<Rightarrow> btstack_hid_usage_iterator option" where
  "btstack_hid_usage_iterator_find_next_usage it =
     (case next_item (descriptor_iterator it) of
        (None, di) \<Rightarrow> Some (it\<lparr> descriptor_iterator := di, state := PARSER_COMPLETE \<rparr>)
      | (Some item, di) \<Rightarrow>
          (case btstack_parser_usage_iterator_process_item item
                  (it\<lparr> descriptor_iterator := di, u_descriptor_item := item \<rparr>) of
             None \<Rightarrow> None
           | Some it2 \<Rightarrow>
               if required_usages it2 \<noteq> 0 then
                 let it3 = btstack_usage_iterator_hid_find_next_usage it2
                 in Some (it3\<lparr> state := (if available_usages it3 \<noteq> 0 then USAGES_AVAILABLE
                                         else PARSER_COMPLETE) \<rparr>)
               else
                 btstack_hid_usage_iterator_find_next_usage
                   (if item_type item = Main
                    then it2\<lparr> usage_pos := descriptor_pos (descriptor_iterator it2),
                              usage_page := global_usage_page it2 \<rparr>
                    else it2)))"
  by pat_completeness auto
termination
  by (relation "measure (it_left \<circ> descriptor_iterator)")
     (auto dest!: process_item_keeps(1) next_item_decreases(1) [OF sym])

declare btstack_hid_usage_iterator_find_next_usage.simps [simp del] find_usage_loop.simps [simp del]

definition btstack_hid_usage_iterator_init :: "bytes \<Rightarrow> hid_report_type \<Rightarrow> btstack_hid_usage_iterator" where
  "btstack_hid_usage_iterator_init hid_descriptor hid_report_type =
     \<lparr> u_descriptor = hid_descriptor, descriptor_iterator = descriptor_iterator_on hid_descriptor,
       state = SCAN_FOR_REPORT_ITEM, u_descriptor_item = hid_descriptor_item_zero,
       report_type = hid_report_type, report_pos_in_bit = 0, usage_pos = 0, usage_page = 0,
       usage_minimum = 0, usage_maximum = 0, available_usages = 0, required_usages = 0,
       usage_range = False, global_logical_minimum = 0, global_logical_maximum = 0,
       global_usage_page = 0, global_report_size = 0, global_report_count = 0,
       global_report_id = HID_REPORT_ID_UNDEFINED \<rparr>"

lemma find_next_usage_leaves_scan:
  "btstack_hid_usage_iterator_find_next_usage it = Some it' \<Longrightarrow> state it' \<noteq> SCAN_FOR_REPORT_ITEM"
  by (induction it arbitrary: it' rule: btstack_hid_usage_iterator_find_next_usage.induct)
     (subst (asm) (2) btstack_hid_usage_iterator_find_next_usage.simps,
      auto simp: Let_def split: prod.splits option.splits if_splits)

function btstack_hid_usage_iterator_has_more ::
    "btstack_hid_usage_iterator \<Rightarrow> (bool \<times> btstack_hid_usage_iterator) option" where
  "btstack_hid_usage_iterator_has_more it =
     (if state it = SCAN_FOR_REPORT_ITEM
      then (case btstack_hid_usage_iterator_find_next_usage it of
              None \<Rightarrow> None
            | Some it' \<Rightarrow> btstack_hid_usage_iterator_has_more it')
      else Some (state it = USAGES_AVAILABLE, it))"
  by pat_completeness auto
termination
  by (relation "measure (\<lambda>it. of_bool (state it = SCAN_FOR_REPORT_ITEM))")
     (auto dest!: find_next_usage_leaves_scan)

declare btstack_hid_usage_iterator_has_more.simps [simp del]

record btstack_hid_usage_item =
  ui_report_id :: u16
  ui_bit_pos :: u16
  ui_usage_page :: u16
  ui_usage :: u16
  ui_size :: u8
  ui_descriptor_item :: hid_descriptor_item
  ui_logical_minimum :: u32

text \<open>The part of \<^verbatim>\<open>get_item\<close> that advances within the current main item.\<close>

definition usage_item_of :: "btstack_hid_usage_iterator \<Rightarrow> btstack_hid_usage_item" where
  "usage_item_of it =
     \<lparr> ui_report_id = global_report_id it, ui_bit_pos = report_pos_in_bit it,
       ui_usage_page = to_u16 (drop_bit 16 (usage_minimum it)),
       ui_usage = (if bit (item_value (u_descriptor_item it)) 1
                   then to_u16 (usage_minimum it AND 0xffff) else 0),
       ui_size = global_report_size it, ui_descriptor_item = u_descriptor_item it,
       ui_logical_minimum = global_logical_minimum it \<rparr>"

definition advance_usage :: "btstack_hid_usage_iterator \<Rightarrow> btstack_hid_usage_iterator" where
  "advance_usage it =
     (let it1 = it\<lparr> required_usages := required_usages it - 1,
                    report_pos_in_bit := report_pos_in_bit it + to_u16 (global_report_size it) \<rparr>
      in if bit (item_value (u_descriptor_item it)) 1
         then
           let it2 = it1\<lparr> usage_minimum := usage_minimum it1 + 1,
                          available_usages := available_usages it1 - 1 \<rparr>
           in if usage_range it2 \<and> usage_minimum it2 > usage_maximum it2
              then it2\<lparr> report_pos_in_bit := report_pos_in_bit it2 +
                          to_u16 (global_report_size it2) * required_usages it2,
                        required_usages := 0 \<rparr>
              else it2
         else if required_usages it1 = 0 then it1\<lparr> available_usages := 0 \<rparr> else it1)"

definition btstack_hid_usage_iterator_get_item ::
    "btstack_hid_usage_iterator \<Rightarrow> btstack_hid_usage_item \<times> btstack_hid_usage_iterator" where
  "btstack_hid_usage_iterator_get_item it =
     (let item = usage_item_of it;
          it1 = advance_usage it
      in if available_usages it1 \<noteq> 0 then (item, it1)
         else if required_usages it1 = 0 then (item, it1\<lparr> state := SCAN_FOR_REPORT_ITEM \<rparr>)
         else
           let it2 = btstack_usage_iterator_hid_find_next_usage it1
           in (item, if available_usages it2 = 0 then it2\<lparr> state := PARSER_COMPLETE \<rparr> else it2))"

section \<open>Every loop over usages ends\<close>

text \<open>
  One round of a loop over usages: \<^verbatim>\<open>has_more\<close> followed by \<^verbatim>\<open>get_item\<close>.  The rounds are well founded:
  either descriptor bytes are consumed, or the iterator leaves the state with usages, or usages are
  searched further on, or the counters of the current main item go down.
\<close>

definition usage_measures :: "(btstack_hid_usage_iterator \<Rightarrow> nat) list" where
  "usage_measures =
     [\<lambda>it. it_left (descriptor_iterator it),
      \<lambda>it. of_bool (state it = USAGES_AVAILABLE),
      \<lambda>it. length (u_descriptor it) - usage_pos it,
      \<lambda>it. unat (available_usages it - 1),
      \<lambda>it. unat (required_usages it - 1)]"

lemma usage_round_keeps:
  "descriptor_iterator (fst (usage_round item s)) = descriptor_iterator (fst s)"
  "u_descriptor (fst (usage_round item s)) = u_descriptor (fst s)"
  "usage_pos (fst (usage_round item s)) = usage_pos (fst s)"
  "required_usages (fst (usage_round item s)) = required_usages (fst s)"
  "state (fst (usage_round item s)) = state (fst s)"
  by (auto simp: usage_round_def Let_def case_prod_beta)

lemma find_usage_loop_keeps:
  assumes "find_usage_loop li s = (li', it')"
  shows "descriptor_iterator it' = descriptor_iterator (fst s) \<and> u_descriptor it' = u_descriptor (fst s) \<and>
         usage_pos it' = usage_pos (fst s) \<and> required_usages it' = required_usages (fst s) \<and>
         state it' = state (fst s)"
  using assms
proof (induction li s rule: find_usage_loop.induct)
  case (1 li s)
  then show ?case
    by (subst (asm) (2) find_usage_loop.simps)
       (auto simp: usage_round_keeps split: if_splits prod.splits option.splits)
qed

lemma next_item_advances:
  assumes "next_item li = (Some item, li')" "\<not> item_ready li"
  shows "descriptor_pos li < descriptor_pos li' \<and> descriptor_pos li' \<le> length (descriptor li)"
proof -
  define r where "r = btstack_hid_descriptor_parse_item (descriptor_item li) (drop (descriptor_pos li) (descriptor li))"
  have pos: "descriptor_pos li < length (descriptor li)" "fst r"
    "descriptor_pos li' = descriptor_pos li + item_size (snd r)"
    using assms
    by (auto simp: next_item_def btstack_hid_descriptor_iterator_has_more_def r_def Let_def
        btstack_hid_descriptor_iterator_get_item_def case_prod_beta split: if_splits)
  moreover have "0 < item_size (snd r) \<and> item_size (snd r) \<le> length (descriptor li) - descriptor_pos li"
    using parse_item_size [of "descriptor_item li" "drop (descriptor_pos li) (descriptor li)" "snd r"]
      pos(2) by (auto simp: r_def prod_eq_iff)
  ultimately show ?thesis by auto
qed

lemma next_item_None:
  "next_item li = (None, li') \<Longrightarrow> descriptor_pos li' = descriptor_pos li \<and> descriptor li' = descriptor li"
  by (auto simp: next_item_def btstack_hid_descriptor_iterator_has_more_def case_prod_beta Let_def
      btstack_hid_descriptor_iterator_get_item_def split: if_splits)

lemma find_usage_loop_pos:
  assumes "find_usage_loop li s = (li', it')" "\<not> item_ready li" "descriptor_pos li \<le> length (descriptor li)"
  shows "descriptor_pos li \<le> descriptor_pos li' \<and> descriptor_pos li' \<le> length (descriptor li) \<and>
         (available_usages (fst s) = 0 \<longrightarrow> available_usages it' \<noteq> 0 \<longrightarrow> descriptor_pos li < descriptor_pos li')"
  using assms
proof (induction li s rule: find_usage_loop.induct)
  case (1 li s)
  show ?case
  proof (cases "available_usages (fst s) = 0")
    case False
    then show ?thesis using 1(2,4) by (subst (asm) find_usage_loop.simps) auto
  next
    case True
    show ?thesis
    proof (cases "next_item li")
      case (Pair o' li1)
      show ?thesis
      proof (cases o')
        case None
        then show ?thesis
          using 1(2,4) True Pair next_item_None [of li li1]
          by (subst (asm) find_usage_loop.simps) auto
      next
        case (Some item)
        have n: "next_item li = (Some item, li1)" using Pair Some by simp
        have "find_usage_loop li1 (usage_round item s) = (li', it')"
          using 1(2) True n by (subst (asm) find_usage_loop.simps) auto
        then show ?thesis
          using 1(1) [OF _ n [symmetric]] True next_item_advances [OF n 1(3)]
            next_item_decreases(2,3) [OF n] by fastforce
      qed
    qed
  qed
qed

lemma find_next_usage_inner:
  assumes "it' = btstack_usage_iterator_hid_find_next_usage it"
  shows "descriptor_iterator it' = descriptor_iterator it" "u_descriptor it' = u_descriptor it"
    "required_usages it' = required_usages it" "state it' = state it"
    "available_usages it = 0 \<Longrightarrow> available_usages it' \<noteq> 0 \<Longrightarrow>
       usage_pos it < usage_pos it' \<and> usage_pos it < length (u_descriptor it)"
proof -
  let ?d = "drop (usage_pos it) (u_descriptor it)"
  obtain li it1 where l: "find_usage_loop (descriptor_iterator_on ?d) (it\<lparr> usage_range := False \<rparr>, False, False) = (li, it1)"
    by (cases "find_usage_loop (descriptor_iterator_on ?d) (it\<lparr> usage_range := False \<rparr>, False, False)")
  have it': "it' = it1\<lparr> usage_pos := usage_pos it1 + descriptor_pos li \<rparr>"
    using assms l by (simp add: btstack_usage_iterator_hid_find_next_usage_def)
  note k = find_usage_loop_keeps [OF l]
  show "descriptor_iterator it' = descriptor_iterator it" "u_descriptor it' = u_descriptor it"
    "required_usages it' = required_usages it" "state it' = state it"
    using k by (simp_all add: it')
  show "usage_pos it < usage_pos it' \<and> usage_pos it < length (u_descriptor it)"
    if "available_usages it = 0" "available_usages it' \<noteq> 0"
    using find_usage_loop_pos [OF l] that k by (auto simp: it' descriptor_iterator_on_def)
qed

lemma advance_usage_keeps:
  "descriptor_iterator (advance_usage it) = descriptor_iterator it"
  "u_descriptor (advance_usage it) = u_descriptor it"
  "usage_pos (advance_usage it) = usage_pos it"
  "state (advance_usage it) = state it"
  by (simp_all add: advance_usage_def Let_def)

lemma word_dec_less: "(w :: 'a::len word) \<noteq> 0 \<Longrightarrow> unat (w - 1) < unat w"
  by (simp add: unat_minus_one unat_gt_0)

lemma get_item_decreases:
  assumes "state it = USAGES_AVAILABLE"
  shows "(snd (btstack_hid_usage_iterator_get_item it), it) \<in> measures usage_measures"
proof -
  define it1 where "it1 = advance_usage it"
  note k = advance_usage_keeps [of it, folded it1_def]
  have counters: "available_usages it1 \<noteq> 0 \<Longrightarrow>
      unat (available_usages it1 - 1) < unat (available_usages it - 1) \<or>
      available_usages it1 = available_usages it \<and> unat (required_usages it1 - 1) < unat (required_usages it - 1)"
    using word_dec_less [of "available_usages it - 1"] word_dec_less [of "required_usages it - 1"]
    by (auto simp: it1_def advance_usage_def Let_def split: if_splits)
  consider (more) "available_usages it1 \<noteq> 0" | (scan) "available_usages it1 = 0" "required_usages it1 = 0"
    | (search) "available_usages it1 = 0" "required_usages it1 \<noteq> 0" by blast
  then show ?thesis
  proof cases
    case more
    then show ?thesis
      using counters k by (auto simp: btstack_hid_usage_iterator_get_item_def it1_def [symmetric] usage_measures_def)
  next
    case scan
    then show ?thesis
      using assms k by (simp add: btstack_hid_usage_iterator_get_item_def it1_def [symmetric] usage_measures_def)
  next
    case search
    define it2 where "it2 = btstack_usage_iterator_hid_find_next_usage it1"
    note f = find_next_usage_inner [OF it2_def]
    have "snd (btstack_hid_usage_iterator_get_item it) =
            (if available_usages it2 = 0 then it2\<lparr> state := PARSER_COMPLETE \<rparr> else it2)"
      using search by (simp add: btstack_hid_usage_iterator_get_item_def it1_def [symmetric] it2_def Let_def)
    then show ?thesis
      using search(1) f k assms by (auto simp: usage_measures_def)
  qed
qed

lemma find_next_usage_left:
  "btstack_hid_usage_iterator_find_next_usage it = Some it' \<Longrightarrow> state it' = USAGES_AVAILABLE \<Longrightarrow>
     it_left (descriptor_iterator it') < it_left (descriptor_iterator it)"
proof (induction it arbitrary: it' rule: btstack_hid_usage_iterator_find_next_usage.induct)
  case (1 it)
  obtain item di where n: "next_item (descriptor_iterator it) = (Some item, di)"
    using 1(2,3) by (subst (asm) btstack_hid_usage_iterator_find_next_usage.simps)
      (auto split: prod.splits option.splits)
  obtain it2 where p: "btstack_parser_usage_iterator_process_item item
      (it\<lparr> descriptor_iterator := di, u_descriptor_item := item \<rparr>) = Some it2"
    using 1(2) n by (subst (asm) btstack_hid_usage_iterator_find_next_usage.simps) (auto split: option.splits)
  have d: "descriptor_iterator it2 = di" using process_item_keeps(1) [OF p] by simp
  note less = next_item_decreases(1) [OF n]
  show ?case
  proof (cases "required_usages it2 = 0")
    case False
    then have "descriptor_iterator it' = di"
      using 1(2) n p d find_next_usage_inner(1) [OF refl, of it2]
      by (subst (asm) btstack_hid_usage_iterator_find_next_usage.simps) (auto simp: Let_def)
    then show ?thesis using less by simp
  next
    case True
    have "btstack_hid_usage_iterator_find_next_usage
       (if item_type item = Main then it2\<lparr> usage_pos := descriptor_pos (descriptor_iterator it2),
          usage_page := global_usage_page it2 \<rparr> else it2) = Some it'"
      using 1(2) n p True by (subst (asm) btstack_hid_usage_iterator_find_next_usage.simps) simp
    then show ?thesis
      using 1(1) [OF n [symmetric] refl p _ _ 1(3)] True less d by (auto split: if_splits)
  qed
qed

lemma has_more_cases:
  assumes "btstack_hid_usage_iterator_has_more it = Some (True, it')"
  shows "state it' = USAGES_AVAILABLE \<and>
         (it' = it \<or> it_left (descriptor_iterator it') < it_left (descriptor_iterator it))"
proof (cases "state it = SCAN_FOR_REPORT_ITEM")
  case False
  then show ?thesis using assms by (subst (asm) btstack_hid_usage_iterator_has_more.simps) auto
next
  case True
  then obtain it1 where f: "btstack_hid_usage_iterator_find_next_usage it = Some it1"
      and h: "btstack_hid_usage_iterator_has_more it1 = Some (True, it')"
    using assms by (subst (asm) btstack_hid_usage_iterator_has_more.simps) (auto split: option.splits)
  have "it' = it1 \<and> state it' = USAGES_AVAILABLE"
    using h find_next_usage_leaves_scan [OF f]
    by (subst (asm) btstack_hid_usage_iterator_has_more.simps) auto
  then show ?thesis using find_next_usage_left [OF f] by auto
qed

lemma usage_round_trip_decreases:
  assumes "btstack_hid_usage_iterator_has_more it = Some (True, it1)"
  shows "(snd (btstack_hid_usage_iterator_get_item it1), it) \<in> measures usage_measures"
proof -
  have "(snd (btstack_hid_usage_iterator_get_item it1), it1) \<in> measures usage_measures"
    using get_item_decreases has_more_cases [OF assms] by blast
  then show ?thesis
    using has_more_cases [OF assms] by (auto simp: usage_measures_def)
qed

section \<open>The report parser\<close>

record btstack_hid_parser =
  usage_iterator :: btstack_hid_usage_iterator
  report :: bytes
  report_after :: u8
  have_report_usage_ready :: bool
  descriptor_usage_item :: btstack_hid_usage_item

definition btstack_hid_usage_item_zero :: btstack_hid_usage_item where
  "btstack_hid_usage_item_zero = \<lparr> ui_report_id = 0, ui_bit_pos = 0, ui_usage_page = 0, ui_usage = 0,
     ui_size = 0, ui_descriptor_item = hid_descriptor_item_zero, ui_logical_minimum = 0 \<rparr>"

definition btstack_hid_parser_init :: "bytes \<Rightarrow> hid_report_type \<Rightarrow> bytes \<Rightarrow> u8 \<Rightarrow> btstack_hid_parser" where
  "btstack_hid_parser_init hid_descriptor rtype hid_report after =
     \<lparr> usage_iterator = btstack_hid_usage_iterator_init hid_descriptor rtype, report = hid_report,
       report_after = after, have_report_usage_ready = False,
       descriptor_usage_item = btstack_hid_usage_item_zero \<rparr>"

text \<open>The byte \<^verbatim>\<open>report[i]\<close>; the parser reads at most one byte behind the report.\<close>

definition report_byte :: "btstack_hid_parser \<Rightarrow> nat \<Rightarrow> u8" where
  "report_byte p i = (if i < length (report p) then report p ! i else report_after p)"

function btstack_hid_parser_has_more :: "btstack_hid_parser \<Rightarrow> (bool \<times> btstack_hid_parser) option" where
  "btstack_hid_parser_has_more p =
     (if have_report_usage_ready p then Some (True, p)
      else (case btstack_hid_usage_iterator_has_more (usage_iterator p) of
              None \<Rightarrow> None
            | Some (avail, it) \<Rightarrow>
                if \<not> avail then Some (False, p\<lparr> usage_iterator := it \<rparr>)
                else
                  let (item, it') = btstack_hid_usage_iterator_get_item it;
                      p1 = p\<lparr> usage_iterator := it', descriptor_usage_item := item \<rparr>
                  in if ui_report_id item \<noteq> HID_REPORT_ID_UNDEFINED \<and>
                        ui_report_id item \<noteq> to_u16 (report_byte p 0)
                     then btstack_hid_parser_has_more p1
                     else btstack_hid_parser_has_more (p1\<lparr> have_report_usage_ready := True \<rparr>)))"
  by pat_completeness auto
termination
  by (relation "inv_image (measures usage_measures) usage_iterator")
     (auto dest!: usage_round_trip_decreases simp: prod_eq_iff)

declare btstack_hid_parser_has_more.simps [simp del]

definition btstack_hid_parser_get_field ::
    "btstack_hid_parser \<Rightarrow> (u16 \<times> u16 \<times> int) \<times> btstack_hid_parser" where
  "btstack_hid_parser_get_field p =
     (let item = descriptor_usage_item p;
          size = to_u32 (ui_size item);
          bit_pos = (if ui_report_id item \<noteq> HID_REPORT_ID_UNDEFINED
                     then ui_bit_pos item + 8 else ui_bit_pos item);
          is_variable = bit (item_value (ui_descriptor_item item)) 1;
          is_signed = sint (ui_logical_minimum item) < 0;
          pos_start = min (unat (drop_bit 3 bit_pos)) (length (report p));
          pos_end = min (unat (drop_bit 3 (to_u32 bit_pos + size - 1))) (length (report p));
          bytes_to_read = (pos_end + 1) - pos_start;
          multi_byte_value = foldl (\<lambda>acc i. acc OR push_bit (i * 8) (to_u32 (report_byte p (pos_start + i))))
                                   0 [0..<bytes_to_read];
          unsigned_value = drop_bit (unat (bit_pos AND 0x07)) multi_byte_value AND
                           (push_bit (unat size) 1 - 1);
          result = (if is_variable then
                      (ui_usage_page item, ui_usage item,
                       sint (if is_signed \<and> nonzero (unsigned_value AND push_bit (unat (size - 1)) 1)
                             then unsigned_value - push_bit (unat size) 1 else unsigned_value))
                    else (ui_usage_page item, to_u16 unsigned_value, 1))
      in (result, p\<lparr> have_report_usage_ready := False \<rparr>))"

section \<open>Report utilities\<close>

record report_size_scan =
  total_report_size :: int
  scan_report_size :: int
  scan_report_count :: int
  current_report_id :: int

definition report_size_round ::
    "u16 \<Rightarrow> hid_report_type \<Rightarrow> hid_descriptor_item \<Rightarrow> report_size_scan \<Rightarrow> report_size_scan" where
  "report_size_round report_id rtype item s =
     (if item_type item = Global then
        if item_tag item = ReportID then s\<lparr> current_report_id := sint (item_value item) \<rparr>
        else if item_tag item = ReportCount then s\<lparr> scan_report_count := sint (item_value item) \<rparr>
        else if item_tag item = ReportSize then s\<lparr> scan_report_size := sint (item_value item) \<rparr>
        else s
      else if item_type item = Main then
        if current_report_id s \<noteq> uint report_id then s
        else if main_item_tag_matches_report_type (item_tag item) rtype
        then s\<lparr> total_report_size := total_report_size s + scan_report_count s * scan_report_size s \<rparr>
        else s
      else s)"

function report_size_loop ::
    "u16 \<Rightarrow> hid_report_type \<Rightarrow> btstack_hid_descriptor_iterator \<Rightarrow> report_size_scan
     \<Rightarrow> btstack_hid_descriptor_iterator \<times> report_size_scan" where
  "report_size_loop report_id rtype it s =
     (case next_item it of
        (None, it') \<Rightarrow> (it', s)
      | (Some item, it') \<Rightarrow>
          let s' = report_size_round report_id rtype item s
          in if total_report_size s' > 0 \<and> current_report_id s' \<noteq> uint report_id then (it', s')
             else report_size_loop report_id rtype it' s')"
  by pat_completeness auto
termination
  by (relation "measure (\<lambda>(_, _, it, _). it_left it)") (auto dest: next_item_decreases(1) [OF sym])

declare report_size_loop.simps [simp del]

definition btstack_hid_get_report_size_for_id :: "u16 \<Rightarrow> hid_report_type \<Rightarrow> bytes \<Rightarrow> int" where
  "btstack_hid_get_report_size_for_id report_id rtype hid_descriptor =
     (let (it, s) = report_size_loop report_id rtype (descriptor_iterator_on hid_descriptor)
            \<lparr> total_report_size = 0, scan_report_size = 0, scan_report_count = 0,
              current_report_id = uint HID_REPORT_ID_UNDEFINED \<rparr>
      in if btstack_hid_descriptor_iterator_valid it then c_div (total_report_size s + 7) 8 else 0)"

function report_id_loop ::
    "u16 \<Rightarrow> btstack_hid_descriptor_iterator \<Rightarrow> u16 \<times> bool \<Rightarrow> btstack_hid_descriptor_iterator \<times> u16 \<times> bool" where
  "report_id_loop report_id it s =
     (case next_item it of
        (None, it') \<Rightarrow> (it', s)
      | (Some item, it') \<Rightarrow>
          report_id_loop report_id it'
            (if item_type item = Global \<and> item_tag item = ReportID
             then let cur = to_u16 (item_value item) in (cur, snd s \<or> cur = report_id)
             else s))"
  by pat_completeness auto
termination
  by (relation "measure (\<lambda>(_, it, _). it_left it)") (auto dest: next_item_decreases(1) [OF sym])

declare report_id_loop.simps [simp del]

definition btstack_hid_report_id_valid :: "u16 \<Rightarrow> bytes \<Rightarrow> hid_report_id_status" where
  "btstack_hid_report_id_valid report_id hid_descriptor =
     (let (it, cur, report_id_found) =
            report_id_loop report_id (descriptor_iterator_on hid_descriptor) (HID_REPORT_ID_UNDEFINED, False)
      in if btstack_hid_descriptor_iterator_valid it then
           if report_id_found then HID_REPORT_ID_VALID
           else if report_id = HID_REPORT_ID_UNDEFINED \<and> cur = HID_REPORT_ID_UNDEFINED
           then HID_REPORT_ID_VALID
           else HID_REPORT_ID_UNDECLARED
         else HID_REPORT_ID_INVALID)"

function report_id_declared_loop :: "btstack_hid_descriptor_iterator \<Rightarrow> bool" where
  "report_id_declared_loop it =
     (case next_item it of
        (None, it') \<Rightarrow> False
      | (Some item, it') \<Rightarrow>
          if item_type item = Global \<and> item_tag item = ReportID then True
          else report_id_declared_loop it')"
  by pat_completeness auto
termination
  by (relation "measure it_left") (auto dest: next_item_decreases(1) [OF sym])

declare report_id_declared_loop.simps [simp del]

definition btstack_hid_report_id_declared :: "bytes \<Rightarrow> bool" where
  "btstack_hid_report_id_declared hid_descriptor =
     report_id_declared_loop (descriptor_iterator_on hid_descriptor)"

end
