(* ===== verification/Hid_Parser_Laws.thy ===== *)
theory Hid_Parser_Laws
  imports Hid_Parser
begin

text \<open>
  Laws of the HID report parser (theory Hid_Parser): what a field of a complete report reads as, and
  how the parser treats reports and descriptors that are cut short or malformed.
\<close>

section \<open>A field is a slice of the report\<close>

text \<open>The report as one little-endian number, the view the HID specification takes of it.\<close>

definition report_number :: "bytes \<Rightarrow> int" where
  "report_number r = horner_sum uint 256 r"

lemma bit_report_number:
  "bit (report_number r) k \<longleftrightarrow> k div 8 < length r \<and> bit (r ! (k div 8)) (k mod 8)"
proof (induction r arbitrary: k)
  case Nil
  then show ?case by (simp add: report_number_def)
next
  case (Cons b r)
  have u: "bit (uint b) i \<Longrightarrow> i < 8" for i
    using bit_imp_le_length [of b i] by (simp add: bit_uint_iff)
  have "report_number (b # r) = uint b OR push_bit 8 (report_number r)"
  proof -
    have "uint b AND push_bit 8 (report_number r) = 0"
      by (rule bit_eqI) (auto simp: bit_and_iff bit_push_bit_iff dest: u)
    then have "uint b + push_bit 8 (report_number r) = uint b OR push_bit 8 (report_number r)"
      by (rule disjunctive_add_eq_or)
    then show ?thesis by (simp add: report_number_def push_bit_eq_mult)
  qed
  then have "bit (report_number (b # r)) k \<longleftrightarrow> bit (uint b) k \<or> 8 \<le> k \<and> bit (report_number r) (k - 8)"
    by (simp add: bit_or_iff bit_push_bit_iff)
  also have "\<dots> \<longleftrightarrow> k div 8 < length (b # r) \<and> bit ((b # r) ! (k div 8)) (k mod 8)"
  proof (cases "k < 8")
    case True
    then show ?thesis by (auto simp: bit_uint_iff)
  next
    case False
    then have k: "k div 8 = Suc ((k - 8) div 8)" "k mod 8 = (k - 8) mod 8"
      by (simp_all add: le_div_geq le_mod_geq)
    have "\<not> bit (uint b) k" using u False by blast
    then show ?thesis using False by (simp add: Cons.IH k)
  qed
  finally show ?case .
qed

lemma bit_multi_byte:
  "bit (foldl (\<lambda>acc i. acc OR push_bit (i * 8) (to_u32 (f i :: u8))) (0 :: u32) [0..<n]) k \<longleftrightarrow>
     k < 32 \<and> k div 8 < n \<and> bit (f (k div 8)) (k mod 8)"
proof (induction n)
  case 0
  then show ?case by simp
next
  case (Suc n)
  have "bit (push_bit (n * 8) (to_u32 (f n))) k \<longleftrightarrow> k < 32 \<and> k div 8 = n \<and> bit (f n) (k mod 8)"
  proof (cases "k div 8 = n")
    case True
    then have "k = n * 8 + k mod 8" using div_mult_mod_eq [of k 8] by simp
    then have "n * 8 \<le> k" "k - n * 8 = k mod 8" by linarith+
    then show ?thesis using True by (auto simp: bit_push_bit_iff bit_to_u32)
  next
    case False
    have "\<not> (n * 8 \<le> k \<and> bit (f n) (k - n * 8))"
    proof
      assume a: "n * 8 \<le> k \<and> bit (f n) (k - n * 8)"
      then have "k - n * 8 < 8" using bit_bounds(1) by blast
      then have "k div 8 = n" using a by (intro div_nat_eqI) auto
      then show False using False by simp
    qed
    then show ?thesis using False by (auto simp: bit_push_bit_iff bit_to_u32)
  qed
  then show ?case using Suc by (auto simp: bit_or_iff less_Suc_eq)
qed

lemma unat_shift3:
  "unat (drop_bit 3 (w :: u16)) = unat w div 8" "unat (drop_bit 3 (v :: u32)) = unat v div 8"
  by (simp_all add: drop_bit_eq_div unat_div)

text \<open>The position of a field in the report: its bit position, behind the report id when there is one.\<close>

definition field_bit :: "btstack_hid_usage_item \<Rightarrow> nat" where
  "field_bit item = unat (ui_bit_pos item) + (if ui_report_id item \<noteq> HID_REPORT_ID_UNDEFINED then 8 else 0)"

definition field_in_report :: "btstack_hid_parser \<Rightarrow> bool" where
  "field_in_report p \<longleftrightarrow>
     (let item = descriptor_usage_item p
      in 0 < unat (ui_size item) \<and> unat (ui_size item) \<le> 25 \<and>
         field_bit item + unat (ui_size item) \<le> 8 * length (report p) \<and>
         field_bit item + unat (ui_size item) < 2 ^ 16)"

lemma field_word:
  assumes "field_in_report p"
  defines "item \<equiv> descriptor_usage_item p"
  defines "bp \<equiv> (if ui_report_id item \<noteq> HID_REPORT_ID_UNDEFINED then ui_bit_pos item + 8 else ui_bit_pos item)"
  defines "s \<equiv> unat (ui_size item)"
  defines "ps \<equiv> min (unat (drop_bit 3 bp)) (length (report p))"
  defines "pe \<equiv> min (unat (drop_bit 3 (to_u32 bp + to_u32 (ui_size item) - 1))) (length (report p))"
  shows "drop_bit (unat (bp AND 0x07))
           (foldl (\<lambda>acc i. acc OR push_bit (i * 8) (to_u32 (report_byte p (ps + i)))) 0 [0..<(pe + 1) - ps])
         AND (push_bit s 1 - 1) =
         (word_of_int (take_bit s (drop_bit (field_bit item) (report_number (report p)))) :: u32)"
proof (rule bit_word_eqI)
  fix k assume "k < LENGTH(32)"
  then have k: "k < 32" by simp
  let ?b = "field_bit item"
  have s: "0 < s" "s \<le> 25" "?b + s \<le> 8 * length (report p)" "?b + s < 2 ^ 16"
    using assms(1) by (simp_all add: field_in_report_def Let_def item_def s_def)
  have bp: "unat bp = ?b"
    using s(4) by (auto simp: bp_def field_bit_def unat_word_ariths)
  have off: "unat (bp AND 0x07) = ?b mod 8"
  proof -
    have "bp AND 0x07 = take_bit 3 bp" by (simp only: take_bit_eq_mask mask_eq_exp_minus_1) simp
    then have "unat (bp AND 0x07) = take_bit 3 (unat bp)" by (simp only: unsigned_take_bit_eq)
    then show ?thesis by (simp add: bp take_bit_eq_mod)
  qed
  have w32: "unat (to_u32 bp) = ?b" "unat (to_u32 (ui_size item)) = s"
    by (simp_all add: unat_widen bp s_def)
  have sum: "unat (to_u32 bp + to_u32 (ui_size item) - 1) = ?b + s - 1"
  proof -
    have "unat (to_u32 bp + to_u32 (ui_size item)) = ?b + s"
      using w32 s(4) by (simp add: unat_word_ariths)
    moreover have "to_u32 bp + to_u32 (ui_size item) \<noteq> 0"
      using calculation s(1) by auto
    ultimately show ?thesis by (simp add: unat_minus_one)
  qed
  have ps: "ps = ?b div 8" and pe: "pe = (?b + s - 1) div 8"
    using s by (auto simp: ps_def pe_def unat_shift3 bp sum)
  have mask: "bit (2 ^ s - 1 :: u32) k = (k < s)"
    using k by (simp add: mask_eq_exp_minus_1 [symmetric] bit_mask_iff)
  have q: "(k + ?b mod 8) div 8 < pe + 1 - ps" "k + ?b mod 8 < 32"
      "ps + (k + ?b mod 8) div 8 = (?b + k) div 8" "(k + ?b mod 8) mod 8 = (?b + k) mod 8"
      "(?b + k) div 8 < length (report p)" if "k < s"
  proof -
    define a r where "a = ?b div 8" and "r = ?b mod 8"
    have b: "?b = 8 * a + r" "r < 8" by (simp_all add: a_def r_def)
    have d: "(8 * a + x) div 8 = a + x div 8" for x by (simp add: div_mult_self3)
    have "(k + r) div 8 \<le> (r + s - 1) div 8" using that by (intro div_le_mono) simp
    then show "(k + ?b mod 8) div 8 < pe + 1 - ps"
      using d [of "r + s - 1"] s(1) b(2) by (simp add: ps pe b(1) r_def [symmetric] add.assoc)
    show "k + ?b mod 8 < 32" using that s(2) b(2) by (simp add: r_def)
    show "ps + (k + ?b mod 8) div 8 = (?b + k) div 8"
      using d [of "r + k"] b(2) by (simp add: ps b(1) r_def [symmetric] add.assoc add.commute)
    show "(k + ?b mod 8) mod 8 = (?b + k) mod 8" by (simp add: mod_simps add.commute)
    show "(?b + k) div 8 < length (report p)" using that s(3) by linarith
  qed
  show "bit (drop_bit (unat (bp AND 0x07))
           (foldl (\<lambda>acc i. acc OR push_bit (i * 8) (to_u32 (report_byte p (ps + i)))) 0 [0..<(pe + 1) - ps])
         AND (push_bit s 1 - 1)) k =
        bit (word_of_int (take_bit s (drop_bit ?b (report_number (report p)))) :: u32) k"
  proof (cases "k < s")
    case True
    then show ?thesis
      using q k
      by (simp add: bit_and_iff mask bit_drop_bit_eq bit_multi_byte off bit_word_of_int_iff
            bit_take_bit_iff bit_report_number report_byte_def add.commute)
  next
    case False
    then show ?thesis
      by (simp add: bit_and_iff mask bit_word_of_int_iff bit_take_bit_iff)
  qed
qed

lemma to_u16_of_int: "to_u16 (word_of_int x :: u32) = word_of_int x"
  by (rule bit_word_eqI) (simp add: bit_to_u16 bit_word_of_int_iff)

lemma sint_field:
  fixes s :: nat and x :: int
  assumes "0 < s" "s \<le> 25"
  defines "w \<equiv> word_of_int (take_bit s x) :: u32"
  shows "sint w = take_bit s x"
    and "sint (if nonzero (w AND push_bit (s - 1) 1) then w - push_bit s 1 else w) = signed_take_bit (s - 1) x"
proof -
  have "2 ^ s \<le> (2 :: int) ^ 25" by (rule power_increasing) (use assms in auto)
  then have lt: "0 \<le> take_bit s x" "take_bit s x < 2 ^ 25" using less_le_trans [OF take_bit_int_less_exp [of s x]] by auto
  have sint_small: "sint (word_of_int y :: u32) = y" if "- (2 ^ 25) \<le> y" "y < 2 ^ 25" for y
    using that by (simp add: sint_sbintrunc' signed_take_bit_int_eq_self)
  show sw: "sint w = take_bit s x"
    unfolding w_def using lt by (intro sint_small) (auto intro: order.trans [OF _ lt(1)])
  have b: "nonzero (w AND push_bit (s - 1) 1) = bit x (s - 1)"
    using assms(1,2) nonzero_and_bit [of w "s - 1"]
    by (auto simp: w_def bit_word_of_int_iff bit_take_bit_iff)
  have "(if nonzero (w AND push_bit (s - 1) 1) then w - push_bit s 1 else w) =
        word_of_int (take_bit s x - 2 ^ s * of_bool (bit x (s - 1)))"
    unfolding b by (simp add: w_def)
  moreover have "take_bit s x - 2 ^ s * of_bool (bit x (s - 1)) = signed_take_bit (s - 1) x"
    using assms(1) by (simp add: signed_take_bit_eq_take_bit_minus)
  moreover have "sint (word_of_int (signed_take_bit (s - 1) x) :: u32) = signed_take_bit (s - 1) x"
  proof (rule sint_small)
    have "(2 :: int) ^ (s - 1) \<le> 2 ^ 25" by (rule power_increasing) (use assms in auto)
    then show "- (2 ^ 25) \<le> signed_take_bit (s - 1) x" "signed_take_bit (s - 1) x < 2 ^ 25"
      using signed_take_bit_int_greater_eq_minus_exp [of "s - 1" x]
        signed_take_bit_int_less_exp [of "s - 1" x] by linarith+
  qed
  ultimately show "sint (if nonzero (w AND push_bit (s - 1) 1) then w - push_bit s 1 else w) = signed_take_bit (s - 1) x"
    by (simp only:)
qed

text \<open>C32: A report field is the slice of the report its descriptor names.  For a field of 1 to 25 bits
  that lies inside the received report, \<^verbatim>\<open>btstack_hid_parser_get_field\<close> returns, for a variable item,
  the bits of the report (read as one little-endian number) from the field's position, sign
  extended exactly when the logical minimum is negative, under the usage of the descriptor; for an
  array item it returns those bits as the usage, with value 1.\<close>

theorem report_field_is_slice:
  assumes "field_in_report p"
  shows "fst (btstack_hid_parser_get_field p) =
    (let item = descriptor_usage_item p;
         s = unat (ui_size item);
         raw = drop_bit (field_bit item) (report_number (report p))
     in if bit (item_value (ui_descriptor_item item)) 1
        then (ui_usage_page item, ui_usage item,
              if sint (ui_logical_minimum item) < 0 then signed_take_bit (s - 1) raw else take_bit s raw)
        else (ui_usage_page item, word_of_int (take_bit s raw), 1))"
proof -
  let ?item = "descriptor_usage_item p"
  have s: "0 < unat (ui_size ?item)" "unat (ui_size ?item) \<le> 25"
    using assms by (simp_all add: field_in_report_def Let_def)
  have u: "unat (to_u32 (ui_size ?item)) = unat (ui_size ?item)"
    "unat (to_u32 (ui_size ?item) - 1) = unat (ui_size ?item) - 1"
    using s unat_minus_one [of "to_u32 (ui_size ?item)"]
    by (auto simp: unat_widen) (metis unat_0 unat_widen(2) less_irrefl)
  note w = field_word [OF assms]
  show ?thesis
    unfolding btstack_hid_parser_get_field_def Let_def fst_conv u w
    using sint_field [OF s, of "drop_bit (field_bit ?item) (report_number (report p))"] s(2)
    by (simp add: to_u16_of_int)
qed

text \<open>A report with an id byte, one signed 8 bit axis and a 10 bit axis that straddles two bytes.\<close>

definition ten_bit_parser :: btstack_hid_parser where
  "ten_bit_parser = (btstack_hid_parser_init [] HID_REPORT_TYPE_INPUT [0x01, 0xFF, 0x34, 0x02] 0)
     \<lparr> descriptor_usage_item := \<lparr> ui_report_id = 1, ui_bit_pos = 8, ui_usage_page = 1, ui_usage = 0x31,
         ui_size = 10, ui_descriptor_item = hid_descriptor_item_zero\<lparr> item_value := 2 \<rparr>,
         ui_logical_minimum = 0 \<rparr> \<rparr>"

theorem report_field_is_slice_witness:
  "fst (btstack_hid_parser_get_field ten_bit_parser) = (1, 0x31, 0x234)"
  using report_field_is_slice [of ten_bit_parser]
  by (simp add: ten_bit_parser_def field_in_report_def field_bit_def btstack_hid_parser_init_def
        HID_REPORT_ID_UNDEFINED_def report_number_def drop_bit_eq_div take_bit_eq_mod
        hid_descriptor_item_zero_def)

section \<open>Reports and descriptors that break the rules\<close>

text \<open>Truncated reports are read past their end.  For an 8 bit field that starts exactly at the end
  of the received report (the descriptor promises more than the device sent), the clamp of the byte
  positions to \<^verbatim>\<open>report_len\<close> still lets the parser read one byte: the value returned is whatever byte
  follows the report in memory.\<close>

theorem truncated_report_overread:
  assumes "ui_size (descriptor_usage_item p) = 8" "ui_report_id (descriptor_usage_item p) = HID_REPORT_ID_UNDEFINED"
    "unat (ui_bit_pos (descriptor_usage_item p)) = 8 * length (report p)"
    "bit (item_value (ui_descriptor_item (descriptor_usage_item p))) 1"
    "sint (ui_logical_minimum (descriptor_usage_item p)) \<ge> 0"
  shows "snd (snd (fst (btstack_hid_parser_get_field p))) = uint (report_after p)"
proof -
  let ?b = "ui_bit_pos (descriptor_usage_item p)" and ?n = "length (report p)"
  have lt: "8 * ?n < 2 ^ 16" using assms(3) unsigned_less [of ?b, where 'a = nat] by simp
  have off: "?b AND 0x07 = 0"
  proof -
    have "?b AND 0x07 = take_bit 3 ?b" by (simp only: take_bit_eq_mask mask_eq_exp_minus_1) simp
    then have "unat (?b AND 0x07) = take_bit 3 (unat ?b)" by (simp only: unsigned_take_bit_eq)
    then show ?thesis by (simp add: assms(3) take_bit_eq_mod unat_eq_zero)
  qed
  have "unat (to_u32 ?b + 8 - 1) = 8 * ?n + 7"
    using lt by (simp add: unat_word_ariths unat_widen assms(3))
  then have pos: "min (unat (drop_bit 3 ?b)) ?n = ?n" "min (unat (drop_bit 3 (to_u32 ?b + to_u32 (8 :: u8) - 1))) ?n = ?n"
    by (simp_all add: unat_shift3 assms(3) to_u32_def)
  have e: "to_u32 (8 :: u8) = 8" by (simp add: to_u32_def)
  have w: "to_u32 (report_after p) AND 255 = to_u32 (report_after p)"
    by (rule bit_word_eqI) (use bit_mask_iff [of 8, where 'a = u32] bit_bounds(1) in
      \<open>auto simp: bit_and_iff bit_to_u32 mask_eq_exp_minus_1\<close>)
  have "sint (to_u32 (report_after p)) = uint (report_after p)"
  proof -
    have u: "uint (to_u32 (report_after p)) = uint (report_after p)"
      by (simp add: to_u32_def uint_up_ucast is_up)
    then show ?thesis
      unfolding sint_uint u
      using unsigned_less [of "report_after p", where 'a = int] uint_nonnegative [of "report_after p"]
      by (intro signed_take_bit_int_eq_self) (simp_all add: order.trans [of _ 0])
  qed
  then show ?thesis
    using assms pos e
    by (simp add: btstack_hid_parser_get_field_def Let_def off report_byte_def w)
qed

definition truncated_parser :: btstack_hid_parser where
  "truncated_parser = (btstack_hid_parser_init [] HID_REPORT_TYPE_INPUT [0x01, 0xFF] 0xAB)
     \<lparr> descriptor_usage_item := \<lparr> ui_report_id = HID_REPORT_ID_UNDEFINED, ui_bit_pos = 16,
         ui_usage_page = 1, ui_usage = 0x31, ui_size = 8,
         ui_descriptor_item = hid_descriptor_item_zero\<lparr> item_value := 2 \<rparr>,
         ui_logical_minimum = 0 \<rparr> \<rparr>"

theorem truncated_report_overread_witness:
  "report truncated_parser = [0x01, 0xFF] \<and>
   snd (snd (fst (btstack_hid_parser_get_field truncated_parser))) = 0xAB"
  using truncated_report_overread [of truncated_parser]
  by (simp add: truncated_parser_def btstack_hid_parser_init_def hid_descriptor_item_zero_def)

text \<open>A reserved tag in a HID descriptor aborts the firmware.  If the first item of the descriptor a
  Bluetooth device sends is a global item with one of the reserved tags, parsing its first input
  report fails the assertion in the tag switch, whatever else the descriptor and the report hold.\<close>

theorem reserved_global_item_aborts:
  "btstack_hid_parser_has_more (btstack_hid_parser_init (0xC4 # ds) rtype rep after) = None"
  by (subst btstack_hid_parser_has_more.simps)
     (simp add: btstack_hid_parser_init_def btstack_hid_usage_iterator_has_more.simps
        btstack_hid_usage_iterator_init_def btstack_hid_usage_iterator_find_next_usage.simps
        next_item_def btstack_hid_descriptor_iterator_has_more_def descriptor_iterator_on_def
        btstack_hid_descriptor_parse_item_def btstack_hid_descriptor_iterator_get_item_def
        btstack_parser_usage_iterator_process_item_def handle_global_item_def hid_tag_defs Let_def)

text \<open>
  A descriptor whose usage range is longer than its report count: usage page 9 (buttons), usages 1 to 4,
  report size 1, report count 2, one variable input item.
\<close>

definition long_range_descriptor :: bytes where
  "long_range_descriptor = [0x05, 0x09, 0x19, 0x01, 0x29, 0x04, 0x75, 0x01, 0x95, 0x02, 0x81, 0x02]"

text \<open>All fields of a report, as the loops of the parsers see them (bounded, for evaluation).\<close>

fun report_fields :: "nat \<Rightarrow> btstack_hid_parser \<Rightarrow> (u16 \<times> u16 \<times> int) list" where
  "report_fields 0 p = []"
| "report_fields (Suc n) p =
     (case btstack_hid_parser_has_more p of
        Some (True, p1) \<Rightarrow>
          (let (fld, p2) = btstack_hid_parser_get_field p1 in fld # report_fields n p2)
      | _ \<Rightarrow> [])"

text \<open>A usage range longer than the report count yields phantom fields.  For a descriptor that declares
  buttons 1 to 4 but a report count of two one-bit fields, the usage iterator does not stop at the
  report count: the parser reports four buttons, the last two read from the bits that follow the field
  in the report (here set, so that two buttons that do not exist are reported as pressed).\<close>

theorem usage_range_exceeds_count:
  "report_fields 10 (btstack_hid_parser_init long_range_descriptor HID_REPORT_TYPE_INPUT [0x0F] after) =
     [(9, 1, 1), (9, 2, 1), (9, 3, 1), (9, 4, 1)]"
  by code_simp

end
