(* ===== verification/Uni_Hid_Parser.thy ===== *)
theory Uni_Hid_Parser
  imports Hid_Parser Uni_Controller
begin

text \<open>
  Bluepad32's report dispatch and the value conversions its device parsers share:
  \<^verbatim>\<open>src/components/bluepad32/parser/uni_hid_parser.c\<close>.  A device parser is the record of its optional
  entry points over a device state \<^verbatim>\<open>'d\<close>; a null function pointer is \<^verbatim>\<open>None\<close>.  A result \<^verbatim>\<open>None\<close> is a crash of
  the firmware: a failed assertion of the HID parser, a division by zero or an array index out of bounds.
\<close>

record hid_globals =
  logical_minimum :: int
  logical_maximum :: int
  g_usage_page :: u16
  report_size :: nat
  g_report_count :: u8
  g_report_id :: u8

record 'd uni_report_parser =
  init_report :: "('d \<Rightarrow> 'd) option"
  parse_input_report :: "(bytes \<Rightarrow> 'd \<Rightarrow> 'd option) option"
  parse_usage :: "(hid_globals \<Rightarrow> u16 \<Rightarrow> u16 \<Rightarrow> int \<Rightarrow> 'd \<Rightarrow> 'd option) option"

definition globals_of :: "btstack_hid_usage_iterator \<Rightarrow> hid_globals" where
  "globals_of it = \<lparr> logical_minimum = sint (global_logical_minimum it),
     logical_maximum = sint (global_logical_maximum it), g_usage_page = global_usage_page it,
     report_size = unat (global_report_size it), g_report_count = global_report_count it,
     g_report_id = to_u8 (global_report_id it) \<rparr>"

section \<open>The loop over the fields of a report\<close>

lemma usage_measures_trans:
  "(a, b) \<in> measures usage_measures \<Longrightarrow> (b, c) \<in> measures usage_measures \<Longrightarrow> (a, c) \<in> measures usage_measures"
  by (auto simp: usage_measures_def)

lemma parser_has_more_decreases:
  "btstack_hid_parser_has_more p = Some (True, p') \<Longrightarrow>
     have_report_usage_ready p' \<and>
     (p' = p \<or> (usage_iterator p', usage_iterator p) \<in> measures usage_measures)"
proof (induction p arbitrary: p' rule: btstack_hid_parser_has_more.induct)
  case (1 p)
  show ?case
  proof (cases "have_report_usage_ready p")
    case True
    then show ?thesis using 1(3) by (subst (asm) btstack_hid_parser_has_more.simps) auto
  next
    case False
    then obtain it where h: "btstack_hid_usage_iterator_has_more (usage_iterator p) = Some (True, it)"
      using 1(3) by (subst (asm) btstack_hid_parser_has_more.simps)
        (auto split: option.splits prod.splits if_splits)
    obtain item it' where g: "btstack_hid_usage_iterator_get_item it = (item, it')"
      by (cases "btstack_hid_usage_iterator_get_item it")
    have dec: "(it', usage_iterator p) \<in> measures usage_measures"
      using usage_round_trip_decreases [OF h] g by simp
    define p1 where "p1 = p\<lparr> usage_iterator := it', descriptor_usage_item := item \<rparr>"
    have rec: "btstack_hid_parser_has_more (if ui_report_id item \<noteq> HID_REPORT_ID_UNDEFINED \<and>
        ui_report_id item \<noteq> to_u16 (report_byte p 0) then p1 else p1\<lparr> have_report_usage_ready := True \<rparr>) = Some (True, p')"
      using 1(3) False h g by (subst (asm) btstack_hid_parser_has_more.simps) (auto simp: p1_def Let_def)
    have "have_report_usage_ready p' \<and> (usage_iterator p' = it' \<or> (usage_iterator p', it') \<in> measures usage_measures)"
      using 1(1) [OF False h refl _ refl g [symmetric] p1_def] 1(2) [OF False h refl _ refl g [symmetric] p1_def] rec
      by (auto simp: p1_def split: if_splits)
    then show ?thesis
      using dec usage_measures_trans by blast
  qed
qed

lemma snd_get_field: "snd (btstack_hid_parser_get_field p) = p\<lparr> have_report_usage_ready := False \<rparr>"
  by (simp add: btstack_hid_parser_get_field_def Let_def)

function parse_fields ::
    "(hid_globals \<Rightarrow> u16 \<Rightarrow> u16 \<Rightarrow> int \<Rightarrow> 'd \<Rightarrow> 'd option) \<Rightarrow> btstack_hid_parser \<Rightarrow> 'd \<Rightarrow> 'd option" where
  "parse_fields f p d =
     (case btstack_hid_parser_has_more p of
        None \<Rightarrow> None
      | Some (avail, p1) \<Rightarrow>
          if \<not> avail then Some d
          else
            let globals = globals_of (usage_iterator p1);
                r = btstack_hid_parser_get_field p1
            in (case f globals (fst (fst r)) (fst (snd (fst r))) (snd (snd (fst r))) d of
                  None \<Rightarrow> None
                | Some d' \<Rightarrow> parse_fields f (snd r) d'))"
  by pat_completeness auto
termination
proof (relation "inv_image (measures usage_measures <*lex*> measure of_bool)
    (\<lambda>(f, p, d). (usage_iterator p, have_report_usage_ready p))")
  show "wf (inv_image (measures usage_measures <*lex*> measure (of_bool :: bool \<Rightarrow> nat))
    (\<lambda>(f :: hid_globals \<Rightarrow> u16 \<Rightarrow> u16 \<Rightarrow> int \<Rightarrow> 'd \<Rightarrow> 'd option, p, d). (usage_iterator p, have_report_usage_ready p)))"
    by (intro wf_inv_image wf_lex_prod) auto
qed (auto simp: snd_get_field dest!: parser_has_more_decreases)

declare parse_fields.simps [simp del]

definition uni_hid_parse_input_report ::
    "'d uni_report_parser \<Rightarrow> bytes \<Rightarrow> bytes \<Rightarrow> u8 \<Rightarrow> 'd \<Rightarrow> 'd option" where
  "uni_hid_parse_input_report rp hid_descriptor rep after d =
     (let d1 = (case init_report rp of None \<Rightarrow> d | Some f \<Rightarrow> f d)
      in case (case parse_input_report rp of None \<Rightarrow> Some d1 | Some f \<Rightarrow> f rep d1) of
           None \<Rightarrow> None
         | Some d2 \<Rightarrow>
             (case parse_usage rp of
                None \<Rightarrow> Some d2
              | Some f \<Rightarrow> parse_fields f
                  (btstack_hid_parser_init hid_descriptor HID_REPORT_TYPE_INPUT rep after) d2))"

section \<open>Conversions\<close>

text \<open>
  The sums and products of the C code are at 32 bits.  The subtraction in \<^verbatim>\<open>process_axis\<close> is done
  unsigned and stored signed; its division is signed, towards zero.  The division of \<^verbatim>\<open>process_pedal\<close> is
  unsigned, since \<^verbatim>\<open>value\<close> is.  A zero range traps.
\<close>

definition int32 :: "int \<Rightarrow> int" where
  "int32 x = signed_take_bit 31 x"

definition axis_maximum :: "hid_globals \<Rightarrow> int" where
  "axis_maximum g = (if logical_maximum g = -1 then int32 (push_bit (report_size g) 1 - 1)
                     else logical_maximum g)"

definition uni_hid_parser_process_axis :: "hid_globals \<Rightarrow> int \<Rightarrow> int option" where
  "uni_hid_parser_process_axis g v =
     (let mx = axis_maximum g; mn = logical_minimum g;
          rng = int32 ((mx - mn) + 1);
          centered = int32 (v - c_div rng 2 - mn)
      in if rng = 0 then None else Some (c_div (int32 (centered * AXIS_NORMALIZE_RANGE)) rng))"

definition uni_hid_parser_process_pedal :: "hid_globals \<Rightarrow> int \<Rightarrow> int option" where
  "uni_hid_parser_process_pedal g v =
     (let mx = axis_maximum g; mn = logical_minimum g;
          rng = int32 ((mx - mn) + 1)
      in if rng = 0 then None
         else Some (sint ((word_of_int v * word_of_int AXIS_NORMALIZE_RANGE) div (word_of_int rng :: u32))))"

definition uni_hid_parser_process_hat :: "hid_globals \<Rightarrow> int \<Rightarrow> u8" where
  "uni_hid_parser_process_hat g v =
     (if v < logical_minimum g \<or> v > logical_maximum g then 0xff
      else word_of_int (v - logical_minimum g))"

definition uni_hid_parser_process_dpad :: "u16 \<Rightarrow> int \<Rightarrow> u8 \<Rightarrow> u8" where
  "uni_hid_parser_process_dpad usage v dp =
     (let put = (\<lambda>m. if v \<noteq> 0 then dp OR m else dp AND NOT m)
      in if usage = 0x90 then put DPAD_UP
         else if usage = 0x91 then put DPAD_DOWN
         else if usage = 0x92 then put DPAD_RIGHT
         else if usage = 0x93 then put DPAD_LEFT
         else dp)"

definition uni_hid_parser_hat_to_dpad :: "u8 \<Rightarrow> u8" where
  "uni_hid_parser_hat_to_dpad hat =
     (if hat = 0xff \<or> hat = 0x08 then 0
      else if hat = 0 then DPAD_UP
      else if hat = 1 then DPAD_UP OR DPAD_RIGHT
      else if hat = 2 then DPAD_RIGHT
      else if hat = 3 then DPAD_RIGHT OR DPAD_DOWN
      else if hat = 4 then DPAD_DOWN
      else if hat = 5 then DPAD_DOWN OR DPAD_LEFT
      else if hat = 6 then DPAD_LEFT
      else if hat = 7 then DPAD_LEFT OR DPAD_UP
      else 0)"

section \<open>Axis values are normalised\<close>

lemma int32_id: "- (2 ^ 31) \<le> x \<Longrightarrow> x < 2 ^ 31 \<Longrightarrow> int32 x = x"
  by (simp add: int32_def signed_take_bit_int_eq_self)

text \<open>A sensible axis declaration: its range is not empty and fits the 32 bit arithmetic.\<close>

definition axis_ok :: "hid_globals \<Rightarrow> bool" where
  "axis_ok g \<longleftrightarrow> logical_minimum g \<le> logical_maximum g \<and> logical_maximum g \<noteq> -1 \<and>
     logical_maximum g - logical_minimum g < 2 ^ 21 \<and>
     - (2 ^ 30) \<le> logical_minimum g \<and> logical_maximum g \<le> 2 ^ 30"

definition axis_range :: "hid_globals \<Rightarrow> int" where
  "axis_range g = logical_maximum g - logical_minimum g + 1"

lemma process_axis_value:
  assumes "axis_ok g" "logical_minimum g \<le> v" "v \<le> logical_maximum g"
  shows "uni_hid_parser_process_axis g v =
     Some (c_div ((v - axis_range g div 2 - logical_minimum g) * 1024) (axis_range g))"
proof -
  let ?R = "axis_range g"
  have R: "0 < ?R" "?R \<le> 2 ^ 21" using assms by (auto simp: axis_ok_def axis_range_def)
  have r: "int32 ?R = ?R" using R by (intro int32_id) auto
  have c: "- (2 ^ 20) \<le> v - ?R div 2 - logical_minimum g" "v - ?R div 2 - logical_minimum g < 2 ^ 21"
    using assms R by (auto simp: axis_range_def)
  have "int32 (v - ?R div 2 - logical_minimum g) = v - ?R div 2 - logical_minimum g"
    "int32 ((v - ?R div 2 - logical_minimum g) * 1024) = (v - ?R div 2 - logical_minimum g) * 1024"
    using c by (auto intro!: int32_id)
  then show ?thesis
    using assms R r
    by (simp add: uni_hid_parser_process_axis_def axis_maximum_def axis_ok_def Let_def
          AXIS_NORMALIZE_RANGE_def axis_range_def [symmetric])
qed

lemma axis_bounds:
  assumes "0 < R" "- (R div 2) \<le> c" "c \<le> R - 1 - R div 2"
  shows "- 512 \<le> c_div (c * 1024) R \<and> c_div (c * 1024) R \<le> 511"
proof
  show "- 512 \<le> c_div (c * 1024) R"
  proof (cases "c < 0")
    case True
    have "(- (c * 1024)) div R \<le> (R * 512) div R" using assms by (intro zdiv_mono1) auto
    then show ?thesis using True assms(1) by (simp add: c_div_neg)
  next
    case False
    then show ?thesis using assms(1) by (simp add: pos_imp_zdiv_nonneg_iff order.trans [of _ 0])
  qed
  show "c_div (c * 1024) R \<le> 511"
  proof (cases "c < 0")
    case True
    then have "0 \<le> (- (c * 1024)) div R" using assms(1) by (simp add: pos_imp_zdiv_nonneg_iff)
    then show ?thesis using True assms(1) by (simp add: c_div_neg)
  next
    case False
    have "R * ((c * 1024) div R) \<le> c * 1024"
      using pos_mod_sign [OF assms(1), of "c * 1024"] mult_div_mod_eq [of R "c * 1024"] by linarith
    also have "c * 1024 < R * 512" using assms by linarith
    finally have "(c * 1024) div R < 512" using assms(1) by (simp only: mult_less_cancel_left_pos)
    then show ?thesis using False assms(1) by simp
  qed
qed

text \<open>Axis values are normalised to -512..511.  For every axis whose descriptor declares a non-empty
  logical range of at most 21 bits, each reported value inside that range is converted (without a
  division trap) to a number between -512 and 511, the middle of the range to 0, and a larger raw
  value never gives a smaller result.\<close>

theorem axis_normalised:
  assumes "axis_ok g" "logical_minimum g \<le> v" "v \<le> v'" "v' \<le> logical_maximum g"
  shows "\<exists>n n'. uni_hid_parser_process_axis g v = Some n \<and> uni_hid_parser_process_axis g v' = Some n' \<and>
    - 512 \<le> n \<and> n \<le> n' \<and> n' \<le> 511 \<and>
    (v = logical_minimum g + axis_range g div 2 \<longrightarrow> n = 0)"
proof -
  have R: "0 < axis_range g" using assms(1) by (simp add: axis_ok_def axis_range_def)
  have "- 512 \<le> c_div ((x - axis_range g div 2 - logical_minimum g) * 1024) (axis_range g) \<and>
        c_div ((x - axis_range g div 2 - logical_minimum g) * 1024) (axis_range g) \<le> 511"
    if "logical_minimum g \<le> x" "x \<le> logical_maximum g" for x
    using R that by (intro axis_bounds) (auto simp: axis_range_def)
  moreover have "c_div ((v - axis_range g div 2 - logical_minimum g) * 1024) (axis_range g) \<le>
        c_div ((v' - axis_range g div 2 - logical_minimum g) * 1024) (axis_range g)"
    using R assms(3) by (intro c_div_mono) auto
  ultimately show ?thesis
    using assms R by (simp add: process_axis_value)
qed

theorem axis_normalised_witness:
  "\<exists>n n'. uni_hid_parser_process_axis \<lparr> logical_minimum = 0, logical_maximum = 65535, g_usage_page = 1,
      report_size = 16, g_report_count = 2, g_report_id = 1 \<rparr> 32768 = Some n \<and>
    uni_hid_parser_process_axis \<lparr> logical_minimum = 0, logical_maximum = 65535, g_usage_page = 1,
      report_size = 16, g_report_count = 2, g_report_id = 1 \<rparr> 65535 = Some n' \<and>
    - 512 \<le> n \<and> n \<le> n' \<and> n' \<le> 511 \<and> n = 0"
  using axis_normalised [of "\<lparr> logical_minimum = 0, logical_maximum = 65535, g_usage_page = 1,
      report_size = 16, g_report_count = 2, g_report_id = 1 \<rparr>" 32768 65535]
  by (simp add: axis_ok_def axis_range_def)

end
