(* ===== verification/Pad_Parsers.thy ===== *)
theory Pad_Parsers
  imports Uni_Hid_Parser
begin

text \<open>
  The usage tables of Bluepad32's gamepad parsers: Android, 8BitDo, generic, OUYA, Nimbus, smart TV
  remote and Atari (\<^verbatim>\<open>src/components/bluepad32/parser/uni_hid_parser_*.c\<close>).  A branch of their switches is a
  \<^verbatim>\<open>pad_action\<close>, one definition per usage page; \<^verbatim>\<open>perform\<close> carries an action out on the controller.
\<close>

section \<open>Actions\<close>

datatype axis_target = AX | AY | ARX | ARY | ABrake | AThrottle

datatype pad_action =
    Ignore
  | ByAxis axis_target
  | ByNegAxis axis_target
  | ByPedal axis_target
  | Hat
  | Dpad
  | Button u16
  | Misc u8
  | DpadBit u8
  | BatteryLevel
  | ButtonAndPedal u16 axis_target
  | PedalAndTrigger axis_target u16

fun set_target :: "axis_target \<Rightarrow> int \<Rightarrow> uni_gamepad \<Rightarrow> uni_gamepad" where
  "set_target AX v gp = gp\<lparr> axis_x := v \<rparr>"
| "set_target AY v gp = gp\<lparr> axis_y := v \<rparr>"
| "set_target ARX v gp = gp\<lparr> axis_rx := v \<rparr>"
| "set_target ARY v gp = gp\<lparr> axis_ry := v \<rparr>"
| "set_target ABrake v gp = gp\<lparr> brake := v \<rparr>"
| "set_target AThrottle v gp = gp\<lparr> throttle := v \<rparr>"

definition press :: "int \<Rightarrow> u16 \<Rightarrow> uni_gamepad \<Rightarrow> uni_gamepad" where
  "press v m gp = (if v \<noteq> 0 then gp\<lparr> buttons := buttons gp OR m \<rparr> else gp)"

definition TRIGGER_BUTTON_THRESHOLD :: int where "TRIGGER_BUTTON_THRESHOLD = 32"

definition perform_pad :: "hid_globals \<Rightarrow> u16 \<Rightarrow> int \<Rightarrow> pad_action \<Rightarrow> uni_gamepad \<Rightarrow> uni_gamepad option" where
  "perform_pad g usage v act gp =
     (case act of
        Ignore \<Rightarrow> Some gp
      | ByAxis t \<Rightarrow> map_option (\<lambda>n. set_target t n gp) (uni_hid_parser_process_axis g v)
      | ByNegAxis t \<Rightarrow> map_option (\<lambda>n. set_target t (- n) gp) (uni_hid_parser_process_axis g v)
      | ByPedal t \<Rightarrow> map_option (\<lambda>n. set_target t n gp) (uni_hid_parser_process_pedal g v)
      | Hat \<Rightarrow> Some (gp\<lparr> dpad := uni_hid_parser_hat_to_dpad (uni_hid_parser_process_hat g v) \<rparr>)
      | Dpad \<Rightarrow> Some (gp\<lparr> dpad := uni_hid_parser_process_dpad usage v (dpad gp) \<rparr>)
      | Button m \<Rightarrow> Some (press v m gp)
      | Misc m \<Rightarrow> Some (if v \<noteq> 0 then gp\<lparr> misc_buttons := misc_buttons gp OR m \<rparr> else gp)
      | DpadBit m \<Rightarrow> Some (if v \<noteq> 0 then gp\<lparr> dpad := dpad gp OR m \<rparr> else gp)
      | BatteryLevel \<Rightarrow> Some gp
      | ButtonAndPedal m t \<Rightarrow>
          map_option (\<lambda>n. set_target t n (press v m gp)) (uni_hid_parser_process_pedal g v)
      | PedalAndTrigger t m \<Rightarrow>
          map_option (\<lambda>n. press (if n \<ge> TRIGGER_BUTTON_THRESHOLD then 1 else 0) m (set_target t n gp))
            (uni_hid_parser_process_pedal g v))"

definition perform :: "hid_globals \<Rightarrow> u16 \<Rightarrow> int \<Rightarrow> pad_action \<Rightarrow> uni_controller \<Rightarrow> uni_controller option" where
  "perform g usage v act ctl =
     map_option (\<lambda>gp. (if act = BatteryLevel then ctl\<lparr> battery := word_of_int v \<rparr> else ctl)\<lparr> gamepad := gp \<rparr>)
       (perform_pad g usage v act (gamepad ctl))"

text \<open>The controller reset every gamepad parser starts a report with.\<close>

definition init_gamepad_report :: "uni_controller \<Rightarrow> uni_controller" where
  "init_gamepad_report ctl = uni_controller_zero\<lparr> klass := UNI_CONTROLLER_CLASS_GAMEPAD \<rparr>"

text \<open>The d-pad usages \<^verbatim>\<open>HID_USAGE_DPAD_UP\<close> to \<^verbatim>\<open>HID_USAGE_DPAD_LEFT\<close>.\<close>

definition dpad_usage :: "u16 \<Rightarrow> bool" where
  "dpad_usage u \<longleftrightarrow> u = 0x90 \<or> u = 0x91 \<or> u = 0x92 \<or> u = 0x93"

section \<open>Android\<close>

definition uni_hid_parser_android_init_report :: "uni_controller \<Rightarrow> uni_controller" where
  "uni_hid_parser_android_init_report = init_gamepad_report"

definition android_desktop :: "u16 \<Rightarrow> pad_action" where
  "android_desktop u =
     (if u = 0x30 then ByAxis AX
      else if u = 0x31 then ByAxis AY
      else if u = 0x32 then ByAxis ARX
      else if u = 0x35 then ByAxis ARY
      else if u = 0x39 then Hat
      else if dpad_usage u then Dpad
      else Ignore)"

definition android_simulation :: "u16 \<Rightarrow> pad_action" where
  "android_simulation u =
     (if u = 0xc4 then ByPedal AThrottle else if u = 0xc5 then ByPedal ABrake else Ignore)"

definition device_controls :: "u16 \<Rightarrow> pad_action" where
  "device_controls u = (if u = 0x20 then BatteryLevel else Ignore)"

definition android_button :: "u16 \<Rightarrow> pad_action" where
  "android_button u =
     (if u = 0x01 then Button BUTTON_A
      else if u = 0x02 then Button BUTTON_B
      else if u = 0x04 then Button BUTTON_X
      else if u = 0x05 then Button BUTTON_Y
      else if u = 0x07 then Button BUTTON_SHOULDER_L
      else if u = 0x08 then Button BUTTON_SHOULDER_R
      else if u = 0x09 then Button BUTTON_TRIGGER_L
      else if u = 0x0a then Button BUTTON_TRIGGER_R
      else if u = 0x0b then Misc MISC_BUTTON_SELECT
      else if u = 0x0c then Misc MISC_BUTTON_START
      else if u = 0x0d then Misc MISC_BUTTON_SYSTEM
      else if u = 0x0e then Button BUTTON_THUMB_L
      else if u = 0x0f then Button BUTTON_THUMB_R
      else if u = 0x13 then Button BUTTON_TRIGGER_L
      else if u = 0x14 then Button BUTTON_TRIGGER_R
      else Ignore)"

definition android_consumer :: "u16 \<Rightarrow> pad_action" where
  "android_consumer u =
     (if u = 0x0223 then Misc MISC_BUTTON_START
      else if u = 0x0224 then Misc MISC_BUTTON_SELECT
      else Ignore)"

definition android_action :: "u16 \<Rightarrow> u16 \<Rightarrow> pad_action" where
  "android_action page u =
     (if page = 0x01 then android_desktop u
      else if page = 0x02 then android_simulation u
      else if page = 0x06 then device_controls u
      else if page = 0x09 then android_button u
      else if page = 0x0c then android_consumer u
      else Ignore)"

definition uni_hid_parser_android_parse_usage ::
    "hid_globals \<Rightarrow> u16 \<Rightarrow> u16 \<Rightarrow> int \<Rightarrow> uni_controller \<Rightarrow> uni_controller option" where
  "uni_hid_parser_android_parse_usage g page usage v = perform g usage v (android_action page usage)"

section \<open>8BitDo\<close>

definition uni_hid_parser_8bitdo_init_report :: "uni_controller \<Rightarrow> uni_controller" where
  "uni_hid_parser_8bitdo_init_report = init_gamepad_report"

definition bitdo_button :: "u16 \<Rightarrow> pad_action" where
  "bitdo_button u =
     (if u = 0x01 then Button BUTTON_B
      else if u = 0x02 then Button BUTTON_A
      else if u = 0x03 then Misc MISC_BUTTON_SYSTEM
      else if u = 0x04 then Button BUTTON_Y
      else if u = 0x05 then Button BUTTON_X
      else if u = 0x07 then Button BUTTON_SHOULDER_L
      else if u = 0x08 then Button BUTTON_SHOULDER_R
      else if u = 0x09 then Button BUTTON_TRIGGER_L
      else if u = 0x0a then Button BUTTON_TRIGGER_R
      else if u = 0x0b then Misc MISC_BUTTON_SELECT
      else if u = 0x0c then Misc MISC_BUTTON_START
      else if u = 0x0d then Misc MISC_BUTTON_SYSTEM
      else if u = 0x0e then Button BUTTON_THUMB_L
      else if u = 0x0f then Button BUTTON_THUMB_R
      else Ignore)"

definition bitdo_keyboard :: "u16 \<Rightarrow> pad_action" where
  "bitdo_keyboard u =
     (if u = 0x06 then DpadBit DPAD_UP
      else if u = 0x07 then DpadBit DPAD_DOWN
      else if u = 0x08 then DpadBit DPAD_LEFT
      else if u = 0x09 then DpadBit DPAD_RIGHT
      else if u = 0x0A then Button BUTTON_B
      else if u = 0x0B then Button BUTTON_Y
      else if u = 0x0C then Button BUTTON_X
      else if u = 0x0D then Button BUTTON_A
      else if u = 0x0E then Button BUTTON_SHOULDER_L
      else if u = 0x10 then Button BUTTON_SHOULDER_R
      else if u = 0x11 then Misc MISC_BUTTON_SELECT
      else if u = 0x12 then Misc MISC_BUTTON_START
      else Ignore)"

definition bitdo_desktop :: "u16 \<Rightarrow> pad_action" where
  "bitdo_desktop u =
     (if u = 0x30 then ByAxis AX
      else if u = 0x31 then ByAxis AY
      else if u = 0x32 then ByAxis ARX
      else if u = 0x35 then ByAxis ARY
      else if u = 0x39 then Hat
      else if dpad_usage u then Dpad
      else Ignore)"

definition bitdo_simulation :: "u16 \<Rightarrow> pad_action" where
  "bitdo_simulation u =
     (if u = 0xc4 then ByPedal AThrottle else if u = 0xc5 then ByPedal ABrake else Ignore)"

definition bitdo_action :: "u16 \<Rightarrow> u16 \<Rightarrow> pad_action" where
  "bitdo_action page u =
     (if page = 0x01 then bitdo_desktop u
      else if page = 0x02 then bitdo_simulation u
      else if page = 0x09 then bitdo_button u
      else if page = 0x06 then device_controls u
      else if page = 0x07 then bitdo_keyboard u
      else Ignore)"

definition uni_hid_parser_8bitdo_parse_usage ::
    "hid_globals \<Rightarrow> u16 \<Rightarrow> u16 \<Rightarrow> int \<Rightarrow> uni_controller \<Rightarrow> uni_controller option" where
  "uni_hid_parser_8bitdo_parse_usage g page usage v = perform g usage v (bitdo_action page usage)"

section \<open>Generic\<close>

definition uni_hid_parser_generic_init_report :: "uni_controller \<Rightarrow> uni_controller" where
  "uni_hid_parser_generic_init_report = init_gamepad_report"

definition generic_desktop :: "u16 \<Rightarrow> pad_action" where
  "generic_desktop u =
     (if u = 0x30 then ByAxis AX
      else if u = 0x31 then ByAxis AY
      else if u = 0x32 then ByAxis ARX
      else if u = 0x33 then ByAxis ARX
      else if u = 0x34 then ByPedal ARY
      else if u = 0x35 then ByAxis ARY
      else if u = 0x39 then Hat
      else if dpad_usage u then Dpad
      else Ignore)"

definition generic_simulation :: "u16 \<Rightarrow> pad_action" where
  "generic_simulation u =
     (if u = 0xc4 then ByPedal AThrottle else if u = 0xc5 then ByPedal ABrake else Ignore)"

definition generic_keyboard :: "u16 \<Rightarrow> pad_action" where
  "generic_keyboard u = (if u = 0x28 then Misc MISC_BUTTON_SYSTEM else Ignore)"

definition generic_button :: "u16 \<Rightarrow> pad_action" where
  "generic_button u =
     (if u = 0x01 then Button BUTTON_A
      else if u = 0x02 then Button BUTTON_B
      else if u = 0x04 then Button BUTTON_X
      else if u = 0x05 then Button BUTTON_Y
      else if u = 0x07 then Button BUTTON_SHOULDER_L
      else if u = 0x08 then Button BUTTON_SHOULDER_R
      else if u = 0x0b then Misc MISC_BUTTON_SELECT
      else if u = 0x0c then Misc MISC_BUTTON_START
      else if u = 0x0d then Misc MISC_BUTTON_SYSTEM
      else if u = 0x0e then Button BUTTON_THUMB_L
      else if u = 0x0f then Button BUTTON_THUMB_R
      else Ignore)"

definition generic_consumer :: "u16 \<Rightarrow> pad_action" where
  "generic_consumer u =
     (if u = 0x0223 then Misc MISC_BUTTON_START
      else if u = 0x0224 then Misc MISC_BUTTON_SELECT
      else Ignore)"

definition generic_action :: "u16 \<Rightarrow> u16 \<Rightarrow> pad_action" where
  "generic_action page u =
     (if page = 0x01 then generic_desktop u
      else if page = 0x02 then generic_simulation u
      else if page = 0x07 then generic_keyboard u
      else if page = 0x06 then device_controls u
      else if page = 0x09 then generic_button u
      else if page = 0x0c then generic_consumer u
      else Ignore)"

definition uni_hid_parser_generic_parse_usage ::
    "hid_globals \<Rightarrow> u16 \<Rightarrow> u16 \<Rightarrow> int \<Rightarrow> uni_controller \<Rightarrow> uni_controller option" where
  "uni_hid_parser_generic_parse_usage g page usage v = perform g usage v (generic_action page usage)"

section \<open>OUYA\<close>

definition uni_hid_parser_ouya_init_report :: "uni_controller \<Rightarrow> uni_controller" where
  "uni_hid_parser_ouya_init_report = init_gamepad_report"

definition ouya_desktop :: "u16 \<Rightarrow> pad_action" where
  "ouya_desktop u =
     (if u = 0x30 then ByAxis AX
      else if u = 0x31 then ByAxis AY
      else if u = 0x32 then ByPedal ABrake
      else if u = 0x33 then ByAxis ARX
      else if u = 0x34 then ByAxis ARY
      else if u = 0x35 then ByPedal AThrottle
      else Ignore)"

definition ouya_button :: "u16 \<Rightarrow> pad_action" where
  "ouya_button u =
     (if u = 1 then Button BUTTON_A
      else if u = 2 then Button BUTTON_X
      else if u = 3 then Button BUTTON_Y
      else if u = 4 then Button BUTTON_B
      else if u = 5 then Button BUTTON_SHOULDER_L
      else if u = 6 then Button BUTTON_SHOULDER_R
      else if u = 7 then Button BUTTON_THUMB_L
      else if u = 8 then Button BUTTON_THUMB_R
      else if u = 9 then DpadBit DPAD_UP
      else if u = 0x0a then DpadBit DPAD_DOWN
      else if u = 0x0b then DpadBit DPAD_LEFT
      else if u = 0x0c then DpadBit DPAD_RIGHT
      else if u = 0x0d then Button BUTTON_TRIGGER_L
      else if u = 0x0e then Button BUTTON_TRIGGER_R
      else if u = 0x0f then Misc MISC_BUTTON_SYSTEM
      else Ignore)"

definition ouya_action :: "u16 \<Rightarrow> u16 \<Rightarrow> pad_action" where
  "ouya_action page u =
     (if page = 0x01 then ouya_desktop u else if page = 0x09 then ouya_button u else Ignore)"

definition uni_hid_parser_ouya_parse_usage ::
    "hid_globals \<Rightarrow> u16 \<Rightarrow> u16 \<Rightarrow> int \<Rightarrow> uni_controller \<Rightarrow> uni_controller option" where
  "uni_hid_parser_ouya_parse_usage g page usage v = perform g usage v (ouya_action page usage)"

section \<open>Nimbus\<close>

definition uni_hid_parser_nimbus_init_report :: "uni_controller \<Rightarrow> uni_controller" where
  "uni_hid_parser_nimbus_init_report = init_gamepad_report"

definition nimbus_desktop :: "u16 \<Rightarrow> pad_action" where
  "nimbus_desktop u =
     (if u = 0x30 then ByAxis AX
      else if u = 0x31 then ByNegAxis AY
      else if u = 0x32 then ByAxis ARX
      else if u = 0x35 then ByNegAxis ARY
      else if u = 0x39 then Hat
      else if dpad_usage u then Dpad
      else Ignore)"

definition nimbus_simulation :: "u16 \<Rightarrow> pad_action" where
  "nimbus_simulation u =
     (if u = 0xc4 then ByPedal AThrottle else if u = 0xc5 then ByPedal ABrake else Ignore)"

definition nimbus_button :: "u16 \<Rightarrow> pad_action" where
  "nimbus_button u =
     (if u = 0x01 then Button BUTTON_A
      else if u = 0x02 then Button BUTTON_B
      else if u = 0x03 then Button BUTTON_X
      else if u = 0x04 then Button BUTTON_Y
      else if u = 0x05 then Button BUTTON_SHOULDER_L
      else if u = 0x06 then Button BUTTON_SHOULDER_R
      else if u = 0x07 then ButtonAndPedal BUTTON_TRIGGER_L ABrake
      else if u = 0x08 then ButtonAndPedal BUTTON_TRIGGER_R AThrottle
      else Ignore)"

definition nimbus_consumer :: "u16 \<Rightarrow> pad_action" where
  "nimbus_consumer u = (if u = 0x0223 then Misc MISC_BUTTON_SYSTEM else Ignore)"

definition nimbus_action :: "u16 \<Rightarrow> u16 \<Rightarrow> pad_action" where
  "nimbus_action page u =
     (if page = 0x01 then nimbus_desktop u
      else if page = 0x02 then nimbus_simulation u
      else if page = 0x06 then device_controls u
      else if page = 0x09 then nimbus_button u
      else if page = 0x0c then nimbus_consumer u
      else Ignore)"

definition uni_hid_parser_nimbus_parse_usage ::
    "hid_globals \<Rightarrow> u16 \<Rightarrow> u16 \<Rightarrow> int \<Rightarrow> uni_controller \<Rightarrow> uni_controller option" where
  "uni_hid_parser_nimbus_parse_usage g page usage v = perform g usage v (nimbus_action page usage)"

section \<open>Smart TV remote\<close>

definition uni_hid_parser_smarttvremote_init_report :: "uni_controller \<Rightarrow> uni_controller" where
  "uni_hid_parser_smarttvremote_init_report = init_gamepad_report"

definition tv_keyboard :: "u16 \<Rightarrow> pad_action" where
  "tv_keyboard u =
     (if u = 0x4F then DpadBit DPAD_RIGHT
      else if u = 0x50 then DpadBit DPAD_LEFT
      else if u = 0x51 then DpadBit DPAD_DOWN
      else if u = 0x52 then DpadBit DPAD_UP
      else if u = 0x58 then Button BUTTON_A
      else if u = 0xf1 then Misc MISC_BUTTON_SELECT
      else Ignore)"

definition tv_consumer :: "u16 \<Rightarrow> pad_action" where
  "tv_consumer u =
     (if u = 0x40 then Misc MISC_BUTTON_SYSTEM
      else if u = 0x0223 then Misc MISC_BUTTON_START
      else Ignore)"

definition tv_action :: "u16 \<Rightarrow> u16 \<Rightarrow> pad_action" where
  "tv_action page u =
     (if page = 0x06 then device_controls u
      else if page = 0x07 then tv_keyboard u
      else if page = 0x0c then tv_consumer u
      else Ignore)"

definition uni_hid_parser_smarttvremote_parse_usage ::
    "hid_globals \<Rightarrow> u16 \<Rightarrow> u16 \<Rightarrow> int \<Rightarrow> uni_controller \<Rightarrow> uni_controller option" where
  "uni_hid_parser_smarttvremote_parse_usage g page usage v = perform g usage v (tv_action page usage)"

section \<open>Atari\<close>

text \<open>The Atari joystick sends raw reports; its d-pad table has nine entries and a four bit index.\<close>

definition atari_dpad_map :: "u8 list" where
  "atari_dpad_map = [0, DPAD_UP, DPAD_UP OR DPAD_RIGHT, DPAD_RIGHT, DPAD_DOWN OR DPAD_RIGHT, DPAD_DOWN,
     DPAD_DOWN OR DPAD_LEFT, DPAD_LEFT, DPAD_UP OR DPAD_LEFT]"

definition atari_parse_report_id_01 :: "bytes \<Rightarrow> uni_controller \<Rightarrow> uni_controller option" where
  "atari_parse_report_id_01 rep ctl =
     (if length rep \<noteq> 5 then Some ctl
      else
        let b0 = rep ! 1; b1 = rep ! 2;
            axis = to_u16 (rep ! 3) OR push_bit 8 (to_u16 (rep ! 4));
            gp = gamepad ctl;
            gp = gp\<lparr> buttons := buttons gp OR flag (bit b0 0) BUTTON_A OR flag (bit b0 1) BUTTON_B,
                     misc_buttons := misc_buttons gp OR flag (bit b1 0) MISC_BUTTON_SYSTEM OR
                       flag (bit b1 1) MISC_BUTTON_SELECT OR flag (bit b1 2) MISC_BUTTON_START \<rparr>;
            joy_value = unat (drop_bit 4 b1)
        in if joy_value \<ge> length atari_dpad_map then None
           else Some (ctl\<lparr> gamepad := gp\<lparr> dpad := atari_dpad_map ! joy_value,
                                          throttle := uint (axis AND 0x3ff) \<rparr> \<rparr>))"

definition uni_hid_parser_atari_init_report :: "uni_controller \<Rightarrow> uni_controller" where
  "uni_hid_parser_atari_init_report = init_gamepad_report"

text \<open>Reports 2 and 3 are only logged.\<close>

definition uni_hid_parser_atari_parse_input_report :: "bytes \<Rightarrow> uni_controller \<Rightarrow> uni_controller option" where
  "uni_hid_parser_atari_parse_input_report rep ctl =
     (if rep ! 0 = 0x01 then atari_parse_report_id_01 rep ctl else Some ctl)"

section \<open>The tables keep the controller in range\<close>

definition stick_range :: "int \<Rightarrow> bool" where
  "stick_range n \<longleftrightarrow> - 512 \<le> n \<and> n \<le> 512"

definition pedal_range :: "int \<Rightarrow> bool" where
  "pedal_range n \<longleftrightarrow> 0 \<le> n \<and> n \<le> 1023"

definition pad_in_range :: "uni_gamepad \<Rightarrow> bool" where
  "pad_in_range gp \<longleftrightarrow> stick_range (axis_x gp) \<and> stick_range (axis_y gp) \<and> stick_range (axis_rx gp) \<and>
     stick_range (axis_ry gp) \<and> pedal_range (brake gp) \<and> pedal_range (throttle gp)"

text \<open>A field of a report as its descriptor promises it: the value lies in the declared range, and a
  pedal's range starts at zero.\<close>

record report_field =
  rf_globals :: hid_globals
  rf_page :: u16
  rf_usage :: u16
  rf_value :: int

fun pedal_action :: "pad_action \<Rightarrow> bool" where
  "pedal_action (ByPedal _) = True"
| "pedal_action (ButtonAndPedal _ _) = True"
| "pedal_action (PedalAndTrigger _ _) = True"
| "pedal_action _ = False"

definition field_ok :: "(u16 \<Rightarrow> u16 \<Rightarrow> pad_action) \<Rightarrow> report_field \<Rightarrow> bool" where
  "field_ok act f \<longleftrightarrow> axis_ok (rf_globals f) \<and> logical_minimum (rf_globals f) \<le> rf_value f \<and>
     rf_value f \<le> logical_maximum (rf_globals f) \<and>
     (pedal_action (act (rf_page f) (rf_usage f)) \<longrightarrow> logical_minimum (rf_globals f) = 0)"

text \<open>An action is well directed when sticks are fed by the axis conversion and pedals by the pedal one.\<close>

fun well_directed :: "pad_action \<Rightarrow> bool" where
  "well_directed (ByAxis t) = (t \<notin> {ABrake, AThrottle})"
| "well_directed (ByNegAxis t) = (t \<notin> {ABrake, AThrottle})"
| "well_directed (ByPedal t) = (t \<in> {ABrake, AThrottle})"
| "well_directed (ButtonAndPedal _ t) = (t \<in> {ABrake, AThrottle})"
| "well_directed (PedalAndTrigger t _) = (t \<in> {ABrake, AThrottle})"
| "well_directed _ = True"

lemma process_pedal_value:
  assumes "axis_ok g" "logical_minimum g = 0" "0 \<le> v" "v \<le> logical_maximum g"
  shows "\<exists>n. uni_hid_parser_process_pedal g v = Some n \<and> pedal_range n"
proof -
  define R where "R = logical_maximum g + 1"
  have R: "0 < R" "R \<le> 2 ^ 21" "v < R" using assms by (auto simp: axis_ok_def R_def)
  have r: "int32 R = R" using R by (intro int32_id) auto
  have u: "uint ((word_of_int v * word_of_int 1024) div (word_of_int R :: u32)) = (v * 1024) div R"
    using R assms(3) by (simp add: uint_div_distrib uint_word_arith_bintrs(3) unsigned_of_int take_bit_int_eq_self)
  have "R * ((v * 1024) div R) \<le> v * 1024"
    using pos_mod_sign [OF R(1), of "v * 1024"] mult_div_mod_eq [of R "v * 1024"] by linarith
  also have "v * 1024 < R * 1024" using R by linarith
  finally have n: "(v * 1024) div R < 1024" using R(1) by (simp only: mult_less_cancel_left_pos)
  have n0: "0 \<le> (v * 1024) div R" using R assms(3) by (simp add: pos_imp_zdiv_nonneg_iff)
  have "sint ((word_of_int v * word_of_int 1024) div (word_of_int R :: u32)) = (v * 1024) div R"
    unfolding sint_uint u using n n0 by (intro signed_take_bit_int_eq_self) auto
  then show ?thesis
    using assms R r n n0
    by (simp add: uni_hid_parser_process_pedal_def axis_maximum_def axis_ok_def Let_def
          AXIS_NORMALIZE_RANGE_def R_def pedal_range_def)
qed

lemma process_axis_range:
  assumes "axis_ok g" "logical_minimum g \<le> v" "v \<le> logical_maximum g"
  shows "\<exists>n. uni_hid_parser_process_axis g v = Some n \<and> stick_range n \<and> stick_range (- n)"
proof -
  have R: "0 < axis_range g" using assms(1) by (simp add: axis_ok_def axis_range_def)
  have "- 512 \<le> c_div ((v - axis_range g div 2 - logical_minimum g) * 1024) (axis_range g) \<and>
        c_div ((v - axis_range g div 2 - logical_minimum g) * 1024) (axis_range g) \<le> 511"
    using R assms by (intro axis_bounds) (auto simp: axis_range_def)
  then show ?thesis using process_axis_value [OF assms] by (simp add: stick_range_def)
qed

lemma perform_in_range:
  assumes "well_directed (act (rf_page f) (rf_usage f))" "field_ok act f" "pad_in_range (gamepad ctl)"
  shows "\<exists>ctl'. perform (rf_globals f) (rf_usage f) (rf_value f) (act (rf_page f) (rf_usage f)) ctl = Some ctl' \<and>
               pad_in_range (gamepad ctl')"
proof -
  let ?g = "rf_globals f" and ?v = "rf_value f"
  obtain n where n: "uni_hid_parser_process_axis ?g ?v = Some n" "stick_range n" "stick_range (- n)"
    using process_axis_range assms(2) unfolding field_ok_def by blast
  have pedal: "\<exists>m. uni_hid_parser_process_pedal ?g ?v = Some m \<and> pedal_range m"
    if "pedal_action (act (rf_page f) (rf_usage f))"
    using process_pedal_value assms(2) that unfolding field_ok_def by metis
  show ?thesis
  proof (cases "act (rf_page f) (rf_usage f)")
    case (ByAxis t)
    then show ?thesis
      using assms n by (cases t) (auto simp: perform_def perform_pad_def pad_in_range_def)
  next
    case (ByNegAxis t)
    then show ?thesis
      using assms n by (cases t) (auto simp: perform_def perform_pad_def pad_in_range_def)
  next
    case (ByPedal t)
    then show ?thesis
      using assms pedal by (cases t) (auto simp: perform_def perform_pad_def pad_in_range_def)
  next
    case (ButtonAndPedal m t)
    then show ?thesis
      using assms pedal by (cases t) (auto simp: perform_def perform_pad_def pad_in_range_def press_def)
  next
    case (PedalAndTrigger t m)
    then obtain k where "uni_hid_parser_process_pedal ?g ?v = Some k" "pedal_range k" using pedal by auto
    then show ?thesis
      using assms PedalAndTrigger
      by (cases t; cases "TRIGGER_BUTTON_THRESHOLD \<le> k")
         (simp_all add: perform_def perform_pad_def pad_in_range_def press_def)
  qed (use assms in \<open>auto simp: perform_def perform_pad_def pad_in_range_def press_def\<close>)
qed

text \<open>The fields of a report, handed to a parser one after the other.\<close>

fun run_usages ::
    "(hid_globals \<Rightarrow> u16 \<Rightarrow> u16 \<Rightarrow> int \<Rightarrow> uni_controller \<Rightarrow> uni_controller option) \<Rightarrow> report_field list
     \<Rightarrow> uni_controller \<Rightarrow> uni_controller option" where
  "run_usages f [] ctl = Some ctl"
| "run_usages f (r # rs) ctl =
     (case f (rf_globals r) (rf_page r) (rf_usage r) (rf_value r) ctl of
        None \<Rightarrow> None
      | Some ctl' \<Rightarrow> run_usages f rs ctl')"

text \<open>
  The contract of a gamepad parser with the platform: it is driven by an action table, and the table
  directs every usage well.
\<close>

locale pad_parser =
  fixes parse :: "hid_globals \<Rightarrow> u16 \<Rightarrow> u16 \<Rightarrow> int \<Rightarrow> uni_controller \<Rightarrow> uni_controller option"
    and act :: "u16 \<Rightarrow> u16 \<Rightarrow> pad_action"
  assumes by_table: "parse g page usage v = perform g usage v (act page usage)"
    and directed: "well_directed (act page usage)"
begin

lemma usages_in_range:
  assumes "list_all (field_ok act) rs" "pad_in_range (gamepad ctl)"
  shows "\<exists>ctl'. run_usages parse rs ctl = Some ctl' \<and> pad_in_range (gamepad ctl')"
  using assms
proof (induction rs arbitrary: ctl)
  case (Cons r rs)
  obtain c where "perform (rf_globals r) (rf_usage r) (rf_value r) (act (rf_page r) (rf_usage r)) ctl = Some c"
      "pad_in_range (gamepad c)"
    using perform_in_range [OF directed] Cons.prems by fastforce
  then show ?case using Cons.IH [of c] Cons.prems by (simp add: by_table)
qed simp

lemma report_in_range:
  assumes "list_all (field_ok act) rs"
  shows "\<exists>ctl'. run_usages parse rs (init_gamepad_report ctl) = Some ctl' \<and> pad_in_range (gamepad ctl')"
  by (rule usages_in_range [OF assms])
     (simp add: init_gamepad_report_def uni_controller_zero_def uni_gamepad_zero_def pad_in_range_def
        stick_range_def pedal_range_def)

end

interpretation android_pad: pad_parser uni_hid_parser_android_parse_usage android_action
  by unfold_locales
     (simp_all add: uni_hid_parser_android_parse_usage_def android_action_def android_desktop_def
        android_simulation_def device_controls_def android_button_def android_consumer_def)

interpretation bitdo_pad: pad_parser uni_hid_parser_8bitdo_parse_usage bitdo_action
  by unfold_locales
     (simp_all add: uni_hid_parser_8bitdo_parse_usage_def bitdo_action_def bitdo_desktop_def
        bitdo_simulation_def device_controls_def bitdo_button_def bitdo_keyboard_def)

interpretation ouya_pad: pad_parser uni_hid_parser_ouya_parse_usage ouya_action
  by unfold_locales
     (simp_all add: uni_hid_parser_ouya_parse_usage_def ouya_action_def ouya_desktop_def ouya_button_def)

interpretation nimbus_pad: pad_parser uni_hid_parser_nimbus_parse_usage nimbus_action
  by unfold_locales
     (simp_all add: uni_hid_parser_nimbus_parse_usage_def nimbus_action_def nimbus_desktop_def
        nimbus_simulation_def device_controls_def nimbus_button_def nimbus_consumer_def)

interpretation tv_pad: pad_parser uni_hid_parser_smarttvremote_parse_usage tv_action
  by unfold_locales
     (simp_all add: uni_hid_parser_smarttvremote_parse_usage_def tv_action_def device_controls_def
        tv_keyboard_def tv_consumer_def)


text \<open>The pedal conversion ignores where the declared range starts and divides as unsigned: with a range of -128..127 a
  pedal at its lower end, which should read 0, comes out as 16776704, and one at rest in the middle of the range as 0.\<close>

definition signed_pedal :: hid_globals where
  "signed_pedal = \<lparr> logical_minimum = -128, logical_maximum = 127, g_usage_page = 2, report_size = 8,
     g_report_count = 1, g_report_id = 0 \<rparr>"

theorem signed_pedal_out_of_range:
  "uni_hid_parser_process_pedal signed_pedal (-128) = Some 16776704 \<and> \<not> pedal_range 16776704 \<and>
   uni_hid_parser_process_pedal signed_pedal 0 = Some 0"
  by (simp add: uni_hid_parser_process_pedal_def signed_pedal_def axis_maximum_def int32_def AXIS_NORMALIZE_RANGE_def
      signed_take_bit_int_eq_self pedal_range_def)

definition byte_axis :: hid_globals where
  "byte_axis = \<lparr> logical_minimum = 0, logical_maximum = 255, g_usage_page = 1, report_size = 8,
     g_report_count = 4, g_report_id = 0 \<rparr>"

definition android_report :: "report_field list" where
  "android_report = [\<lparr> rf_globals = byte_axis, rf_page = 1, rf_usage = 0x30, rf_value = 255 \<rparr>,
     \<lparr> rf_globals = byte_axis, rf_page = 2, rf_usage = 0xc4, rf_value = 128 \<rparr>]"


section \<open>Two tables that break the contract\<close>

text \<open>In the generic parser a released stick reads as full deflection.  The usage RY is documented there
  as a duplicate of RZ, but is converted as a pedal: for an 8 bit axis whose stick rests at 128, RZ
  gives 0 and RY gives 512, the end of the stick's range.\<close>

theorem generic_ry_not_centred:
  "map_option (axis_ry \<circ> gamepad) (uni_hid_parser_generic_parse_usage byte_axis 0x01 0x35 128 c) = Some 0 \<and>
   map_option (axis_ry \<circ> gamepad) (uni_hid_parser_generic_parse_usage byte_axis 0x01 0x34 128 c) = Some 512"
proof -
  have "axis_ok byte_axis" by (simp add: axis_ok_def byte_axis_def)
  then have "uni_hid_parser_process_axis byte_axis 128 = Some 0"
    using process_axis_value [of byte_axis 128] by (simp add: byte_axis_def axis_range_def)
  moreover have "uni_hid_parser_process_pedal byte_axis 128 = Some 512"
    by (simp add: uni_hid_parser_process_pedal_def byte_axis_def axis_maximum_def int32_def
          AXIS_NORMALIZE_RANGE_def signed_take_bit_int_eq_self)
  ultimately show ?thesis
    by (simp add: uni_hid_parser_generic_parse_usage_def generic_action_def generic_desktop_def
          perform_def perform_pad_def)
qed

text \<open>The Atari parser reads past its d-pad table exactly when the joystick nibble of a five byte
  report 1 exceeds eight: the index is taken from the report unchecked, the table has nine entries.\<close>

theorem atari_dpad_overrun:
  "uni_hid_parser_atari_parse_input_report rep ctl = None \<longleftrightarrow>
     rep ! 0 = 0x01 \<and> length rep = 5 \<and> unat (drop_bit 4 (rep ! 2)) > 8"
  by (auto simp: uni_hid_parser_atari_parse_input_report_def atari_parse_report_id_01_def Let_def
      atari_dpad_map_def)

end
