(* ===== verification/Rumble_Driver.thy ===== *)
theory Rumble_Driver
  imports Tx_Prelude
begin

text \<open>
  What the rumble drivers of the Bluetooth LE gamepads share: three phases, a timer that starts a delayed
  or retried rumble, a timer that stops it, and the status codes of the link.  The locale states the
  contract of such a driver with the run loop; the Xbox and Stadia drivers interpret it.
\<close>

datatype rumble_phase = RUMBLE_DISABLED | RUMBLE_DELAYED | RUMBLE_IN_PROGRESS

definition ERROR_CODE_SUCCESS :: nat where "ERROR_CODE_SUCCESS = 0"

definition ERROR_CODE_COMMAND_DISALLOWED :: nat where "ERROR_CODE_COMMAND_DISALLOWED = 0x0C"

definition BLE_RETRY_MS :: nat where "BLE_RETRY_MS = 50"

text \<open>What can happen to a driver: a request, or one of its timers, with the status the link returns.\<close>

datatype rumble_event =
    Play nat nat nat nat nat
  | StartTimer nat
  | StopTimer nat

text \<open>A timer that is set belongs to the phase that set it.\<close>

definition timers_match :: "rumble_phase \<Rightarrow> nat option \<Rightarrow> nat option \<Rightarrow> bool" where
  "timers_match ph start stop \<longleftrightarrow>
     (start \<noteq> None \<longrightarrow> ph = RUMBLE_DELAYED) \<and> (stop \<noteq> None \<longrightarrow> ph = RUMBLE_IN_PROGRESS)"

locale rumble_driver =
  fixes phase :: "'s \<Rightarrow> rumble_phase"
    and start_timer stop_timer :: "'s \<Rightarrow> nat option"
    and react :: "'s \<Rightarrow> rumble_event \<Rightarrow> 's option"
  assumes react_ok: "timers_match (phase s) (start_timer s) (stop_timer s) \<Longrightarrow>
      \<exists>s'. react s e = Some s' \<and> timers_match (phase s') (start_timer s') (stop_timer s')"
begin

fun run :: "'s \<Rightarrow> rumble_event list \<Rightarrow> 's option" where
  "run s [] = Some s"
| "run s (e # es) = (case react s e of None \<Rightarrow> None | Some s' \<Rightarrow> run s' es)"

lemma never_fails:
  assumes "timers_match (phase s) (start_timer s) (stop_timer s)"
  shows "\<exists>s'. run s es = Some s' \<and> timers_match (phase s') (start_timer s') (stop_timer s')"
  using assms
proof (induction es arbitrary: s)
  case (Cons e es)
  then obtain s' where "react s e = Some s'" "timers_match (phase s') (start_timer s') (stop_timer s')"
    using react_ok by blast
  then show ?case using Cons.IH by simp
qed simp

lemma run_append: "run s (es @ fs) = (case run s es of None \<Rightarrow> None | Some s' \<Rightarrow> run s' fs)"
  by (induction es arbitrary: s) (auto split: option.splits)

end

end
