(* ===== verification/Xboxone.thy ===== *)
theory Xboxone
  imports Pad_Parsers Rumble_Driver
begin

text \<open>
  The Xbox wireless controller (\<^verbatim>\<open>src/components/bluepad32/parser/uni_hid_parser_xboxone.c\<close>): firmware
  detection, the usage tables of firmware 3.1 and of 4.8 and 5, and the rumble state machine with its two
  timers.  The status that \<^verbatim>\<open>hids_client_send_write_report\<close> returns is an argument of the operations that
  call it; the reports it accepted are kept in order in \<^verbatim>\<open>xb_sent\<close>.  A timer is the time it was set to, or
  \<^verbatim>\<open>None\<close> when it is not in the run loop.  \<^verbatim>\<open>None\<close> as a result is a failed assertion.
\<close>

datatype xboxone_firmware = XBOXONE_FIRMWARE_V3_1 | XBOXONE_FIRMWARE_V4_8 | XBOXONE_FIRMWARE_V5

record xboxone_ff_report =
  enable_actuators :: u8
  magnitude_left_trigger :: nat
  magnitude_right_trigger :: nat
  magnitude_strong :: nat
  magnitude_weak :: nat
  duration_10ms :: nat
  loop_count :: nat

record xboxone_instance =
  version :: xboxone_firmware
  rumble_timer_duration :: "nat option"
  rumble_timer_delayed_start :: "nat option"
  rumble_state :: rumble_phase
  rumble_duration_ms :: nat
  rumble_trigger_left :: nat
  rumble_trigger_right :: nat
  rumble_weak_magnitude :: nat
  rumble_strong_magnitude :: nat
  xb_sent :: "xboxone_ff_report list"

definition xboxone_instance_zero :: xboxone_instance where
  "xboxone_instance_zero = \<lparr> version = XBOXONE_FIRMWARE_V3_1, rumble_timer_duration = None,
     rumble_timer_delayed_start = None, rumble_state = RUMBLE_DISABLED, rumble_duration_ms = 0,
     rumble_trigger_left = 0, rumble_trigger_right = 0, rumble_weak_magnitude = 0,
     rumble_strong_magnitude = 0, xb_sent = [] \<rparr>"

record xbox_device =
  xb_controller :: uni_controller
  xb_instance :: xboxone_instance

section \<open>Detection\<close>

definition xbox_hid_descriptor_4_8_fw :: bytes where
  "xbox_hid_descriptor_4_8_fw =
     [
      0x05, 0x01, 0x09, 0x05, 0xa1, 0x01, 0x85, 0x01, 0x09, 0x01, 0xa1, 0x00, 0x09, 0x30, 0x09, 0x31, 0x15,
      0x00, 0x27, 0xff, 0xff, 0x00, 0x00, 0x95, 0x02, 0x75, 0x10, 0x81, 0x02, 0xc0, 0x09, 0x01, 0xa1, 0x00,
      0x09, 0x32, 0x09, 0x35, 0x15, 0x00, 0x27, 0xff, 0xff, 0x00, 0x00, 0x95, 0x02, 0x75, 0x10, 0x81, 0x02,
      0xc0, 0x05, 0x02, 0x09, 0xc5, 0x15, 0x00, 0x26, 0xff, 0x03, 0x95, 0x01, 0x75, 0x0a, 0x81, 0x02, 0x15,
      0x00, 0x25, 0x00, 0x75, 0x06, 0x95, 0x01, 0x81, 0x03, 0x05, 0x02, 0x09, 0xc4, 0x15, 0x00, 0x26, 0xff,
      0x03, 0x95, 0x01, 0x75, 0x0a, 0x81, 0x02, 0x15, 0x00, 0x25, 0x00, 0x75, 0x06, 0x95, 0x01, 0x81, 0x03,
      0x05, 0x01, 0x09, 0x39, 0x15, 0x01, 0x25, 0x08, 0x35, 0x00, 0x46, 0x3b, 0x01, 0x66, 0x14, 0x00, 0x75,
      0x04, 0x95, 0x01, 0x81, 0x42, 0x75, 0x04, 0x95, 0x01, 0x15, 0x00, 0x25, 0x00, 0x35, 0x00, 0x45, 0x00,
      0x65, 0x00, 0x81, 0x03, 0x05, 0x09, 0x19, 0x01, 0x29, 0x0f, 0x15, 0x00, 0x25, 0x01, 0x75, 0x01, 0x95,
      0x0f, 0x81, 0x02, 0x15, 0x00, 0x25, 0x00, 0x75, 0x01, 0x95, 0x01, 0x81, 0x03, 0x05, 0x0c, 0x0a, 0x24,
      0x02, 0x15, 0x00, 0x25, 0x01, 0x95, 0x01, 0x75, 0x01, 0x81, 0x02, 0x15, 0x00, 0x25, 0x00, 0x75, 0x07,
      0x95, 0x01, 0x81, 0x03, 0x05, 0x0c, 0x09, 0x01, 0x85, 0x02, 0xa1, 0x01, 0x05, 0x0c, 0x0a, 0x23, 0x02,
      0x15, 0x00, 0x25, 0x01, 0x95, 0x01, 0x75, 0x01, 0x81, 0x02, 0x15, 0x00, 0x25, 0x00, 0x75, 0x07, 0x95,
      0x01, 0x81, 0x03, 0xc0, 0x05, 0x0f, 0x09, 0x21, 0x85, 0x03, 0xa1, 0x02, 0x09, 0x97, 0x15, 0x00, 0x25,
      0x01, 0x75, 0x04, 0x95, 0x01, 0x91, 0x02, 0x15, 0x00, 0x25, 0x00, 0x75, 0x04, 0x95, 0x01, 0x91, 0x03,
      0x09, 0x70, 0x15, 0x00, 0x25, 0x64, 0x75, 0x08, 0x95, 0x04, 0x91, 0x02, 0x09, 0x50, 0x66, 0x01, 0x10,
      0x55, 0x0e, 0x15, 0x00, 0x26, 0xff, 0x00, 0x75, 0x08, 0x95, 0x01, 0x91, 0x02, 0x09, 0xa7, 0x15, 0x00,
      0x26, 0xff, 0x00, 0x75, 0x08, 0x95, 0x01, 0x91, 0x02, 0x65, 0x00, 0x55, 0x00, 0x09, 0x7c, 0x15, 0x00,
      0x26, 0xff, 0x00, 0x75, 0x08, 0x95, 0x01, 0x91, 0x02, 0xc0, 0x05, 0x06, 0x09, 0x20, 0x85, 0x04, 0x15,
      0x00, 0x26, 0xff, 0x00, 0x75, 0x08, 0x95, 0x01, 0x81, 0x02, 0xc0]"

definition XBOX_WIRELESS_VID :: u16 where "XBOX_WIRELESS_VID = 0x045e"

definition XBOX_WIRELESS_PID :: u16 where "XBOX_WIRELESS_PID = 0x02e0"

definition uni_hid_parser_xboxone_setup :: "bool \<Rightarrow> nat \<Rightarrow> xbox_device \<Rightarrow> xbox_device" where
  "uni_hid_parser_xboxone_setup connection_le hid_descriptor_len d =
     d\<lparr> xb_instance := (xb_instance d)\<lparr> version :=
          (if connection_le then XBOXONE_FIRMWARE_V5
           else if hid_descriptor_len > 330 then XBOXONE_FIRMWARE_V4_8
           else XBOXONE_FIRMWARE_V3_1) \<rparr> \<rparr>"

definition uni_hid_parser_xboxone_init_report :: "xbox_device \<Rightarrow> xbox_device" where
  "uni_hid_parser_xboxone_init_report d = d\<lparr> xb_controller := init_gamepad_report (xb_controller d) \<rparr>"

section \<open>Usages\<close>

definition xbox_v3_desktop :: "u16 \<Rightarrow> pad_action" where
  "xbox_v3_desktop u =
     (if u = 0x30 then ByAxis AX
      else if u = 0x31 then ByAxis AY
      else if u = 0x32 then ByPedal ABrake
      else if u = 0x33 then ByAxis ARX
      else if u = 0x34 then ByAxis ARY
      else if u = 0x35 then ByPedal AThrottle
      else if u = 0x39 then Hat
      else if u = 0x85 then Misc MISC_BUTTON_SYSTEM
      else if dpad_usage u then Dpad
      else Ignore)"

definition xbox_v3_button :: "u16 \<Rightarrow> pad_action" where
  "xbox_v3_button u =
     (if u = 0x01 then Button BUTTON_A
      else if u = 0x02 then Button BUTTON_B
      else if u = 0x03 then Button BUTTON_X
      else if u = 0x04 then Button BUTTON_Y
      else if u = 0x05 then Button BUTTON_SHOULDER_L
      else if u = 0x06 then Button BUTTON_SHOULDER_R
      else if u = 0x07 then Misc MISC_BUTTON_SELECT
      else if u = 0x08 then Misc MISC_BUTTON_START
      else if u = 0x09 then Button BUTTON_THUMB_L
      else if u = 0x0a then Button BUTTON_THUMB_R
      else Ignore)"

definition xbox_v3_action :: "u16 \<Rightarrow> u16 \<Rightarrow> pad_action" where
  "xbox_v3_action page u =
     (if page = 0x01 then xbox_v3_desktop u
      else if page = 0x06 then device_controls u
      else if page = 0x09 then xbox_v3_button u
      else Ignore)"

definition perform_on_xbox ::
    "hid_globals \<Rightarrow> u16 \<Rightarrow> int \<Rightarrow> pad_action \<Rightarrow> xbox_device \<Rightarrow> xbox_device option" where
  "perform_on_xbox g usage v act d =
     map_option (\<lambda>ctl. d\<lparr> xb_controller := ctl \<rparr>) (perform g usage v act (xb_controller d))"

definition set_version :: "xboxone_firmware \<Rightarrow> xbox_device \<Rightarrow> xbox_device" where
  "set_version ver d = d\<lparr> xb_instance := (xb_instance d)\<lparr> version := ver \<rparr> \<rparr>"

text \<open>Button 0x0f exists only from firmware 4.8 on: seeing it switches the table.\<close>

definition parse_usage_firmware_v3_1 ::
    "hid_globals \<Rightarrow> u16 \<Rightarrow> u16 \<Rightarrow> int \<Rightarrow> xbox_device \<Rightarrow> xbox_device option" where
  "parse_usage_firmware_v3_1 g page usage v d =
     (if page = 0x09 \<and> usage = 0x0f then Some (set_version XBOXONE_FIRMWARE_V4_8 d)
      else perform_on_xbox g usage v (xbox_v3_action page usage) d)"

definition xbox_v4_desktop :: "u16 \<Rightarrow> pad_action" where
  "xbox_v4_desktop u =
     (if u = 0x30 then ByAxis AX
      else if u = 0x31 then ByAxis AY
      else if u = 0x32 then ByAxis ARX
      else if u = 0x35 then ByAxis ARY
      else if u = 0x39 then Hat
      else if u = 0x85 then Misc MISC_BUTTON_SYSTEM
      else if dpad_usage u then Dpad
      else Ignore)"

definition xbox_v4_simulation :: "u16 \<Rightarrow> pad_action" where
  "xbox_v4_simulation u =
     (if u = 0xc4 then PedalAndTrigger AThrottle BUTTON_TRIGGER_R
      else if u = 0xc5 then PedalAndTrigger ABrake BUTTON_TRIGGER_L
      else Ignore)"

definition xbox_v4_button :: "u16 \<Rightarrow> pad_action" where
  "xbox_v4_button u =
     (if u = 0x01 then Button BUTTON_A
      else if u = 0x02 then Button BUTTON_B
      else if u = 0x04 then Button BUTTON_X
      else if u = 0x05 then Button BUTTON_Y
      else if u = 0x07 then Button BUTTON_SHOULDER_L
      else if u = 0x08 then Button BUTTON_SHOULDER_R
      else if u = 0x0b then Misc MISC_BUTTON_SELECT
      else if u = 0x0c then Misc MISC_BUTTON_START
      else if u = 0x0d then Misc MISC_BUTTON_SYSTEM
      else if u = 0x0e then Button BUTTON_THUMB_L
      else if u = 0x0f then Button BUTTON_THUMB_R
      else Ignore)"

definition xbox_v4_consumer :: "u16 \<Rightarrow> pad_action" where
  "xbox_v4_consumer u =
     (if u = 0xb2 then Misc MISC_BUTTON_CAPTURE
      else if u = 0x0224 then Misc MISC_BUTTON_SELECT
      else Ignore)"

definition xbox_v4_action :: "u16 \<Rightarrow> u16 \<Rightarrow> pad_action" where
  "xbox_v4_action page u =
     (if page = 0x01 then xbox_v4_desktop u
      else if page = 0x02 then xbox_v4_simulation u
      else if page = 0x06 then device_controls u
      else if page = 0x09 then xbox_v4_button u
      else if page = 0x0c then xbox_v4_consumer u
      else Ignore)"

definition parse_usage_firmware_v4_v5 ::
    "hid_globals \<Rightarrow> u16 \<Rightarrow> u16 \<Rightarrow> int \<Rightarrow> xbox_device \<Rightarrow> xbox_device option" where
  "parse_usage_firmware_v4_v5 g page usage v d =
     perform_on_xbox g usage v (xbox_v4_action page usage)
       (if page = 0x0c \<and> usage = 0xb2 then set_version XBOXONE_FIRMWARE_V5 d else d)"

definition uni_hid_parser_xboxone_parse_usage ::
    "hid_globals \<Rightarrow> u16 \<Rightarrow> u16 \<Rightarrow> int \<Rightarrow> xbox_device \<Rightarrow> xbox_device option" where
  "uni_hid_parser_xboxone_parse_usage g page usage v d =
     (if version (xb_instance d) = XBOXONE_FIRMWARE_V3_1 then parse_usage_firmware_v3_1 g page usage v d
      else parse_usage_firmware_v4_v5 g page usage v d)"

definition xbox_report_parser :: "xbox_device uni_report_parser" where
  "xbox_report_parser = \<lparr> init_report = Some uni_hid_parser_xboxone_init_report,
     parse_input_report = None, parse_usage = Some uni_hid_parser_xboxone_parse_usage \<rparr>"

section \<open>Rumble\<close>

definition XBOXONE_FF_WEAK :: u8 where "XBOXONE_FF_WEAK = 1"

definition XBOXONE_FF_STRONG :: u8 where "XBOXONE_FF_STRONG = 2"

definition XBOXONE_FF_TRIGGER_RIGHT :: u8 where "XBOXONE_FF_TRIGGER_RIGHT = 4"

definition XBOXONE_FF_TRIGGER_LEFT :: u8 where "XBOXONE_FF_TRIGGER_LEFT = 8"

datatype xboxone_retry_cmd = XBOXONE_RETRY_CMD_RUMBLE_ON | XBOXONE_RETRY_CMD_RUMBLE_OFF

definition xboxone_retry_cmd_fn :: "xboxone_retry_cmd \<Rightarrow> xboxone_instance \<Rightarrow> xboxone_instance" where
  "xboxone_retry_cmd_fn cmd ins =
     (case cmd of
        XBOXONE_RETRY_CMD_RUMBLE_ON \<Rightarrow>
          ins\<lparr> rumble_state := RUMBLE_DELAYED, rumble_timer_delayed_start := Some BLE_RETRY_MS \<rparr>
      | XBOXONE_RETRY_CMD_RUMBLE_OFF \<Rightarrow>
          ins\<lparr> rumble_state := RUMBLE_IN_PROGRESS, rumble_timer_duration := Some BLE_RETRY_MS \<rparr>)"

definition stop_report :: xboxone_ff_report where
  "stop_report = \<lparr> enable_actuators = XBOXONE_FF_TRIGGER_LEFT OR XBOXONE_FF_TRIGGER_RIGHT OR
       XBOXONE_FF_WEAK OR XBOXONE_FF_STRONG,
     magnitude_left_trigger = 0, magnitude_right_trigger = 0, magnitude_strong = 0, magnitude_weak = 0,
     duration_10ms = 0, loop_count = 0 \<rparr>"

definition xboxone_stop_rumble_now :: "nat \<Rightarrow> xboxone_instance \<Rightarrow> xboxone_instance option" where
  "xboxone_stop_rumble_now status ins =
     (if rumble_state ins = RUMBLE_DISABLED then None
      else
        let ins1 = ins\<lparr> rumble_state := RUMBLE_DISABLED \<rparr>
        in if version ins = XBOXONE_FIRMWARE_V5 then
             if status = ERROR_CODE_COMMAND_DISALLOWED
             then Some (xboxone_retry_cmd_fn XBOXONE_RETRY_CMD_RUMBLE_OFF ins1)
             else if status \<noteq> ERROR_CODE_SUCCESS then Some ins1
             else Some (ins1\<lparr> xb_sent := xb_sent ins1 @ [stop_report] \<rparr>)
           else Some (ins1\<lparr> xb_sent := xb_sent ins1 @ [stop_report] \<rparr>))"

definition scale_magnitude :: "nat \<Rightarrow> nat" where
  "scale_magnitude m = ((m * 100) mod 2 ^ 16) div 255"

definition play_report :: "nat \<Rightarrow> nat \<Rightarrow> nat \<Rightarrow> nat \<Rightarrow> xboxone_ff_report" where
  "play_report trigger_left trigger_right weak strong =
     \<lparr> enable_actuators = flag (trigger_left \<noteq> 0) XBOXONE_FF_TRIGGER_LEFT OR
         flag (trigger_right \<noteq> 0) XBOXONE_FF_TRIGGER_RIGHT OR
         flag (weak \<noteq> 0) XBOXONE_FF_WEAK OR flag (strong \<noteq> 0) XBOXONE_FF_STRONG,
       magnitude_left_trigger = scale_magnitude trigger_left,
       magnitude_right_trigger = scale_magnitude trigger_right,
       magnitude_strong = scale_magnitude strong, magnitude_weak = scale_magnitude weak,
       duration_10ms = 0xff, loop_count = 25 \<rparr>"

definition xboxone_play_quad_rumble_now ::
    "nat \<Rightarrow> nat \<Rightarrow> nat \<Rightarrow> nat \<Rightarrow> nat \<Rightarrow> nat \<Rightarrow> xboxone_instance \<Rightarrow> xboxone_instance option" where
  "xboxone_play_quad_rumble_now status duration_ms trigger_left trigger_right weak strong ins =
     (if duration_ms = 0 then
        if rumble_state ins \<noteq> RUMBLE_DISABLED then xboxone_stop_rumble_now status ins else Some ins
      else
        let ff = play_report trigger_left trigger_right weak strong;
            started = ins\<lparr> xb_sent := xb_sent ins @ [ff], rumble_state := RUMBLE_IN_PROGRESS,
                          rumble_timer_duration := Some duration_ms \<rparr>
        in if version ins = XBOXONE_FIRMWARE_V5 then
             if status = ERROR_CODE_COMMAND_DISALLOWED
             then Some (xboxone_retry_cmd_fn XBOXONE_RETRY_CMD_RUMBLE_ON ins)
             else if status \<noteq> ERROR_CODE_SUCCESS then Some ins
             else Some started
           else Some started)"

definition xboxone_play_quad_rumble ::
    "nat \<Rightarrow> nat \<Rightarrow> nat \<Rightarrow> nat \<Rightarrow> nat \<Rightarrow> nat \<Rightarrow> nat \<Rightarrow> xboxone_instance \<Rightarrow> xboxone_instance option" where
  "xboxone_play_quad_rumble status start_delay_ms duration_ms trigger_left trigger_right weak strong ins =
     (let ins1 = (case rumble_state ins of
                    RUMBLE_DELAYED \<Rightarrow> ins\<lparr> rumble_timer_delayed_start := None \<rparr>
                  | RUMBLE_IN_PROGRESS \<Rightarrow> ins\<lparr> rumble_timer_duration := None \<rparr>
                  | RUMBLE_DISABLED \<Rightarrow> ins)
      in if start_delay_ms = 0
         then xboxone_play_quad_rumble_now status duration_ms trigger_left trigger_right weak strong ins1
         else Some (ins1\<lparr> rumble_state := RUMBLE_DELAYED, rumble_duration_ms := duration_ms,
                          rumble_trigger_left := trigger_left, rumble_trigger_right := trigger_right,
                          rumble_strong_magnitude := strong, rumble_weak_magnitude := weak,
                          rumble_timer_delayed_start := Some start_delay_ms \<rparr>))"

definition uni_hid_parser_xboxone_play_dual_rumble ::
    "nat \<Rightarrow> nat \<Rightarrow> nat \<Rightarrow> nat \<Rightarrow> nat \<Rightarrow> xboxone_instance \<Rightarrow> xboxone_instance option" where
  "uni_hid_parser_xboxone_play_dual_rumble status start_delay_ms duration_ms weak strong =
     xboxone_play_quad_rumble status start_delay_ms duration_ms 0 0 weak strong"

text \<open>The timer callbacks; the run loop takes the timer out before it calls them.\<close>

definition on_xboxone_set_rumble_on :: "nat \<Rightarrow> xboxone_instance \<Rightarrow> xboxone_instance option" where
  "on_xboxone_set_rumble_on status ins =
     xboxone_play_quad_rumble_now status (rumble_duration_ms ins) (rumble_trigger_left ins)
       (rumble_trigger_right ins) (rumble_weak_magnitude ins) (rumble_strong_magnitude ins)
       (ins\<lparr> rumble_timer_delayed_start := None \<rparr>)"

definition on_xboxone_set_rumble_off :: "nat \<Rightarrow> xboxone_instance \<Rightarrow> xboxone_instance option" where
  "on_xboxone_set_rumble_off status ins =
     xboxone_stop_rumble_now status (ins\<lparr> rumble_timer_duration := None \<rparr>)"

section \<open>The rumble timers\<close>

definition xbox_react :: "xboxone_instance \<Rightarrow> rumble_event \<Rightarrow> xboxone_instance option" where
  "xbox_react ins e =
     (case e of
        Play status start_delay_ms duration_ms weak strong \<Rightarrow>
          uni_hid_parser_xboxone_play_dual_rumble status start_delay_ms duration_ms weak strong ins
      | StartTimer status \<Rightarrow>
          if rumble_timer_delayed_start ins = None then Some ins else on_xboxone_set_rumble_on status ins
      | StopTimer status \<Rightarrow>
          if rumble_timer_duration ins = None then Some ins else on_xboxone_set_rumble_off status ins)"

lemmas xbox_rumble_defs = uni_hid_parser_xboxone_play_dual_rumble_def xboxone_play_quad_rumble_def
  xboxone_play_quad_rumble_now_def xboxone_stop_rumble_now_def on_xboxone_set_rumble_on_def
  on_xboxone_set_rumble_off_def xboxone_retry_cmd_fn_def Let_def

lemma xbox_react_ok:
  assumes "timers_match (rumble_state s) (rumble_timer_delayed_start s) (rumble_timer_duration s)"
  shows "\<exists>s'. xbox_react s e = Some s' \<and>
    timers_match (rumble_state s') (rumble_timer_delayed_start s') (rumble_timer_duration s')"
proof (cases e)
  case (Play st sd dur w str)
  then show ?thesis
    using assms by (cases "rumble_state s") (auto simp: xbox_react_def xbox_rumble_defs timers_match_def)
next
  case (StartTimer st)
  then show ?thesis
    using assms by (cases "rumble_state s") (auto simp: xbox_react_def xbox_rumble_defs timers_match_def)
next
  case (StopTimer st)
  then show ?thesis
    using assms by (cases "rumble_state s") (auto simp: xbox_react_def xbox_rumble_defs timers_match_def)
qed

interpretation xbox_rumble: rumble_driver rumble_state rumble_timer_delayed_start rumble_timer_duration xbox_react
  by unfold_locales (rule xbox_react_ok)

fun xbox_run :: "xboxone_instance \<Rightarrow> rumble_event list \<Rightarrow> xboxone_instance option" where
  "xbox_run s [] = Some s"
| "xbox_run s (e # es) = (case xbox_react s e of None \<Rightarrow> None | Some s' \<Rightarrow> xbox_run s' es)"

lemma xbox_run_eq: "xbox_run s es = xbox_rumble.run s es"
  by (induction es arbitrary: s) (auto split: option.splits)

text \<open>The assertion in the Xbox driver's stop routine never fails.  From a fresh instance, any sequence of
  rumble requests and timer callbacks, with any outcome of the Bluetooth writes, runs without tripping it,
  and a timer is pending only in the phase it belongs to: a stop timer while rumbling, a start timer
  while a start is delayed.\<close>

theorem xbox_rumble_never_asserts:
  "\<exists>s'. xbox_run (xboxone_instance_zero\<lparr> version := ver \<rparr>) es = Some s' \<and>
    timers_match (rumble_state s') (rumble_timer_delayed_start s') (rumble_timer_duration s')"
  unfolding xbox_run_eq
  by (rule xbox_rumble.never_fails) (simp add: xboxone_instance_zero_def timers_match_def)

text \<open>A rumble that is retried because the link was busy is lost.  For a controller on Bluetooth LE
  (firmware 5), a request without delay that finds the link busy is retried after 50 ms, but the retry
  plays the parameters saved by the last delayed request, not those of the refused one: on a fresh
  instance the retry sends a stop report, and the requested rumble is never sent.\<close>

theorem busy_link_loses_rumble:
  "duration_ms > 0 \<Longrightarrow>
   map_option xb_sent
     (xbox_run (xboxone_instance_zero\<lparr> version := XBOXONE_FIRMWARE_V5 \<rparr>)
       [Play ERROR_CODE_COMMAND_DISALLOWED 0 duration_ms weak strong, StartTimer ERROR_CODE_SUCCESS]) =
   Some [stop_report]"
  by (simp add: xbox_react_def xbox_rumble_defs xboxone_instance_zero_def ERROR_CODE_SUCCESS_def
        ERROR_CODE_COMMAND_DISALLOWED_def)

theorem busy_link_loses_rumble_witness:
  "map_option xb_sent
     (xbox_run (xboxone_instance_zero\<lparr> version := XBOXONE_FIRMWARE_V5 \<rparr>)
       [Play ERROR_CODE_COMMAND_DISALLOWED 0 500 128 255, StartTimer ERROR_CODE_SUCCESS]) =
   Some [stop_report]"
  by (rule busy_link_loses_rumble) simp

section \<open>Xbox reports stay in range\<close>

definition xbox_v3_parse :: "hid_globals \<Rightarrow> u16 \<Rightarrow> u16 \<Rightarrow> int \<Rightarrow> uni_controller \<Rightarrow> uni_controller option" where
  "xbox_v3_parse g page usage v = perform g usage v (xbox_v3_action page usage)"

definition xbox_v4_parse :: "hid_globals \<Rightarrow> u16 \<Rightarrow> u16 \<Rightarrow> int \<Rightarrow> uni_controller \<Rightarrow> uni_controller option" where
  "xbox_v4_parse g page usage v = perform g usage v (xbox_v4_action page usage)"

interpretation xbox_v3_pad: pad_parser xbox_v3_parse xbox_v3_action
  by unfold_locales
     (simp_all add: xbox_v3_parse_def xbox_v3_action_def xbox_v3_desktop_def device_controls_def xbox_v3_button_def)

interpretation xbox_v4_pad: pad_parser xbox_v4_parse xbox_v4_action
  by unfold_locales
     (simp_all add: xbox_v4_parse_def xbox_v4_action_def xbox_v4_desktop_def xbox_v4_simulation_def
        device_controls_def xbox_v4_button_def xbox_v4_consumer_def)

end
