(* ===== verification/Stadia.thy ===== *)
theory Stadia
  imports Rumble_Driver
begin

text \<open>
  The rumble driver of the Stadia controller (\<^verbatim>\<open>src/components/bluepad32/parser/uni_hid_parser_stadia.c\<close>); its
  other entry points are those of the Android parser.
\<close>

record stadia_ff_report =
  st_strong :: u16
  st_weak :: u16

record stadia_instance =
  st_timer_duration :: "nat option"
  st_timer_delayed_start :: "nat option"
  st_rumble_state :: rumble_phase
  st_weak_magnitude :: u16
  st_strong_magnitude :: u16
  st_duration_ms :: nat
  st_sent :: "stadia_ff_report list"

definition uni_hid_parser_stadia_setup :: "stadia_instance \<Rightarrow> stadia_instance" where
  "uni_hid_parser_stadia_setup ins =
     \<lparr> st_timer_duration = None, st_timer_delayed_start = None, st_rumble_state = RUMBLE_DISABLED,
       st_weak_magnitude = 0, st_strong_magnitude = 0, st_duration_ms = 0, st_sent = st_sent ins \<rparr>"

definition stadia_stop_rumble_now :: "nat \<Rightarrow> stadia_instance \<Rightarrow> stadia_instance option" where
  "stadia_stop_rumble_now status ins =
     (if st_rumble_state ins = RUMBLE_DISABLED then None
      else
        let ins1 = ins\<lparr> st_rumble_state := RUMBLE_DISABLED \<rparr>
        in if status = ERROR_CODE_COMMAND_DISALLOWED
           then Some (ins1\<lparr> st_rumble_state := RUMBLE_IN_PROGRESS, st_timer_duration := Some BLE_RETRY_MS \<rparr>)
           else if status \<noteq> ERROR_CODE_SUCCESS then Some ins1
           else Some (ins1\<lparr> st_sent := st_sent ins1 @ [\<lparr> st_strong = 0, st_weak = 0 \<rparr>] \<rparr>))"

text \<open>The magnitudes are 8 bit parameters, shifted into the high byte; the saved 16 bit ones are narrowed
  when they are passed.\<close>

definition stadia_play_dual_rumble_now ::
    "nat \<Rightarrow> nat \<Rightarrow> u8 \<Rightarrow> u8 \<Rightarrow> stadia_instance \<Rightarrow> stadia_instance option" where
  "stadia_play_dual_rumble_now status duration_ms weak strong ins =
     (if duration_ms = 0 then
        if st_rumble_state ins \<noteq> RUMBLE_DISABLED then stadia_stop_rumble_now status ins else Some ins
      else
        let ff = \<lparr> st_strong = push_bit 8 (to_u16 strong), st_weak = push_bit 8 (to_u16 weak) \<rparr>
        in if status = ERROR_CODE_COMMAND_DISALLOWED
           then Some (ins\<lparr> st_rumble_state := RUMBLE_DELAYED, st_timer_delayed_start := Some BLE_RETRY_MS \<rparr>)
           else if status \<noteq> ERROR_CODE_SUCCESS then Some ins
           else Some (ins\<lparr> st_sent := st_sent ins @ [ff], st_rumble_state := RUMBLE_IN_PROGRESS,
                           st_timer_duration := Some duration_ms \<rparr>))"

definition uni_hid_parser_stadia_play_dual_rumble ::
    "nat \<Rightarrow> nat \<Rightarrow> nat \<Rightarrow> u8 \<Rightarrow> u8 \<Rightarrow> stadia_instance \<Rightarrow> stadia_instance option" where
  "uni_hid_parser_stadia_play_dual_rumble status start_delay_ms duration_ms weak strong ins =
     (let ins1 = (case st_rumble_state ins of
                    RUMBLE_DELAYED \<Rightarrow> ins\<lparr> st_timer_delayed_start := None \<rparr>
                  | RUMBLE_IN_PROGRESS \<Rightarrow> ins\<lparr> st_timer_duration := None \<rparr>
                  | RUMBLE_DISABLED \<Rightarrow> ins)
      in if start_delay_ms = 0 then stadia_play_dual_rumble_now status duration_ms weak strong ins1
         else Some (ins1\<lparr> st_rumble_state := RUMBLE_DELAYED, st_duration_ms := duration_ms,
                          st_strong_magnitude := to_u16 strong, st_weak_magnitude := to_u16 weak,
                          st_timer_delayed_start := Some start_delay_ms \<rparr>))"

definition on_stadia_set_rumble_on :: "nat \<Rightarrow> stadia_instance \<Rightarrow> stadia_instance option" where
  "on_stadia_set_rumble_on status ins =
     stadia_play_dual_rumble_now status (st_duration_ms ins) (to_u8 (st_weak_magnitude ins))
       (to_u8 (st_strong_magnitude ins)) (ins\<lparr> st_timer_delayed_start := None \<rparr>)"

definition on_stadia_set_rumble_off :: "nat \<Rightarrow> stadia_instance \<Rightarrow> stadia_instance option" where
  "on_stadia_set_rumble_off status ins =
     stadia_stop_rumble_now status (ins\<lparr> st_timer_duration := None \<rparr>)"

definition stadia_react :: "stadia_instance \<Rightarrow> rumble_event \<Rightarrow> stadia_instance option" where
  "stadia_react ins e =
     (case e of
        Play status start_delay_ms duration_ms weak strong \<Rightarrow>
          uni_hid_parser_stadia_play_dual_rumble status start_delay_ms duration_ms (of_nat weak) (of_nat strong) ins
      | StartTimer status \<Rightarrow>
          if st_timer_delayed_start ins = None then Some ins else on_stadia_set_rumble_on status ins
      | StopTimer status \<Rightarrow>
          if st_timer_duration ins = None then Some ins else on_stadia_set_rumble_off status ins)"

lemmas stadia_rumble_defs = uni_hid_parser_stadia_play_dual_rumble_def stadia_play_dual_rumble_now_def
  stadia_stop_rumble_now_def on_stadia_set_rumble_on_def on_stadia_set_rumble_off_def Let_def

lemma stadia_react_ok:
  assumes "timers_match (st_rumble_state s) (st_timer_delayed_start s) (st_timer_duration s)"
  shows "\<exists>s'. stadia_react s e = Some s' \<and>
    timers_match (st_rumble_state s') (st_timer_delayed_start s') (st_timer_duration s')"
  using assms
  by (cases e; cases "st_rumble_state s") (auto simp: stadia_react_def stadia_rumble_defs timers_match_def)

interpretation stadia_rumble: rumble_driver st_rumble_state st_timer_delayed_start st_timer_duration stadia_react
  by unfold_locales (rule stadia_react_ok)

lemma stadia_rumble_never_asserts:
  "\<exists>s'. stadia_rumble.run (uni_hid_parser_stadia_setup ins) es = Some s' \<and>
    timers_match (st_rumble_state s') (st_timer_delayed_start s') (st_timer_duration s')"
  by (rule stadia_rumble.never_fails) (simp add: uni_hid_parser_stadia_setup_def timers_match_def)

end
