(* ===== verification/Circular_Buffer.thy ===== *)
theory Circular_Buffer
  imports Tx_Prelude
begin

text \<open>
  The queue of outgoing reports each Bluetooth device keeps:
  \<^verbatim>\<open>src/components/bluepad32/uni_circular_buffer.c\<close>.  The C array is a list of slots whose payload is a
  list of 128 bytes; the two indices are natural numbers, which the invariant keeps below 32, far from
  the bounds of their \<^verbatim>\<open>int16_t\<close>.  The contract of the queue is the locale \<^verbatim>\<open>report_queue\<close>, which the
  device layer uses.
\<close>

definition UNI_CIRCULAR_BUFFER_SIZE :: nat where "UNI_CIRCULAR_BUFFER_SIZE = 32"

definition UNI_CIRCULAR_BUFFER_DATA_SIZE :: nat where "UNI_CIRCULAR_BUFFER_DATA_SIZE = 128"

datatype uni_circular_buffer_error =
    UNI_CIRCULAR_BUFFER_ERROR_OK
  | UNI_CIRCULAR_BUFFER_ERROR_BUFFER_FULL
  | UNI_CIRCULAR_BUFFER_ERROR_BUFFER_EMPTY
  | UNI_CIRCULAR_BUFFER_ERROR_BUFFER_TOO_BIG

record uni_circular_buffer_data =
  slot_cid :: u16
  slot_data :: bytes
  slot_data_len :: nat

record uni_circular_buffer =
  cb_buffer :: "uni_circular_buffer_data list"
  head_idx :: nat
  tail_idx :: nat

definition uni_circular_buffer_zero :: uni_circular_buffer where
  "uni_circular_buffer_zero =
     \<lparr> cb_buffer = replicate UNI_CIRCULAR_BUFFER_SIZE
         \<lparr> slot_cid = 0, slot_data = replicate UNI_CIRCULAR_BUFFER_DATA_SIZE 0, slot_data_len = 0 \<rparr>,
       head_idx = 0, tail_idx = 0 \<rparr>"

definition uni_circular_buffer_is_empty :: "uni_circular_buffer \<Rightarrow> bool" where
  "uni_circular_buffer_is_empty b \<longleftrightarrow> head_idx b = tail_idx b"

definition uni_circular_buffer_is_full :: "uni_circular_buffer \<Rightarrow> bool" where
  "uni_circular_buffer_is_full b \<longleftrightarrow>
     tail_idx b + 1 = head_idx b \<or> head_idx b = 0 \<and> tail_idx b = UNI_CIRCULAR_BUFFER_SIZE - 1"

definition uni_circular_buffer_reset :: "uni_circular_buffer \<Rightarrow> uni_circular_buffer" where
  "uni_circular_buffer_reset b = b\<lparr> head_idx := 0, tail_idx := 0 \<rparr>"

text \<open>The index after \<^verbatim>\<open>idx++; if (idx == SIZE) idx = 0\<close>.\<close>

definition next_idx :: "nat \<Rightarrow> nat" where
  "next_idx i = (if i + 1 = UNI_CIRCULAR_BUFFER_SIZE then 0 else i + 1)"

text \<open>
  The argument \<^verbatim>\<open>data\<close> is the bytes it points to, \<^verbatim>\<open>len\<close> their number.  \<^verbatim>\<open>memcpy\<close> overwrites the front of
  the slot's array and leaves its rest.
\<close>

definition fill_slot :: "u16 \<Rightarrow> bytes \<Rightarrow> uni_circular_buffer_data \<Rightarrow> uni_circular_buffer_data" where
  "fill_slot cid payload s =
     \<lparr> slot_cid = cid, slot_data = payload @ drop (length payload) (slot_data s),
       slot_data_len = length payload \<rparr>"

definition uni_circular_buffer_put ::
  "u16 \<Rightarrow> bytes \<Rightarrow> uni_circular_buffer \<Rightarrow> uni_circular_buffer_error \<times> uni_circular_buffer" where
  "uni_circular_buffer_put cid payload b =
     (if uni_circular_buffer_is_full b then (UNI_CIRCULAR_BUFFER_ERROR_BUFFER_FULL, b)
      else if length payload \<ge> UNI_CIRCULAR_BUFFER_DATA_SIZE
      then (UNI_CIRCULAR_BUFFER_ERROR_BUFFER_TOO_BIG, b)
      else (UNI_CIRCULAR_BUFFER_ERROR_OK,
        b\<lparr> cb_buffer := (cb_buffer b)[tail_idx b := fill_slot cid payload (cb_buffer b ! tail_idx b)],
           tail_idx := next_idx (tail_idx b) \<rparr>))"

text \<open>\<^verbatim>\<open>get\<close> hands out the cid and the first \<^verbatim>\<open>data_len\<close> bytes of the slot.\<close>

definition slot_report :: "uni_circular_buffer_data \<Rightarrow> u16 \<times> bytes" where
  "slot_report s = (slot_cid s, take (slot_data_len s) (slot_data s))"

definition uni_circular_buffer_get ::
  "uni_circular_buffer \<Rightarrow> uni_circular_buffer_error \<times> (u16 \<times> bytes) option \<times> uni_circular_buffer" where
  "uni_circular_buffer_get b =
     (if uni_circular_buffer_is_empty b then (UNI_CIRCULAR_BUFFER_ERROR_BUFFER_EMPTY, None, b)
      else (UNI_CIRCULAR_BUFFER_ERROR_OK, Some (slot_report (cb_buffer b ! head_idx b)),
        b\<lparr> head_idx := next_idx (head_idx b) \<rparr>))"

section \<open>The queue as a list\<close>

definition cb_ok :: "uni_circular_buffer \<Rightarrow> bool" where
  "cb_ok b \<longleftrightarrow> length (cb_buffer b) = UNI_CIRCULAR_BUFFER_SIZE \<and>
     list_all (\<lambda>s. length (slot_data s) = UNI_CIRCULAR_BUFFER_DATA_SIZE) (cb_buffer b) \<and>
     head_idx b < UNI_CIRCULAR_BUFFER_SIZE \<and> tail_idx b < UNI_CIRCULAR_BUFFER_SIZE"

definition cb_count :: "uni_circular_buffer \<Rightarrow> nat" where
  "cb_count b = (if head_idx b \<le> tail_idx b then tail_idx b - head_idx b
     else UNI_CIRCULAR_BUFFER_SIZE - head_idx b + tail_idx b)"

definition cb_contents :: "uni_circular_buffer \<Rightarrow> (u16 \<times> bytes) list" where
  "cb_contents b = map (\<lambda>i. slot_report (cb_buffer b ! ((head_idx b + i) mod UNI_CIRCULAR_BUFFER_SIZE)))
     [0..<cb_count b]"

lemmas cb_sizes = UNI_CIRCULAR_BUFFER_SIZE_def UNI_CIRCULAR_BUFFER_DATA_SIZE_def

lemma length_cb_contents [simp]: "length (cb_contents b) = cb_count b"
  by (simp add: cb_contents_def)

lemma next_idx_mod: "i < 32 \<Longrightarrow> next_idx i = Suc i mod 32"
  by (auto simp: next_idx_def cb_sizes)

lemma cb_count_bound: "cb_ok b \<Longrightarrow> cb_count b \<le> 31"
  by (auto simp: cb_ok_def cb_count_def cb_sizes)

lemma cb_full_iff: "cb_ok b \<Longrightarrow> uni_circular_buffer_is_full b \<longleftrightarrow> cb_count b = 31"
  by (auto simp: cb_ok_def cb_count_def uni_circular_buffer_is_full_def cb_sizes)

lemma cb_empty_iff: "cb_ok b \<Longrightarrow> uni_circular_buffer_is_empty b \<longleftrightarrow> cb_contents b = []"
  by (auto simp: cb_ok_def cb_count_def cb_contents_def uni_circular_buffer_is_empty_def cb_sizes)

lemma slot_report_fill:
  "slot_report (fill_slot cid payload s) = (cid, payload)"
  by (simp add: slot_report_def fill_slot_def)

lemma tail_position:
  assumes "cb_ok b"
  shows "tail_idx b = (head_idx b + cb_count b) mod 32"
  using assms by (auto simp: cb_ok_def cb_count_def cb_sizes)

lemma put_ok:
  assumes "cb_ok b" "cb_count b < 31" "length payload < 128"
  shows "\<exists>b'. uni_circular_buffer_put cid payload b = (UNI_CIRCULAR_BUFFER_ERROR_OK, b') \<and> cb_ok b' \<and>
    cb_contents b' = cb_contents b @ [(cid, payload)]"
proof -
  define b' where "b' = snd (uni_circular_buffer_put cid payload b)"
  have put: "uni_circular_buffer_put cid payload b = (UNI_CIRCULAR_BUFFER_ERROR_OK, b')"
    and b': "head_idx b' = head_idx b" "tail_idx b' = next_idx (tail_idx b)"
      "cb_buffer b' = (cb_buffer b)[tail_idx b := fill_slot cid payload (cb_buffer b ! tail_idx b)]"
    using assms cb_full_iff [of b] by (auto simp: b'_def uni_circular_buffer_put_def cb_sizes)
  have i: "head_idx b < 32" "tail_idx b < 32" "length (cb_buffer b) = 32"
    using assms(1) by (auto simp: cb_ok_def cb_sizes)
  have count: "cb_count b' = Suc (cb_count b)"
    using i assms(2) b' by (auto simp: cb_count_def next_idx_def cb_sizes split: if_splits)
  have ok: "cb_ok b'"
    using assms i b'
    by (auto simp: cb_ok_def next_idx_def cb_sizes fill_slot_def list_all_length nth_list_update)
  have other: "(head_idx b + k) mod 32 \<noteq> tail_idx b" if "k < cb_count b" for k
    using that i assms(2) by (auto simp: cb_count_def cb_sizes mod_if split: if_splits)
  have old: "slot_report (cb_buffer b' ! ((head_idx b + k) mod 32)) =
      slot_report (cb_buffer b ! ((head_idx b + k) mod 32))" if "k < cb_count b" for k
    using other [OF that] b'(3) by simp
  have new: "slot_report (cb_buffer b' ! ((head_idx b + cb_count b) mod 32)) = (cid, payload)"
    using i b'(3) tail_position [OF assms(1)] by (simp add: slot_report_fill)
  have "cb_contents b' = cb_contents b @ [(cid, payload)]"
    by (simp add: cb_contents_def cb_sizes count b'(1) old new)
  with put ok show ?thesis by blast
qed

lemma put_refused:
  assumes "cb_ok b"
  shows "cb_count b = 31 \<Longrightarrow>
      uni_circular_buffer_put cid payload b = (UNI_CIRCULAR_BUFFER_ERROR_BUFFER_FULL, b)"
    and "cb_count b < 31 \<Longrightarrow> length payload \<ge> 128 \<Longrightarrow>
      uni_circular_buffer_put cid payload b = (UNI_CIRCULAR_BUFFER_ERROR_BUFFER_TOO_BIG, b)"
  using cb_full_iff [OF assms] by (simp_all add: uni_circular_buffer_put_def cb_sizes)

lemma get_ok:
  assumes "cb_ok b" "cb_contents b = r # rs"
  shows "\<exists>b'. uni_circular_buffer_get b = (UNI_CIRCULAR_BUFFER_ERROR_OK, Some r, b') \<and> cb_ok b' \<and>
    cb_contents b' = rs"
proof -
  define b' where "b' = b\<lparr> head_idx := next_idx (head_idx b) \<rparr>"
  have i: "head_idx b < 32" "tail_idx b < 32" using assms(1) by (auto simp: cb_ok_def cb_sizes)
  have pos: "cb_count b = Suc (length rs)"
    using assms(2) length_cb_contents [of b] by simp
  have r: "r = slot_report (cb_buffer b ! head_idx b)"
    using arg_cong [OF assms(2), of hd] pos i
    by (simp add: cb_contents_def cb_sizes upt_conv_Cons del: upt_Suc)
  have get: "uni_circular_buffer_get b = (UNI_CIRCULAR_BUFFER_ERROR_OK, Some r, b')"
    using assms cb_empty_iff [of b] r by (simp add: uni_circular_buffer_get_def b'_def)
  have count: "cb_count b' = length rs"
    using pos i by (auto simp: b'_def cb_count_def next_idx_def cb_sizes split: if_splits)
  have "rs = tl (cb_contents b)" using assms(2) by simp
  also have "\<dots> = map (\<lambda>i. slot_report (cb_buffer b ! ((head_idx b + i) mod 32))) [1..<Suc (length rs)]"
    by (simp add: cb_contents_def cb_sizes pos map_tl [symmetric] tl_upt del: upt_Suc)
  also have "\<dots> = cb_contents b'"
    using i unfolding cb_contents_def count
    by (simp add: cb_sizes b'_def next_idx_mod map_Suc_upt [symmetric] mod_simps comp_def
        del: upt_Suc map_Suc_upt)
  finally have "cb_contents b' = rs" ..
  moreover have "cb_ok b'" using assms(1) by (auto simp: b'_def cb_ok_def next_idx_def cb_sizes)
  ultimately show ?thesis using get by blast
qed

lemma get_empty:
  "cb_ok b \<Longrightarrow> cb_contents b = [] \<Longrightarrow>
   uni_circular_buffer_get b = (UNI_CIRCULAR_BUFFER_ERROR_BUFFER_EMPTY, None, b)"
  by (simp add: uni_circular_buffer_get_def cb_empty_iff)

lemma cb_zero_ok: "cb_ok uni_circular_buffer_zero" "cb_contents uni_circular_buffer_zero = []"
  by (simp_all add: cb_ok_def uni_circular_buffer_zero_def cb_sizes cb_contents_def cb_count_def list_all_iff)

lemma cb_reset_ok:
  "cb_ok b \<Longrightarrow> cb_ok (uni_circular_buffer_reset b) \<and> cb_contents (uni_circular_buffer_reset b) = []"
  by (simp add: cb_ok_def uni_circular_buffer_reset_def cb_contents_def cb_count_def cb_sizes)

section \<open>The contract of a report queue\<close>

datatype queue_op = QPut u16 bytes | QGet

text \<open>Running puts and gets: the accepted reports, the reports handed out, the final queue.\<close>

fun queue_run ::
  "(u16 \<Rightarrow> bytes \<Rightarrow> 'q \<Rightarrow> uni_circular_buffer_error \<times> 'q) \<Rightarrow>
   ('q \<Rightarrow> uni_circular_buffer_error \<times> (u16 \<times> bytes) option \<times> 'q) \<Rightarrow>
   queue_op list \<Rightarrow> 'q \<Rightarrow> (u16 \<times> bytes) list \<times> (u16 \<times> bytes) list \<times> 'q" where
  "queue_run put get [] q = ([], [], q)"
| "queue_run put get (QPut c p # ops) q =
     (case put c p q of (e, q1) \<Rightarrow>
        case queue_run put get ops q1 of (ins, outs, q2) \<Rightarrow>
          (if e = UNI_CIRCULAR_BUFFER_ERROR_OK then (c, p) # ins else ins, outs, q2))"
| "queue_run put get (QGet # ops) q =
     (case get q of (e, r, q1) \<Rightarrow>
        case queue_run put get ops q1 of (ins, outs, q2) \<Rightarrow>
          (ins, (case r of None \<Rightarrow> outs | Some x \<Rightarrow> x # outs), q2))"

locale report_queue =
  fixes put :: "u16 \<Rightarrow> bytes \<Rightarrow> 'q \<Rightarrow> uni_circular_buffer_error \<times> 'q"
    and get :: "'q \<Rightarrow> uni_circular_buffer_error \<times> (u16 \<times> bytes) option \<times> 'q"
    and inv :: "'q \<Rightarrow> bool"
    and contents :: "'q \<Rightarrow> (u16 \<times> bytes) list"
    and capacity :: nat
    and max_len :: nat
  assumes room: "inv q \<Longrightarrow> length (contents q) \<le> capacity"
    and put_accepts: "inv q \<Longrightarrow> length (contents q) < capacity \<Longrightarrow> length p < max_len \<Longrightarrow>
      \<exists>q'. put c p q = (UNI_CIRCULAR_BUFFER_ERROR_OK, q') \<and> inv q' \<and> contents q' = contents q @ [(c, p)]"
    and put_rejects: "inv q \<Longrightarrow> \<not> (length (contents q) < capacity \<and> length p < max_len) \<Longrightarrow>
      \<exists>e. put c p q = (e, q) \<and> e \<noteq> UNI_CIRCULAR_BUFFER_ERROR_OK"
    and get_first: "inv q \<Longrightarrow> contents q = r # rs \<Longrightarrow>
      \<exists>q'. get q = (UNI_CIRCULAR_BUFFER_ERROR_OK, Some r, q') \<and> inv q' \<and> contents q' = rs"
    and get_none: "inv q \<Longrightarrow> contents q = [] \<Longrightarrow> get q = (UNI_CIRCULAR_BUFFER_ERROR_BUFFER_EMPTY, None, q)"
begin

lemma put_cases:
  assumes "inv q"
  obtains (accepted) q' where "put c p q = (UNI_CIRCULAR_BUFFER_ERROR_OK, q')" "inv q'"
      "contents q' = contents q @ [(c, p)]" "length (contents q) < capacity" "length p < max_len"
    | (rejected) e where "put c p q = (e, q)" "e \<noteq> UNI_CIRCULAR_BUFFER_ERROR_OK"
      "\<not> (length (contents q) < capacity \<and> length p < max_len)"
  using put_accepts [OF assms, of p c] put_rejects [OF assms, of p c] by blast

lemma get_cases:
  assumes "inv q"
  obtains (empty) "get q = (UNI_CIRCULAR_BUFFER_ERROR_BUFFER_EMPTY, None, q)" "contents q = []"
    | (first) r q' where "get q = (UNI_CIRCULAR_BUFFER_ERROR_OK, Some r, q')" "inv q'"
      "contents q = r # contents q'"
  using get_first [OF assms] get_none [OF assms] by (cases "contents q") auto

text \<open>First in, first out: what was inside and what was accepted is what was handed out, then what is left.\<close>

lemma fifo:
  "inv q \<Longrightarrow> queue_run put get ops q = (ins, outs, q') \<Longrightarrow> inv q' \<and> contents q @ ins = outs @ contents q'"
proof (induction ops arbitrary: q ins outs)
  case (Cons op ops)
  show ?case
  proof (cases op)
    case (QPut c p)
    from Cons.prems(1) show ?thesis
    proof (cases rule: put_cases [where c = c and p = p])
      case (accepted q1)
      obtain ins' where "queue_run put get ops q1 = (ins', outs, q')" "ins = (c, p) # ins'"
        using Cons.prems(2) accepted QPut by (auto split: prod.splits)
      with Cons.IH [of q1] accepted show ?thesis by simp
    next
      case (rejected e)
      with Cons.prems Cons.IH [of q] QPut show ?thesis by (auto split: prod.splits)
    qed
  next
    case QGet
    from Cons.prems(1) show ?thesis
    proof (cases rule: get_cases)
      case empty
      with Cons.prems Cons.IH [of q] QGet show ?thesis by (auto split: prod.splits)
    next
      case (first r q1)
      obtain outs' where "queue_run put get ops q1 = (ins, outs', q')" "outs = r # outs'"
        using Cons.prems(2) first QGet by (auto split: prod.splits)
      with Cons.IH [of q1] first show ?thesis by simp
    qed
  qed
qed simp

end

interpretation cb: report_queue uni_circular_buffer_put uni_circular_buffer_get cb_ok cb_contents 31 128
proof (unfold_locales, goal_cases)
  case (1 q)
  then show ?case using cb_count_bound by simp
next
  case (2 q p c)
  then show ?case using put_ok by simp
next
  case (3 q p c)
  then show ?case using put_refused [of q, where cid = c and payload = p] cb_count_bound [of q] by (cases "cb_count q = 31") force+
next
  case (4 q r rs)
  then show ?case using get_ok by blast
next
  case (5 q)
  then show ?case by (rule get_empty)
qed

section \<open>Properties\<close>

text \<open>C20: The queue of outgoing reports is first in, first out, and loses nothing it accepted.  For every
  sequence of puts and gets on a fresh buffer, the accepted reports, in order, are the reports handed out
  followed by the ones still queued, at most 31 of them; the ring's wrap-around is invisible.\<close>

theorem circular_buffer_fifo:
  "case queue_run uni_circular_buffer_put uni_circular_buffer_get ops uni_circular_buffer_zero of
     (ins, outs, b) \<Rightarrow> ins = outs @ cb_contents b \<and> length (cb_contents b) \<le> 31"
  using cb.fifo [OF cb_zero_ok(1)] cb.room cb_zero_ok(2) by (auto split: prod.splits)

end
