(* ===== verification/Hid_Device.thy ===== *)
theory Hid_Device
  imports Xboxone Stadia Circular_Buffer
begin

text \<open>
  The table of Bluetooth devices: \<^verbatim>\<open>src/components/bluepad32/uni_hid_device.c\<close> with the connection record of
  \<^verbatim>\<open>bt/uni_bt_conn.c\<close>.  A device pointer is an index into \<^verbatim>\<open>g_devices\<close>, a null pointer \<^verbatim>\<open>None\<close>.  This theory
  holds the data, the look-ups, the setters, the class-of-device rules and the choice of a parser; the life
  cycle of a device, which calls the platform, is in theory \<^verbatim>\<open>Hid_Lifecycle\<close>.

  A timer is whether it is in the run loop.  A parser's function pointers are the names of the parser they
  point into.  \<^verbatim>\<open>parser_data\<close> belongs to the parsers (theories \<^verbatim>\<open>Xboxone\<close>, \<^verbatim>\<open>Stadia\<close>) and is not repeated
  here; \<^verbatim>\<open>platform_data\<close> holds the one byte the Arduino platform keeps there.
\<close>

definition UNI_BT_CONN_HANDLE_INVALID :: u16 where "UNI_BT_CONN_HANDLE_INVALID = 0xffff"

definition HID_MAX_NAME_LEN :: nat where "HID_MAX_NAME_LEN = 240"

definition HID_MAX_DESCRIPTOR_LEN :: nat where "HID_MAX_DESCRIPTOR_LEN = 512"

datatype uni_bt_conn_protocol =
  UNI_BT_CONN_PROTOCOL_NONE | UNI_BT_CONN_PROTOCOL_BR_EDR | UNI_BT_CONN_PROTOCOL_BLE

datatype uni_bt_conn_state =
    UNI_BT_CONN_STATE_DEVICE_NONE
  | UNI_BT_CONN_STATE_DEVICE_DISCOVERED
  | UNI_BT_CONN_STATE_REMOTE_NAME_REQUEST
  | UNI_BT_CONN_STATE_REMOTE_NAME_INQUIRED
  | UNI_BT_CONN_STATE_REMOTE_NAME_FETCHED
  | UNI_BT_CONN_STATE_SDP_VENDOR_REQUESTED
  | UNI_BT_CONN_STATE_SDP_VENDOR_FETCHED
  | UNI_BT_CONN_STATE_SDP_HID_DESCRIPTOR_REQUESTED
  | UNI_BT_CONN_STATE_SDP_HID_DESCRIPTOR_FETCHED
  | UNI_BT_CONN_STATE_L2CAP_CONTROL_CONNECTION_REQUESTED
  | UNI_BT_CONN_STATE_L2CAP_CONTROL_CONNECTED
  | UNI_BT_CONN_STATE_L2CAP_INTERRUPT_CONNECTION_REQUESTED
  | UNI_BT_CONN_STATE_L2CAP_INTERRUPT_CONNECTED
  | UNI_BT_CONN_STATE_DEVICE_PENDING_READY
  | UNI_BT_CONN_STATE_DEVICE_READY

record uni_bt_conn =
  btaddr :: bytes
  handle :: u16
  control_cid :: u16
  interrupt_cid :: u16
  page_scan_repetition_mode :: u8
  clock_offset :: u16
  rssi :: u8
  incoming :: bool
  connected :: bool
  conn_state :: uni_bt_conn_state
  conn_protocol :: uni_bt_conn_protocol

definition zero_addr :: bytes where "zero_addr = [0, 0, 0, 0, 0, 0]"

definition uni_bt_conn_zero :: uni_bt_conn where
  "uni_bt_conn_zero = \<lparr> btaddr = zero_addr, handle = 0, control_cid = 0, interrupt_cid = 0,
     page_scan_repetition_mode = 0, clock_offset = 0, rssi = 0, incoming = False, connected = False,
     conn_state = UNI_BT_CONN_STATE_DEVICE_NONE, conn_protocol = UNI_BT_CONN_PROTOCOL_NONE \<rparr>"

definition uni_bt_conn_init :: uni_bt_conn where
  "uni_bt_conn_init = uni_bt_conn_zero\<lparr> handle := UNI_BT_CONN_HANDLE_INVALID \<rparr>"

definition uni_bt_conn_set_state :: "uni_bt_conn_state \<Rightarrow> uni_bt_conn \<Rightarrow> uni_bt_conn" where
  "uni_bt_conn_set_state s c = c\<lparr> conn_state := s \<rparr>"

definition uni_bt_conn_set_protocol :: "uni_bt_conn_protocol \<Rightarrow> uni_bt_conn \<Rightarrow> uni_bt_conn" where
  "uni_bt_conn_set_protocol p c = c\<lparr> conn_protocol := p \<rparr>"

definition uni_bt_conn_get_state :: "uni_bt_conn \<Rightarrow> uni_bt_conn_state" where
  "uni_bt_conn_get_state c = conn_state c"

definition uni_bt_conn_set_connected :: "bool \<Rightarrow> uni_bt_conn \<Rightarrow> uni_bt_conn" where
  "uni_bt_conn_set_connected b c = (if connected c = b then c else c\<lparr> connected := b \<rparr>)"

definition uni_bt_conn_disconnect :: "uni_bt_conn \<Rightarrow> uni_bt_conn" where
  "uni_bt_conn_disconnect c = uni_bt_conn_set_connected False c"

datatype uni_controller_type =
    CONTROLLER_TYPE_None | CONTROLLER_TYPE_Unknown
  | CONTROLLER_TYPE_UnknownSteamController | CONTROLLER_TYPE_SteamController
  | CONTROLLER_TYPE_SteamControllerV2 | CONTROLLER_TYPE_SteamControllerNeptune
  | CONTROLLER_TYPE_UnknownNonSteamController | CONTROLLER_TYPE_XBox360Controller
  | CONTROLLER_TYPE_XBoxOneController | CONTROLLER_TYPE_PS3Controller | CONTROLLER_TYPE_PS4Controller
  | CONTROLLER_TYPE_WiiController | CONTROLLER_TYPE_AppleController | CONTROLLER_TYPE_AndroidController
  | CONTROLLER_TYPE_SwitchProController | CONTROLLER_TYPE_SwitchJoyConLeft
  | CONTROLLER_TYPE_SwitchJoyConRight | CONTROLLER_TYPE_SwitchJoyConPair
  | CONTROLLER_TYPE_SwitchInputOnlyController | CONTROLLER_TYPE_MobileTouch
  | CONTROLLER_TYPE_XInputSwitchController | CONTROLLER_TYPE_PS5Controller
  | CONTROLLER_TYPE_XInputPS4Controller | CONTROLLER_TYPE_iCadeController
  | CONTROLLER_TYPE_SmartTVRemoteController | CONTROLLER_TYPE_8BitdoController
  | CONTROLLER_TYPE_GenericController | CONTROLLER_TYPE_NimbusController | CONTROLLER_TYPE_OUYAController
  | CONTROLLER_TYPE_PSMoveController | CONTROLLER_TYPE_AtariJoystick
  | CONTROLLER_TYPE_GenericKeyboard | CONTROLLER_TYPE_GenericMouse

fun controller_type_code :: "uni_controller_type \<Rightarrow> int" where
  "controller_type_code CONTROLLER_TYPE_None = -1"
| "controller_type_code CONTROLLER_TYPE_Unknown = 0"
| "controller_type_code CONTROLLER_TYPE_UnknownSteamController = 1"
| "controller_type_code CONTROLLER_TYPE_SteamController = 2"
| "controller_type_code CONTROLLER_TYPE_SteamControllerV2 = 3"
| "controller_type_code CONTROLLER_TYPE_SteamControllerNeptune = 4"
| "controller_type_code CONTROLLER_TYPE_UnknownNonSteamController = 30"
| "controller_type_code CONTROLLER_TYPE_XBox360Controller = 31"
| "controller_type_code CONTROLLER_TYPE_XBoxOneController = 32"
| "controller_type_code CONTROLLER_TYPE_PS3Controller = 33"
| "controller_type_code CONTROLLER_TYPE_PS4Controller = 34"
| "controller_type_code CONTROLLER_TYPE_WiiController = 35"
| "controller_type_code CONTROLLER_TYPE_AppleController = 36"
| "controller_type_code CONTROLLER_TYPE_AndroidController = 37"
| "controller_type_code CONTROLLER_TYPE_SwitchProController = 38"
| "controller_type_code CONTROLLER_TYPE_SwitchJoyConLeft = 39"
| "controller_type_code CONTROLLER_TYPE_SwitchJoyConRight = 40"
| "controller_type_code CONTROLLER_TYPE_SwitchJoyConPair = 41"
| "controller_type_code CONTROLLER_TYPE_SwitchInputOnlyController = 42"
| "controller_type_code CONTROLLER_TYPE_MobileTouch = 43"
| "controller_type_code CONTROLLER_TYPE_XInputSwitchController = 44"
| "controller_type_code CONTROLLER_TYPE_PS5Controller = 45"
| "controller_type_code CONTROLLER_TYPE_XInputPS4Controller = 46"
| "controller_type_code CONTROLLER_TYPE_iCadeController = 50"
| "controller_type_code CONTROLLER_TYPE_SmartTVRemoteController = 51"
| "controller_type_code CONTROLLER_TYPE_8BitdoController = 52"
| "controller_type_code CONTROLLER_TYPE_GenericController = 53"
| "controller_type_code CONTROLLER_TYPE_NimbusController = 54"
| "controller_type_code CONTROLLER_TYPE_OUYAController = 55"
| "controller_type_code CONTROLLER_TYPE_PSMoveController = 56"
| "controller_type_code CONTROLLER_TYPE_AtariJoystick = 57"
| "controller_type_code CONTROLLER_TYPE_GenericKeyboard = 400"
| "controller_type_code CONTROLLER_TYPE_GenericMouse = 800"

text \<open>The parser a function pointer of \<^verbatim>\<open>report_parser\<close> belongs to.\<close>

datatype parser_name =
    P_icade | P_ouya | P_xboxone | P_android | P_stadia | P_nimbus | P_smarttvremote | P_psmove | P_ds3
  | P_ds4 | P_ds5 | P_8bitdo | P_generic | P_wii | P_switch | P_steam | P_atari | P_mouse | P_keyboard

record report_parser =
  rp_setup :: "parser_name option"
  rp_init_report :: "parser_name option"
  rp_parse_usage :: "parser_name option"
  rp_parse_input_report :: "parser_name option"
  rp_parse_feature_report :: "parser_name option"
  rp_set_player_leds :: "parser_name option"
  rp_set_lightbar_color :: "parser_name option"
  rp_play_dual_rumble :: "parser_name option"
  rp_device_dump :: "parser_name option"

definition report_parser_zero :: report_parser where
  "report_parser_zero = \<lparr> rp_setup = None, rp_init_report = None, rp_parse_usage = None,
     rp_parse_input_report = None, rp_parse_feature_report = None, rp_set_player_leds = None,
     rp_set_lightbar_color = None, rp_play_dual_rumble = None, rp_device_dump = None \<rparr>"

text \<open>The Arduino platform's instance inside \<^verbatim>\<open>platform_data\<close>: the seat of the device, -1 for none.\<close>

record arduino_instance =
  controller_idx :: int

datatype uni_sdp_query_type = SDP_QUERY_AFTER_CONNECT | SDP_QUERY_BEFORE_CONNECT | SDP_QUERY_NOT_NEEDED

record uni_hid_device =
  cod :: u32
  vendor_id :: u16
  product_id :: u16
  dev_name :: string
  flags :: u32
  connection_timer :: bool
  inquiry_remote_name_timer :: bool
  hid_descriptor :: bytes
  hid_descriptor_len :: nat
  sdp_query_type :: uni_sdp_query_type
  hids_cid :: u16
  controller_type :: uni_controller_type
  controller_subtype :: nat
  controller :: uni_controller
  report_parser :: report_parser
  misc_button_wait_release :: u32
  misc_button_wait_delay :: u32
  misc_button_delay_timer :: bool
  outgoing_buffer :: uni_circular_buffer
  platform_data :: arduino_instance
  conn :: uni_bt_conn
  parent :: "nat option"
  child :: "nat option"

text \<open>\<^verbatim>\<open>memset(d, 0, sizeof(*d))\<close>: note that a zeroed instance names seat 0.\<close>

definition uni_hid_device_zero :: uni_hid_device where
  "uni_hid_device_zero = \<lparr> cod = 0, vendor_id = 0, product_id = 0, dev_name = [], flags = 0,
     connection_timer = False, inquiry_remote_name_timer = False,
     hid_descriptor = replicate HID_MAX_DESCRIPTOR_LEN 0, hid_descriptor_len = 0, sdp_query_type = SDP_QUERY_AFTER_CONNECT,
     hids_cid = 0,
     controller_type = CONTROLLER_TYPE_Unknown, controller_subtype = 0, controller = uni_controller_zero,
     report_parser = report_parser_zero, misc_button_wait_release = 0, misc_button_wait_delay = 0,
     misc_button_delay_timer = False, outgoing_buffer = uni_circular_buffer_zero,
     platform_data = \<lparr> controller_idx = 0 \<rparr>, conn = uni_bt_conn_zero, parent = None, child = None \<rparr>"

definition uni_hid_device_init :: uni_hid_device where
  "uni_hid_device_init = uni_hid_device_zero\<lparr> hids_cid := 0xffff, conn := uni_bt_conn_init \<rparr>"

section \<open>The shared state\<close>

text \<open>The platform's side (\<^verbatim>\<open>arduino_platform.h\<close>, \<^verbatim>\<open>arduino_platform.c\<close>).\<close>

record arduino_controller_properties =
  prop_btaddr :: bytes
  prop_type :: u16
  prop_subtype :: u8
  prop_vendor_id :: u16
  prop_product_id :: u16
  prop_flags :: u16

record arduino_controller =
  seat_idx :: int
  seat_data :: uni_controller
  seat_data_updated :: bool
  seat_properties :: arduino_controller_properties

datatype pending_request_cmd =
    CMD_LIGHTBAR_COLOR u8 u8 u8
  | CMD_PLAYER_LEDS u8
  | CMD_RUMBLE u16 u16 u8 u8
  | CMD_DISCONNECT

record pending_request =
  req_controller_idx :: nat
  req_cmd :: pending_request_cmd

datatype gap_connection_type =
  GAP_CONNECTION_INVALID | GAP_CONNECTION_ACL | GAP_CONNECTION_SCO | GAP_CONNECTION_LE

text \<open>What the code asks of the parsers and of BTstack, in the order it does.\<close>

datatype hid_effect =
    SetPlayerLeds parser_name nat u8
  | SetLightbarColor parser_name nat u8 u8 u8
  | PlayDualRumble parser_name nat u16 u16 u8 u8
  | DisconnectDeviceSafe nat
  | GapDisconnect u16
  | L2capDisconnect u16
  | HidsClientDisconnect u16
  | L2capSent u16 bytes
  | OobSystemButton nat
  | GapRemoteNameRequest bytes u8 u16
  | L2capCreateChannel bytes u16
  | L2capAcceptConnection u16
  | L2capDeclineConnection u16
  | SdpQuery bytes u16
  | GapDropLinkKey bytes
  | GapPinCodeResponse bytes bytes

text \<open>
  The statics of \<^verbatim>\<open>uni_hid_device.c\<close>, \<^verbatim>\<open>uni_virtual_device.c\<close>, \<^verbatim>\<open>uni_gamepad.c\<close> and
  \<^verbatim>\<open>arduino_platform.c\<close>.  \<^verbatim>\<open>gap_get_connection_type\<close> is BTstack's table of connections, which changes only
  through BTstack's own events.
\<close>

record bp32 =
  g_devices :: "uni_hid_device list"
  virtual_device_enabled :: bool
  gap_get_connection_type :: "u16 \<Rightarrow> gap_connection_type"
  mappings :: gamepad_mappings
  controllers :: "arduino_controller list"
  used_controllers :: int
  pending_queue :: "pending_request list"
  hid_out :: "hid_effect list"

definition dev :: "bp32 \<Rightarrow> nat \<Rightarrow> uni_hid_device" where
  "dev w i = g_devices w ! i"

definition upd_dev :: "nat \<Rightarrow> (uni_hid_device \<Rightarrow> uni_hid_device) \<Rightarrow> bp32 \<Rightarrow> bp32" where
  "upd_dev i f w = w\<lparr> g_devices := (g_devices w)[i := f (dev w i)] \<rparr>"

definition upd_conn :: "nat \<Rightarrow> (uni_bt_conn \<Rightarrow> uni_bt_conn) \<Rightarrow> bp32 \<Rightarrow> bp32" where
  "upd_conn i f w = upd_dev i (\<lambda>d. d\<lparr> conn := f (conn d) \<rparr>) w"

definition emit_hid :: "hid_effect \<Rightarrow> bp32 \<Rightarrow> bp32" where
  "emit_hid e w = w\<lparr> hid_out := hid_out w @ [e] \<rparr>"

section \<open>Creating and finding devices\<close>

text \<open>The first index below the table's length with a property, as the \<^verbatim>\<open>for\<close> loops look for it.\<close>

definition find_dev :: "(uni_hid_device \<Rightarrow> bool) \<Rightarrow> bp32 \<Rightarrow> nat option" where
  "find_dev P w = find (\<lambda>i. P (dev w i)) [0..<length (g_devices w)]"

definition uni_hid_device_setup :: "bp32 \<Rightarrow> bp32" where
  "uni_hid_device_setup w = w\<lparr> g_devices := map (\<lambda>d. uni_hid_device_init) (g_devices w) \<rparr>"

definition start_connection_timeout :: "nat \<Rightarrow> bp32 \<Rightarrow> bp32" where
  "start_connection_timeout i w = upd_dev i (\<lambda>d. d\<lparr> connection_timer := True \<rparr>) w"

definition uni_hid_device_create :: "bytes \<Rightarrow> bp32 \<Rightarrow> nat option \<times> bp32" where
  "uni_hid_device_create address w =
     (case find_dev (\<lambda>d. btaddr (conn d) = zero_addr) w of
        None \<Rightarrow> (None, w)
      | Some i \<Rightarrow>
          (Some i, start_connection_timeout i
             (upd_dev i (\<lambda>d. uni_hid_device_zero\<lparr> conn := uni_bt_conn_zero\<lparr> btaddr := address \<rparr> \<rparr>) w)))"

definition FLAGS_HAS_COD :: u32 where "FLAGS_HAS_COD = 0x100"

definition FLAGS_HAS_NAME :: u32 where "FLAGS_HAS_NAME = 0x200"

definition FLAGS_HAS_HID_DESCRIPTOR :: u32 where "FLAGS_HAS_HID_DESCRIPTOR = 0x400"

definition FLAGS_HAS_VENDOR_ID :: u32 where "FLAGS_HAS_VENDOR_ID = 0x800"

definition FLAGS_HAS_PRODUCT_ID :: u32 where "FLAGS_HAS_PRODUCT_ID = 0x1000"

definition FLAGS_HAS_CONTROLLER_TYPE :: u32 where "FLAGS_HAS_CONTROLLER_TYPE = 0x2000"

text \<open>The name a virtual device gets; \<^verbatim>\<open>%d\<close> of a number below ten is one digit.\<close>

definition virtual_name :: "nat \<Rightarrow> string" where
  "virtual_name i = ''virtual-'' @ [char_of (48 + i)]"

definition uni_hid_device_create_virtual :: "nat \<Rightarrow> bp32 \<Rightarrow> nat option \<times> bp32" where
  "uni_hid_device_create_virtual p w =
     (if \<not> virtual_device_enabled w then (None, w)
      else case find_dev (\<lambda>d. btaddr (conn d) = zero_addr) w of
        None \<Rightarrow> (None, w)
      | Some i \<Rightarrow>
          let w1 = upd_conn i (\<lambda>c. c\<lparr> btaddr := btaddr (conn (dev w p)) \<rparr>) w;
              w2 = upd_dev i (\<lambda>d. d\<lparr> parent := Some p \<rparr>) w1;
              w3 = upd_dev p (\<lambda>d. d\<lparr> child := Some i \<rparr>) w2;
              q = dev w3 p
          in (Some i, upd_dev i (\<lambda>d. d\<lparr> product_id := product_id q, vendor_id := vendor_id q,
                cod := cod q, controller_type := controller_type q,
                controller_subtype := controller_subtype q,
                flags := flags d OR FLAGS_HAS_CONTROLLER_TYPE, dev_name := virtual_name i \<rparr>) w3))"

definition uni_hid_device_is_virtual_device :: "uni_hid_device \<Rightarrow> bool" where
  "uni_hid_device_is_virtual_device d \<longleftrightarrow> parent d \<noteq> None"

definition uni_hid_device_get_instance_for_address :: "bytes \<Rightarrow> bp32 \<Rightarrow> nat option" where
  "uni_hid_device_get_instance_for_address addr w =
     find_dev (\<lambda>d. \<not> uni_hid_device_is_virtual_device d \<and> addr = btaddr (conn d)) w"

definition uni_hid_device_get_instance_for_cid :: "u16 \<Rightarrow> bp32 \<Rightarrow> nat option" where
  "uni_hid_device_get_instance_for_cid cid w =
     (if cid = 0 then None
      else find_dev (\<lambda>d. interrupt_cid (conn d) = cid \<or> control_cid (conn d) = cid) w)"

definition uni_hid_device_get_instance_for_hids_cid :: "u16 \<Rightarrow> bp32 \<Rightarrow> nat option" where
  "uni_hid_device_get_instance_for_hids_cid cid w =
     (if cid = 0 then None else find_dev (\<lambda>d. hids_cid d = cid) w)"

definition uni_hid_device_get_instance_for_connection_handle :: "u16 \<Rightarrow> bp32 \<Rightarrow> nat option" where
  "uni_hid_device_get_instance_for_connection_handle h w =
     (if h = UNI_BT_CONN_HANDLE_INVALID then None else find_dev (\<lambda>d. handle (conn d) = h) w)"

definition uni_hid_device_get_instance_with_predicate ::
  "(uni_hid_device \<Rightarrow> bool) \<Rightarrow> bp32 \<Rightarrow> nat option" where
  "uni_hid_device_get_instance_with_predicate P w =
     find_dev (\<lambda>d. uni_bt_conn_get_state (conn d) = UNI_BT_CONN_STATE_DEVICE_READY \<and> P d) w"

definition uni_hid_device_get_instance_for_idx :: "int \<Rightarrow> bp32 \<Rightarrow> nat option" where
  "uni_hid_device_get_instance_for_idx idx w =
     (if idx < 0 \<or> idx \<ge> int (length (g_devices w)) then None else Some (nat idx))"

definition uni_hid_device_get_idx_for_instance :: "nat \<Rightarrow> bp32 \<Rightarrow> int" where
  "uni_hid_device_get_idx_for_instance i w =
     (if int i < 0 \<or> int i \<ge> int (length (g_devices w)) then -1 else int i)"

definition uni_hid_device_get_first_device_with_state :: "uni_bt_conn_state \<Rightarrow> bp32 \<Rightarrow> nat option" where
  "uni_hid_device_get_first_device_with_state st w =
     find_dev (\<lambda>d. btaddr (conn d) \<noteq> zero_addr \<and> uni_bt_conn_get_state (conn d) = st) w"

definition uni_hid_device_request_inquire :: "bp32 \<Rightarrow> bp32" where
  "uni_hid_device_request_inquire w = w\<lparr> g_devices := map (\<lambda>d.
     if uni_bt_conn_get_state (conn d) = UNI_BT_CONN_STATE_REMOTE_NAME_INQUIRED
     then d\<lparr> conn := uni_bt_conn_set_state UNI_BT_CONN_STATE_REMOTE_NAME_REQUEST (conn d) \<rparr> else d)
     (g_devices w) \<rparr>"

section \<open>What is known about a device\<close>

definition uni_hid_device_set_cod :: "u32 \<Rightarrow> uni_hid_device \<Rightarrow> uni_hid_device" where
  "uni_hid_device_set_cod c d =
     d\<lparr> cod := c,
        flags := (if c = 0 then flags d AND NOT FLAGS_HAS_COD else flags d OR FLAGS_HAS_COD) \<rparr>"

definition UNI_BT_COD_MAJOR_MASK :: u32 where "UNI_BT_COD_MAJOR_MASK = 0x1f00"

definition UNI_BT_COD_MAJOR_PERIPHERAL :: u32 where "UNI_BT_COD_MAJOR_PERIPHERAL = 0x0500"

definition UNI_BT_COD_MAJOR_AUDIO_VIDEO :: u32 where "UNI_BT_COD_MAJOR_AUDIO_VIDEO = 0x0400"

definition UNI_BT_COD_MINOR_MASK :: u32 where "UNI_BT_COD_MINOR_MASK = 0xfc"

definition UNI_BT_COD_MINOR_MICE :: u32 where "UNI_BT_COD_MINOR_MICE = 0x80"

definition UNI_BT_COD_MINOR_KEYBOARD :: u32 where "UNI_BT_COD_MINOR_KEYBOARD = 0x40"

definition UNI_BT_COD_MINOR_GAMEPAD :: u32 where "UNI_BT_COD_MINOR_GAMEPAD = 0x08"

definition UNI_BT_COD_MINOR_JOYSTICK :: u32 where "UNI_BT_COD_MINOR_JOYSTICK = 0x04"

definition uni_hid_device_is_cod_supported :: "u32 \<Rightarrow> bool" where
  "uni_hid_device_is_cod_supported c =
     (let minor_cod = c AND UNI_BT_COD_MINOR_MASK
      in if c AND UNI_BT_COD_MAJOR_MASK = UNI_BT_COD_MAJOR_PERIPHERAL
         then minor_cod AND (UNI_BT_COD_MINOR_MICE OR UNI_BT_COD_MINOR_KEYBOARD OR
                UNI_BT_COD_MINOR_GAMEPAD OR UNI_BT_COD_MINOR_JOYSTICK) \<noteq> 0
         else if c AND UNI_BT_COD_MAJOR_MASK = UNI_BT_COD_MAJOR_AUDIO_VIDEO then c = 0x400408
         else False)"

datatype uni_error =
    UNI_ERROR_SUCCESS | UNI_ERROR_INVALID_DEVICE | UNI_ERROR_INVALID_CONTROLLER | UNI_ERROR_NO_SLOTS
  | UNI_ERROR_INIT_FAILED | UNI_ERROR_IGNORE_DEVICE

text \<open>
  \<^verbatim>\<open>allowed\<close> is the answer of \<^verbatim>\<open>uni_bt_allowlist_is_allowed_addr\<close>.  The class of device arrives as a
  \<^verbatim>\<open>uint16_t\<close>.  The Arduino platform has no \<^verbatim>\<open>on_device_discovered\<close>.
\<close>

definition uni_hid_device_on_device_discovered :: "bool \<Rightarrow> u16 \<Rightarrow> u8 \<Rightarrow> uni_error" where
  "uni_hid_device_on_device_discovered allowed c r =
     (if \<not> allowed then UNI_ERROR_IGNORE_DEVICE
      else if r < 255 - 100 then UNI_ERROR_IGNORE_DEVICE
      else if \<not> uni_hid_device_is_cod_supported (to_u32 c) then UNI_ERROR_IGNORE_DEVICE
      else UNI_ERROR_SUCCESS)"

definition uni_hid_device_set_incoming :: "bool \<Rightarrow> uni_hid_device \<Rightarrow> uni_hid_device" where
  "uni_hid_device_set_incoming b d = d\<lparr> conn := (conn d)\<lparr> incoming := b \<rparr> \<rparr>"

definition uni_hid_device_is_incoming :: "uni_hid_device \<Rightarrow> bool" where
  "uni_hid_device_is_incoming d = incoming (conn d)"

text \<open>\<^verbatim>\<open>strncpy\<close> of 239 characters and a terminating zero: the name is cut to 239 characters.\<close>

definition uni_hid_device_set_name :: "string option \<Rightarrow> uni_hid_device \<Rightarrow> uni_hid_device" where
  "uni_hid_device_set_name name d =
     (case name of None \<Rightarrow> d
      | Some s \<Rightarrow> d\<lparr> dev_name := take (HID_MAX_NAME_LEN - 1) s, flags := flags d OR FLAGS_HAS_NAME \<rparr>)"

definition uni_hid_device_has_name :: "uni_hid_device \<Rightarrow> bool" where
  "uni_hid_device_has_name d \<longleftrightarrow> flags d AND FLAGS_HAS_NAME \<noteq> 0"

text \<open>
  \<^verbatim>\<open>memcpy\<close> copies all of the given bytes into the array of 512; \<^verbatim>\<open>None\<close> is a copy that runs past the
  array, over the fields behind it.
\<close>

definition uni_hid_device_set_hid_descriptor :: "bytes \<Rightarrow> uni_hid_device \<Rightarrow> uni_hid_device option" where
  "uni_hid_device_set_hid_descriptor desc d =
     (let len = length desc; min_len = min HID_MAX_DESCRIPTOR_LEN len
      in if len > length (hid_descriptor d) then None
         else Some (d\<lparr> hid_descriptor := desc @ drop len (hid_descriptor d), hid_descriptor_len := min_len,
                       flags := flags d OR FLAGS_HAS_HID_DESCRIPTOR \<rparr>))"

definition uni_hid_device_has_hid_descriptor :: "uni_hid_device \<Rightarrow> bool" where
  "uni_hid_device_has_hid_descriptor d \<longleftrightarrow> flags d AND FLAGS_HAS_HID_DESCRIPTOR \<noteq> 0"

definition uni_hid_device_set_product_id :: "u16 \<Rightarrow> uni_hid_device \<Rightarrow> uni_hid_device" where
  "uni_hid_device_set_product_id p d = d\<lparr> product_id := p, flags := flags d OR FLAGS_HAS_PRODUCT_ID \<rparr>"

definition uni_hid_device_set_vendor_id :: "u16 \<Rightarrow> uni_hid_device \<Rightarrow> uni_hid_device" where
  "uni_hid_device_set_vendor_id v d =
     (if v = 0 then d else d\<lparr> vendor_id := v, flags := flags d OR FLAGS_HAS_VENDOR_ID \<rparr>)"

definition uni_hid_device_set_connection_handle :: "u16 \<Rightarrow> uni_hid_device \<Rightarrow> uni_hid_device" where
  "uni_hid_device_set_connection_handle h d = d\<lparr> conn := (conn d)\<lparr> handle := h \<rparr> \<rparr>"

definition uni_hid_device_has_controller_type :: "uni_hid_device \<Rightarrow> bool" where
  "uni_hid_device_has_controller_type d \<longleftrightarrow> flags d AND FLAGS_HAS_CONTROLLER_TYPE \<noteq> 0"

definition uni_hid_device_does_require_hid_descriptor :: "uni_hid_device \<Rightarrow> bool" where
  "uni_hid_device_does_require_hid_descriptor d \<longleftrightarrow> rp_parse_usage (report_parser d) \<noteq> None"

definition uni_hid_device_is_mouse :: "uni_hid_device \<Rightarrow> bool" where
  "uni_hid_device_is_mouse d =
     (let mouse_cod = UNI_BT_COD_MAJOR_PERIPHERAL OR UNI_BT_COD_MINOR_MICE
      in cod d AND mouse_cod = mouse_cod)"

definition uni_hid_device_is_keyboard :: "uni_hid_device \<Rightarrow> bool" where
  "uni_hid_device_is_keyboard d =
     (let keyboard_cod = UNI_BT_COD_MAJOR_PERIPHERAL OR UNI_BT_COD_MINOR_KEYBOARD
      in cod d AND keyboard_cod = keyboard_cod)"

definition uni_hid_device_is_gamepad :: "uni_hid_device \<Rightarrow> bool" where
  "uni_hid_device_is_gamepad d =
     (let gamepad_cod = UNI_BT_COD_MINOR_GAMEPAD OR UNI_BT_COD_MINOR_JOYSTICK
      in cod d AND UNI_BT_COD_MAJOR_PERIPHERAL \<noteq> 0 \<and> cod d AND gamepad_cod \<noteq> 0)"

section \<open>Choosing the parser\<close>

text \<open>The table of known controllers, \<^verbatim>\<open>arrControllers\<close>, is an argument: device id and type, in order.\<close>

definition make_controller_id :: "u16 \<Rightarrow> u16 \<Rightarrow> u32" where
  "make_controller_id vid pid = push_bit 16 (to_u32 vid) OR to_u32 pid"

definition uni_guess_controller_type ::
  "(u32 \<times> uni_controller_type) list \<Rightarrow> u16 \<Rightarrow> u16 \<Rightarrow> uni_controller_type" where
  "uni_guess_controller_type arrControllers vid pid =
     (let device_id = make_controller_id vid pid
      in case find (\<lambda>e. device_id = fst e) arrControllers of
           None \<Rightarrow> CONTROLLER_TYPE_UnknownNonSteamController
         | Some e \<Rightarrow> snd e)"

text \<open>\<^verbatim>\<open>strncmp\<close> over 25 characters includes the terminating zero, so the names must be equal.\<close>

definition uni_hid_parser_xboxone_does_name_match ::
  "uni_hid_device \<Rightarrow> string option \<Rightarrow> (bool \<times> uni_hid_device) option" where
  "uni_hid_parser_xboxone_does_name_match d name =
     (case name of None \<Rightarrow> Some (False, d)
      | Some s \<Rightarrow>
          if s \<noteq> ''Xbox Wireless Controller'' then Some (False, d)
          else
            let d1 = uni_hid_device_set_vendor_id XBOX_WIRELESS_VID d;
                d2 = uni_hid_device_set_product_id XBOX_WIRELESS_PID d1
            in map_option (\<lambda>d3. (True, d3))
                 (uni_hid_device_set_hid_descriptor xbox_hid_descriptor_4_8_fw d2))"

definition UNI_HID_PARSER_STADIA_VID :: u16 where "UNI_HID_PARSER_STADIA_VID = 0x18d1"

definition UNI_HID_PARSER_STADIA_PID :: u16 where "UNI_HID_PARSER_STADIA_PID = 0x9400"

text \<open>The \<^verbatim>\<open>switch\<close> over the type: the function pointers a device of that type gets.\<close>

definition parser_for :: "uni_controller_type \<Rightarrow> u16 \<Rightarrow> u16 \<Rightarrow> report_parser" where
  "parser_for ty vid pid =
     (let z = report_parser_zero in
      case ty of
        CONTROLLER_TYPE_iCadeController \<Rightarrow> z\<lparr> rp_setup := Some P_icade, rp_parse_usage := Some P_icade \<rparr>
      | CONTROLLER_TYPE_OUYAController \<Rightarrow>
          z\<lparr> rp_init_report := Some P_ouya, rp_parse_usage := Some P_ouya, rp_set_player_leds := Some P_ouya \<rparr>
      | CONTROLLER_TYPE_XBoxOneController \<Rightarrow>
          z\<lparr> rp_setup := Some P_xboxone, rp_init_report := Some P_xboxone, rp_parse_usage := Some P_xboxone,
             rp_play_dual_rumble := Some P_xboxone, rp_device_dump := Some P_xboxone \<rparr>
      | CONTROLLER_TYPE_AndroidController \<Rightarrow>
          let a = z\<lparr> rp_init_report := Some P_android, rp_parse_usage := Some P_android,
                     rp_set_player_leds := Some P_android \<rparr>
          in if vid = UNI_HID_PARSER_STADIA_VID \<and> pid = UNI_HID_PARSER_STADIA_PID
             then a\<lparr> rp_setup := Some P_stadia, rp_play_dual_rumble := Some P_stadia \<rparr> else a
      | CONTROLLER_TYPE_NimbusController \<Rightarrow>
          z\<lparr> rp_init_report := Some P_nimbus, rp_parse_usage := Some P_nimbus,
             rp_set_player_leds := Some P_nimbus \<rparr>
      | CONTROLLER_TYPE_SmartTVRemoteController \<Rightarrow>
          z\<lparr> rp_init_report := Some P_smarttvremote, rp_parse_usage := Some P_smarttvremote \<rparr>
      | CONTROLLER_TYPE_PSMoveController \<Rightarrow>
          z\<lparr> rp_setup := Some P_psmove, rp_init_report := Some P_psmove,
             rp_parse_input_report := Some P_psmove, rp_set_lightbar_color := Some P_psmove,
             rp_play_dual_rumble := Some P_psmove \<rparr>
      | CONTROLLER_TYPE_PS3Controller \<Rightarrow>
          z\<lparr> rp_setup := Some P_ds3, rp_init_report := Some P_ds3, rp_parse_input_report := Some P_ds3,
             rp_set_player_leds := Some P_ds3, rp_play_dual_rumble := Some P_ds3 \<rparr>
      | CONTROLLER_TYPE_PS4Controller \<Rightarrow>
          z\<lparr> rp_setup := Some P_ds4, rp_init_report := Some P_ds4, rp_parse_input_report := Some P_ds4,
             rp_parse_feature_report := Some P_ds4, rp_set_lightbar_color := Some P_ds4,
             rp_play_dual_rumble := Some P_ds4, rp_device_dump := Some P_ds4 \<rparr>
      | CONTROLLER_TYPE_PS5Controller \<Rightarrow>
          z\<lparr> rp_init_report := Some P_ds5, rp_setup := Some P_ds5, rp_parse_input_report := Some P_ds5,
             rp_parse_feature_report := Some P_ds5, rp_set_player_leds := Some P_ds5,
             rp_set_lightbar_color := Some P_ds5, rp_play_dual_rumble := Some P_ds5,
             rp_device_dump := Some P_ds5 \<rparr>
      | CONTROLLER_TYPE_8BitdoController \<Rightarrow>
          z\<lparr> rp_init_report := Some P_8bitdo, rp_parse_usage := Some P_8bitdo \<rparr>
      | CONTROLLER_TYPE_GenericController \<Rightarrow>
          z\<lparr> rp_init_report := Some P_generic, rp_parse_usage := Some P_generic \<rparr>
      | CONTROLLER_TYPE_WiiController \<Rightarrow>
          z\<lparr> rp_setup := Some P_wii, rp_init_report := Some P_wii, rp_parse_input_report := Some P_wii,
             rp_set_player_leds := Some P_wii, rp_play_dual_rumble := Some P_wii,
             rp_device_dump := Some P_wii \<rparr>
      | _ \<Rightarrow>
          if ty \<in> {CONTROLLER_TYPE_SwitchProController, CONTROLLER_TYPE_SwitchJoyConRight,
                   CONTROLLER_TYPE_SwitchJoyConLeft}
          then z\<lparr> rp_setup := Some P_switch, rp_init_report := Some P_switch,
                  rp_parse_input_report := Some P_switch, rp_set_player_leds := Some P_switch,
                  rp_play_dual_rumble := Some P_switch, rp_device_dump := Some P_switch \<rparr>
          else if ty = CONTROLLER_TYPE_SteamController
          then z\<lparr> rp_setup := Some P_steam, rp_init_report := Some P_steam,
                  rp_parse_input_report := Some P_steam \<rparr>
          else if ty = CONTROLLER_TYPE_AtariJoystick
          then z\<lparr> rp_setup := Some P_atari, rp_init_report := Some P_atari,
                  rp_parse_input_report := Some P_atari \<rparr>
          else if ty = CONTROLLER_TYPE_GenericMouse
          then z\<lparr> rp_setup := Some P_mouse, rp_parse_input_report := Some P_mouse,
                  rp_init_report := Some P_mouse, rp_parse_usage := Some P_mouse,
                  rp_device_dump := Some P_mouse \<rparr>
          else if ty = CONTROLLER_TYPE_GenericKeyboard
          then z\<lparr> rp_setup := Some P_keyboard, rp_parse_input_report := Some P_keyboard,
                  rp_init_report := Some P_keyboard, rp_parse_usage := Some P_keyboard,
                  rp_device_dump := Some P_keyboard \<rparr>
          else z\<lparr> rp_init_report := Some P_generic, rp_parse_usage := Some P_generic \<rparr>)"

text \<open>The type from the table, or from the class of device and the name when the table does not know it.\<close>

definition guessed_type ::
  "(u32 \<times> uni_controller_type) list \<Rightarrow> uni_hid_device \<Rightarrow> (uni_controller_type \<times> uni_hid_device) option" where
  "guessed_type arrControllers d =
     (let ty = uni_guess_controller_type arrControllers (vendor_id d) (product_id d)
      in if ty \<in> {CONTROLLER_TYPE_Unknown, CONTROLLER_TYPE_UnknownNonSteamController,
                  CONTROLLER_TYPE_UnknownSteamController}
         then if uni_hid_device_is_mouse d then Some (CONTROLLER_TYPE_GenericMouse, d)
              else if uni_hid_device_is_keyboard d then Some (CONTROLLER_TYPE_GenericKeyboard, d)
              else map_option (\<lambda>(b, d1). (if b then CONTROLLER_TYPE_XBoxOneController
                                          else CONTROLLER_TYPE_AndroidController, d1))
                     (uni_hid_parser_xboxone_does_name_match d (Some (dev_name d)))
         else Some (ty, d))"

definition uni_hid_device_guess_controller_type_from_pid_vid ::
  "(u32 \<times> uni_controller_type) list \<Rightarrow> uni_hid_device \<Rightarrow> uni_hid_device option" where
  "uni_hid_device_guess_controller_type_from_pid_vid arrControllers d =
     (if uni_hid_device_has_controller_type d then Some d
      else map_option (\<lambda>(ty, d1). d1\<lparr> controller_subtype := 0,
               report_parser := parser_for ty (vendor_id d1) (product_id d1), controller_type := ty,
               flags := flags d1 OR FLAGS_HAS_CONTROLLER_TYPE \<rparr>) (guessed_type arrControllers d))"

section \<open>Sending reports\<close>

text \<open>
  \<^verbatim>\<open>busy\<close> is whether \<^verbatim>\<open>l2cap_send\<close> fails for this call.  The request for a \<^verbatim>\<open>can send now\<close> event only makes
  BTstack call \<^verbatim>\<open>uni_hid_device_send_queued_reports\<close> later.
\<close>

definition uni_hid_device_send_report :: "bool \<Rightarrow> nat option \<Rightarrow> u16 \<Rightarrow> bytes \<Rightarrow> bp32 \<Rightarrow> bp32" where
  "uni_hid_device_send_report busy d cid rep w =
     (case d of None \<Rightarrow> w
      | Some i \<Rightarrow>
          if cid = 0 then w
          else if rep = [] then w
          else if \<not> busy then emit_hid (L2capSent cid rep) w
          else upd_dev i (\<lambda>dv. dv\<lparr> outgoing_buffer :=
                 snd (uni_circular_buffer_put cid rep (outgoing_buffer dv)) \<rparr>) w)"

definition uni_hid_device_send_intr_report :: "bool \<Rightarrow> nat option \<Rightarrow> bytes \<Rightarrow> bp32 \<Rightarrow> bp32" where
  "uni_hid_device_send_intr_report busy d rep w =
     (case d of None \<Rightarrow> w
      | Some i \<Rightarrow> uni_hid_device_send_report busy d (interrupt_cid (conn (dev w i))) rep w)"

definition uni_hid_device_send_ctrl_report :: "bool \<Rightarrow> nat option \<Rightarrow> bytes \<Rightarrow> bp32 \<Rightarrow> bp32" where
  "uni_hid_device_send_ctrl_report busy d rep w =
     (case d of None \<Rightarrow> w
      | Some i \<Rightarrow> uni_hid_device_send_report busy d (control_cid (conn (dev w i))) rep w)"

definition uni_hid_device_send_queued_reports :: "bool \<Rightarrow> nat option \<Rightarrow> bp32 \<Rightarrow> bp32" where
  "uni_hid_device_send_queued_reports busy d w =
     (case d of None \<Rightarrow> w
      | Some i \<Rightarrow>
          if uni_circular_buffer_is_empty (outgoing_buffer (dev w i)) then w
          else
            case uni_circular_buffer_get (outgoing_buffer (dev w i)) of
              (e, r, b) \<Rightarrow>
                let w1 = upd_dev i (\<lambda>dv. dv\<lparr> outgoing_buffer := b \<rparr>) w
                in case r of None \<Rightarrow> w1
                   | Some (cid, rep) \<Rightarrow> uni_hid_device_send_report busy (Some i) cid rep w1)"

section \<open>The system and home buttons\<close>

definition misc_button_enable_callback :: "nat \<Rightarrow> bp32 \<Rightarrow> bp32" where
  "misc_button_enable_callback i w =
     upd_dev i (\<lambda>d. d\<lparr> misc_button_wait_delay := misc_button_wait_delay d AND NOT (to_u32 MISC_BUTTON_SYSTEM),
       misc_button_delay_timer := False \<rparr>) w"

definition process_misc_button_system :: "nat \<Rightarrow> bp32 \<Rightarrow> bp32" where
  "process_misc_button_system i w =
     (let d = dev w i; sysm = to_u32 MISC_BUTTON_SYSTEM in
      if misc_buttons (gamepad (controller d)) AND MISC_BUTTON_SYSTEM = 0
      then upd_dev i (\<lambda>d. d\<lparr> misc_button_wait_release := misc_button_wait_release d AND NOT sysm \<rparr>) w
      else if nonzero (misc_button_wait_release d AND sysm) then w
      else
        let requires_delay = (controller_type d = CONTROLLER_TYPE_SwitchProController \<or>
              controller_type d = CONTROLLER_TYPE_SwitchJoyConLeft \<or>
              controller_type d = CONTROLLER_TYPE_SwitchJoyConRight)
        in if requires_delay \<and> nonzero (misc_button_wait_delay d AND sysm) then w
           else
             let w1 = upd_dev i (\<lambda>d. d\<lparr> misc_button_wait_release := misc_button_wait_release d OR sysm \<rparr>) w;
                 w2 = emit_hid (OobSystemButton i) w1
             in if requires_delay
                then upd_dev i (\<lambda>d. d\<lparr> misc_button_wait_delay := misc_button_wait_delay d OR sysm,
                       misc_button_delay_timer := True \<rparr>) w2
                else w2)"

definition process_misc_button_home :: "nat \<Rightarrow> bp32 \<Rightarrow> bp32" where
  "process_misc_button_home i w =
     (let d = dev w i; home = to_u32 MISC_BUTTON_START in
      if misc_buttons (gamepad (controller d)) AND MISC_BUTTON_START = 0
      then upd_dev i (\<lambda>d. d\<lparr> misc_button_wait_release := misc_button_wait_release d AND NOT home \<rparr>) w
      else if nonzero (misc_button_wait_release d AND home) then w
      else upd_dev i (\<lambda>d. d\<lparr> misc_button_wait_release := misc_button_wait_release d OR home \<rparr>) w)"

section \<open>Facts about the table\<close>

lemma length_upd_dev [simp]: "length (g_devices (upd_dev i f w)) = length (g_devices w)"
  by (simp add: upd_dev_def)

lemma dev_upd_dev: "i < length (g_devices w) \<Longrightarrow> dev (upd_dev i f w) j = (if j = i then f (dev w i) else dev w j)"
  by (simp add: dev_def upd_dev_def)

lemma dev_upd_dev_same [simp]: "i < length (g_devices w) \<Longrightarrow> dev (upd_dev i f w) i = f (dev w i)"
  by (simp add: dev_upd_dev)

lemma dev_upd_dev_other [simp]: "j \<noteq> i \<Longrightarrow> dev (upd_dev i f w) j = dev w j"
  by (simp add: dev_def upd_dev_def)

lemma upd_dev_frame [simp]:
  "virtual_device_enabled (upd_dev i f w) = virtual_device_enabled w"
  "gap_get_connection_type (upd_dev i f w) = gap_get_connection_type w"
  "mappings (upd_dev i f w) = mappings w" "controllers (upd_dev i f w) = controllers w"
  "used_controllers (upd_dev i f w) = used_controllers w" "pending_queue (upd_dev i f w) = pending_queue w"
  "hid_out (upd_dev i f w) = hid_out w"
  by (simp_all add: upd_dev_def)

lemma emit_hid_frame [simp]:
  "g_devices (emit_hid e w) = g_devices w" "dev (emit_hid e w) j = dev w j"
  "virtual_device_enabled (emit_hid e w) = virtual_device_enabled w"
  "gap_get_connection_type (emit_hid e w) = gap_get_connection_type w"
  "mappings (emit_hid e w) = mappings w" "controllers (emit_hid e w) = controllers w"
  "used_controllers (emit_hid e w) = used_controllers w" "pending_queue (emit_hid e w) = pending_queue w"
  "hid_out (emit_hid e w) = hid_out w @ [e]"
  by (simp_all add: emit_hid_def dev_def)

lemma find_dev_Some:
  "find_dev P w = Some i \<Longrightarrow> i < length (g_devices w) \<and> P (dev w i) \<and> (\<forall>j < i. \<not> P (dev w j))"
  by (auto simp: find_dev_def find_Some_iff)

lemma find_dev_None: "find_dev P w = None \<longleftrightarrow> (\<forall>j < length (g_devices w). \<not> P (dev w j))"
  by (auto simp: find_dev_def find_None_iff)

lemma find_dev_unique:
  assumes "i < length (g_devices w)" "P (dev w i)" "\<And>j. j < length (g_devices w) \<Longrightarrow> P (dev w j) \<Longrightarrow> j = i"
  shows "find_dev P w = Some i"
proof (cases "find_dev P w")
  case None
  then show ?thesis using assms(1,2) unfolding find_dev_None by blast
next
  case (Some j)
  then have "j = i" using find_dev_Some [OF Some] assms(3) by blast
  with Some show ?thesis by simp
qed

end
