(* ===== verification/Hid_Device_Laws.thy ===== *)
theory Hid_Device_Laws
  imports Hid_Device "HOL-Library.Multiset"
begin

text \<open>
  Properties of the device table that do not involve the platform: the parser a device gets, the copy of its
  HID descriptor, and the fate of the reports sent to it, over the contract of the report queue.
\<close>

section \<open>Reports to a device\<close>

datatype report_op = SendReport bool u16 bytes | CanSendNow bool

fun report_step :: "nat \<Rightarrow> report_op \<Rightarrow> bp32 \<Rightarrow> bp32" where
  "report_step i (SendReport busy cid rep) w = uni_hid_device_send_report busy (Some i) cid rep w"
| "report_step i (CanSendNow busy) w = uni_hid_device_send_queued_reports busy (Some i) w"

fun report_run :: "nat \<Rightarrow> report_op list \<Rightarrow> bp32 \<Rightarrow> bp32" where
  "report_run i [] w = w"
| "report_run i (op # ops) w = report_run i ops (report_step i op w)"

fun submitted :: "report_op list \<Rightarrow> (u16 \<times> bytes) list" where
  "submitted [] = []"
| "submitted (SendReport busy cid rep # ops) = (cid, rep) # submitted ops"
| "submitted (CanSendNow busy # ops) = submitted ops"

fun sent_reports :: "hid_effect list \<Rightarrow> (u16 \<times> bytes) list" where
  "sent_reports [] = []"
| "sent_reports (L2capSent cid rep # es) = (cid, rep) # sent_reports es"
| "sent_reports (e # es) = sent_reports es"

definition report_ok :: "u16 \<times> bytes \<Rightarrow> bool" where
  "report_ok r \<longleftrightarrow> fst r \<noteq> 0 \<and> snd r \<noteq> [] \<and> length (snd r) < 128"

definition queued :: "nat \<Rightarrow> bp32 \<Rightarrow> (u16 \<times> bytes) list" where
  "queued i w = cb_contents (outgoing_buffer (dev w i))"

definition in_flight :: "nat \<Rightarrow> bp32 \<Rightarrow> (u16 \<times> bytes) multiset" where
  "in_flight i w = mset (sent_reports (hid_out w)) + mset (queued i w)"

definition queue_ok :: "nat \<Rightarrow> bp32 \<Rightarrow> bool" where
  "queue_ok i w \<longleftrightarrow> i < length (g_devices w) \<and> cb_ok (outgoing_buffer (dev w i)) \<and> list_all report_ok (queued i w)"

lemma sent_reports_append: "sent_reports (a @ b) = sent_reports a @ sent_reports b"
  by (induction a rule: sent_reports.induct) auto

text \<open>
  The reports the code gives up, counted from the number \<open>n\<close> of queued ones: a report without a channel or without
  bytes, and one that L2CAP refuses when 31 are queued or that does not fit a slot of 128 bytes.
\<close>

fun lost_reports :: "nat \<Rightarrow> report_op list \<Rightarrow> (u16 \<times> bytes) list" where
  "lost_reports n [] = []"
| "lost_reports n (SendReport busy cid rep # ops) =
     (if cid = 0 \<or> rep = [] then (cid, rep) # lost_reports n ops
      else if \<not> busy then lost_reports n ops
      else if n = 31 \<or> 128 \<le> length rep then (cid, rep) # lost_reports n ops
      else lost_reports (Suc n) ops)"
| "lost_reports n (CanSendNow busy # ops) = lost_reports (if busy then n else n - 1) ops"

text \<open>One send: taken by L2CAP, queued or given up.\<close>

lemma send_report_cases:
  assumes "queue_ok i w"
  shows "let w' = uni_hid_device_send_report busy (Some i) cid rep w; n = length (queued i w) in
    queue_ok i w' \<and>
    (if cid = 0 \<or> rep = [] then in_flight i w' = in_flight i w \<and> length (queued i w') = n
     else if \<not> busy then in_flight i w' = in_flight i w + {#(cid, rep)#} \<and> length (queued i w') = n
     else if n = 31 \<or> 128 \<le> length rep then in_flight i w' = in_flight i w \<and> length (queued i w') = n
     else in_flight i w' = in_flight i w + {#(cid, rep)#} \<and> length (queued i w') = Suc n)"
proof -
  have ok: "cb_ok (outgoing_buffer (dev w i))" using assms by (simp add: queue_ok_def)
  consider "cid = 0 \<or> rep = []" | "cid \<noteq> 0" "rep \<noteq> []" "\<not> busy" |
      "cid \<noteq> 0" "rep \<noteq> []" busy "length (queued i w) = 31 \<or> 128 \<le> length rep" |
      "cid \<noteq> 0" "rep \<noteq> []" busy "length (queued i w) < 31" "length rep < 128"
    using cb_count_bound [OF ok] by (fastforce simp: queued_def)
  then show ?thesis
  proof cases
    case 1
    with assms show ?thesis by (auto simp: uni_hid_device_send_report_def Let_def)
  next
    case 2
    with assms show ?thesis
      by (simp add: uni_hid_device_send_report_def queue_ok_def in_flight_def queued_def sent_reports_append Let_def)
  next
    case 3
    then have "snd (uni_circular_buffer_put cid rep (outgoing_buffer (dev w i))) = outgoing_buffer (dev w i)"
      using cb_full_iff [OF ok] by (auto simp: uni_circular_buffer_put_def queued_def UNI_CIRCULAR_BUFFER_DATA_SIZE_def)
    with 3 assms show ?thesis
      by (simp add: uni_hid_device_send_report_def queue_ok_def in_flight_def queued_def Let_def)
  next
    case 4
    obtain b where b: "uni_circular_buffer_put cid rep (outgoing_buffer (dev w i)) = (UNI_CIRCULAR_BUFFER_ERROR_OK, b)"
      "cb_ok b" "cb_contents b = queued i w @ [(cid, rep)]"
      using cb.put_accepts [OF ok, of rep cid] 4(4,5) by (auto simp: queued_def)
    then have "cb_count b = Suc (cb_count (outgoing_buffer (dev w i)))"
      using b(3) unfolding queued_def by (metis length_cb_contents length_append_singleton)
    with 4 b assms show ?thesis
      by (simp add: uni_hid_device_send_report_def report_ok_def queue_ok_def in_flight_def queued_def Let_def)
  qed
qed

lemma send_queued_conserves:
  assumes "queue_ok i w"
  shows "queue_ok i (uni_hid_device_send_queued_reports busy (Some i) w) \<and>
    in_flight i (uni_hid_device_send_queued_reports busy (Some i) w) = in_flight i w \<and>
    length (queued i (uni_hid_device_send_queued_reports busy (Some i) w)) =
      (if busy then length (queued i w) else length (queued i w) - 1)"
proof -
  have ok: "cb_ok (outgoing_buffer (dev w i))" and i: "i < length (g_devices w)"
    using assms by (simp_all add: queue_ok_def)
  from ok show ?thesis
  proof (cases rule: cb.get_cases)
    case empty
    then show ?thesis
      using assms cb_empty_iff [OF ok] by (simp add: uni_hid_device_send_queued_reports_def queued_def del: length_cb_contents)
  next
    case (first r b)
    obtain cid rep where r: "r = (cid, rep)" by fastforce
    define w1 where "w1 = upd_dev i (\<lambda>dv. dv\<lparr> outgoing_buffer := b \<rparr>) w"
    have q1: "queued i w = (cid, rep) # queued i w1" using first i r by (simp add: queued_def w1_def)
    have "queue_ok i w1" "report_ok (cid, rep)"
      using assms first i r by (simp_all add: queue_ok_def queued_def w1_def)
    moreover have "length (queued i w1) < 31"
      using q1 cb.room [OF ok] by (simp add: queued_def)
    moreover have "in_flight i w = in_flight i w1 + {#(cid, rep)#}"
      using q1 by (simp add: in_flight_def) (simp add: w1_def)
    moreover have "uni_hid_device_send_queued_reports busy (Some i) w =
        uni_hid_device_send_report busy (Some i) cid rep w1"
      using first r cb_empty_iff [OF ok] by (simp add: uni_hid_device_send_queued_reports_def w1_def)
    ultimately show ?thesis using send_report_cases [of i w1 busy cid rep] q1
      by (auto simp: report_ok_def Let_def)
  qed
qed

lemma report_run_accounts:
  "queue_ok i w \<Longrightarrow>
   queue_ok i (report_run i ops w) \<and>
   in_flight i (report_run i ops w) + mset (lost_reports (length (queued i w)) ops) = in_flight i w + mset (submitted ops)"
proof (induction ops arbitrary: w)
  case (Cons op ops)
  show ?case
  proof (cases op)
    case (SendReport busy cid rep)
    show ?thesis
      using Cons.IH [of "report_step i op w"] send_report_cases [OF Cons.prems, of busy cid rep] SendReport
      by (auto simp: Let_def split: if_splits)
  next
    case (CanSendNow busy)
    show ?thesis
      using Cons.IH [of "report_step i op w"] send_queued_conserves [OF Cons.prems, of busy] CanSendNow by simp
  qed
qed simp

lemma nothing_lost:
  "list_all report_ok (submitted ops) \<Longrightarrow> n + length (submitted ops) \<le> 31 \<Longrightarrow> lost_reports n ops = []"
  by (induction ops arbitrary: n rule: submitted.induct) (auto simp: report_ok_def)

section \<open>The parser of a device\<close>

lemma parser_for_reads:
  "rp_parse_usage (parser_for ty vid pid) \<noteq> None \<or> rp_parse_input_report (parser_for ty vid pid) \<noteq> None"
  by (cases ty) (simp_all add: parser_for_def report_parser_zero_def Let_def)

lemma length_xbox_descriptor: "length xbox_hid_descriptor_4_8_fw = 334"
  by (simp add: xbox_hid_descriptor_4_8_fw_def)

lemma xbox_name_match_total:
  assumes "length (hid_descriptor d) = HID_MAX_DESCRIPTOR_LEN"
  shows "\<exists>b d'. uni_hid_parser_xboxone_does_name_match d name = Some (b, d')"
  using assms
  by (cases name) (auto simp: uni_hid_parser_xboxone_does_name_match_def uni_hid_device_set_hid_descriptor_def
      uni_hid_device_set_product_id_def uni_hid_device_set_vendor_id_def Let_def length_xbox_descriptor
      HID_MAX_DESCRIPTOR_LEN_def)

lemma type_flag_set: "(f OR FLAGS_HAS_CONTROLLER_TYPE) AND FLAGS_HAS_CONTROLLER_TYPE \<noteq> 0"
proof -
  have "nonzero ((f OR 2 ^ 13) AND (2 ^ 13 :: u32))"
    unfolding nonzero_and_bit by (simp add: bit_or_iff bit_exp_iff del: power_numeral)
  then show ?thesis by (simp add: FLAGS_HAS_CONTROLLER_TYPE_def nonzero_def)
qed

lemma guessed_type_total:
  assumes "length (hid_descriptor d) = HID_MAX_DESCRIPTOR_LEN"
  shows "\<exists>ty d'. guessed_type arrControllers d = Some (ty, d')"
  using xbox_name_match_total [OF assms, of "Some (dev_name d)"] by (auto simp: guessed_type_def Let_def)

text \<open>
  The family of parsers a type belongs to, and which functions the families have.  Stadia gamepads are of the Android
  type; they add a set-up and rumble.
\<close>

definition parser_family :: "uni_controller_type \<Rightarrow> parser_name" where
  "parser_family ty =
     (case ty of
        CONTROLLER_TYPE_iCadeController \<Rightarrow> P_icade
      | CONTROLLER_TYPE_OUYAController \<Rightarrow> P_ouya
      | CONTROLLER_TYPE_XBoxOneController \<Rightarrow> P_xboxone
      | CONTROLLER_TYPE_AndroidController \<Rightarrow> P_android
      | CONTROLLER_TYPE_NimbusController \<Rightarrow> P_nimbus
      | CONTROLLER_TYPE_SmartTVRemoteController \<Rightarrow> P_smarttvremote
      | CONTROLLER_TYPE_PSMoveController \<Rightarrow> P_psmove
      | CONTROLLER_TYPE_PS3Controller \<Rightarrow> P_ds3
      | CONTROLLER_TYPE_PS4Controller \<Rightarrow> P_ds4
      | CONTROLLER_TYPE_PS5Controller \<Rightarrow> P_ds5
      | CONTROLLER_TYPE_8BitdoController \<Rightarrow> P_8bitdo
      | CONTROLLER_TYPE_WiiController \<Rightarrow> P_wii
      | CONTROLLER_TYPE_SwitchProController \<Rightarrow> P_switch
      | CONTROLLER_TYPE_SwitchJoyConRight \<Rightarrow> P_switch
      | CONTROLLER_TYPE_SwitchJoyConLeft \<Rightarrow> P_switch
      | CONTROLLER_TYPE_SteamController \<Rightarrow> P_steam
      | CONTROLLER_TYPE_AtariJoystick \<Rightarrow> P_atari
      | CONTROLLER_TYPE_GenericMouse \<Rightarrow> P_mouse
      | CONTROLLER_TYPE_GenericKeyboard \<Rightarrow> P_keyboard
      | _ \<Rightarrow> P_generic)"

text \<open>An optional function that is installed exactly under a condition.\<close>

definition installed :: "parser_name option \<Rightarrow> parser_name \<Rightarrow> bool \<Rightarrow> bool" where
  "installed f name c \<longleftrightarrow> f = (if c then Some name else None)"

definition parser_fits :: "uni_controller_type \<Rightarrow> u16 \<Rightarrow> u16 \<Rightarrow> report_parser \<Rightarrow> bool" where
  "parser_fits ty vid pid p \<longleftrightarrow>
     (let fam = parser_family ty; stadia = (fam = P_android \<and> vid = 0x18d1 \<and> pid = 0x9400);
          extra = (if stadia then P_stadia else fam)
      in installed (rp_init_report p) fam (fam \<noteq> P_icade) \<and>
         installed (rp_parse_usage p) fam (fam \<in> {P_icade, P_ouya, P_xboxone, P_android, P_nimbus, P_smarttvremote,
           P_8bitdo, P_generic, P_mouse, P_keyboard}) \<and>
         installed (rp_parse_input_report p) fam (fam \<in> {P_psmove, P_ds3, P_ds4, P_ds5, P_wii, P_switch, P_steam,
           P_atari, P_mouse, P_keyboard}) \<and>
         installed (rp_parse_feature_report p) fam (fam \<in> {P_ds4, P_ds5}) \<and>
         installed (rp_setup p) extra (stadia \<or> fam \<in> {P_icade, P_xboxone, P_psmove, P_ds3, P_ds4, P_ds5, P_wii,
           P_switch, P_steam, P_atari, P_mouse, P_keyboard}) \<and>
         installed (rp_play_dual_rumble p) extra (stadia \<or> fam \<in> {P_xboxone, P_psmove, P_ds3, P_ds4, P_ds5, P_wii,
           P_switch}) \<and>
         installed (rp_set_player_leds p) fam (fam \<in> {P_ouya, P_android, P_nimbus, P_ds3, P_ds5, P_wii, P_switch}) \<and>
         installed (rp_set_lightbar_color p) fam (fam \<in> {P_psmove, P_ds4, P_ds5}) \<and>
         installed (rp_device_dump p) fam (fam \<in> {P_xboxone, P_ds4, P_ds5, P_wii, P_switch, P_mouse, P_keyboard}))"

lemma parser_for_fits: "parser_fits ty vid pid (parser_for ty vid pid)"
  by (cases ty)
    (simp_all add: parser_fits_def installed_def parser_family_def parser_for_def report_parser_zero_def Let_def
      UNI_HID_PARSER_STADIA_VID_def UNI_HID_PARSER_STADIA_PID_def)

lemma find_map_of: "(case find (\<lambda>e. k = fst e) es of None \<Rightarrow> d | Some e \<Rightarrow> snd e) = (case map_of es k of None \<Rightarrow> d | Some v \<Rightarrow> v)"
  by (induction es) auto

lemma name_match_cases:
  assumes "uni_hid_parser_xboxone_does_name_match d (Some name) = Some (b, d')"
  shows "b \<longleftrightarrow> name = ''Xbox Wireless Controller''"
  using assms by (auto simp: uni_hid_parser_xboxone_does_name_match_def Let_def split: if_splits)

text \<open>The type of a device the table does not know.\<close>

definition fallback_type :: "uni_hid_device \<Rightarrow> uni_controller_type" where
  "fallback_type d =
     (if uni_hid_device_is_mouse d then CONTROLLER_TYPE_GenericMouse
      else if uni_hid_device_is_keyboard d then CONTROLLER_TYPE_GenericKeyboard
      else if dev_name d = ''Xbox Wireless Controller'' then CONTROLLER_TYPE_XBoxOneController
      else CONTROLLER_TYPE_AndroidController)"

lemma guessed_fallback:
  assumes "(if uni_hid_device_is_mouse d then Some (CONTROLLER_TYPE_GenericMouse, d)
      else if uni_hid_device_is_keyboard d then Some (CONTROLLER_TYPE_GenericKeyboard, d)
      else map_option (\<lambda>(b, d1). (if b then CONTROLLER_TYPE_XBoxOneController else CONTROLLER_TYPE_AndroidController, d1))
        (uni_hid_parser_xboxone_does_name_match d (Some (dev_name d)))) = Some (ty, d')"
  shows "ty = fallback_type d"
  using assms by (auto simp: fallback_type_def dest: name_match_cases split: if_splits)

section \<open>Properties\<close>

definition one_device :: bp32 where
  "one_device = \<lparr> g_devices = [uni_hid_device_init], virtual_device_enabled = False,
     gap_get_connection_type = (\<lambda>h. GAP_CONNECTION_INVALID), mappings = gamepad_mappings_boot,
     controllers = [], used_controllers = 0, pending_queue = [], hid_out = [] \<rparr>"



text \<open>A HID descriptor longer than 512 bytes overruns its buffer.  \<^verbatim>\<open>uni_hid_device_set_hid_descriptor\<close>
  computes the clamped length but copies the unclamped one: the copy stays inside the array exactly when the
  descriptor has at most 512 bytes.  The length comes from the data element of an SDP answer of the remote
  device.\<close>

theorem long_descriptor_overruns:
  assumes "length (hid_descriptor d) = HID_MAX_DESCRIPTOR_LEN"
  shows "uni_hid_device_set_hid_descriptor desc d = None \<longleftrightarrow> length desc > HID_MAX_DESCRIPTOR_LEN"
  using assms by (simp add: uni_hid_device_set_hid_descriptor_def Let_def)

theorem long_descriptor_overruns_witness:
  "uni_hid_device_set_hid_descriptor (replicate 513 0) uni_hid_device_init = None"
  using long_descriptor_overruns [of uni_hid_device_init "replicate 513 0"]
  by (simp add: uni_hid_device_init_def uni_hid_device_zero_def HID_MAX_DESCRIPTOR_LEN_def)

text \<open>C35: Every device gets the parser of its type, and one that can read its reports.  Guessing the type of a device
  that has none yet succeeds (the descriptor faked for an Xbox clone fits its buffer) and marks the type as known.
  The type is the one the table of known controllers gives its vendor and product id; when the table has none, a mouse or a
  keyboard by its class of device, an Xbox controller by its exact name, else Android.  The function pointers
  installed are exactly those of the type's family, each the family's own (but for Stadia gamepads, which are of
  the Android type with Stadia's set-up and rumble); usages are parsed or whole reports.\<close>

theorem every_device_gets_a_parser:
  assumes "\<not> uni_hid_device_has_controller_type d" "length (hid_descriptor d) = HID_MAX_DESCRIPTOR_LEN"
  shows "\<exists>d'. uni_hid_device_guess_controller_type_from_pid_vid arrControllers d = Some d' \<and>
    uni_hid_device_has_controller_type d' \<and>
    controller_type d' =
      (case map_of arrControllers (push_bit 16 (to_u32 (vendor_id d)) OR to_u32 (product_id d)) of
         Some ty \<Rightarrow> if ty \<in> {CONTROLLER_TYPE_Unknown, CONTROLLER_TYPE_UnknownNonSteamController,
             CONTROLLER_TYPE_UnknownSteamController} then fallback_type d else ty
       | None \<Rightarrow> fallback_type d) \<and>
    parser_fits (controller_type d') (vendor_id d') (product_id d') (report_parser d') \<and>
    (rp_parse_usage (report_parser d') \<noteq> None \<or> rp_parse_input_report (report_parser d') \<noteq> None)"
proof -
  obtain ty d' where g: "guessed_type arrControllers d = Some (ty, d')" using guessed_type_total [OF assms(2)] by blast
  have "uni_guess_controller_type arrControllers (vendor_id d) (product_id d) =
      (case map_of arrControllers (push_bit 16 (to_u32 (vendor_id d)) OR to_u32 (product_id d)) of
         None \<Rightarrow> CONTROLLER_TYPE_UnknownNonSteamController | Some ty \<Rightarrow> ty)"
    unfolding uni_guess_controller_type_def make_controller_id_def Let_def by (rule find_map_of)
  then have "ty = (case map_of arrControllers (push_bit 16 (to_u32 (vendor_id d)) OR to_u32 (product_id d)) of
         Some ty \<Rightarrow> if ty \<in> {CONTROLLER_TYPE_Unknown, CONTROLLER_TYPE_UnknownNonSteamController,
             CONTROLLER_TYPE_UnknownSteamController} then fallback_type d else ty
       | None \<Rightarrow> fallback_type d)"
    using g guessed_fallback unfolding guessed_type_def Let_def by (auto split: option.splits if_splits)
  with g assms(1) parser_for_reads parser_for_fits type_flag_set show ?thesis
    unfolding uni_hid_device_guess_controller_type_from_pid_vid_def
    by (simp add: uni_hid_device_has_controller_type_def)
qed

theorem every_device_gets_a_parser_witness:
  "\<exists>d'. uni_hid_device_guess_controller_type_from_pid_vid [(0x054c0ce6, CONTROLLER_TYPE_PS5Controller)]
      (uni_hid_device_init\<lparr> vendor_id := 0x054c, product_id := 0x0ce6 \<rparr>) = Some d' \<and>
    controller_type d' = CONTROLLER_TYPE_PS5Controller \<and> rp_parse_input_report (report_parser d') = Some P_ds5"
proof -
  let ?d = "uni_hid_device_init\<lparr> vendor_id := 0x054c, product_id := 0x0ce6 \<rparr>"
  have d: "\<not> uni_hid_device_has_controller_type ?d" "length (hid_descriptor ?d) = HID_MAX_DESCRIPTOR_LEN"
    "vendor_id ?d = 0x054c" "product_id ?d = 0x0ce6"
    by (simp_all add: uni_hid_device_init_def uni_hid_device_zero_def uni_hid_device_has_controller_type_def)
  have k: "push_bit 16 (to_u32 (0x054c :: u16)) OR to_u32 (0x0ce6 :: u16) = 0x054c0ce6" by code_simp
  show ?thesis
    using every_device_gets_a_parser [OF d(1,2), of "[(0x054c0ce6, CONTROLLER_TYPE_PS5Controller)]", unfolded d k]
    by (auto simp: parser_fits_def installed_def parser_family_def Let_def)
qed

end
