(* ===== verification/Arduino_Platform.thy ===== *)
theory Arduino_Platform
  imports Hid_Device_Laws
begin

text \<open>
  The bridge between Bluepad32 and the application: \<^verbatim>\<open>src/components/bluepad32_arduino/arduino_platform.c\<close>.
  The Bluetooth task seats controllers and publishes their data; the application task polls the seats and
  queues requests, which the Bluetooth task executes when the next data arrive.  Every access to a seat's data
  is under the mutex, so an operation is one atomic step here.  The number of seats and of devices is
  \<^verbatim>\<open>CONFIG_BLUEPAD32_MAX_DEVICES\<close>, the length of both tables.
\<close>

definition UNI_ARDUINO_GAMEPAD_INVALID :: int where "UNI_ARDUINO_GAMEPAD_INVALID = -1"

definition MAX_PENDING_REQUESTS :: nat where "MAX_PENDING_REQUESTS = 16"

datatype arduino_error =
  UNI_ARDUINO_ERROR_SUCCESS | UNI_ARDUINO_ERROR_INVALID_DEVICE | UNI_ARDUINO_ERROR_NO_DATA

definition ARDUINO_PROPERTY_FLAG_RUMBLE :: u16 where "ARDUINO_PROPERTY_FLAG_RUMBLE = 1"

definition ARDUINO_PROPERTY_FLAG_PLAYER_LEDS :: u16 where "ARDUINO_PROPERTY_FLAG_PLAYER_LEDS = 2"

definition ARDUINO_PROPERTY_FLAG_PLAYER_LIGHTBAR :: u16 where "ARDUINO_PROPERTY_FLAG_PLAYER_LIGHTBAR = 4"

definition arduino_properties_zero :: arduino_controller_properties where
  "arduino_properties_zero = \<lparr> prop_btaddr = zero_addr, prop_type = 0, prop_subtype = 0, prop_vendor_id = 0,
     prop_product_id = 0, prop_flags = 0 \<rparr>"

text \<open>A seat after \<^verbatim>\<open>memset\<close> and \<^verbatim>\<open>idx = UNI_ARDUINO_GAMEPAD_INVALID\<close>.\<close>

definition free_seat :: arduino_controller where
  "free_seat = \<lparr> seat_idx = UNI_ARDUINO_GAMEPAD_INVALID, seat_data = uni_controller_zero,
     seat_data_updated = False, seat_properties = arduino_properties_zero \<rparr>"

definition arduino_init :: "bp32 \<Rightarrow> bp32" where
  "arduino_init w = w\<lparr> controllers := map (\<lambda>_. free_seat) (controllers w) \<rparr>"

definition upd_seat :: "nat \<Rightarrow> (arduino_controller \<Rightarrow> arduino_controller) \<Rightarrow> bp32 \<Rightarrow> bp32" where
  "upd_seat k f w = w\<lparr> controllers := (controllers w)[k := f (controllers w ! k)] \<rparr>"

definition set_controller_idx :: "nat \<Rightarrow> int \<Rightarrow> bp32 \<Rightarrow> bp32" where
  "set_controller_idx i k w = upd_dev i (\<lambda>d. d\<lparr> platform_data := \<lparr> controller_idx = k \<rparr> \<rparr>) w"

abbreviation idx_of :: "bp32 \<Rightarrow> nat \<Rightarrow> int" where
  "idx_of w i \<equiv> controller_idx (platform_data (dev w i))"

definition predicate_arduino_index :: "int \<Rightarrow> uni_hid_device \<Rightarrow> bool" where
  "predicate_arduino_index wanted_idx d \<longleftrightarrow> controller_idx (platform_data d) = wanted_idx"

section \<open>Requests of the application\<close>

definition execute_request :: "pending_request_cmd \<Rightarrow> nat \<Rightarrow> bp32 \<Rightarrow> bp32" where
  "execute_request c i w =
     (let rp = report_parser (dev w i) in
      case c of
        CMD_LIGHTBAR_COLOR r g b \<Rightarrow>
          (case rp_set_lightbar_color rp of None \<Rightarrow> w | Some p \<Rightarrow> emit_hid (SetLightbarColor p i r g b) w)
      | CMD_PLAYER_LEDS l \<Rightarrow>
          (case rp_set_player_leds rp of None \<Rightarrow> w | Some p \<Rightarrow> emit_hid (SetPlayerLeds p i l) w)
      | CMD_RUMBLE ds du wk st \<Rightarrow>
          (case rp_play_dual_rumble rp of None \<Rightarrow> w | Some p \<Rightarrow> emit_hid (PlayDualRumble p i ds du wk st) w)
      | CMD_DISCONNECT \<Rightarrow>
          emit_hid (DisconnectDeviceSafe (nat (uni_hid_device_get_idx_for_instance i w))) w)"

text \<open>\<^verbatim>\<open>process_pending_requests\<close> gives up, leaving the rest queued, when a request's device is gone.\<close>

fun process_requests :: "pending_request list \<Rightarrow> bp32 \<Rightarrow> bp32" where
  "process_requests [] w = w\<lparr> pending_queue := [] \<rparr>"
| "process_requests (r # rs) w =
     (case uni_hid_device_get_instance_with_predicate
             (predicate_arduino_index (int (req_controller_idx r))) w of
        None \<Rightarrow> w\<lparr> pending_queue := rs \<rparr>
      | Some i \<Rightarrow> process_requests rs (execute_request (req_cmd r) i w))"

definition process_pending_requests :: "bp32 \<Rightarrow> bp32" where
  "process_pending_requests w = process_requests (pending_queue w) w"

section \<open>The platform's callbacks\<close>

definition arduino_on_init_complete :: "bp32 \<Rightarrow> bp32" where
  "arduino_on_init_complete w = w\<lparr> pending_queue := [] \<rparr>"

definition arduino_on_device_connected :: "nat \<Rightarrow> bp32 \<Rightarrow> bp32" where
  "arduino_on_device_connected i w = set_controller_idx i UNI_ARDUINO_GAMEPAD_INVALID w"

definition arduino_on_device_disconnected :: "nat \<Rightarrow> bp32 \<Rightarrow> bp32" where
  "arduino_on_device_disconnected i w =
     (if idx_of w i \<noteq> UNI_ARDUINO_GAMEPAD_INVALID
      then if idx_of w i < 0 \<or> idx_of w i \<ge> int (length (controllers w)) then w
           else
             let w1 = w\<lparr> used_controllers := used_controllers w - 1 \<rparr>;
                 w2 = upd_seat (nat (idx_of w i)) (\<lambda>_. free_seat) w1
             in set_controller_idx i UNI_ARDUINO_GAMEPAD_INVALID w2
      else w)"

definition seat_properties_of :: "uni_hid_device \<Rightarrow> arduino_controller_properties" where
  "seat_properties_of d =
     \<lparr> prop_btaddr = btaddr (conn d), prop_type = word_of_int (controller_type_code (controller_type d)),
       prop_subtype = word_of_int (controller_type_code (controller_type d)),
       prop_vendor_id = vendor_id d, prop_product_id = product_id d,
       prop_flags = flag (rp_set_player_leds (report_parser d) \<noteq> None) ARDUINO_PROPERTY_FLAG_PLAYER_LEDS OR
         flag (rp_play_dual_rumble (report_parser d) \<noteq> None) ARDUINO_PROPERTY_FLAG_RUMBLE OR
         flag (rp_set_lightbar_color (report_parser d) \<noteq> None) ARDUINO_PROPERTY_FLAG_PLAYER_LIGHTBAR \<rparr>"

definition first_free_seat :: "bp32 \<Rightarrow> nat option" where
  "first_free_seat w =
     find (\<lambda>k. seat_idx (controllers w ! k) = UNI_ARDUINO_GAMEPAD_INVALID) [0..<length (controllers w)]"

definition take_seat :: "nat \<Rightarrow> bp32 \<Rightarrow> bp32" where
  "take_seat i w =
     (case first_free_seat w of None \<Rightarrow> w
      | Some k \<Rightarrow>
          let w1 = upd_seat k (\<lambda>s. s\<lparr> seat_idx := int k, seat_properties := seat_properties_of (dev w i) \<rparr>) w;
              w2 = set_controller_idx i (int k) w1
          in w2\<lparr> used_controllers := used_controllers w2 + 1 \<rparr>)"

definition arduino_on_device_ready :: "nat \<Rightarrow> bp32 \<Rightarrow> uni_error \<times> bp32" where
  "arduino_on_device_ready i w =
     (if used_controllers w = int (length (controllers w)) then (UNI_ERROR_NO_SLOTS, w)
      else if idx_of w i \<noteq> UNI_ARDUINO_GAMEPAD_INVALID then (UNI_ERROR_INVALID_CONTROLLER, w)
      else
        let w1 = take_seat i w
        in (UNI_ERROR_SUCCESS,
            case rp_set_player_leds (report_parser (dev w1 i)) of None \<Rightarrow> w1
            | Some p \<Rightarrow> emit_hid (SetPlayerLeds p i (word_of_int (idx_of w1 i + 1))) w1))"

definition arduino_on_controller_data :: "nat \<Rightarrow> uni_controller \<Rightarrow> bp32 \<Rightarrow> bp32" where
  "arduino_on_controller_data i ctl w0 =
     (let w = process_pending_requests w0
      in if idx_of w i < 0 \<or> idx_of w i \<ge> int (length (controllers w)) then w
         else upd_seat (nat (idx_of w i)) (\<lambda>s. s\<lparr> seat_data := ctl, seat_data_updated := True \<rparr>) w)"

definition arduino_get_internal_hid_device :: "int \<Rightarrow> bp32 \<Rightarrow> nat option" where
  "arduino_get_internal_hid_device k w =
     (if k = UNI_ARDUINO_GAMEPAD_INVALID then None
      else if k < 0 \<or> k \<ge> int (length (controllers w)) then None
      else uni_hid_device_get_instance_with_predicate (predicate_arduino_index k) w)"

section \<open>The application's side\<close>

definition seat_invalid :: "int \<Rightarrow> bp32 \<Rightarrow> bool" where
  "seat_invalid k w \<longleftrightarrow> k < 0 \<or> k \<ge> int (length (controllers w)) \<or>
     seat_idx (controllers w ! nat k) = UNI_ARDUINO_GAMEPAD_INVALID"

text \<open>The data is \<^verbatim>\<open>None\<close> when the output argument is left alone.\<close>

definition arduino_get_controller_data :: "int \<Rightarrow> bp32 \<Rightarrow> arduino_error \<times> uni_controller option \<times> bp32" where
  "arduino_get_controller_data k w =
     (if seat_invalid k w then (UNI_ARDUINO_ERROR_INVALID_DEVICE, None, w)
      else
        let s = controllers w ! nat k
        in if seat_data_updated s
           then (UNI_ARDUINO_ERROR_SUCCESS, Some (seat_data s),
                 upd_seat (nat k) (\<lambda>s. s\<lparr> seat_data_updated := False \<rparr>) w)
           else (UNI_ARDUINO_ERROR_NO_DATA, None, w))"

definition arduino_get_gamepad_data :: "int \<Rightarrow> bp32 \<Rightarrow> arduino_error \<times> uni_gamepad option \<times> bp32" where
  "arduino_get_gamepad_data k w =
     (if seat_invalid k w then (UNI_ARDUINO_ERROR_INVALID_DEVICE, None, w)
      else
        let s = controllers w ! nat k
        in if seat_data_updated s
           then (UNI_ARDUINO_ERROR_SUCCESS, Some (gamepad (seat_data s)),
                 upd_seat (nat k) (\<lambda>s. s\<lparr> seat_data_updated := False \<rparr>) w)
           else (UNI_ARDUINO_ERROR_NO_DATA, None, w))"

definition arduino_get_controller_properties ::
  "int \<Rightarrow> bp32 \<Rightarrow> arduino_error \<times> arduino_controller_properties option" where
  "arduino_get_controller_properties k w =
     (if seat_invalid k w then (UNI_ARDUINO_ERROR_INVALID_DEVICE, None)
      else (UNI_ARDUINO_ERROR_SUCCESS, Some (seat_properties (controllers w ! nat k))))"

text \<open>\<^verbatim>\<open>xQueueSendToBack\<close> with no waiting time: a full queue drops the request.\<close>

definition xQueueSendToBack :: "pending_request \<Rightarrow> bp32 \<Rightarrow> bp32" where
  "xQueueSendToBack r w =
     (if length (pending_queue w) < MAX_PENDING_REQUESTS
      then w\<lparr> pending_queue := pending_queue w @ [r] \<rparr> else w)"

definition queue_request :: "int \<Rightarrow> pending_request_cmd \<Rightarrow> bp32 \<Rightarrow> arduino_error \<times> bp32" where
  "queue_request k c w =
     (if seat_invalid k w then (UNI_ARDUINO_ERROR_INVALID_DEVICE, w)
      else (UNI_ARDUINO_ERROR_SUCCESS,
            xQueueSendToBack \<lparr> req_controller_idx = nat k, req_cmd = c \<rparr> w))"

definition arduino_set_player_leds :: "int \<Rightarrow> u8 \<Rightarrow> bp32 \<Rightarrow> arduino_error \<times> bp32" where
  "arduino_set_player_leds k l w = queue_request k (CMD_PLAYER_LEDS l) w"

definition arduino_set_lightbar_color :: "int \<Rightarrow> u8 \<Rightarrow> u8 \<Rightarrow> u8 \<Rightarrow> bp32 \<Rightarrow> arduino_error \<times> bp32" where
  "arduino_set_lightbar_color k r g b w = queue_request k (CMD_LIGHTBAR_COLOR r g b) w"

definition arduino_play_dual_rumble ::
  "int \<Rightarrow> u16 \<Rightarrow> u16 \<Rightarrow> u8 \<Rightarrow> u8 \<Rightarrow> bp32 \<Rightarrow> arduino_error \<times> bp32" where
  "arduino_play_dual_rumble k ds du wk st w = queue_request k (CMD_RUMBLE ds du wk st) w"

definition arduino_disconnect_controller :: "int \<Rightarrow> bp32 \<Rightarrow> arduino_error \<times> bp32" where
  "arduino_disconnect_controller k w = queue_request k CMD_DISCONNECT w"

end
