(* ===== verification/Hid_Lifecycle.thy ===== *)
theory Hid_Lifecycle
  imports Arduino_Platform
begin

text \<open>
  The life cycle of a Bluetooth device: the part of \<^verbatim>\<open>src/components/bluepad32/uni_hid_device.c\<close> that calls the
  platform, which in this firmware is the Arduino platform (\<^verbatim>\<open>app_main\<close> installs it).  \<^verbatim>\<open>None\<close> is a recursion
  over virtual children that never ends; it needs a cycle of children.  The optional BLE service that mirrors the table to a phone
  (\<^verbatim>\<open>uni_bt_service.c\<close>) is disabled by default and not part of the model.
\<close>

definition uni_hid_device_on_connected :: "nat option \<Rightarrow> bool \<Rightarrow> bp32 \<Rightarrow> bp32" where
  "uni_hid_device_on_connected d b w =
     (case d of None \<Rightarrow> w
      | Some i \<Rightarrow> if b then arduino_on_device_connected i w else arduino_on_device_disconnected i w)"

definition uni_hid_device_connect :: "nat option \<Rightarrow> bp32 \<Rightarrow> bp32" where
  "uni_hid_device_connect d w =
     (case d of None \<Rightarrow> w
      | Some i \<Rightarrow> uni_hid_device_on_connected (Some i) True (upd_conn i (uni_bt_conn_set_connected True) w))"

definition uni_bt_bredr_disconnect :: "nat \<Rightarrow> bp32 \<Rightarrow> bp32" where
  "uni_bt_bredr_disconnect i w =
     (let c = conn (dev w i) in
      if gap_get_connection_type w (handle c) \<noteq> GAP_CONNECTION_INVALID
      then upd_conn i (\<lambda>c. c\<lparr> handle := UNI_BT_CONN_HANDLE_INVALID \<rparr>) (emit_hid (GapDisconnect (handle c)) w)
      else
        let w1 = (if control_cid c \<noteq> 0
                  then upd_conn i (\<lambda>c. c\<lparr> control_cid := 0 \<rparr>) (emit_hid (L2capDisconnect (control_cid c)) w) else w)
        in if interrupt_cid c \<noteq> 0
           then upd_conn i (\<lambda>c. c\<lparr> interrupt_cid := 0 \<rparr>) (emit_hid (L2capDisconnect (interrupt_cid c)) w1) else w1)"

text \<open>Restarting the scan at the end of \<^verbatim>\<open>hog_disconnect\<close> only concerns the discovery of new devices.\<close>

definition hog_disconnect :: "u16 \<Rightarrow> bp32 \<Rightarrow> bp32" where
  "hog_disconnect con_handle w =
     (let w1 = (case uni_hid_device_get_instance_for_connection_handle con_handle w of
                  None \<Rightarrow> w
                | Some j \<Rightarrow> emit_hid (HidsClientDisconnect (hids_cid (dev w j))) w)
      in if gap_get_connection_type w1 con_handle \<noteq> GAP_CONNECTION_INVALID
         then emit_hid (GapDisconnect con_handle) w1 else w1)"

definition uni_bt_le_disconnect :: "nat \<Rightarrow> bp32 \<Rightarrow> bp32" where
  "uni_bt_le_disconnect i w = hog_disconnect (handle (conn (dev w i))) w"

text \<open>\<^verbatim>\<open>uni_hid_device_disconnect\<close> of one device, after its child.\<close>

definition close_link :: "nat \<Rightarrow> bp32 \<Rightarrow> bp32" where
  "close_link i w =
     (if uni_hid_device_is_virtual_device (dev w i) then w
      else case gap_get_connection_type w (handle (conn (dev w i))) of
          GAP_CONNECTION_LE \<Rightarrow> uni_bt_le_disconnect i w
        | GAP_CONNECTION_ACL \<Rightarrow> uni_bt_bredr_disconnect i w
        | _ \<Rightarrow> w)"

definition disconnect_one :: "nat \<Rightarrow> bp32 \<Rightarrow> bp32" where
  "disconnect_one i w =
     (let was_connected = connected (conn (dev w i));
          w1 = close_link i w;
          w2 = upd_conn i uni_bt_conn_disconnect w1;
          w3 = upd_dev i (\<lambda>d. d\<lparr> connection_timer := False, inquiry_remote_name_timer := False \<rparr>) w2
      in if was_connected then uni_hid_device_on_connected (Some i) False w3 else w3)"

fun disconnect_rec :: "nat \<Rightarrow> nat \<Rightarrow> bp32 \<Rightarrow> bp32 option" where
  "disconnect_rec 0 i w = None"
| "disconnect_rec (Suc n) i w =
     (case child (dev w i) of
        None \<Rightarrow> Some (disconnect_one i w)
      | Some c \<Rightarrow> map_option (disconnect_one i) (disconnect_rec n c w))"

definition uni_hid_device_disconnect :: "nat option \<Rightarrow> bp32 \<Rightarrow> bp32 option" where
  "uni_hid_device_disconnect d w =
     (case d of None \<Rightarrow> Some w | Some i \<Rightarrow> disconnect_rec (Suc (length (g_devices w))) i w)"

definition delete_one :: "nat \<Rightarrow> bp32 \<Rightarrow> bp32" where
  "delete_one i w = upd_dev i (\<lambda>_. uni_hid_device_init) w"

fun delete_rec :: "nat \<Rightarrow> nat \<Rightarrow> bp32 \<Rightarrow> bp32 option" where
  "delete_rec 0 i w = None"
| "delete_rec (Suc n) i w =
     (case child (dev w i) of
        None \<Rightarrow> Some (delete_one i w)
      | Some c \<Rightarrow> map_option (delete_one i) (delete_rec n c w))"

definition uni_hid_device_delete :: "nat option \<Rightarrow> bp32 \<Rightarrow> bp32 option" where
  "uni_hid_device_delete d w =
     (case d of None \<Rightarrow> Some w | Some i \<Rightarrow> delete_rec (Suc (length (g_devices w))) i w)"

text \<open>The pair of calls every caller makes to get rid of a device.\<close>

definition remove_device :: "nat \<Rightarrow> bp32 \<Rightarrow> bp32 option" where
  "remove_device i w = Option.bind (uni_hid_device_disconnect (Some i) w) (uni_hid_device_delete (Some i))"

definition uni_hid_device_set_ready_complete :: "nat option \<Rightarrow> bp32 \<Rightarrow> (bool \<times> bp32) option" where
  "uni_hid_device_set_ready_complete d w =
     (case d of None \<Rightarrow> Some (False, w)
      | Some i \<Rightarrow>
          if uni_bt_conn_get_state (conn (dev w i)) = UNI_BT_CONN_STATE_DEVICE_READY then Some (False, w)
          else
            let w1 = upd_dev i (\<lambda>d. d\<lparr> connection_timer := False \<rparr>) w;
                (e, w2) = arduino_on_device_ready i w1
            in if e \<noteq> UNI_ERROR_SUCCESS then map_option (\<lambda>w3. (False, w3)) (remove_device i w2)
               else Some (True, upd_conn i (uni_bt_conn_set_state UNI_BT_CONN_STATE_DEVICE_READY) w2))"

text \<open>\<^verbatim>\<open>setup\<close> is what the parsers' \<^verbatim>\<open>setup\<close> functions do.\<close>

definition uni_hid_device_set_ready ::
  "(parser_name \<Rightarrow> nat \<Rightarrow> bp32 \<Rightarrow> bp32 option) \<Rightarrow> nat option \<Rightarrow> bp32 \<Rightarrow> bp32 option" where
  "uni_hid_device_set_ready setup d w =
     (case d of None \<Rightarrow> Some w
      | Some i \<Rightarrow>
          if uni_bt_conn_get_state (conn (dev w i)) = UNI_BT_CONN_STATE_DEVICE_PENDING_READY then Some w
          else
            let w1 = upd_conn i (uni_bt_conn_set_state UNI_BT_CONN_STATE_DEVICE_PENDING_READY) w
            in case rp_setup (report_parser (dev w1 i)) of
                 Some p \<Rightarrow> setup p i w1
               | None \<Rightarrow> map_option snd (uni_hid_device_set_ready_complete (Some i) w1))"

definition uni_hid_device_process_controller :: "nat \<Rightarrow> bp32 \<Rightarrow> bp32" where
  "uni_hid_device_process_controller i w =
     (if uni_bt_conn_get_state (conn (dev w i)) \<noteq> UNI_BT_CONN_STATE_DEVICE_READY then w
      else
        let w1 = (if klass (controller (dev w i)) = UNI_CONTROLLER_CLASS_GAMEPAD
                  then upd_dev i (\<lambda>d. d\<lparr> controller := (controller d)\<lparr>
                         gamepad := uni_gamepad_remap (mappings w) (gamepad (controller d)) \<rparr> \<rparr>) w
                  else w);
            w2 = arduino_on_controller_data i (controller (dev w1 i)) w1
        in process_misc_button_home i (process_misc_button_system i w2))"

definition device_connection_timeout :: "nat \<Rightarrow> bp32 \<Rightarrow> bp32 option" where
  "device_connection_timeout i w =
     (if conn_state (conn (dev w i)) = UNI_BT_CONN_STATE_DEVICE_READY then Some w else remove_device i w)"

section \<open>The machine\<close>

text \<open>
  The events of the Bluetooth task and the calls of the application, in any order.  \<^verbatim>\<open>EvLink\<close> is the
  connection code moving a device along its states, \<^verbatim>\<open>EvData\<close> a report whose parser left the controller
  \<^verbatim>\<open>c\<close>, \<^verbatim>\<open>EvRemove\<close> the pair disconnect and delete.
\<close>

datatype hid_event =
    EvCreate bytes
  | EvLink nat uni_bt_conn_state
  | EvConnect nat
  | EvSetupDone nat
  | EvData nat uni_controller
  | EvRemove nat
  | EvTimeout nat
  | EvRequest int pending_request_cmd
  | EvPoll int

fun hid_step :: "hid_event \<Rightarrow> bp32 \<Rightarrow> bp32 option" where
  "hid_step (EvCreate a) w = Some (snd (uni_hid_device_create a w))"
| "hid_step (EvLink i s) w = Some (upd_conn i (uni_bt_conn_set_state s) w)"
| "hid_step (EvConnect i) w = Some (uni_hid_device_connect (Some i) w)"
| "hid_step (EvSetupDone i) w = map_option snd (uni_hid_device_set_ready_complete (Some i) w)"
| "hid_step (EvData i c) w =
     Some (uni_hid_device_process_controller i (upd_dev i (\<lambda>d. d\<lparr> controller := c \<rparr>) w))"
| "hid_step (EvRemove i) w = remove_device i w"
| "hid_step (EvTimeout i) w = device_connection_timeout i w"
| "hid_step (EvRequest k c) w = Some (snd (queue_request k c w))"
| "hid_step (EvPoll k) w = Some (snd (snd (arduino_get_controller_data k w)))"

text \<open>The state after \<^verbatim>\<open>uni_hid_device_setup\<close> and \<^verbatim>\<open>arduino_init\<close>, for \<^verbatim>\<open>n\<close> devices.\<close>

definition bp32_boot :: "nat \<Rightarrow> (u16 \<Rightarrow> gap_connection_type) \<Rightarrow> bp32" where
  "bp32_boot n gap = arduino_init (uni_hid_device_setup
     \<lparr> g_devices = replicate n uni_hid_device_zero, virtual_device_enabled = False,
       gap_get_connection_type = gap, mappings = gamepad_mappings_boot,
       controllers = replicate n free_seat, used_controllers = 0, pending_queue = [], hid_out = [] \<rparr>)"

text \<open>
  What the callers guarantee: they name existing devices, only a set-up that completes makes a device
  ready, and a device is reported connected once: it has an address and is not connected yet.
\<close>

fun allowed :: "hid_event \<Rightarrow> bp32 \<Rightarrow> bool" where
  "allowed (EvLink i s) w \<longleftrightarrow> i < length (g_devices w) \<and> s \<noteq> UNI_BT_CONN_STATE_DEVICE_READY"
| "allowed (EvConnect i) w \<longleftrightarrow> i < length (g_devices w) \<and> btaddr (conn (dev w i)) \<noteq> zero_addr \<and>
     \<not> connected (conn (dev w i))"
| "allowed (EvSetupDone i) w \<longleftrightarrow> i < length (g_devices w)"
| "allowed (EvData i c) w \<longleftrightarrow> i < length (g_devices w)"
| "allowed (EvRemove i) w \<longleftrightarrow> i < length (g_devices w)"
| "allowed (EvTimeout i) w \<longleftrightarrow> i < length (g_devices w)"
| "allowed e w \<longleftrightarrow> True"

inductive bp32_reach :: "nat \<Rightarrow> bp32 \<Rightarrow> bool" for n where
  boot: "bp32_reach n (bp32_boot n gap)"
| step: "bp32_reach n w \<Longrightarrow> allowed e w \<Longrightarrow> hid_step e w = Some w' \<Longrightarrow> bp32_reach n w'"

end
