(* ===== verification/Seats.thy ===== *)
theory Seats
  imports Hid_Lifecycle
begin

text \<open>
  The seat invariant of the device life cycle, by rule induction over the reachable states: the platform's
  counter, its occupied seats and the connected devices agree after every sequence of events.
\<close>

section \<open>The invariant\<close>

definition holders :: "bp32 \<Rightarrow> nat set" where
  "holders w = {i. i < length (g_devices w) \<and> connected (conn (dev w i)) \<and> idx_of w i \<noteq> -1}"

definition taken :: "bp32 \<Rightarrow> nat set" where
  "taken w = {k. k < length (controllers w) \<and> seat_idx (controllers w ! k) \<noteq> -1}"

text \<open>The part of a device the invariant reads.\<close>

definition dev_view ::
  "uni_hid_device \<Rightarrow> bool \<times> int \<times> bool \<times> bool \<times> nat option \<times> nat option" where
  "dev_view d = (connected (conn d), controller_idx (platform_data d),
     conn_state (conn d) = UNI_BT_CONN_STATE_DEVICE_READY, btaddr (conn d) = zero_addr, child d, parent d)"

definition device_ok :: "uni_hid_device \<Rightarrow> bool" where
  "device_ok d \<longleftrightarrow> child d = None \<and> parent d = None \<and>
     (connected (conn d) \<longrightarrow> btaddr (conn d) \<noteq> zero_addr) \<and>
     (\<not> connected (conn d) \<longrightarrow> controller_idx (platform_data d) \<noteq> -1) \<and>
     (conn_state (conn d) = UNI_BT_CONN_STATE_DEVICE_READY \<longrightarrow>
        connected (conn d) \<and> controller_idx (platform_data d) \<noteq> -1)"

definition seats_ok :: "bp32 \<Rightarrow> bool" where
  "seats_ok w \<longleftrightarrow> length (controllers w) = length (g_devices w) \<and> \<not> virtual_device_enabled w \<and>
     list_all device_ok (g_devices w) \<and>
     (\<forall>k < length (controllers w). seat_idx (controllers w ! k) \<in> {-1, int k}) \<and>
     used_controllers w = int (card (taken w)) \<and>
     bij_betw (idx_of w) (holders w) (int ` taken w)"

lemma device_ok_view: "dev_view d = dev_view d' \<Longrightarrow> device_ok d = device_ok d'"
  by (auto simp: dev_view_def device_ok_def)

lemma seats_okD:
  assumes "seats_ok w"
  shows "length (controllers w) = length (g_devices w)" "\<not> virtual_device_enabled w"
    "\<And>i. i < length (g_devices w) \<Longrightarrow> device_ok (dev w i)"
    "\<And>k. k < length (controllers w) \<Longrightarrow> seat_idx (controllers w ! k) \<in> {-1, int k}"
    "used_controllers w = int (card (taken w))"
    "bij_betw (idx_of w) (holders w) (int ` taken w)"
  using assms by (auto simp: seats_ok_def list_all_length dev_def)

text \<open>Changes outside what the invariant reads.\<close>

lemma seats_ok_cong:
  assumes "seats_ok w" "length (g_devices w') = length (g_devices w)"
    "\<And>i. i < length (g_devices w) \<Longrightarrow> dev_view (dev w' i) = dev_view (dev w i)"
    "map seat_idx (controllers w') = map seat_idx (controllers w)"
    "used_controllers w' = used_controllers w" "virtual_device_enabled w' = virtual_device_enabled w"
  shows "seats_ok w'"
proof -
  have len: "length (controllers w') = length (controllers w)" using map_eq_imp_length_eq [OF assms(4)] .
  have s: "seat_idx (controllers w' ! k) = seat_idx (controllers w ! k)" if "k < length (controllers w)" for k
    using arg_cong [OF assms(4), of "\<lambda>xs. xs ! k"] that len by simp
  have t: "taken w' = taken w" using s len by (auto simp: taken_def)
  have v: "connected (conn (dev w' i)) = connected (conn (dev w i))" "idx_of w' i = idx_of w i"
    if "i < length (g_devices w)" for i
    using assms(3) [OF that] by (simp_all add: dev_view_def)
  have h: "holders w' = holders w" using v assms(2) by (auto simp: holders_def)
  have "bij_betw (idx_of w') (holders w) (int ` taken w) = bij_betw (idx_of w) (holders w) (int ` taken w)"
    by (rule bij_betw_cong) (auto simp: holders_def v)
  moreover have "device_ok (dev w' i)" if "i < length (g_devices w)" for i
    using device_ok_view [OF assms(3) [OF that]] seats_okD(3) [OF assms(1) that] by simp
  ultimately show ?thesis
    using assms(1,2,5,6) s t h len by (auto simp: seats_ok_def list_all_length dev_def)
qed

lemma bij_drop:
  assumes "bij_betw f A B" "a \<in> A" "\<And>x. x \<in> A - {a} \<Longrightarrow> g x = f x"
  shows "bij_betw g (A - {a}) (B - {f a})"
proof -
  have "bij_betw f (A - {a}) (B - {f a})"
    using assms(1,2) by (auto simp: bij_betw_def inj_on_def)
  moreover have "bij_betw g (A - {a}) (B - {f a}) = bij_betw f (A - {a}) (B - {f a})"
    by (rule bij_betw_cong) (rule assms(3))
  ultimately show ?thesis by simp
qed

lemma bij_add:
  assumes "bij_betw f A B" "a \<notin> A" "b \<notin> B" "\<And>x. x \<in> A \<Longrightarrow> g x = f x" "g a = b"
  shows "bij_betw g (insert a A) (insert b B)"
proof -
  have "bij_betw g A B = bij_betw f A B" by (rule bij_betw_cong) (rule assms(4))
  with assms(1) have "inj_on g A" "g ` A = B" by (simp_all add: bij_betw_def)
  with assms(2,3,5) show ?thesis unfolding bij_betw_def by (simp add: inj_on_insert)
qed

lemma finite_taken [simp, intro]: "finite (taken w)"
  by (simp add: taken_def)

lemma seats_ok_boot: "seats_ok (bp32_boot n gap)"
proof -
  have "holders (bp32_boot n gap) = {}" "taken (bp32_boot n gap) = {}"
    by (auto simp: holders_def taken_def bp32_boot_def arduino_init_def uni_hid_device_setup_def dev_def
        uni_hid_device_init_def uni_bt_conn_init_def uni_bt_conn_zero_def free_seat_def
        UNI_ARDUINO_GAMEPAD_INVALID_def)
  then show ?thesis
    by (simp add: seats_ok_def) (simp add: bp32_boot_def arduino_init_def uni_hid_device_setup_def
        uni_hid_device_init_def uni_bt_conn_init_def uni_bt_conn_zero_def free_seat_def device_ok_def
        UNI_ARDUINO_GAMEPAD_INVALID_def list_all_length uni_hid_device_zero_def bij_betw_def)
qed

section \<open>Steps that do not touch the seats\<close>

lemma seats_ok_upd_dev:
  assumes "seats_ok w" "i < length (g_devices w)" "dev_view (f (dev w i)) = dev_view (dev w i)"
  shows "seats_ok (upd_dev i f w)"
proof (rule seats_ok_cong [OF assms(1)])
  fix j
  show "dev_view (dev (upd_dev i f w) j) = dev_view (dev w j)"
    using assms(2,3) by (cases "j = i") simp_all
qed simp_all

lemma seats_ok_emit [simp]: "seats_ok (emit_hid e w) = seats_ok w"
proof -
  have "seats_ok (emit_hid e w)" if "seats_ok w"
    by (rule seats_ok_cong [OF that]) simp_all
  moreover have "seats_ok w" if "seats_ok (emit_hid e w)"
    by (rule seats_ok_cong [OF that]) simp_all
  ultimately show ?thesis by blast
qed

lemma seats_ok_queue [simp]: "seats_ok (w\<lparr> pending_queue := q \<rparr>) = seats_ok w"
  by (simp add: seats_ok_def holders_def taken_def dev_def)

text \<open>\<open>same_table w w'\<close>: the same devices and seats; only the queue of requests and the effects differ.\<close>

definition same_table :: "bp32 \<Rightarrow> bp32 \<Rightarrow> bool" where
  "same_table w w' \<longleftrightarrow> g_devices w' = g_devices w \<and> controllers w' = controllers w \<and>
     used_controllers w' = used_controllers w \<and> virtual_device_enabled w' = virtual_device_enabled w"

lemma same_table_refl [simp, intro]: "same_table w w"
  by (simp add: same_table_def)

lemma same_table_trans: "same_table a b \<Longrightarrow> same_table b c \<Longrightarrow> same_table a c"
  by (simp add: same_table_def)

lemma same_table_emit: "same_table w (emit_hid e w)"
  by (simp add: same_table_def)

lemma same_table_execute: "same_table w (execute_request c i w)"
  by (auto simp: execute_request_def Let_def same_table_def split: pending_request_cmd.splits option.splits)

lemma same_table_process: "same_table w (process_requests rs w)"
proof (induction rs arbitrary: w)
  case (Cons r rs)
  show ?case
  proof (cases "uni_hid_device_get_instance_with_predicate
      (predicate_arduino_index (int (req_controller_idx r))) w")
    case (Some i)
    then show ?thesis
      using Cons [of "execute_request (req_cmd r) i w"] same_table_execute same_table_trans by simp blast
  qed (simp add: same_table_def)
qed (simp add: same_table_def)

lemma same_table_seats: "same_table w w' \<Longrightarrow> seats_ok w \<Longrightarrow> seats_ok w'"
  by (erule seats_ok_cong) (simp_all add: same_table_def dev_def)

lemma length_upd_seat [simp]: "length (controllers (upd_seat k f w)) = length (controllers w)"
  by (simp add: upd_seat_def)

lemma upd_seat_frame [simp]:
  "g_devices (upd_seat k f w) = g_devices w" "dev (upd_seat k f w) j = dev w j"
  "used_controllers (upd_seat k f w) = used_controllers w"
  "virtual_device_enabled (upd_seat k f w) = virtual_device_enabled w"
  "pending_queue (upd_seat k f w) = pending_queue w" "hid_out (upd_seat k f w) = hid_out w"
  by (simp_all add: upd_seat_def dev_def)

lemma seats_ok_upd_seat:
  assumes "seats_ok w" "\<And>s. seat_idx (f s) = seat_idx s"
  shows "seats_ok (upd_seat k f w)"
proof -
  have "map seat_idx ((controllers w)[k := f (controllers w ! k)]) = map seat_idx (controllers w)"
    using assms(2) by (cases "k < length (controllers w)") (simp_all add: map_update list_update_same_conv list_update_beyond not_less)
  then show ?thesis by (intro seats_ok_cong [OF assms(1)]) (simp_all add: upd_seat_def dev_def)
qed

section \<open>Creating, connecting and removing a device\<close>

text \<open>A device may change as long as it keeps its seat, or still has none.\<close>

lemma seats_ok_change:
  assumes w: "seats_ok w" and i: "i < length (g_devices w)"
    and d: "device_ok (f (dev w i))"
      "(connected (conn (f (dev w i))) \<and> controller_idx (platform_data (f (dev w i))) \<noteq> -1) = (i \<in> holders w)"
      "i \<in> holders w \<Longrightarrow> controller_idx (platform_data (f (dev w i))) = idx_of w i"
  shows "seats_ok (upd_dev i f w)"
proof -
  let ?w = "upd_dev i f w"
  have h: "holders ?w = holders w"
    using i d(2) by (auto simp: holders_def dev_upd_dev)
  have "bij_betw (idx_of ?w) (holders w) (int ` taken w) = bij_betw (idx_of w) (holders w) (int ` taken w)"
    using i d(3) by (intro bij_betw_cong) (auto simp: dev_upd_dev)
  moreover have "device_ok (dev ?w j)" if "j < length (g_devices w)" for j
    using seats_okD(3) [OF w that] d(1) i by (simp add: dev_upd_dev)
  moreover have "taken ?w = taken w" by (simp add: taken_def)
  ultimately show ?thesis
    using w h by (auto simp: seats_ok_def list_all_length dev_def)
qed

lemma seats_ok_nonholder:
  assumes "seats_ok w" "i < length (g_devices w)" "i \<notin> holders w" "device_ok (f (dev w i))"
      "\<not> connected (conn (f (dev w i))) \<or> controller_idx (platform_data (f (dev w i))) = -1"
  shows "seats_ok (upd_dev i f w)"
  using assms by (intro seats_ok_change) auto

lemma init_device_ok: "device_ok uni_hid_device_init" "\<not> connected (conn uni_hid_device_init)"
  by (simp_all add: device_ok_def uni_hid_device_init_def uni_hid_device_zero_def uni_bt_conn_init_def
      uni_bt_conn_zero_def)

lemma seats_ok_create:
  assumes "seats_ok w"
  shows "seats_ok (snd (uni_hid_device_create a w))"
proof (cases "find_dev (\<lambda>d. btaddr (conn d) = zero_addr) w")
  case None
  then show ?thesis using assms by (simp add: uni_hid_device_create_def)
next
  case (Some i)
  let ?f = "\<lambda>d. uni_hid_device_zero\<lparr> conn := uni_bt_conn_zero\<lparr> btaddr := a \<rparr> \<rparr>"
  have i: "i < length (g_devices w)" "btaddr (conn (dev w i)) = zero_addr"
    using find_dev_Some [OF Some] by simp_all
  then have "i \<notin> holders w" using seats_okD(3) [OF assms i(1)] by (auto simp: holders_def device_ok_def)
  then have "seats_ok (upd_dev i ?f w)"
    using assms i(1) by (intro seats_ok_nonholder)
      (simp_all add: device_ok_def uni_hid_device_zero_def uni_bt_conn_zero_def)
  then show ?thesis using Some i(1)
    by (simp add: uni_hid_device_create_def start_connection_timeout_def seats_ok_upd_dev dev_view_def)
qed

lemma seats_ok_connect:
  assumes "seats_ok w" "allowed (EvConnect i) w"
  shows "seats_ok (uni_hid_device_connect (Some i) w)"
proof -
  define f where "f d = d\<lparr> conn := (conn d)\<lparr> connected := True \<rparr>, platform_data := \<lparr> controller_idx = -1 \<rparr> \<rparr>"
    for d :: uni_hid_device
  have i: "i < length (g_devices w)" "\<not> connected (conn (dev w i))" using assms(2) by simp_all
  have ok: "device_ok (dev w i)" by (rule seats_okD(3) [OF assms(1) i(1)])
  have "uni_hid_device_connect (Some i) w = upd_dev i f w"
    using i by (simp add: uni_hid_device_connect_def uni_hid_device_on_connected_def upd_conn_def
        arduino_on_device_connected_def set_controller_idx_def upd_dev_def dev_def f_def
        uni_bt_conn_set_connected_def UNI_ARDUINO_GAMEPAD_INVALID_def)
  moreover have "seats_ok (upd_dev i f w)"
    using assms i ok by (intro seats_ok_nonholder) (auto simp: device_ok_def f_def holders_def)
  ultimately show ?thesis by simp
qed

lemma disconnect_childless:
  "child (dev w i) = None \<Longrightarrow> uni_hid_device_disconnect (Some i) w = Some (disconnect_one i w)"
  by (simp add: uni_hid_device_disconnect_def)

text \<open>Closing the link changes nothing the invariant reads, and only its own device.\<close>

definition link_change :: "nat \<Rightarrow> bp32 \<Rightarrow> bp32 \<Rightarrow> bool" where
  "link_change i w w' \<longleftrightarrow> length (g_devices w') = length (g_devices w) \<and>
     (\<forall>j. j \<noteq> i \<longrightarrow> dev w' j = dev w j) \<and> dev_view (dev w' i) = dev_view (dev w i) \<and>
     controllers w' = controllers w \<and> used_controllers w' = used_controllers w \<and>
     virtual_device_enabled w' = virtual_device_enabled w"

lemma link_change_trans: "link_change i a b \<Longrightarrow> link_change i b c \<Longrightarrow> link_change i a c"
  by (simp add: link_change_def)

lemma link_change_same: "same_table w w' \<Longrightarrow> link_change i w w'"
  by (simp add: link_change_def same_table_def dev_def)

lemmas link_change_refl [simp, intro] = link_change_same [OF same_table_refl]
lemmas link_change_emit = link_change_same [OF same_table_emit]

lemma link_change_upd:
  "i < length (g_devices w) \<Longrightarrow> dev_view (f (dev w i)) = dev_view (dev w i) \<Longrightarrow> link_change i w (upd_dev i f w)"
  by (simp add: link_change_def)

lemma link_change_emit_conn:
  assumes "i < length (g_devices w)"
    "\<And>c. connected (f c) = connected c \<and> conn_state (f c) = conn_state c \<and> btaddr (f c) = btaddr c"
  shows "link_change i w (upd_conn i f (emit_hid e w))"
  using assms link_change_trans [OF link_change_emit link_change_upd]
  by (simp add: upd_conn_def dev_view_def)

lemma length_link_change: "link_change i w w' \<Longrightarrow> length (g_devices w') = length (g_devices w)"
  by (simp add: link_change_def)

lemma link_change_bredr:
  assumes i: "i < length (g_devices w)"
  shows "link_change i w (uni_bt_bredr_disconnect i w)"
proof (cases "gap_get_connection_type w (handle (conn (dev w i))) = GAP_CONNECTION_INVALID")
  case False
  then show ?thesis
    using i by (simp add: uni_bt_bredr_disconnect_def Let_def link_change_emit_conn)
next
  case True
  let ?c = "conn (dev w i)"
  define w1 where "w1 = (if control_cid ?c \<noteq> 0
    then upd_conn i (\<lambda>c. c\<lparr> control_cid := 0 \<rparr>) (emit_hid (L2capDisconnect (control_cid ?c)) w) else w)"
  have 1: "link_change i w w1" using i by (simp add: w1_def link_change_emit_conn)
  then have "link_change i w1 (upd_conn i (\<lambda>c. c\<lparr> interrupt_cid := 0 \<rparr>)
      (emit_hid (L2capDisconnect (interrupt_cid ?c)) w1))"
    using i by (intro link_change_emit_conn) (simp_all add: length_link_change)
  with 1 True show ?thesis
    by (auto simp: uni_bt_bredr_disconnect_def Let_def w1_def [symmetric] intro: link_change_trans)
qed

lemma link_change_close:
  assumes "i < length (g_devices w)"
  shows "link_change i w (close_link i w)"
proof -
  have le: "same_table w (uni_bt_le_disconnect i w)"
    by (auto simp: uni_bt_le_disconnect_def hog_disconnect_def Let_def same_table_def split: option.splits)
  then show ?thesis
    using link_change_same [OF le] link_change_bredr [OF assms]
    by (auto simp: close_link_def split: gap_connection_type.splits)
qed

text \<open>What removing a device does to the tables.\<close>

lemma remove_effect:
  assumes w: "seats_ok w" and i: "i < length (g_devices w)"
  shows "\<exists>w'. remove_device i w = Some w' \<and>
    g_devices w' = (g_devices w)[i := uni_hid_device_init] \<and>
    virtual_device_enabled w' = virtual_device_enabled w \<and>
    (if i \<in> holders w
     then controllers w' = (controllers w)[nat (idx_of w i) := free_seat] \<and>
       used_controllers w' = used_controllers w - 1
     else controllers w' = controllers w \<and> used_controllers w' = used_controllers w)"
proof -
  define w1 where "w1 = close_link i w"
  define w3 where "w3 = upd_dev i (\<lambda>d. d\<lparr> connection_timer := False, inquiry_remote_name_timer := False \<rparr>)
    (upd_conn i uni_bt_conn_disconnect w1)"
  define w4 where "w4 = disconnect_one i w"
  have c: "child (dev w i) = None" using seats_okD(3) [OF w i] by (simp add: device_ok_def)
  have lc: "link_change i w w1" unfolding w1_def by (rule link_change_close [OF i])
  then have i1: "i < length (g_devices w1)" using i by (simp add: length_link_change)
  have d3: "dev w3 i = (dev w1 i)\<lparr> conn := uni_bt_conn_disconnect (conn (dev w1 i)),
      connection_timer := False, inquiry_remote_name_timer := False \<rparr>"
    using i1 by (simp add: w3_def upd_conn_def)
  have w4: "w4 = (if connected (conn (dev w i)) then arduino_on_device_disconnected i w3 else w3)"
    by (simp add: w4_def disconnect_one_def Let_def w3_def w1_def uni_hid_device_on_connected_def)
  have f3: "length (g_devices w3) = length (g_devices w)" "\<And>j. j \<noteq> i \<Longrightarrow> dev w3 j = dev w j"
    "controllers w3 = controllers w" "used_controllers w3 = used_controllers w"
    "virtual_device_enabled w3 = virtual_device_enabled w" "idx_of w3 i = idx_of w i" "child (dev w3 i) = None"
    using lc i1 c d3 by (simp_all add: w3_def upd_conn_def link_change_def dev_view_def)
  have range: "0 \<le> idx_of w i \<and> idx_of w i < int (length (controllers w))" if "i \<in> holders w"
    using bij_betwE [OF seats_okD(6) [OF w]] that by (auto simp: taken_def)
  have w4': "if i \<in> holders w
      then w4 = set_controller_idx i (-1) (upd_seat (nat (idx_of w i)) (\<lambda>_. free_seat)
             (w3\<lparr> used_controllers := used_controllers w - 1 \<rparr>))
      else w4 = w3"
    using range f3 i seats_okD(3) [OF w i]
    by (auto simp: w4 arduino_on_device_disconnected_def Let_def holders_def UNI_ARDUINO_GAMEPAD_INVALID_def
        dev_def)
  have l4: "length (g_devices w4) = length (g_devices w)" "child (dev w4 i) = None"
    using w4' f3 i by (auto simp: set_controller_idx_def dev_def upd_dev_def upd_seat_def split: if_splits)
  have "remove_device i w = Some (delete_one i w4)"
    using disconnect_childless [OF c] l4
    by (simp add: remove_device_def uni_hid_device_delete_def w4_def)
  moreover have "g_devices (delete_one i w4) = (g_devices w)[i := uni_hid_device_init]"
    using w4' f3 i by (intro nth_equalityI) (auto simp: delete_one_def l4 nth_list_update upd_dev_def
        set_controller_idx_def dev_def upd_seat_def split: if_splits)
  ultimately show ?thesis
    using w4' f3 by (intro exI [of _ "delete_one i w4"])
      (auto simp: delete_one_def set_controller_idx_def upd_seat_def split: if_splits)
qed

lemma seats_ok_remove:
  assumes w: "seats_ok w" and i: "i < length (g_devices w)"
  shows "\<exists>w'. remove_device i w = Some w' \<and> seats_ok w'"
proof -
  obtain w' where r: "remove_device i w = Some w'"
    and g: "g_devices w' = (g_devices w)[i := uni_hid_device_init]"
    and v: "virtual_device_enabled w' = virtual_device_enabled w"
    and s: "if i \<in> holders w
      then controllers w' = (controllers w)[nat (idx_of w i) := free_seat] \<and> used_controllers w' = used_controllers w - 1
      else controllers w' = controllers w \<and> used_controllers w' = used_controllers w"
    using remove_effect [OF w i] by blast
  have dj: "dev w' j = (if j = i then uni_hid_device_init else dev w j)" for j
    using g i by (simp add: dev_def nth_list_update)
  have ok: "list_all device_ok (g_devices w')"
    using seats_okD(3) [OF w] init_device_ok(1) i by (auto simp: g list_all_length nth_list_update dev_def)
  show ?thesis
  proof (cases "i \<in> holders w")
    case False
    have "seats_ok (upd_dev i (\<lambda>_. uni_hid_device_init) w)"
      using w i False init_device_ok by (intro seats_ok_nonholder) simp_all
    then have "seats_ok w'"
      by (rule seats_ok_cong) (use False s g v in \<open>simp_all add: upd_dev_def dev_def\<close>)
    with r show ?thesis by blast
  next
    case True
    define k where "k = nat (idx_of w i)"
    have "idx_of w i \<in> int ` taken w" using bij_betwE [OF seats_okD(6) [OF w]] True by blast
    then have k: "idx_of w i = int k" "k \<in> taken w" by (auto simp: k_def)
    have t: "taken w' = taken w - {k}"
      using s True k by (auto simp: taken_def k_def [symmetric] free_seat_def UNI_ARDUINO_GAMEPAD_INVALID_def
          nth_list_update split: if_splits)
    have h: "holders w' = holders w - {i}"
      using g dj init_device_ok(2) by (auto simp: holders_def)
    have "bij_betw (idx_of w') (holders w - {i}) (int ` taken w - {idx_of w i})"
      by (rule bij_drop [OF seats_okD(6) [OF w] True]) (simp add: dj)
    moreover have "int ` taken w - {int k} = int ` taken w'" by (auto simp: t)
    moreover have "used_controllers w' = int (card (taken w'))"
      using s True seats_okD(5) [OF w] k(2) card_gt_0_iff [of "taken w"]
      by (auto simp: t card_Diff_singleton of_nat_diff)
    moreover have "length (controllers w') = length (g_devices w')"
      using s True g seats_okD(1) [OF w] by simp
    moreover have "seat_idx (controllers w' ! j) \<in> {-1, int j}" if "j < length (controllers w')" for j
    proof -
      have c: "controllers w' = (controllers w)[k := free_seat]" using s True by (simp add: k_def)
      show ?thesis using that seats_okD(4) [OF w, of j]
        by (cases "j = k") (simp_all add: c free_seat_def UNI_ARDUINO_GAMEPAD_INVALID_def)
    qed
    ultimately show ?thesis
      using r ok v seats_okD(2) [OF w] k(1) h by (auto simp: seats_ok_def)
  qed
qed

section \<open>Taking a seat\<close>

lemma first_free_seat_Some:
  assumes "seats_ok w" "used_controllers w \<noteq> int (length (controllers w))"
  shows "\<exists>k. first_free_seat w = Some k \<and> k < length (controllers w) \<and> k \<notin> taken w \<and> (\<forall>j<k. j \<in> taken w)"
proof -
  have "taken w \<noteq> {0..<length (controllers w)}" using assms(2) seats_okD(5) [OF assms(1)] by auto
  moreover have "taken w \<subseteq> {0..<length (controllers w)}" by (auto simp: taken_def)
  ultimately obtain j where j: "j < length (controllers w)" "j \<notin> taken w" by force
  then have "first_free_seat w \<noteq> None"
    by (auto simp: first_free_seat_def find_None_iff taken_def UNI_ARDUINO_GAMEPAD_INVALID_def)
  then obtain k where "first_free_seat w = Some k" by blast
  then show ?thesis
    by (fastforce simp: first_free_seat_def find_Some_iff taken_def UNI_ARDUINO_GAMEPAD_INVALID_def)
qed

lemma first_free_seat_upd [simp]: "first_free_seat (upd_dev i f w) = first_free_seat w"
  by (simp add: first_free_seat_def)

text \<open>A connected device without a seat takes a free one and becomes ready.\<close>

lemma seats_ok_take:
  assumes w: "seats_ok w" and i: "i < length (g_devices w)" "idx_of w i = -1"
    and room: "used_controllers w \<noteq> int (length (controllers w))"
    and f: "\<And>d. f d = d\<lparr> conn := uni_bt_conn_set_state UNI_BT_CONN_STATE_DEVICE_READY (conn d) \<rparr>"
  shows "seats_ok (upd_dev i f (take_seat i w))"
proof -
  obtain k where k: "first_free_seat w = Some k" "k < length (controllers w)" "k \<notin> taken w"
    using first_free_seat_Some [OF w room] by blast
  let ?w = "upd_dev i f (take_seat i w)"
  have dw: "device_ok (dev w i)" by (rule seats_okD(3) [OF w i(1)])
  have conn: "connected (conn (dev w i))" using dw i(2) by (auto simp: device_ok_def)
  have g: "g_devices ?w = (g_devices w)[i := f ((dev w i)\<lparr> platform_data := \<lparr> controller_idx = int k \<rparr> \<rparr>)]"
    using i k by (simp add: take_seat_def Let_def set_controller_idx_def upd_dev_def upd_seat_def dev_def)
  have dj: "dev ?w j = (if j = i then f ((dev w i)\<lparr> platform_data := \<lparr> controller_idx = int k \<rparr> \<rparr>) else dev w j)" for j
    unfolding dev_def g using i by (simp add: dev_def)
  have c: "controllers ?w = (controllers w)[k := (controllers w ! k)\<lparr> seat_idx := int k,
      seat_properties := seat_properties_of (dev w i) \<rparr>]"
    using k by (simp add: take_seat_def Let_def set_controller_idx_def upd_seat_def)
  have u: "used_controllers ?w = used_controllers w + 1" "virtual_device_enabled ?w = virtual_device_enabled w"
    using k by (simp_all add: take_seat_def Let_def set_controller_idx_def)
  have t: "taken ?w = insert k (taken w)" using k c by (auto simp: taken_def nth_list_update)
  have h: "holders ?w = insert i (holders w)"
    using i conn dj by (auto simp: holders_def g f uni_bt_conn_set_state_def)
  have ih: "i \<notin> holders w" using i by (simp add: holders_def)
  have ii: "idx_of ?w i = int k" by (simp add: dj f)
  have "bij_betw (idx_of ?w) (insert i (holders w)) (insert (int k) (int ` taken w))"
    by (rule bij_add [OF seats_okD(6) [OF w] ih, where g = "idx_of ?w" and b = "int k"])
      (use k ih dj ii in auto)
  moreover have "list_all device_ok (g_devices ?w)"
    using seats_okD(3) [OF w] dw conn i unfolding g list_all_length
    by (auto simp: nth_list_update f device_ok_def uni_bt_conn_set_state_def dev_def)
  moreover have "seat_idx (controllers ?w ! j) \<in> {-1, int j}" if "j < length (controllers ?w)" for j
    using that seats_okD(4) [OF w, of j] unfolding c by (cases "j = k") simp_all
  ultimately show ?thesis
    using t h u c g k seats_okD(1,2,5) [OF w] unfolding seats_ok_def by simp
qed

lemma seats_ok_ready:
  assumes w: "seats_ok w" and i: "i < length (g_devices w)"
  shows "\<exists>b w'. uni_hid_device_set_ready_complete (Some i) w = Some (b, w') \<and> seats_ok w'"
proof (cases "conn_state (conn (dev w i)) = UNI_BT_CONN_STATE_DEVICE_READY")
  case True
  with w show ?thesis by (auto simp: uni_hid_device_set_ready_complete_def uni_bt_conn_get_state_def)
next
  case False
  define w1 where "w1 = upd_dev i (\<lambda>d. d\<lparr> connection_timer := False \<rparr>) w"
  have w1: "seats_ok w1" "i < length (g_devices w1)"
    using w i by (simp_all add: w1_def seats_ok_upd_dev dev_view_def)
  show ?thesis
  proof (cases "used_controllers w1 = int (length (controllers w1)) \<or> idx_of w1 i \<noteq> -1")
    case True
    then have "\<exists>e. arduino_on_device_ready i w1 = (e, w1) \<and> e \<noteq> UNI_ERROR_SUCCESS"
      by (auto simp: arduino_on_device_ready_def UNI_ARDUINO_GAMEPAD_INVALID_def)
    with False seats_ok_remove [OF w1] show ?thesis
      by (auto simp: uni_hid_device_set_ready_complete_def uni_bt_conn_get_state_def w1_def [symmetric] Let_def)
  next
    case room: False
    let ?f = "\<lambda>d. d\<lparr> conn := uni_bt_conn_set_state UNI_BT_CONN_STATE_DEVICE_READY (conn d) \<rparr>"
    have s: "seats_ok (upd_dev i ?f (take_seat i w1))"
      using seats_ok_take [OF w1, of ?f] room by simp
    have "seats_ok (upd_dev i ?f (emit_hid e (take_seat i w1)))" for e
      by (rule same_table_seats [OF _ s]) (simp add: same_table_def upd_dev_def dev_def)
    with False room s show ?thesis
      by (auto simp: uni_hid_device_set_ready_complete_def uni_bt_conn_get_state_def w1_def [symmetric] Let_def
          arduino_on_device_ready_def UNI_ARDUINO_GAMEPAD_INVALID_def upd_conn_def split: option.splits)
  qed
qed

section \<open>Data, requests and the whole machine\<close>

lemma seats_ok_data:
  assumes w: "seats_ok w" and i: "i < length (g_devices w)"
  shows "seats_ok (uni_hid_device_process_controller i w)"
proof (cases "conn_state (conn (dev w i)) = UNI_BT_CONN_STATE_DEVICE_READY")
  case False
  with w show ?thesis by (simp add: uni_hid_device_process_controller_def uni_bt_conn_get_state_def)
next
  case True
  have misc: "seats_ok (process_misc_button_home i (process_misc_button_system i v))"
    if v: "seats_ok v" "i < length (g_devices v)" for v
  proof -
    have 1: "seats_ok (process_misc_button_system i v) \<and> length (g_devices (process_misc_button_system i v)) = length (g_devices v)"
      using v by (auto simp: process_misc_button_system_def Let_def dev_view_def intro!: seats_ok_upd_dev)
    with v show ?thesis
      by (auto simp: process_misc_button_home_def Let_def dev_view_def intro!: seats_ok_upd_dev)
  qed
  have data: "seats_ok (arduino_on_controller_data i c v)" "length (g_devices (arduino_on_controller_data i c v)) = length (g_devices v)"
    if v: "seats_ok v" for v c
    using same_table_process [of v "pending_queue v"] same_table_seats [of v] v
    by (auto simp: arduino_on_controller_data_def process_pending_requests_def Let_def same_table_def
        intro!: seats_ok_upd_seat)
  define w1 where "w1 = (if klass (controller (dev w i)) = UNI_CONTROLLER_CLASS_GAMEPAD
    then upd_dev i (\<lambda>d. d\<lparr> controller := (controller d)\<lparr>
           gamepad := uni_gamepad_remap (mappings w) (gamepad (controller d)) \<rparr> \<rparr>) w else w)"
  have "seats_ok w1" "length (g_devices w1) = length (g_devices w)"
    using w i by (auto simp: w1_def dev_view_def intro!: seats_ok_upd_dev)
  with True i show ?thesis
    by (simp add: uni_hid_device_process_controller_def uni_bt_conn_get_state_def Let_def w1_def [symmetric] misc data)
qed

lemma seats_ok_step:
  assumes w: "seats_ok w" and e: "allowed e w"
  shows "\<exists>w'. hid_step e w = Some w' \<and> seats_ok w'"
proof (cases e)
  case (EvLink i s)
  with e have i: "i < length (g_devices w)" "s \<noteq> UNI_BT_CONN_STATE_DEVICE_READY" by simp_all
  have "seats_ok (upd_conn i (uni_bt_conn_set_state s) w)"
    unfolding upd_conn_def using w i seats_okD(3) [OF w i(1)]
    by (intro seats_ok_change) (auto simp: device_ok_def holders_def uni_bt_conn_set_state_def)
  with EvLink show ?thesis by simp
next
  case (EvSetupDone i)
  with seats_ok_ready [OF w, of i] e show ?thesis by auto
next
  case (EvData i c)
  have "seats_ok (upd_dev i (\<lambda>d. d\<lparr> controller := c \<rparr>) w)"
    using w e EvData by (intro seats_ok_upd_dev) (simp_all add: dev_view_def)
  with EvData e seats_ok_data [of "upd_dev i (\<lambda>d. d\<lparr> controller := c \<rparr>) w" i] show ?thesis by simp
next
  case (EvTimeout i)
  with seats_ok_remove [OF w, of i] e w show ?thesis by (auto simp: device_connection_timeout_def)
next
  case (EvRequest k c)
  with w show ?thesis by (simp add: queue_request_def xQueueSendToBack_def)
next
  case (EvPoll k)
  with w show ?thesis by (simp add: arduino_get_controller_data_def Let_def seats_ok_upd_seat)
qed (use w e seats_ok_create seats_ok_connect seats_ok_remove in auto)

lemma bp32_reach_seats: "bp32_reach n w \<Longrightarrow> seats_ok w"
proof (induction rule: bp32_reach.induct)
  case (boot gap)
  show ?case by (rule seats_ok_boot)
next
  case (step w e w')
  with seats_ok_step [OF step.IH step.hyps(2)] show ?case by auto
qed

lemma length_boot: "length (g_devices (bp32_boot n gap)) = n"
  by (simp add: bp32_boot_def arduino_init_def uni_hid_device_setup_def)

lemma holders_card:
  assumes "seats_ok w"
  shows "used_controllers w = int (card (holders w))"
  using seats_okD(5) [OF assms] bij_betw_same_card [OF seats_okD(6) [OF assms]]
  by (simp add: card_image)

lemma image_ex1: "inj_on f A \<Longrightarrow> b \<in> f ` A \<longleftrightarrow> (\<exists>!i. i \<in> A \<and> f i = b)"
  by (auto dest: inj_onD)

lemma seat_owner:
  assumes "seats_ok w" "k < length (controllers w)"
  shows "seat_idx (controllers w ! k) \<noteq> -1 \<longleftrightarrow> (\<exists>!i. i \<in> holders w \<and> idx_of w i = int k)"
proof -
  have b: "bij_betw (idx_of w) (holders w) (int ` taken w)" by (rule seats_okD(6) [OF assms(1)])
  have "seat_idx (controllers w ! k) \<noteq> -1 \<longleftrightarrow> int k \<in> idx_of w ` holders w"
    using b assms(2) by (auto simp: bij_betw_def taken_def)
  also have "\<dots> \<longleftrightarrow> (\<exists>!i. i \<in> holders w \<and> idx_of w i = int k)"
    using bij_betw_imp_inj_on [OF b] by (rule image_ex1)
  finally show ?thesis .
qed

lemma ready_device_seat:
  assumes "seats_ok w" "i < length (g_devices w)"
    "conn_state (conn (dev w i)) = UNI_BT_CONN_STATE_DEVICE_READY"
  shows "i \<in> holders w" "\<exists>k. idx_of w i = int k \<and> k \<in> taken w \<and> k < length (controllers w)"
proof -
  show h: "i \<in> holders w" using seats_okD(3) [OF assms(1,2)] assms(2,3) by (simp add: device_ok_def holders_def)
  show "\<exists>k. idx_of w i = int k \<and> k \<in> taken w \<and> k < length (controllers w)"
    using bij_betwE [OF seats_okD(6) [OF assms(1)]] h by (fastforce simp: taken_def)
qed

lemma misc_buttons_frame:
  "controllers (process_misc_button_home i (process_misc_button_system i v)) = controllers v"
  by (simp add: process_misc_button_home_def process_misc_button_system_def Let_def)

lemma controllers_after_data:
  assumes "seats_ok w" "i < length (g_devices w)"
    "conn_state (conn (dev w i)) = UNI_BT_CONN_STATE_DEVICE_READY" "hid_step (EvData i c) w = Some w1"
    "idx_of w i = int k" "k < length (controllers w)"
  shows "controllers w1 = (controllers w)[k := (controllers w ! k)\<lparr> seat_data :=
      (if klass c = UNI_CONTROLLER_CLASS_GAMEPAD
       then c\<lparr> gamepad := uni_gamepad_remap (mappings w) (gamepad c) \<rparr> else c), seat_data_updated := True \<rparr>]"
proof -
  let ?c = "if klass c = UNI_CONTROLLER_CLASS_GAMEPAD
    then c\<lparr> gamepad := uni_gamepad_remap (mappings w) (gamepad c) \<rparr> else c"
  define w0 where "w0 = upd_dev i (\<lambda>d. d\<lparr> controller := c \<rparr>) w"
  define w' where "w' = (if klass (controller (dev w0 i)) = UNI_CONTROLLER_CLASS_GAMEPAD
    then upd_dev i (\<lambda>d. d\<lparr> controller := (controller d)\<lparr>
           gamepad := uni_gamepad_remap (mappings w0) (gamepad (controller d)) \<rparr> \<rparr>) w0 else w0)"
  have w': "controller (dev w' i) = ?c" "idx_of w' i = int k" "controllers w' = controllers w"
    using assms by (simp_all add: w'_def w0_def)
  have p: "same_table w' (process_pending_requests w')"
    unfolding process_pending_requests_def by (rule same_table_process)
  then have "idx_of (process_pending_requests w') i = int k" "controllers (process_pending_requests w') = controllers w"
    using w' by (simp_all add: same_table_def dev_def)
  then have "controllers (arduino_on_controller_data i ?c w') = (controllers w)[k := (controllers w ! k)\<lparr> seat_data := ?c, seat_data_updated := True \<rparr>]"
    using assms(6) by (simp add: arduino_on_controller_data_def Let_def upd_seat_def)
  moreover have "w1 = process_misc_button_home i (process_misc_button_system i (arduino_on_controller_data i ?c w'))"
  proof -
    have "w1 = uni_hid_device_process_controller i w0" using assms(4) by (simp add: w0_def)
    moreover have "conn_state (conn (dev w0 i)) = UNI_BT_CONN_STATE_DEVICE_READY"
      using assms(2,3) by (simp add: w0_def)
    then have "uni_hid_device_process_controller i w0 =
        process_misc_button_home i (process_misc_button_system i (arduino_on_controller_data i (controller (dev w' i)) w'))"
      unfolding uni_hid_device_process_controller_def w'_def Let_def by (simp add: uni_bt_conn_get_state_def)
    ultimately show ?thesis by (simp only: w'(1))
  qed
  ultimately show ?thesis using misc_buttons_frame by simp
qed

fun hid_run :: "hid_event list \<Rightarrow> bp32 \<Rightarrow> bp32 option" where
  "hid_run [] w = Some w"
| "hid_run (e # es) w = Option.bind (hid_step e w) (hid_run es)"

section \<open>Properties\<close>

text \<open>C14: Seats are never leaked, shared or lost.  In every state reached by any interleaving of Bluetooth
  events and application calls (a device being reported connected only once), the counter of used seats is
  the number of connected devices that were given one, and a seat is occupied exactly when one single
  connected device holds it.\<close>

theorem seats_agree:
  assumes "bp32_reach n w"
  shows "used_controllers w = int (card {i. i < length (g_devices w) \<and> connected (conn (dev w i)) \<and> idx_of w i \<noteq> -1}) \<and>
    (\<forall>k < length (controllers w). (seat_idx (controllers w ! k) \<noteq> -1) =
      (\<exists>!i. (i < length (g_devices w) \<and> connected (conn (dev w i)) \<and> idx_of w i \<noteq> -1) \<and> idx_of w i = int k))"
  using holders_card [OF bp32_reach_seats [OF assms]] seat_owner [OF bp32_reach_seats [OF assms]]
  by (simp add: holders_def)

theorem seats_agree_witness:
  "bp32_reach 2 (bp32_boot 2 (\<lambda>_. GAP_CONNECTION_INVALID)) \<and>
   used_controllers (bp32_boot 2 (\<lambda>_. GAP_CONNECTION_INVALID)) =
     int (card {i. i < length (g_devices (bp32_boot 2 (\<lambda>_. GAP_CONNECTION_INVALID))) \<and>
       connected (conn (dev (bp32_boot 2 (\<lambda>_. GAP_CONNECTION_INVALID)) i)) \<and>
       idx_of (bp32_boot 2 (\<lambda>_. GAP_CONNECTION_INVALID)) i \<noteq> -1})"
  using seats_agree [OF bp32_reach.boot [of 2 "\<lambda>_. GAP_CONNECTION_INVALID"]] bp32_reach.boot by blast

text \<open>What the completed set-up of a device without a seat does, when a seat is free.\<close>

lemma ready_effect:
  assumes "i < length (g_devices w)" "idx_of w i = -1" "conn_state (conn (dev w i)) \<noteq> UNI_BT_CONN_STATE_DEVICE_READY"
    and "used_controllers w \<noteq> int (length (controllers w))" "first_free_seat w = Some k" "k < length (controllers w)"
  shows "\<exists>w'. uni_hid_device_set_ready_complete (Some i) w = Some (True, w') \<and>
    idx_of w' i = int k \<and> conn_state (conn (dev w' i)) = UNI_BT_CONN_STATE_DEVICE_READY \<and>
    controllers w' = (controllers w)[k := (controllers w ! k)\<lparr> seat_idx := int k,
      seat_properties := seat_properties_of (dev w i) \<rparr>] \<and>
    used_controllers w' = used_controllers w + 1 \<and> (\<forall>j. j \<noteq> i \<longrightarrow> dev w' j = dev w j)"
proof -
  have p: "seat_properties_of ((dev w i)\<lparr> connection_timer := False \<rparr>) = seat_properties_of (dev w i)"
    by (simp add: seat_properties_of_def)
  have d: "dev (v\<lparr> used_controllers := u \<rparr>) j = dev v j" "dev (v\<lparr> controllers := c \<rparr>) j = dev v j" for v u c j
    by (simp_all add: dev_def)
  show ?thesis
    using assms p
    by (auto simp: d uni_hid_device_set_ready_complete_def uni_bt_conn_get_state_def arduino_on_device_ready_def
        UNI_ARDUINO_GAMEPAD_INVALID_def take_seat_def set_controller_idx_def upd_conn_def uni_bt_conn_set_state_def
        upd_seat_def Let_def split: option.splits)
qed

text \<open>C34: A connected controller is never turned away.  There are as many seats as devices, so in every reachable
  state, when the set-up of a connected device without a seat completes, the device becomes ready in a seat of its own:
  the first free one, which from then on carries the device's number and properties and is held by no other connected
  device; the counter goes up by one, and every other seat and device is as before.  So the seat of a device
  that left is always usable again.\<close>

theorem seat_granted:
  assumes "bp32_reach n w" "i < length (g_devices w)" "connected (conn (dev w i))" "idx_of w i = -1"
  shows "\<exists>w' k. uni_hid_device_set_ready_complete (Some i) w = Some (True, w') \<and>
    k < length (controllers w) \<and> seat_idx (controllers w ! k) = -1 \<and> (\<forall>j<k. seat_idx (controllers w ! j) \<noteq> -1) \<and>
    conn_state (conn (dev w' i)) = UNI_BT_CONN_STATE_DEVICE_READY \<and> idx_of w' i = int k \<and>
    controllers w' = (controllers w)[k := (controllers w ! k)\<lparr> seat_idx := int k,
      seat_properties := seat_properties_of (dev w i) \<rparr>] \<and>
    used_controllers w' = used_controllers w + 1 \<and>
    (\<forall>j < length (g_devices w). j \<noteq> i \<longrightarrow> dev w' j = dev w j \<and>
      (connected (conn (dev w' j)) \<longrightarrow> idx_of w' j \<noteq> int k))"
proof -
  have s: "seats_ok w" by (rule bp32_reach_seats [OF assms(1)])
  have nr: "conn_state (conn (dev w i)) \<noteq> UNI_BT_CONN_STATE_DEVICE_READY"
    using seats_okD(3) [OF s assms(2)] assms(4) by (auto simp: device_ok_def)
  have "holders w \<subseteq> {0..<length (g_devices w)} - {i}" using assms(4) by (auto simp: holders_def)
  then have "card (holders w) < length (g_devices w)"
    using card_mono [of "{0..<length (g_devices w)} - {i}" "holders w"] assms(2) by simp
  then have room: "used_controllers w \<noteq> int (length (controllers w))"
    using holders_card [OF s] seats_okD(1) [OF s] by simp
  obtain k where k: "first_free_seat w = Some k" "k < length (controllers w)" "k \<notin> taken w" "\<forall>j<k. j \<in> taken w"
    using first_free_seat_Some [OF s room] by blast
  have "idx_of w j \<noteq> int k" if "j \<in> holders w" for j
    using bij_betwE [OF seats_okD(6) [OF s]] that k(3) by auto
  then have other: "connected (conn (dev w j)) \<longrightarrow> idx_of w j \<noteq> int k" if "j < length (g_devices w)" for j
    using that by (cases "j \<in> holders w") (auto simp: holders_def)
  obtain w' where "uni_hid_device_set_ready_complete (Some i) w = Some (True, w')"
    "idx_of w' i = int k" "conn_state (conn (dev w' i)) = UNI_BT_CONN_STATE_DEVICE_READY"
    "controllers w' = (controllers w)[k := (controllers w ! k)\<lparr> seat_idx := int k,
      seat_properties := seat_properties_of (dev w i) \<rparr>]"
    "used_controllers w' = used_controllers w + 1" "\<forall>j. j \<noteq> i \<longrightarrow> dev w' j = dev w j"
    using ready_effect [OF assms(2,4) nr room k(1,2)] by blast
  with k other show ?thesis by (intro exI [of _ w'] exI [of _ k]) (auto simp: taken_def)
qed

definition one_connected :: bp32 where
  "one_connected = the (hid_run [EvCreate [1, 2, 3, 4, 5, 6], EvConnect 0] (bp32_boot 1 (\<lambda>_. GAP_CONNECTION_INVALID)))"

lemma one_connected_facts:
  "length (g_devices one_connected) = 1" "connected (conn (dev one_connected 0))" "idx_of one_connected 0 = -1"
  by code_simp+

lemma one_connected_reach: "bp32_reach 1 one_connected"
proof -
  let ?w0 = "bp32_boot 1 (\<lambda>_. GAP_CONNECTION_INVALID)"
  let ?w1 = "the (hid_step (EvCreate [1, 2, 3, 4, 5, 6]) ?w0)"
  have 1: "bp32_reach 1 ?w1" by (rule bp32_reach.step [OF bp32_reach.boot, of "EvCreate [1, 2, 3, 4, 5, 6]"]) simp_all
  have a: "allowed (EvConnect 0) ?w1" by code_simp
  have 2: "hid_step (EvConnect 0) ?w1 = Some one_connected"
    unfolding one_connected_def by simp
  from bp32_reach.step [OF 1 a 2] show ?thesis .
qed

theorem seat_granted_witness:
  "bp32_reach 1 one_connected \<and>
   (\<exists>w'. uni_hid_device_set_ready_complete (Some 0) one_connected = Some (True, w') \<and>
     conn_state (conn (dev w' 0)) = UNI_BT_CONN_STATE_DEVICE_READY \<and> idx_of w' 0 = 0 \<and>
     seat_idx (Hid_Device.controllers w' ! 0) = 0)"
proof -
  have l: "length (Hid_Device.controllers one_connected) = 1"
    using one_connected_facts(1) seats_okD(1) [OF bp32_reach_seats [OF one_connected_reach]] by simp
  show ?thesis
    using seat_granted [OF one_connected_reach, of 0] one_connected_facts one_connected_reach l by auto
qed

text \<open>A device that is reported connected twice costs a seat for good.  The guard of the first property is
  needed: with one seat, a ready controller whose interrupt channel is opened a second time has its seat number
  overwritten; when it is removed its seat stays occupied by nobody, and the next controller is refused and
  deleted although no device is connected.\<close>

theorem double_connect_leaks_seat:
  "map_option (\<lambda>w. (used_controllers w, map (\<lambda>d. (connected (conn d), btaddr (conn d))) (g_devices w)))
     (hid_run [EvCreate [1, 2, 3, 4, 5, 6], EvConnect 0, EvSetupDone 0,
        EvLink 0 UNI_BT_CONN_STATE_L2CAP_INTERRUPT_CONNECTED, EvConnect 0, EvRemove 0,
        EvCreate [6, 5, 4, 3, 2, 1], EvConnect 0, EvSetupDone 0]
       (bp32_boot 1 (\<lambda>_. GAP_CONNECTION_INVALID))) =
   Some (1, [(False, zero_addr)])"
  by code_simp

text \<open>C36: The application sees the newest report of a controller exactly once.  In every reachable state,
  after a report of a ready device in which the parser left the controller \<^verbatim>\<open>c\<close>, polling its seat returns that
  report, with the button mapping applied to a gamepad, and polling again returns that there is no news.\<close>

theorem newest_report_once:
  assumes "bp32_reach n w" "i < length (g_devices w)"
    "conn_state (conn (dev w i)) = UNI_BT_CONN_STATE_DEVICE_READY" "hid_step (EvData i c) w = Some w1"
  shows "\<exists>w2. arduino_get_controller_data (idx_of w i) w1 = (UNI_ARDUINO_ERROR_SUCCESS,
      Some (if klass c = UNI_CONTROLLER_CLASS_GAMEPAD
            then c\<lparr> gamepad := uni_gamepad_remap (mappings w) (gamepad c) \<rparr> else c), w2) \<and>
    arduino_get_controller_data (idx_of w i) w2 = (UNI_ARDUINO_ERROR_NO_DATA, None, w2)"
proof -
  have s: "seats_ok w" by (rule bp32_reach_seats [OF assms(1)])
  obtain k where k: "idx_of w i = int k" "k \<in> taken w" "k < length (controllers w)"
    using ready_device_seat(2) [OF s assms(2,3)] by blast
  note c = controllers_after_data [OF s assms(2-4) k(1,3)]
  let ?w2 = "upd_seat k (\<lambda>s. s\<lparr> seat_data_updated := False \<rparr>) w1"
  have n: "seat_idx (controllers w ! k) \<noteq> -1" using k(2) by (simp add: taken_def)
  show ?thesis
    unfolding k(1) using n k(3)
    by (intro exI [of _ ?w2]) (simp add: arduino_get_controller_data_def seat_invalid_def Let_def c
        UNI_ARDUINO_GAMEPAD_INVALID_def upd_seat_def)
qed

text \<open>A reachable state with a ready gamepad, for the witness.\<close>

definition one_ready :: bp32 where
  "one_ready = the (hid_run [EvSetupDone 0] one_connected)"

lemma one_ready_facts:
  "length (g_devices one_ready) = 1" "conn_state (conn (dev one_ready 0)) = UNI_BT_CONN_STATE_DEVICE_READY"
  "idx_of one_ready 0 = 0"
  by code_simp+

lemma one_ready_reach: "bp32_reach 1 one_ready"
proof -
  have a: "allowed (EvSetupDone 0) one_connected" using one_connected_facts by simp
  obtain w' where w': "hid_step (EvSetupDone 0) one_connected = Some w'"
    using seats_ok_step [OF bp32_reach_seats [OF one_connected_reach] a] by blast
  then have "one_ready = w'" by (simp only: one_ready_def hid_run.simps bind.bind_lunit option.sel)
  with bp32_reach.step [OF one_connected_reach a w'] show ?thesis by simp
qed

theorem newest_report_once_witness:
  "\<exists>w1 w2. hid_step (EvData 0 uni_controller_zero) one_ready = Some w1 \<and>
    arduino_get_controller_data 0 w1 = (UNI_ARDUINO_ERROR_SUCCESS, Some uni_controller_zero, w2) \<and>
    arduino_get_controller_data 0 w2 = (UNI_ARDUINO_ERROR_NO_DATA, None, w2)"
  using newest_report_once [OF one_ready_reach, of 0 uni_controller_zero] one_ready_facts
  by (auto simp: uni_controller_zero_def)

end
