(* ===== verification/Bp32_Arduino.thy ===== *)
theory Bp32_Arduino
  imports Seats
begin

text \<open>
  The application's view of the controllers: \<^verbatim>\<open>src/components/bluepad32_arduino/ArduinoBluepad32.cpp\<close> and
  \<^verbatim>\<open>ArduinoController.cpp\<close>.  A \<^verbatim>\<open>ControllerPtr\<close> is an index into \<^verbatim>\<open>_controllers\<close>.  The set of connected
  controllers is the bit mask of the source.  The callbacks given to \<^verbatim>\<open>BP32.setup\<close> are arguments, functions on
  the application's own state.
\<close>

record Controller =
  c_connected :: bool
  c_idx :: int
  c_data :: uni_controller
  c_properties :: arduino_controller_properties
  c_hasData :: bool

definition Controller_zero :: Controller where
  "Controller_zero = \<lparr> c_connected = False, c_idx = -1, c_data = uni_controller_zero,
     c_properties = arduino_properties_zero, c_hasData = False \<rparr>"

record Bluepad32 =
  prevConnectedControllers :: u32
  bp_controllers :: "Controller list"

definition Bluepad32_zero :: "nat \<Rightarrow> Bluepad32" where
  "Bluepad32_zero n = \<lparr> prevConnectedControllers = 0, bp_controllers = replicate n Controller_zero \<rparr>"

section \<open>A controller\<close>

definition onConnected :: "bp32 \<Rightarrow> Controller \<Rightarrow> Controller" where
  "onConnected w c =
     (let c1 = c\<lparr> c_connected := True \<rparr>
      in case arduino_get_controller_properties (c_idx c) w of
           (e, None) \<Rightarrow> c1
         | (e, Some p) \<Rightarrow> c1\<lparr> c_properties := p \<rparr>)"

definition onDisconnected :: "Controller \<Rightarrow> Controller" where
  "onDisconnected c = c\<lparr> c_connected := False \<rparr>"

definition isConnected :: "Controller \<Rightarrow> bool" where
  "isConnected c = c_connected c"

definition ctl_dpad :: "Controller \<Rightarrow> u8" where "ctl_dpad c = dpad (gamepad (c_data c))"

definition axisX :: "Controller \<Rightarrow> int" where "axisX c = axis_x (gamepad (c_data c))"

definition axisY :: "Controller \<Rightarrow> int" where "axisY c = axis_y (gamepad (c_data c))"

definition axisRX :: "Controller \<Rightarrow> int" where "axisRX c = axis_rx (gamepad (c_data c))"

definition axisRY :: "Controller \<Rightarrow> int" where "axisRY c = axis_ry (gamepad (c_data c))"

definition ctl_buttons :: "Controller \<Rightarrow> u16" where
  "ctl_buttons c =
     (if klass (c_data c) = UNI_CONTROLLER_CLASS_GAMEPAD then buttons (gamepad (c_data c))
      else if klass (c_data c) = UNI_CONTROLLER_CLASS_MOUSE then ms_buttons (mouse (c_data c))
      else 0)"

definition ctl_miscButtons :: "Controller \<Rightarrow> u16" where
  "ctl_miscButtons c =
     (if klass (c_data c) = UNI_CONTROLLER_CLASS_GAMEPAD then to_u16 (misc_buttons (gamepad (c_data c)))
      else if klass (c_data c) = UNI_CONTROLLER_CLASS_MOUSE then to_u16 (ms_misc_buttons (mouse (c_data c)))
      else 0)"

definition ctl_a :: "Controller \<Rightarrow> bool" where "ctl_a c = nonzero (ctl_buttons c AND BUTTON_A)"

definition ctl_b :: "Controller \<Rightarrow> bool" where "ctl_b c = nonzero (ctl_buttons c AND BUTTON_B)"

definition ctl_x :: "Controller \<Rightarrow> bool" where "ctl_x c = nonzero (ctl_buttons c AND BUTTON_X)"

definition ctl_y :: "Controller \<Rightarrow> bool" where "ctl_y c = nonzero (ctl_buttons c AND BUTTON_Y)"

definition ctl_l1 :: "Controller \<Rightarrow> bool" where "ctl_l1 c = nonzero (ctl_buttons c AND BUTTON_SHOULDER_L)"

definition ctl_r1 :: "Controller \<Rightarrow> bool" where "ctl_r1 c = nonzero (ctl_buttons c AND BUTTON_SHOULDER_R)"

definition thumbL :: "Controller \<Rightarrow> bool" where "thumbL c = nonzero (ctl_buttons c AND BUTTON_THUMB_L)"

definition thumbR :: "Controller \<Rightarrow> bool" where "thumbR c = nonzero (ctl_buttons c AND BUTTON_THUMB_R)"

definition miscStart :: "Controller \<Rightarrow> bool" where
  "miscStart c = nonzero (ctl_miscButtons c AND to_u16 MISC_BUTTON_START)"

definition miscSelect :: "Controller \<Rightarrow> bool" where
  "miscSelect c = nonzero (ctl_miscButtons c AND to_u16 MISC_BUTTON_SELECT)"

section \<open>Polling all controllers\<close>

text \<open>One round of the first loop of \<^verbatim>\<open>update\<close>: data seen, the mask, the controllers, the platform.\<close>

definition poll_one ::
  "nat \<Rightarrow> bool \<times> u32 \<times> Controller list \<times> bp32 \<Rightarrow> bool \<times> u32 \<times> Controller list \<times> bp32" where
  "poll_one i = (\<lambda>(data_updated, cmask, cs, w).
     case arduino_get_controller_data (int i) w of
       (status, out, w1) \<Rightarrow>
         (let cs1 = (case out of None \<Rightarrow> cs | Some d \<Rightarrow> cs[i := (cs ! i)\<lparr> c_data := d \<rparr>])
          in if status = UNI_ARDUINO_ERROR_INVALID_DEVICE then (data_updated, cmask, cs1, w1)
             else (data_updated \<or> status = UNI_ARDUINO_ERROR_SUCCESS, cmask OR push_bit i 1,
                   cs1[i := (cs1 ! i)\<lparr> c_hasData := (status = UNI_ARDUINO_ERROR_SUCCESS), c_idx := int i \<rparr>], w1)))"

text \<open>One round of the second loop: the change of one controller, with the application's callback.\<close>

definition change_one ::
  "(nat \<Rightarrow> 'm \<Rightarrow> 'm) \<Rightarrow> (nat \<Rightarrow> 'm \<Rightarrow> 'm) \<Rightarrow> bp32 \<Rightarrow> u32 \<Rightarrow> u32 \<Rightarrow> nat \<Rightarrow>
   Controller list \<times> 'm \<Rightarrow> Controller list \<times> 'm" where
  "change_one onConnect onDisconnect w cmask prev i = (\<lambda>(cs, m).
     if bit cmask i = bit prev i then (cs, m)
     else if bit cmask i then (cs[i := onConnected w (cs ! i)], onConnect i m)
     else (cs[i := onDisconnected (cs ! i)], onDisconnect i m))"

definition bp32_update ::
  "(nat \<Rightarrow> 'm \<Rightarrow> 'm) \<Rightarrow> (nat \<Rightarrow> 'm \<Rightarrow> 'm) \<Rightarrow> Bluepad32 \<times> 'm \<times> bp32 \<Rightarrow> bool \<times> Bluepad32 \<times> 'm \<times> bp32" where
  "bp32_update onConnect onDisconnect = (\<lambda>(b, m, w).
     let n = length (bp_controllers b);
         (data_updated, cmask, cs, w1) = fold poll_one [0..<n] (False, 0, bp_controllers b, w)
     in if cmask = prevConnectedControllers b
        then (data_updated, b\<lparr> bp_controllers := cs \<rparr>, m, w1)
        else
          let (cs', m') = fold (change_one onConnect onDisconnect w1 cmask (prevConnectedControllers b)) [0..<n] (cs, m)
          in (data_updated, \<lparr> prevConnectedControllers = cmask, bp_controllers = cs' \<rparr>, m', w1))"

text \<open>Requests of the application: nothing happens on a controller that is not connected.\<close>

definition setPlayerLEDs :: "u8 \<Rightarrow> Controller \<Rightarrow> bp32 \<Rightarrow> bp32" where
  "setPlayerLEDs l c w = (if \<not> isConnected c then w else snd (arduino_set_player_leds (c_idx c) l w))"

definition setColorLED :: "u8 \<Rightarrow> u8 \<Rightarrow> u8 \<Rightarrow> Controller \<Rightarrow> bp32 \<Rightarrow> bp32" where
  "setColorLED r g b c w = (if \<not> isConnected c then w else snd (arduino_set_lightbar_color (c_idx c) r g b w))"

definition playDualRumble :: "u16 \<Rightarrow> u16 \<Rightarrow> u8 \<Rightarrow> u8 \<Rightarrow> Controller \<Rightarrow> bp32 \<Rightarrow> bp32" where
  "playDualRumble ds du wk st c w =
     (if \<not> isConnected c then w else snd (arduino_play_dual_rumble (c_idx c) ds du wk st w))"

definition ctl_disconnect :: "Controller \<Rightarrow> bp32 \<Rightarrow> bp32" where
  "ctl_disconnect c w = (if \<not> isConnected c then w else snd (arduino_disconnect_controller (c_idx c) w))"

section \<open>The mask after a poll\<close>

definition seat_live :: "bp32 \<Rightarrow> nat \<Rightarrow> bool" where
  "seat_live w i \<longleftrightarrow> \<not> seat_invalid (int i) w"

lemma get_data_frame:
  assumes "arduino_get_controller_data k w = (st, out, w1)"
  shows "length (controllers w1) = length (controllers w)"
    "map seat_idx (controllers w1) = map seat_idx (controllers w)"
    "(st = UNI_ARDUINO_ERROR_INVALID_DEVICE) = seat_invalid k w"
    "st = UNI_ARDUINO_ERROR_INVALID_DEVICE \<Longrightarrow> out = None"
  using assms
  by (auto simp: arduino_get_controller_data_def Let_def upd_seat_def map_update list_update_beyond
      list_update_same_conv split: if_splits) (auto simp: seat_invalid_def map_update list_update_same_conv not_le)

end
