(* ===== verification/Gamepad.thy ===== *)
theory Gamepad
  imports Bp32_Arduino Control_Mapping Nrf24
begin

text \<open>
  The transmitter's gamepad: \<^verbatim>\<open>src/main/gamepad/gamepad_manager.cpp\<close> and \<^verbatim>\<open>button_edges.cpp\<close>.  The manager
  keeps the pointer to the controller it follows and the last control state.  \<^verbatim>\<open>THROTTLE_SOURCE\<close> is
  \<^verbatim>\<open>LeftStickHalf\<close>.  The manager reads the gamepad members of whatever controller is connected; the theorems
  hold for arbitrary values of them.
\<close>

record ControlState =
  rollRaw :: int
  pitchRaw :: int
  yawRaw :: int
  throttleRaw :: u16
  btnA :: bool
  btnB :: bool
  btnX :: bool
  btnY :: bool
  btnLB :: bool
  btnRB :: bool
  btnL3 :: bool
  btnR3 :: bool
  btnStart :: bool
  btnView :: bool
  btnDPadUp :: bool
  btnDPadDown :: bool
  btnDPadLeft :: bool
  btnDPadRight :: bool
  cs_connected :: bool
  lastUpdateUs :: time_us

definition ControlState_zero :: ControlState where
  "ControlState_zero = \<lparr> rollRaw = 0, pitchRaw = 0, yawRaw = 0, throttleRaw = 0, btnA = False, btnB = False,
     btnX = False, btnY = False, btnLB = False, btnRB = False, btnL3 = False, btnR3 = False, btnStart = False,
     btnView = False, btnDPadUp = False, btnDPadDown = False, btnDPadLeft = False, btnDPadRight = False,
     cs_connected = False, lastUpdateUs = 0 \<rparr>"

text \<open>The conversion of an \<^verbatim>\<open>int32_t\<close> to \<^verbatim>\<open>int16_t\<close>.\<close>

definition to_int16 :: "int \<Rightarrow> int" where
  "to_int16 v = sint (word_of_int v :: u16)"

record gamepad_manager =
  myController :: "nat option"
  gm_state :: ControlState

definition onConnectedController :: "nat \<Rightarrow> gamepad_manager \<Rightarrow> gamepad_manager" where
  "onConnectedController ctl m = (if myController m = None then m\<lparr> myController := Some ctl \<rparr> else m)"

definition onDisconnectedController :: "nat \<Rightarrow> gamepad_manager \<Rightarrow> gamepad_manager" where
  "onDisconnectedController ctl m = (if myController m = Some ctl then m\<lparr> myController := None \<rparr> else m)"

definition gamepad_init :: "gamepad_manager \<Rightarrow> bp32 \<Rightarrow> gamepad_manager \<times> bp32" where
  "gamepad_init m w = (m\<lparr> gm_state := ControlState_zero \<rparr>, w\<lparr> virtual_device_enabled := False \<rparr>)"

definition read_controller :: "Controller \<Rightarrow> time_us \<Rightarrow> ControlState" where
  "read_controller c now =
     \<lparr> rollRaw = to_int16 (axisRX c), pitchRaw = to_int16 (- axisRY c), yawRaw = to_int16 (axisX c),
       throttleRaw = map_half_stick_throttle (axisY c) STICK_DEADBAND,
       btnA = ctl_a c, btnB = ctl_b c, btnX = ctl_x c, btnY = ctl_y c, btnLB = ctl_l1 c, btnRB = ctl_r1 c,
       btnL3 = thumbL c, btnR3 = thumbR c, btnStart = miscStart c, btnView = miscSelect c,
       btnDPadUp = nonzero (ctl_dpad c AND 0x01), btnDPadDown = nonzero (ctl_dpad c AND 0x02),
       btnDPadLeft = nonzero (ctl_dpad c AND 0x08), btnDPadRight = nonzero (ctl_dpad c AND 0x04),
       cs_connected = True, lastUpdateUs = now \<rparr>"

definition gamepad_update ::
  "gamepad_manager \<times> Bluepad32 \<times> bp32 \<times> hw \<Rightarrow> gamepad_manager \<times> Bluepad32 \<times> bp32 \<times> hw" where
  "gamepad_update = (\<lambda>(m, b, w, h).
     let (dataUpdated, b1, m1, w1) = bp32_update onConnectedController onDisconnectedController (b, m, w)
     in case myController m1 of
          None \<Rightarrow> (m1\<lparr> gm_state := ControlState_zero \<rparr>, b1, w1, h)
        | Some i \<Rightarrow>
            if \<not> isConnected (bp_controllers b1 ! i) then (m1\<lparr> gm_state := ControlState_zero \<rparr>, b1, w1, h)
            else if dataUpdated
            then let (now, h1) = esp_timer_get_time h
                 in (m1\<lparr> gm_state := read_controller (bp_controllers b1 ! i) now \<rparr>, b1, w1, h1)
            else (m1, b1, w1, h))"

definition gamepad_get_state :: "gamepad_manager \<Rightarrow> ControlState" where
  "gamepad_get_state m = gm_state m"

definition gamepad_get_bayang_channel :: "int \<Rightarrow> bool \<Rightarrow> bool \<Rightarrow> f32 \<Rightarrow> f32 \<Rightarrow> u16" where
  "gamepad_get_bayang_channel raw_value is_throttle reversed deadband expo =
     map_bayang_channel raw_value is_throttle reversed deadband expo"

section \<open>Button edges\<close>

record ButtonEdgeState =
  be_start :: bool
  be_view :: bool
  be_b :: bool

record ButtonEdges =
  startClicked :: bool
  viewClicked :: bool
  bClicked :: bool

definition detect_button_edges ::
  "ButtonEdgeState \<Rightarrow> bool \<Rightarrow> bool \<Rightarrow> bool \<Rightarrow> ButtonEdges \<times> ButtonEdgeState" where
  "detect_button_edges previous start view b =
     (\<lparr> startClicked = start \<and> \<not> be_start previous, viewClicked = view \<and> \<not> be_view previous,
        bClicked = b \<and> \<not> be_b previous \<rparr>,
      \<lparr> be_start = start, be_view = view, be_b = b \<rparr>)"

section \<open>The manager follows the one controller\<close>

text \<open>
  The firmware is built for one device (\<^verbatim>\<open>CONFIG_BLUEPAD32_MAX_DEVICES=1\<close>).  The library's bookkeeping agrees
  with its mask and the manager's pointer with both.
\<close>

definition link_ok :: "gamepad_manager \<Rightarrow> Bluepad32 \<Rightarrow> bp32 \<Rightarrow> bool" where
  "link_ok m b w \<longleftrightarrow> length (controllers w) = 1 \<and> length (bp_controllers b) = 1 \<and>
     prevConnectedControllers b = flag (c_connected (bp_controllers b ! 0)) 1 \<and>
     myController m = (if c_connected (bp_controllers b ! 0) then Some 0 else None)"

definition seat_taken :: "bp32 \<Rightarrow> bool" where
  "seat_taken w \<longleftrightarrow> seat_idx (controllers w ! 0) \<noteq> -1"

lemma get_data_single:
  assumes "length (controllers w) = 1"
  shows "arduino_get_controller_data 0 w =
    (if \<not> seat_taken w then (UNI_ARDUINO_ERROR_INVALID_DEVICE, None, w)
     else if seat_data_updated (controllers w ! 0)
     then (UNI_ARDUINO_ERROR_SUCCESS, Some (seat_data (controllers w ! 0)),
           upd_seat 0 (\<lambda>s. s\<lparr> seat_data_updated := False \<rparr>) w)
     else (UNI_ARDUINO_ERROR_NO_DATA, None, w))"
  using assms by (simp add: arduino_get_controller_data_def seat_invalid_def seat_taken_def Let_def
      UNI_ARDUINO_GAMEPAD_INVALID_def)

lemma onConnected_simps [simp]:
  "c_connected (onConnected w c)" "c_data (onConnected w c) = c_data c"
  by (simp_all add: onConnected_def Let_def split: prod.splits option.splits)

lemma onDisconnected_simps [simp]: "\<not> c_connected (onDisconnected c)" "c_data (onDisconnected c) = c_data c"
  by (simp_all add: onDisconnected_def)

lemma link_ok_state [simp]: "link_ok (m\<lparr> gm_state := s \<rparr>) b w = link_ok m b w"
  by (simp add: link_ok_def)

text \<open>What one poll does, on the state of the single controller.\<close>

lemma bp32_update_single:
  assumes "link_ok m b w"
  shows "case bp32_update onConnectedController onDisconnectedController (b, m, w) of
    (upd, b', m', w') \<Rightarrow> link_ok m' b' w' \<and> upd = (seat_taken w \<and> seat_data_updated (controllers w ! 0)) \<and>
      c_connected (bp_controllers b' ! 0) = seat_taken w \<and> gm_state m' = gm_state m \<and>
      (upd \<longrightarrow> c_data (bp_controllers b' ! 0) = seat_data (controllers w ! 0)) \<and>
      (\<not> upd \<longrightarrow> c_data (bp_controllers b' ! 0) = c_data (bp_controllers b ! 0))"
proof -
  obtain c where c: "bp_controllers b = [c]" "length (controllers w) = 1"
    using assms by (auto simp: link_ok_def length_Suc_conv)
  have l: "prevConnectedControllers b = flag (c_connected c) 1"
    "myController m = (if c_connected c then Some 0 else None)"
    using assms c by (simp_all add: link_ok_def)
  show ?thesis
    using l c
    by (cases "seat_taken w"; cases "seat_data_updated (controllers w ! 0)"; cases "c_connected c")
      (simp_all add: bp32_update_def poll_one_def change_one_def get_data_single link_ok_def upd_seat_def
        onConnectedController_def onDisconnectedController_def Let_def)
qed

lemma read_controller_cong:
  "c_data c = c_data c' \<Longrightarrow> read_controller c now = read_controller c' now"
  by (simp add: read_controller_def axisRX_def axisRY_def axisX_def axisY_def ctl_a_def ctl_b_def ctl_x_def
      ctl_y_def ctl_l1_def ctl_r1_def thumbL_def thumbR_def miscStart_def miscSelect_def ctl_dpad_def
      ctl_buttons_def ctl_miscButtons_def)

lemma gamepad_update_single:
  assumes "link_ok m b w"
  shows "case gamepad_update (m, b, w, h) of
    (m', b', w', h') \<Rightarrow> link_ok m' b' w' \<and>
      gm_state m' =
        (if \<not> seat_taken w then ControlState_zero
         else if seat_data_updated (controllers w ! 0)
         then read_controller (Controller_zero\<lparr> c_data := seat_data (controllers w ! 0) \<rparr>) (fst (esp_timer_get_time h))
         else gm_state m) \<and>
      h' = (if seat_taken w \<and> seat_data_updated (controllers w ! 0) then snd (esp_timer_get_time h) else h)"
proof -
  obtain upd b' m' w' where u: "bp32_update onConnectedController onDisconnectedController (b, m, w) = (upd, b', m', w')"
    by (cases "bp32_update onConnectedController onDisconnectedController (b, m, w)")
  note f = bp32_update_single [OF assms, unfolded u, simplified]
  have p: "myController m' = (if seat_taken w then Some 0 else None)" using f by (simp add: link_ok_def)
  have d: "read_controller (bp_controllers b' ! 0) now =
      read_controller (Controller_zero\<lparr> c_data := seat_data (controllers w ! 0) \<rparr>) now" if upd for now
    using f that by (intro read_controller_cong) simp
  show ?thesis
    using f p d unfolding gamepad_update_def
    by (cases "seat_taken w"; cases upd) (simp_all add: u isConnected_def case_prod_beta)
qed

section \<open>Properties\<close>


definition manager_boot :: gamepad_manager where
  "manager_boot = \<lparr> myController = None, gm_state = ControlState_zero \<rparr>"

lemma link_ok_boot: "link_ok manager_boot (Bluepad32_zero 1) (bp32_boot 1 gap)"
  by (simp add: link_ok_def manager_boot_def Bluepad32_zero_def Controller_zero_def bp32_boot_def arduino_init_def
      uni_hid_device_setup_def)

lemma boot_seat: "seat_idx (controllers (bp32_boot 1 gap) ! 0) = -1"
  by (simp add: bp32_boot_def arduino_init_def uni_hid_device_setup_def free_seat_def
      UNI_ARDUINO_GAMEPAD_INVALID_def)


end
