(* ===== verification/Prearm_Guard.thy ===== *)
theory Prearm_Guard
  imports Telemetry_Laws Nfe_Profile
begin

text \<open>
  The confirmation required before arming: \<^verbatim>\<open>src/main/safety/prearm_guard.cpp\<close>.  The transmitter arms
  only when telemetry received after the pre-arm request started shows that the flight controller has the
  selected mode and profile.
\<close>

definition selected_flight_mode :: "NfeSilverwareAuxState \<Rightarrow> FlightMode" where
  "selected_flight_mode aux =
     (if \<not> levelMode aux then Acro
      else if raceMode aux \<and> horizonMode aux then RaceHorizon
      else if horizonMode aux then Horizon
      else if raceMode aux then Race
      else Level)"

definition prearm_configuration_confirmed ::
  "TelemetrySnapshot \<Rightarrow> NfeSilverwareAuxState \<Rightarrow> time_us \<Rightarrow> bool" where
  "prearm_configuration_confirmed tel aux prearm_started_us =
     (let d = ts_data tel
      in if freshness tel \<noteq> Fresh \<or> lastValidUs d \<le> prearm_started_us then False
         else if protocol d = Original then True
         else lastFlightPageUs d > prearm_started_us \<and> \<not> armed d \<and>
              flightMode d = selected_flight_mode aux \<and> pidProfile d = aux_pidProfile aux)"

text \<open>The mode the guard expects is the one the flight controller reports for the same three switches.\<close>

lemma selected_mode_is_reported_mode:
  "selected_flight_mode aux =
     decode_flight_mode (flag (levelMode aux) 8 OR flag (raceMode aux) 16 OR flag (horizonMode aux) 32)"
  by (cases "levelMode aux"; cases "raceMode aux"; cases "horizonMode aux")
    (simp_all add: selected_flight_mode_def decode_flight_mode_def bit_numeral_rec Let_def)

lemma confirmed_fresh:
  "prearm_configuration_confirmed (telemetry_get_snapshot now t) aux start \<Longrightarrow>
   has_telemetry t \<and> start < lastValidUs (current_telemetry t) \<and>
   now - lastValidUs (current_telemetry t) \<le> TELEMETRY_TIMEOUT_MS * 1000"
  by (auto simp: prearm_configuration_confirmed_def telemetry_get_snapshot_def Let_def
      split: if_splits)

lemma confirmed_extended:
  "prearm_configuration_confirmed (telemetry_get_snapshot now t) aux start \<Longrightarrow>
   protocol (current_telemetry t) = ExtendedV1 \<Longrightarrow>
   start < lastFlightPageUs (current_telemetry t) \<and> \<not> armed (current_telemetry t) \<and>
   flightMode (current_telemetry t) = selected_flight_mode aux \<and>
   pidProfile (current_telemetry t) = aux_pidProfile aux"
  by (auto simp: prearm_configuration_confirmed_def telemetry_get_snapshot_def Let_def
      split: if_splits)

lemma not_confirmed_without_packet:
  "lastValidUs (current_telemetry t) \<le> start \<Longrightarrow>
   \<not> prearm_configuration_confirmed (telemetry_get_snapshot now t) aux start"
  by (auto dest: confirmed_fresh)

end
