(* ===== verification/Console.thy ===== *)
theory Console
  imports Telemetry Gamepad Failsafe
begin

text \<open>
  The diagnostic console: \<^verbatim>\<open>src/main/console/console.cpp\<close> and \<^verbatim>\<open>console.h\<close>, as built for text output.  The
  queues are FreeRTOS objects: the model records the operations the code performs on them, newest first,
  and keeps whether each handle is null.
\<close>

record RadioStats =
  txPackets :: u32
  txFailures :: u32
  telemetryAccepted :: u32
  telemetryRejected :: u32
  deadlineMisses :: u32

definition RadioStats_zero :: RadioStats where
  "RadioStats_zero = \<lparr> txPackets = 0, txFailures = 0, telemetryAccepted = 0, telemetryRejected = 0,
     deadlineMisses = 0 \<rparr>"

record ConsoleStatus =
  timestampUs :: time_us
  st_state :: SystemState
  st_controls :: ControlState
  st_telemetry :: TelemetrySnapshot
  st_radio :: RadioStats

datatype ConsoleEventType =
  StateChanged | GamepadConnected | GamepadDisconnected | RadioInitFailed | RadioRuntimeFailed

record ConsoleEvent =
  ev_type :: ConsoleEventType
  previousState :: SystemState
  currentState :: SystemState

datatype queue_op = SendEvent ConsoleEvent | OverwriteStatus ConsoleStatus | DeleteStatusQueue | DeleteEventQueue

record console =
  status_queue :: bool
  event_queue :: bool
  queue_ops :: "queue_op list"

definition console_boot :: console where
  "console_boot = \<lparr> status_queue = False, event_queue = False, queue_ops = [] \<rparr>"

definition queue_do :: "queue_op \<Rightarrow> console \<Rightarrow> console" where
  "queue_do e c = c\<lparr> queue_ops := e # queue_ops c \<rparr>"

fun state_name :: "SystemState \<Rightarrow> string" where
  "state_name STATE_BOOT = ''BOOT''"
| "state_name STATE_WAIT_GAMEPAD = ''WAIT_GAMEPAD''"
| "state_name STATE_BINDING = ''BINDING''"
| "state_name STATE_LOCKED = ''LOCKED''"
| "state_name STATE_ACTIVE = ''ACTIVE''"
| "state_name STATE_GAMEPAD_FAILSAFE = ''GAMEPAD_FAILSAFE''"
| "state_name STATE_RADIO_ERROR = ''RADIO_ERROR''"
| "state_name STATE_PREARM_MODE = ''PREARM_MODE''"

fun flight_mode_name :: "FlightMode \<Rightarrow> string" where
  "flight_mode_name Acro = ''ACRO''"
| "flight_mode_name Level = ''LEVEL''"
| "flight_mode_name Race = ''RACE''"
| "flight_mode_name Horizon = ''HORIZON''"
| "flight_mode_name RaceHorizon = ''RACE_HORIZON''"
| "flight_mode_name Unknown = ''UNKNOWN''"

text \<open>The text of an event, without the line end \<^verbatim>\<open>print_event\<close> adds.\<close>

definition print_event :: "ConsoleEvent \<Rightarrow> string" where
  "print_event e =
     (case ev_type e of
        StateChanged \<Rightarrow> ''STATE: '' @ state_name (previousState e) @ '' -> '' @ state_name (currentState e)
      | GamepadConnected \<Rightarrow> ''GAMEPAD: connected''
      | GamepadDisconnected \<Rightarrow> ''GAMEPAD: disconnected''
      | RadioInitFailed \<Rightarrow> ''RADIO ERROR: initialization/readback failed; reboot required''
      | RadioRuntimeFailed \<Rightarrow> ''RADIO ERROR: three consecutive transmissions failed; reboot required'')"

text \<open>\<open>sq\<close>, \<open>eq\<close> and \<open>created\<close>: whether the two queues and the task could be created.\<close>

definition console_init :: "bool \<Rightarrow> bool \<Rightarrow> bool \<Rightarrow> console \<Rightarrow> bool \<times> console" where
  "console_init sq eq created c =
     (if \<not> sq \<or> \<not> eq then
        let c1 = (if sq then queue_do DeleteStatusQueue c else c);
            c2 = (if eq then queue_do DeleteEventQueue c1 else c1)
        in (False, c2\<lparr> status_queue := False, event_queue := False \<rparr>)
      else if \<not> created then
        (False, (queue_do DeleteEventQueue (queue_do DeleteStatusQueue c))\<lparr> status_queue := False, event_queue := False \<rparr>)
      else (True, c\<lparr> status_queue := True, event_queue := True \<rparr>))"

definition console_publish_status :: "ConsoleStatus \<Rightarrow> console \<Rightarrow> console" where
  "console_publish_status status c = (if status_queue c then queue_do (OverwriteStatus status) c else c)"

definition console_publish_event :: "ConsoleEvent \<Rightarrow> console \<Rightarrow> console" where
  "console_publish_event event c = (if event_queue c then queue_do (SendEvent event) c else c)"

lemma state_name_inj: "state_name s = state_name t \<longleftrightarrow> s = t"
  by (cases s; cases t) simp_all

lemma print_state_change_inj:
  assumes "ev_type e = StateChanged" "ev_type e' = StateChanged" "previousState e = previousState e'"
    "print_event e = print_event e'"
  shows "e = e'"
  using assms by (simp add: print_event_def state_name_inj ConsoleEvent.equality)

end
