(* ===== verification/Feedback.thy ===== *)
theory Feedback
  imports Failsafe
begin

text \<open>
  The light and buzzer: \<^verbatim>\<open>src/main/feedback/feedback_pattern.cpp\<close> and \<^verbatim>\<open>feedback.cpp\<close>.  The control task
  publishes the last state transition in one atomic word; the feedback task reads it every 10 ms and drives
  the outputs.  The readings of \<^verbatim>\<open>millis\<close> are arguments of a pass of the task; the board's outputs are recorded
  in a trace, newest first.
\<close>

record FeedbackOutput =
  ledOn :: bool
  buzzerOn :: bool

definition pulse :: "u32 \<Rightarrow> u32 \<Rightarrow> u32 \<Rightarrow> bool" where
  "pulse elapsed_ms period_ms on_ms \<longleftrightarrow> elapsed_ms mod period_ms < on_ms"

definition in_window :: "u32 \<Rightarrow> u32 \<Rightarrow> u32 \<Rightarrow> bool" where
  "in_window elapsed_ms start_ms end_ms \<longleftrightarrow> elapsed_ms \<ge> start_ms \<and> elapsed_ms < end_ms"

definition feedback_pattern :: "SystemState \<Rightarrow> SystemState \<Rightarrow> u32 \<Rightarrow> FeedbackOutput" where
  "feedback_pattern previous cur elapsed_ms =
     (case cur of
        STATE_BOOT \<Rightarrow> \<lparr> ledOn = True, buzzerOn = elapsed_ms < 80 \<rparr>
      | STATE_WAIT_GAMEPAD \<Rightarrow> \<lparr> ledOn = pulse elapsed_ms 1000 80, buzzerOn = elapsed_ms < 80 \<rparr>
      | STATE_BINDING \<Rightarrow> \<lparr> ledOn = pulse elapsed_ms 200 100,
          buzzerOn = in_window elapsed_ms 0 70 \<or> in_window elapsed_ms 140 210 \<rparr>
      | STATE_LOCKED \<Rightarrow> \<lparr> ledOn = pulse elapsed_ms 1000 500,
          buzzerOn =
            (if previous = STATE_BINDING
             then in_window elapsed_ms 0 60 \<or> in_window elapsed_ms 120 180 \<or> in_window elapsed_ms 240 300
             else if previous = STATE_ACTIVE
             then in_window elapsed_ms 0 70 \<or> in_window elapsed_ms 140 210
             else elapsed_ms < 120) \<rparr>
      | STATE_ACTIVE \<Rightarrow> \<lparr> ledOn = True, buzzerOn = elapsed_ms < 200 \<rparr>
      | STATE_PREARM_MODE \<Rightarrow> \<lparr> ledOn = pulse elapsed_ms 200 100, buzzerOn = elapsed_ms < 80 \<rparr>
      | STATE_GAMEPAD_FAILSAFE \<Rightarrow>
          let phase_ms = elapsed_ms mod 1200
          in \<lparr> ledOn = pulse elapsed_ms 200 100,
               buzzerOn = in_window phase_ms 0 80 \<or> in_window phase_ms 160 240 \<or> in_window phase_ms 320 400 \<rparr>
      | STATE_RADIO_ERROR \<Rightarrow>
          let phase_ms = elapsed_ms mod 1000
          in \<lparr> ledOn = in_window phase_ms 0 100 \<or> in_window phase_ms 200 300,
               buzzerOn = in_window phase_ms 0 200 \<or> in_window phase_ms 400 600 \<rparr>)"

section \<open>The published transition\<close>

definition pack_transition :: "SystemState \<Rightarrow> SystemState \<Rightarrow> u32" where
  "pack_transition previous cur = push_bit 8 (of_nat (state_code previous)) OR of_nat (state_code cur)"

text \<open>The cast of a byte to the enumeration; a byte that names no state fits no case of a switch over it.\<close>

definition state_of_code :: "u32 \<Rightarrow> SystemState option" where
  "state_of_code c =
     (if c = 0 then Some STATE_BOOT else if c = 1 then Some STATE_WAIT_GAMEPAD
      else if c = 2 then Some STATE_BINDING else if c = 3 then Some STATE_LOCKED
      else if c = 4 then Some STATE_ACTIVE else if c = 5 then Some STATE_GAMEPAD_FAILSAFE
      else if c = 6 then Some STATE_RADIO_ERROR else if c = 7 then Some STATE_PREARM_MODE else None)"

datatype board_output = DigitalWrite nat bool | LedcTone nat nat | LedcAttach nat | LedcDetach nat | OutputPin nat

definition PIN_BUZZER :: nat where "PIN_BUZZER = 27"

definition PIN_ONBOARD_LED :: nat where "PIN_ONBOARD_LED = 2"

definition BUZZER_TONE_HZ :: nat where "BUZZER_TONE_HZ = 2400"

definition ONBOARD_LED_ACTIVE_HIGH :: bool where "ONBOARD_LED_ACTIVE_HIGH = True"

record feedback =
  requested_transition :: u32
  outputs :: "board_output list"

definition out :: "board_output \<Rightarrow> feedback \<Rightarrow> feedback" where
  "out e f = f\<lparr> outputs := e # outputs f \<rparr>"

definition write_active_level :: "nat \<Rightarrow> bool \<Rightarrow> bool \<Rightarrow> feedback \<Rightarrow> feedback" where
  "write_active_level pin on active_high f = out (DigitalWrite pin (on = active_high)) f"

text \<open>
  The locals of \<^verbatim>\<open>feedback_task\<close>, its entry and one pass of its loop.  The pattern only compares the previous
  state with two others, so a byte that names no state acts as \<^const>\<open>STATE_BOOT\<close> there.
\<close>

record feedback_locals =
  active_transition :: u32
  transition_started_ms :: u32
  buzzer_on :: bool

definition feedback_task_start :: "u32 \<Rightarrow> feedback \<Rightarrow> feedback_locals" where
  "feedback_task_start now_ms f =
     \<lparr> active_transition = requested_transition f, transition_started_ms = now_ms, buzzer_on = False \<rparr>"

definition feedback_task_pass ::
  "u32 \<Rightarrow> u32 \<Rightarrow> feedback_locals \<times> feedback \<Rightarrow> feedback_locals \<times> feedback" where
  "feedback_task_pass now1_ms now2_ms = (\<lambda>(l, f).
     let requested = requested_transition f;
         l1 = (if requested \<noteq> active_transition l
               then l\<lparr> active_transition := requested, transition_started_ms := now1_ms \<rparr> else l);
         previous = state_of_code (drop_bit 8 (active_transition l1) AND 0xff);
         cur = state_of_code (active_transition l1 AND 0xff);
         elapsed = now2_ms - transition_started_ms l1;
         output = (case (previous, cur) of
             (Some p, Some c) \<Rightarrow> feedback_pattern p c elapsed
           | (None, Some c) \<Rightarrow> feedback_pattern STATE_BOOT c elapsed
           | (_, None) \<Rightarrow> \<lparr> ledOn = False, buzzerOn = False \<rparr>);
         f1 = write_active_level PIN_ONBOARD_LED (ledOn output) ONBOARD_LED_ACTIVE_HIGH f
     in if buzzerOn output \<noteq> buzzer_on l1
        then (l1\<lparr> buzzer_on := buzzerOn output \<rparr>,
              out (LedcTone PIN_BUZZER (if buzzerOn output then BUZZER_TONE_HZ else 0)) f1)
        else (l1, f1))"

text \<open>
  \<^verbatim>\<open>feedback_init\<close>: \<open>attached\<close> and \<open>created\<close> are the results of the SDK's \<^verbatim>\<open>ledcAttach\<close> and
  \<^verbatim>\<open>xTaskCreatePinnedToCore\<close>.
\<close>

definition feedback_init :: "bool \<Rightarrow> bool \<Rightarrow> SystemState \<Rightarrow> feedback \<Rightarrow> bool \<times> feedback" where
  "feedback_init attached created initial_state f =
     (let f1 = write_active_level PIN_ONBOARD_LED False ONBOARD_LED_ACTIVE_HIGH (out (OutputPin PIN_ONBOARD_LED) f);
          f2 = out (LedcAttach PIN_BUZZER) f1
      in if \<not> attached then (False, f2)
         else
           let f3 = (out (LedcTone PIN_BUZZER 0) f2)\<lparr> requested_transition := pack_transition STATE_BOOT initial_state \<rparr>
           in if created then (True, f3) else (False, out (LedcDetach PIN_BUZZER) f3))"

definition feedback_notify_state :: "SystemState \<Rightarrow> SystemState \<Rightarrow> feedback \<Rightarrow> feedback" where
  "feedback_notify_state previous cur f =
     (if previous = cur then f else f\<lparr> requested_transition := pack_transition previous cur \<rparr>)"

section \<open>The transition word\<close>

lemma unpack_previous: "state_of_code (drop_bit 8 (pack_transition p c) AND 0xff) = Some p"
  by (cases p; cases c) (simp_all add: pack_transition_def state_of_code_def)

lemma unpack_current: "state_of_code (pack_transition p c AND 0xff) = Some c"
  by (cases p; cases c) (simp_all add: pack_transition_def state_of_code_def)

section \<open>The cues\<close>

text \<open>Only the two alarms last: every other cue is over after 300 ms.\<close>

lemma quiet_after_cue:
  assumes "300 \<le> t" "c \<noteq> STATE_GAMEPAD_FAILSAFE" "c \<noteq> STATE_RADIO_ERROR"
  shows "\<not> buzzerOn (feedback_pattern p c t)"
proof -
  have "\<not> t < k" if "k \<le> 300" for k using that assms(1) by (meson leD order.trans)
  then show ?thesis using assms(2,3) by (cases c) (simp_all add: feedback_pattern_def in_window_def)
qed

text \<open>
  From any moment on, a multiple of the period comes within one period, also when the counter of milliseconds wraps to
  zero in between; the cue that starts there runs on without a wrap.
\<close>

lemma period_ahead:
  fixes x n :: nat
  assumes "0 < n" "n \<le> 2000" "80 \<le> 2 ^ 32 mod n"
  shows "\<exists>d<n. (x + d) mod 2 ^ 32 mod n = 0 \<and> (\<forall>k<80. (x + d + k) mod 2 ^ 32 = (x + d) mod 2 ^ 32 + k)"
proof -
  define m :: nat where "m = 2 ^ 32"
  define e where "e = x mod m"
  have m: "2000 < m" "80 \<le> m mod n" and e: "e < m" using assms(3) by (simp_all add: m_def e_def)
  have shift: "(x + d) mod m = (e + d) mod m" for d by (simp add: e_def mod_add_left_eq)
  define d where "d = (if e mod n = 0 then 0 else if e + (n - e mod n) < m then n - e mod n else m - e)"
  have r: "e mod n < n" using assms(1) by simp
  have dn: "d < n" using r e assms(1) by (auto simp: d_def)
  have z: "(e + (n - e mod n)) mod n = 0" if "e mod n \<noteq> 0"
    using r by (metis le_add_diff_inverse less_imp_le mod_add_left_eq mod_self)
  have small: "q + k < m" if "q mod n = 0" "q < m" "k < 80" for q k
  proof -
    have "q div n \<le> m div n" using that(2) by (simp add: div_le_mono)
    then have "n * (q div n) \<le> n * (m div n)" by (rule mult_le_mono2)
    then have "q \<le> m - m mod n" using that(1) by (metis add.right_neutral minus_mod_eq_mult_div mult_div_mod_eq)
    then show ?thesis using that(3) m(2) mod_less_eq_dividend [of m n] by linarith
  qed
  have "e + d < m \<and> (e + d) mod n = 0 \<or> e + d = m"
  proof (cases "e mod n = 0")
    case True
    then show ?thesis using e by (simp add: d_def)
  next
    case False
    then show ?thesis
      unfolding d_def using e z by (simp only: if_False split: if_split) (intro conjI impI; simp)
  qed
  then have "(x + d) mod m mod n = 0 \<and> (\<forall>k<80. (x + d + k) mod m = (x + d) mod m + k)"
  proof (elim disjE conjE)
    assume "e + d < m" "(e + d) mod n = 0"
    then show ?thesis using small [of "e + d"] shift by (auto simp: add.assoc)
  next
    assume "e + d = m"
    then have "(x + d) mod m = 0" "(x + d + k) mod m = k mod m" for k
      using shift [of d] shift [of "d + k"] by (simp_all add: add.assoc [symmetric])
    then show ?thesis using m(1) by simp
  qed
  with dn show ?thesis unfolding m_def by (intro exI [of _ d] conjI) simp_all
qed

text \<open>What the buzzer pin was last told.\<close>

fun last_tone :: "board_output list \<Rightarrow> nat" where
  "last_tone [] = 0"
| "last_tone (LedcTone pin hz # es) = (if pin = PIN_BUZZER then hz else last_tone es)"
| "last_tone (_ # es) = last_tone es"

definition tone_ok :: "feedback_locals \<Rightarrow> feedback \<Rightarrow> bool" where
  "tone_ok l f \<longleftrightarrow> last_tone (outputs f) = (if buzzer_on l then BUZZER_TONE_HZ else 0)"

lemma pass_keeps_tone: "tone_ok l f \<Longrightarrow> case feedback_task_pass t1 t2 (l, f) of (l', f') \<Rightarrow> tone_ok l' f'"
  by (simp add: feedback_task_pass_def tone_ok_def out_def write_active_level_def Let_def)

section \<open>Runs of the task\<close>

text \<open>What the light was last told.\<close>

fun last_light :: "board_output list \<Rightarrow> bool option" where
  "last_light [] = None"
| "last_light (DigitalWrite pin b # es) = (if pin = PIN_ONBOARD_LED then Some b else last_light es)"
| "last_light (_ # es) = last_light es"

text \<open>
  A run of the task: each pass with its two readings of the time, in milliseconds since the start; \<^verbatim>\<open>millis\<close> returns
  their low 32 bits.  In a steady run no reading goes back, and two passes follow each other within 80 ms (the task's
  own delay is 10 ms).
\<close>

fun fb_passes :: "(nat \<times> nat) list \<Rightarrow> feedback_locals \<times> feedback \<Rightarrow> feedback_locals \<times> feedback" where
  "fb_passes [] s = s"
| "fb_passes ((t1, t2) # ps) s = fb_passes ps (feedback_task_pass (of_nat t1) (of_nat t2) s)"

definition steady :: "(nat \<times> nat) list \<Rightarrow> bool" where
  "steady ps \<longleftrightarrow> fst (ps ! 0) \<le> snd (ps ! 0) \<and>
     (\<forall>j. Suc j < length ps \<longrightarrow> snd (ps ! j) \<le> snd (ps ! Suc j) \<and> snd (ps ! Suc j) \<le> snd (ps ! j) + 80)"

text \<open>The state while one transition is on display: what has been put out and when the display began.\<close>

definition displays :: "SystemState \<Rightarrow> SystemState \<Rightarrow> nat \<Rightarrow> nat \<Rightarrow> feedback_locals \<times> feedback \<Rightarrow> bool" where
  "displays p c start now = (\<lambda>(l, f).
     requested_transition f = pack_transition p c \<and> active_transition l = pack_transition p c \<and>
     transition_started_ms l = of_nat start \<and> tone_ok l f \<and>
     (let cue = feedback_pattern p c (of_nat (now - start))
      in last_light (outputs f) = Some (ledOn cue) \<and> buzzer_on l = buzzerOn cue))"

lemma pass_displays:
  assumes "tone_ok l f" "requested_transition f = pack_transition p c" "start \<le> t2"
    "active_transition l = pack_transition p c \<and> transition_started_ms l = of_nat start \<or>
     active_transition l \<noteq> pack_transition p c \<and> t1 = start"
  shows "displays p c start t2 (feedback_task_pass (of_nat t1) (of_nat t2) (l, f))"
  using assms(4)
proof (elim disjE conjE)
qed (use assms(1-3) in \<open>simp_all add: displays_def feedback_task_pass_def tone_ok_def out_def write_active_level_def
  ONBOARD_LED_ACTIVE_HIGH_def unpack_previous unpack_current Let_def\<close>)

lemma passes_display:
  "displays p c start now s \<Longrightarrow> list_all (\<lambda>q. start \<le> snd q) ps \<Longrightarrow>
   displays p c start (last (now # map snd ps)) (fb_passes ps s)"
proof (induction ps s arbitrary: now rule: fb_passes.induct)
  case (2 t1 t2 ps s)
  obtain l f where s: "s = (l, f)" by fastforce
  have "displays p c start t2 (feedback_task_pass (of_nat t1) (of_nat t2) s)"
    unfolding s by (rule pass_displays) (use 2(2,3) in \<open>auto simp: displays_def s\<close>)
  from 2(1) [OF this] show ?case using 2(3) by simp
qed simp

lemma steady_after: "steady ps \<Longrightarrow> j < length ps \<Longrightarrow> fst (ps ! 0) \<le> snd (ps ! j)"
  by (induction j) (auto simp: steady_def dest: Suc_lessD intro: order_trans)

text \<open>The state after each pass of a run that starts with a new transition.\<close>

lemma run_displays:
  assumes "tone_ok l f" "p \<noteq> c" "active_transition l \<noteq> pack_transition p c" "steady ps" "j < length ps"
  shows "displays p c (fst (ps ! 0)) (snd (ps ! j)) (fb_passes (take (Suc j) ps) (l, feedback_notify_state p c f))"
proof -
  obtain t1 t2 qs where ps: "ps = (t1, t2) # qs" using assms(5) by (cases ps) auto
  have t: "t1 \<le> t2" using assms(4) by (simp add: steady_def ps)
  let ?s = "feedback_task_pass (of_nat t1) (of_nat t2) (l, feedback_notify_state p c f)"
  have "displays p c t1 t2 ?s"
    by (rule pass_displays) (use assms t in \<open>auto simp: feedback_notify_state_def tone_ok_def\<close>)
  moreover have "list_all (\<lambda>q. t1 \<le> snd q) (take j qs)"
    unfolding list_all_length
  proof (intro allI impI)
    fix k assume "k < length (take j qs)"
    then show "t1 \<le> snd (take j qs ! k)"
      using steady_after [OF assms(4), of "Suc k"] assms(5) by (simp add: ps)
  qed
  ultimately have d: "displays p c t1 (last (t2 # map snd (take j qs))) (fb_passes (take j qs) ?s)" by (rule passes_display)
  have "last (t2 # map snd (take j qs)) = snd (ps ! j)"
  proof (cases j)
    case (Suc k)
    then have "take j qs \<noteq> []" "length (take j qs) = Suc k" using assms(5) by (auto simp: ps)
    then show ?thesis using Suc assms(5) by (simp add: last_map last_conv_nth ps)
  qed (simp add: ps)
  with d show ?thesis by (simp add: ps)
qed

text \<open>A steady run meets every window of 80 ms that starts after one of its passes and before its end.\<close>

lemma steady_hits:
  assumes "steady ps" "i < length ps" "snd (ps ! i) \<le> t" "t \<le> snd (ps ! (length ps - 1))"
  shows "\<exists>j. i \<le> j \<and> j < length ps \<and> t \<le> snd (ps ! j) \<and> snd (ps ! j) < t + 80"
proof -
  define j where "j = (LEAST j. i \<le> j \<and> t \<le> snd (ps ! j))"
  have ex: "i \<le> length ps - 1 \<and> t \<le> snd (ps ! (length ps - 1))" using assms by simp
  have j: "i \<le> j" "t \<le> snd (ps ! j)" "j \<le> length ps - 1"
    using LeastI [of "\<lambda>j. i \<le> j \<and> t \<le> snd (ps ! j)", OF ex] Least_le [of "\<lambda>j. i \<le> j \<and> t \<le> snd (ps ! j)", OF ex]
    by (simp_all add: j_def)
  have "snd (ps ! j) < t + 80"
  proof (cases "j = i")
    case False
    then obtain k where k: "j = Suc k" "i \<le> k" using j(1) by (cases j) auto
    have "snd (ps ! k) < t" using not_less_Least [of k "\<lambda>j. i \<le> j \<and> t \<le> snd (ps ! j)"] k by (auto simp: j_def [symmetric])
    moreover have "snd (ps ! j) \<le> snd (ps ! k) + 80"
      using assms(1,2) j(3) k by (simp add: steady_def)
    ultimately show ?thesis by simp
  qed (use assms(3) in simp)
  with j assms(2) show ?thesis by (intro exI [of _ j]) auto
qed

text \<open>The alarms sound for the first 80 ms of each of their periods.\<close>

lemma alarm_sounds:
  assumes "c = STATE_GAMEPAD_FAILSAFE \<and> n = 1200 \<or> c = STATE_RADIO_ERROR \<and> n = 1000"
    and "x mod 2 ^ 32 mod n < 80"
  shows "buzzerOn (feedback_pattern p c (of_nat x))"
proof -
  have u: "unat ((of_nat x :: u32) mod of_nat n) = x mod 2 ^ 32 mod n"
    using assms(1) by (auto simp: unat_mod_distrib unat_of_nat)
  then have "(of_nat x :: u32) mod of_nat n < 80" "(of_nat x :: u32) mod of_nat n < 200"
    using assms(2) by (simp_all add: word_less_nat_alt)
  then show ?thesis using assms(1)
    by (elim disjE conjE) (simp_all add: feedback_pattern_def in_window_def Let_def)
qed

section \<open>Properties\<close>



end
