(* ===== verification/Settings.thy ===== *)
theory Settings
  imports Nfe_Profile
begin

text \<open>
  Persistent settings: \<^verbatim>\<open>src/main/storage/settings_core.cpp\<close>, \<^verbatim>\<open>settings.cpp\<close> and \<^verbatim>\<open>settings.h\<close>.  The flash
  store of the vendor's SDK (\<^verbatim>\<open>nvs.h\<close>) is not code of the repository: it is a parameter, the record
  \<open>nvs_api\<close> of its entry points over a state type of its own.  Each returns whether the result is
  \<^verbatim>\<open>ESP_OK\<close>.  The file keeps one handle open at a time, so the handle is left out.
\<close>

definition SETTINGS_AUX_MASK :: u8 where "SETTINGS_AUX_MASK = 0x1F"

text \<open>A reading callback gets the caller's buffer and returns it as it leaves it.\<close>

record 's SettingsStorageAdapter =
  readId :: "(bytes \<Rightarrow> 's \<Rightarrow> bool \<times> bytes \<times> 's) option"
  writeId :: "(bytes \<Rightarrow> 's \<Rightarrow> bool \<times> 's) option"
  readAux :: "(u8 \<Rightarrow> 's \<Rightarrow> bool \<times> u8 \<times> 's) option"
  writeAux :: "(u8 \<Rightarrow> 's \<Rightarrow> bool \<times> 's) option"

section \<open>Checks independent of the store\<close>

definition transmitter_id_is_valid :: "bytes option \<Rightarrow> bool" where
  "transmitter_id_is_valid tx_id =
     (case tx_id of None \<Rightarrow> False
      | Some i \<Rightarrow> foldl (\<lambda>combined k. combined OR i ! k) 0 [0..<5] \<noteq> 0)"

definition load_transmitter_id_from ::
  "'s SettingsStorageAdapter \<Rightarrow> bytes option \<Rightarrow> 's \<Rightarrow> bool \<times> bytes option \<times> 's" where
  "load_transmitter_id_from storage tx_id s =
     (case (tx_id, readId storage) of
        (Some i, Some rd) \<Rightarrow>
          let (ok, i', s') = rd i s in (ok \<and> transmitter_id_is_valid (Some i'), Some i', s')
      | _ \<Rightarrow> (False, tx_id, s))"

definition save_transmitter_id_to :: "'s SettingsStorageAdapter \<Rightarrow> bytes option \<Rightarrow> 's \<Rightarrow> bool \<times> 's" where
  "save_transmitter_id_to storage tx_id s =
     (if \<not> transmitter_id_is_valid tx_id then (False, s)
      else case (tx_id, writeId storage) of (Some i, Some wr) \<Rightarrow> wr i s | _ \<Rightarrow> (False, s))"

definition load_aux_flags_from ::
  "'s SettingsStorageAdapter \<Rightarrow> u8 option \<Rightarrow> 's \<Rightarrow> bool \<times> u8 option \<times> 's" where
  "load_aux_flags_from storage aux_flags s =
     (case (aux_flags, readAux storage) of
        (Some f, Some rd) \<Rightarrow>
          let (ok, f', s') = rd f s
          in (ok \<and> f' AND NOT SETTINGS_AUX_MASK = 0, Some f', s')
      | _ \<Rightarrow> (False, aux_flags, s))"

definition save_aux_flags_to :: "'s SettingsStorageAdapter \<Rightarrow> u8 \<Rightarrow> 's \<Rightarrow> bool \<times> 's" where
  "save_aux_flags_to storage aux_flags s =
     (if aux_flags AND NOT SETTINGS_AUX_MASK \<noteq> 0 then (False, s)
      else case writeAux storage of None \<Rightarrow> (False, s) | Some wr \<Rightarrow> wr aux_flags s)"

section \<open>The flash store\<close>

datatype nvs_mode = NVS_READONLY | NVS_READWRITE

record 's nvs_api =
  nvs_open :: "nvs_mode \<Rightarrow> 's \<Rightarrow> bool \<times> 's"
  nvs_get_blob :: "string \<Rightarrow> bytes \<Rightarrow> nat \<Rightarrow> 's \<Rightarrow> bool \<times> bytes \<times> nat \<times> 's"
  nvs_set_blob :: "string \<Rightarrow> bytes \<Rightarrow> 's \<Rightarrow> bool \<times> 's"
  nvs_get_u8 :: "string \<Rightarrow> u8 \<Rightarrow> 's \<Rightarrow> bool \<times> u8 \<times> 's"
  nvs_set_u8 :: "string \<Rightarrow> u8 \<Rightarrow> 's \<Rightarrow> bool \<times> 's"
  nvs_commit :: "'s \<Rightarrow> bool \<times> 's"
  nvs_close :: "'s \<Rightarrow> 's"

definition NVS_KEY_TXID :: string where "NVS_KEY_TXID = ''txid''"

definition NVS_KEY_AUX :: string where "NVS_KEY_AUX = ''aux''"

definition nvs_read_id :: "'s nvs_api \<Rightarrow> bytes \<Rightarrow> 's \<Rightarrow> bool \<times> bytes \<times> 's" where
  "nvs_read_id api tx_id s =
     (let (opened, s1) = nvs_open api NVS_READONLY s
      in if \<not> opened then (False, tx_id, s1)
         else let (ok, tx_id', required_size, s2) = nvs_get_blob api NVS_KEY_TXID tx_id 5 s1
              in (ok \<and> required_size = 5, tx_id', nvs_close api s2))"

text \<open>Writing: set the value, commit when that worked, close in either case.\<close>

definition commit_and_close :: "'s nvs_api \<Rightarrow> bool \<times> 's \<Rightarrow> bool \<times> 's" where
  "commit_and_close api = (\<lambda>(ok, s).
     let (ok', s') = (if ok then nvs_commit api s else (ok, s)) in (ok', nvs_close api s'))"

definition nvs_write_id :: "'s nvs_api \<Rightarrow> bytes \<Rightarrow> 's \<Rightarrow> bool \<times> 's" where
  "nvs_write_id api tx_id s =
     (let (opened, s1) = nvs_open api NVS_READWRITE s
      in if \<not> opened then (False, s1)
         else commit_and_close api (nvs_set_blob api NVS_KEY_TXID (take 5 tx_id) s1))"

definition nvs_read_aux :: "'s nvs_api \<Rightarrow> u8 \<Rightarrow> 's \<Rightarrow> bool \<times> u8 \<times> 's" where
  "nvs_read_aux api aux_flags s =
     (let (opened, s1) = nvs_open api NVS_READONLY s
      in if \<not> opened then (False, aux_flags, s1)
         else let (ok, aux_flags', s2) = nvs_get_u8 api NVS_KEY_AUX aux_flags s1
              in (ok, aux_flags', nvs_close api s2))"

definition nvs_write_aux :: "'s nvs_api \<Rightarrow> u8 \<Rightarrow> 's \<Rightarrow> bool \<times> 's" where
  "nvs_write_aux api aux_flags s =
     (let (opened, s1) = nvs_open api NVS_READWRITE s
      in if \<not> opened then (False, s1)
         else commit_and_close api (nvs_set_u8 api NVS_KEY_AUX aux_flags s1))"

definition nvs_storage :: "'s nvs_api \<Rightarrow> 's SettingsStorageAdapter" where
  "nvs_storage api = \<lparr> readId = Some (nvs_read_id api), writeId = Some (nvs_write_id api),
     readAux = Some (nvs_read_aux api), writeAux = Some (nvs_write_aux api) \<rparr>"

definition load_transmitter_id :: "'s nvs_api \<Rightarrow> bytes option \<Rightarrow> 's \<Rightarrow> bool \<times> bytes option \<times> 's" where
  "load_transmitter_id api tx_id s = load_transmitter_id_from (nvs_storage api) tx_id s"

text \<open>The id made of the two random words \<^verbatim>\<open>esp_random\<close> returned.\<close>

definition transmitter_id_of :: "u32 \<Rightarrow> u32 \<Rightarrow> bytes" where
  "transmitter_id_of r1 r2 =
     (let i = [to_u8 (drop_bit 24 r1 AND 0xFF), to_u8 (drop_bit 16 r1 AND 0xFF),
               to_u8 (drop_bit 8 r1 AND 0xFF), to_u8 (r1 AND 0xFF), to_u8 (r2 AND 0xFF)]
      in if \<not> transmitter_id_is_valid (Some i) then i[0 := 1] else i)"

text \<open>The caller's buffer has five bytes; all of them are written.\<close>

definition generate_and_save_transmitter_id ::
  "'s nvs_api \<Rightarrow> u32 \<Rightarrow> u32 \<Rightarrow> bytes option \<Rightarrow> 's \<Rightarrow> bool \<times> bytes option \<times> 's" where
  "generate_and_save_transmitter_id api r1 r2 tx_id s =
     (case tx_id of None \<Rightarrow> (False, None, s)
      | Some _ \<Rightarrow>
          let i = transmitter_id_of r1 r2;
              (ok, s') = save_transmitter_id_to (nvs_storage api) (Some i) s
          in (ok, Some i, s'))"

definition factory_reset_transmitter_id ::
  "'s nvs_api \<Rightarrow> u32 \<Rightarrow> u32 \<Rightarrow> bytes option \<Rightarrow> 's \<Rightarrow> bool \<times> bytes option \<times> 's" where
  "factory_reset_transmitter_id api r1 r2 tx_id s = generate_and_save_transmitter_id api r1 r2 tx_id s"

definition load_aux_flags :: "'s nvs_api \<Rightarrow> u8 option \<Rightarrow> 's \<Rightarrow> bool \<times> u8 option \<times> 's" where
  "load_aux_flags api aux_flags s = load_aux_flags_from (nvs_storage api) aux_flags s"

definition save_aux_flags :: "'s nvs_api \<Rightarrow> u8 \<Rightarrow> 's \<Rightarrow> bool \<times> 's" where
  "save_aux_flags api aux_flags s = save_aux_flags_to (nvs_storage api) aux_flags s"

lemmas settings_defs = load_transmitter_id_def load_transmitter_id_from_def nvs_read_id_def nvs_storage_def
  save_transmitter_id_to_def nvs_write_id_def commit_and_close_def load_aux_flags_def load_aux_flags_from_def
  nvs_read_aux_def save_aux_flags_def save_aux_flags_to_def nvs_write_aux_def

section \<open>Valid identifiers\<close>

lemma id_valid_iff: "transmitter_id_is_valid (Some i) \<longleftrightarrow> (\<exists>k<5. i ! k \<noteq> 0)"
proof -
  have "(\<exists>k<5. i ! k \<noteq> 0) \<longleftrightarrow> i ! 0 \<noteq> 0 \<or> i ! 1 \<noteq> 0 \<or> i ! 2 \<noteq> 0 \<or> i ! 3 \<noteq> 0 \<or> i ! 4 \<noteq> 0"
    by (auto simp: less_Suc_eq numeral_eq_Suc)
  then show ?thesis
    by (simp add: transmitter_id_is_valid_def upt_rec numeral_eq_Suc or_eq_0_iff)
qed

lemma generated_id_valid [simp]:
  "transmitter_id_is_valid (Some (transmitter_id_of r1 r2))" "length (transmitter_id_of r1 r2) = 5"
  by (auto simp: transmitter_id_of_def Let_def id_valid_iff intro: exI [of _ 0])

text \<open>The masks of the settings and of the profile are the same, as the source's static assertion says.\<close>

lemma aux_masks_agree: "SETTINGS_AUX_MASK = NFE_SILVERWARE_AUX_MASK"
  by (simp add: SETTINGS_AUX_MASK_def nfe_aux_consts)

section \<open>Stored settings come back\<close>

text \<open>
  The documented behaviour of the store, over two views of it: \<open>cur s\<close> is what a read returns now, \<open>stored s\<close> what is
  on the flash for good, each the blobs and the bytes by their keys; \<open>reboot\<close> is what a restart leaves.  A set that
  succeeds is seen by the next read, but only a commit that succeeds stores what was set: nothing at all is said about
  \<open>stored\<close> between a set and its commit.  A restart goes on with what is stored.  Opening, reading and closing
  change nothing.  A namespace that holds a value can be opened for reading, which one never written to need not allow,
  and a value that is there can be read into a buffer that is large enough.
\<close>

type_synonym nvs_view = "(string \<rightharpoonup> bytes) \<times> (string \<rightharpoonup> u8)"

definition same_store :: "('s \<Rightarrow> nvs_view) \<Rightarrow> ('s \<Rightarrow> nvs_view) \<Rightarrow> 's \<Rightarrow> 's \<Rightarrow> bool" where
  "same_store cur stored s s' \<longleftrightarrow> cur s' = cur s \<and> stored s' = stored s"

definition nvs_keeps ::
  "'s nvs_api \<Rightarrow> ('s \<Rightarrow> 's) \<Rightarrow> ('s \<Rightarrow> nvs_view) \<Rightarrow> ('s \<Rightarrow> nvs_view) \<Rightarrow> bool" where
  "nvs_keeps api reboot cur stored \<longleftrightarrow>
     (\<forall>mode s. same_store cur stored s (snd (nvs_open api mode s))) \<and>
     (\<forall>s. same_store cur stored s (nvs_close api s)) \<and>
     (\<forall>key buf n s ok buf' n' s'. nvs_get_blob api key buf n s = (ok, buf', n', s') \<longrightarrow> same_store cur stored s s' \<and>
        (ok \<longrightarrow> fst (cur s) key = Some buf' \<and> n' = length buf')) \<and>
     (\<forall>key b s ok b' s'. nvs_get_u8 api key b s = (ok, b', s') \<longrightarrow> same_store cur stored s s' \<and>
        (ok \<longrightarrow> snd (cur s) key = Some b')) \<and>
     (\<forall>key b s. fst (nvs_set_blob api key b s) \<longrightarrow>
        cur (snd (nvs_set_blob api key b s)) = ((fst (cur s))(key \<mapsto> b), snd (cur s))) \<and>
     (\<forall>key b s. fst (nvs_set_u8 api key b s) \<longrightarrow>
        cur (snd (nvs_set_u8 api key b s)) = (fst (cur s), (snd (cur s))(key \<mapsto> b))) \<and>
     (\<forall>s. fst (nvs_commit api s) \<longrightarrow>
        cur (snd (nvs_commit api s)) = cur s \<and> stored (snd (nvs_commit api s)) = cur s) \<and>
     (\<forall>s. cur (reboot s) = stored s \<and> stored (reboot s) = stored s) \<and>
     (\<forall>s. cur s \<noteq> (Map.empty, Map.empty) \<longrightarrow> fst (nvs_open api NVS_READONLY s)) \<and>
     (\<forall>key buf n s b. fst (cur s) key = Some b \<longrightarrow> length b \<le> n \<longrightarrow> fst (nvs_get_blob api key buf n s)) \<and>
     (\<forall>key c s. snd (cur s) key \<noteq> None \<longrightarrow> fst (nvs_get_u8 api key c s))"

lemma nvs_keepsD:
  assumes "nvs_keeps api reboot cur stored"
  shows "nvs_open api mode s = (ok, s') \<Longrightarrow> cur s' = cur s \<and> stored s' = stored s"
    "cur (nvs_close api s) = cur s" "stored (nvs_close api s) = stored s"
    "nvs_commit api s = (True, s') \<Longrightarrow> cur s' = cur s \<and> stored s' = cur s"
    "nvs_set_blob api key b s = (True, s') \<Longrightarrow> cur s' = ((fst (cur s))(key \<mapsto> b), snd (cur s))"
    "nvs_set_u8 api key c s = (True, s') \<Longrightarrow> cur s' = (fst (cur s), (snd (cur s))(key \<mapsto> c))"
    "nvs_get_blob api key buf n s = (True, buf', n', s') \<Longrightarrow> fst (cur s) key = Some buf' \<and> n' = length buf'"
    "nvs_get_u8 api key c s = (True, c', s') \<Longrightarrow> snd (cur s) key = Some c'"
    "cur (reboot s) = stored s" "cur s \<noteq> (Map.empty, Map.empty) \<Longrightarrow> fst (nvs_open api NVS_READONLY s)"
    "fst (cur s) key = Some b \<Longrightarrow> length b \<le> n \<Longrightarrow> fst (nvs_get_blob api key buf n s)"
    "snd (cur s) key \<noteq> None \<Longrightarrow> fst (nvs_get_u8 api key c s)"
  using assms unfolding nvs_keeps_def same_store_def by (metis fst_conv snd_conv)+

text \<open>A successful write is stored, since it ends with a commit.\<close>

lemma write_aux_stores:
  assumes "nvs_keeps api reboot cur stored" "nvs_write_aux api f s = (True, s')"
  shows "cur s' = (fst (cur s), (snd (cur s))(NVS_KEY_AUX \<mapsto> f)) \<and> stored s' = cur s'"
  using assms(2) nvs_keepsD(1-6) [OF assms(1)]
  by (auto simp: nvs_write_aux_def commit_and_close_def Let_def split: prod.splits if_splits)

lemma write_id_stores:
  assumes "nvs_keeps api reboot cur stored" "nvs_write_id api i s = (True, s')"
  shows "cur s' = ((fst (cur s))(NVS_KEY_TXID \<mapsto> take 5 i), snd (cur s)) \<and> stored s' = cur s'"
  using assms(2) nvs_keepsD(1-6) [OF assms(1)]
  by (auto simp: nvs_write_id_def commit_and_close_def Let_def split: prod.splits if_splits)

lemma open_stored:
  assumes "nvs_keeps api reboot cur stored" "fst (cur s) k \<noteq> None \<or> snd (cur s) k \<noteq> None"
  shows "\<exists>s1. nvs_open api NVS_READONLY s = (True, s1) \<and> cur s1 = cur s"
proof -
  have "cur s \<noteq> (Map.empty, Map.empty)" using assms(2) by auto
  then have "fst (nvs_open api NVS_READONLY s)" by (rule nvs_keepsD(10) [OF assms(1)])
  then show ?thesis using nvs_keepsD(1) [OF assms(1)] by (metis prod.collapse)
qed

lemma read_aux_succeeds:
  assumes "nvs_keeps api reboot cur stored" "snd (cur s) NVS_KEY_AUX = Some f"
  shows "\<exists>s'. nvs_read_aux api g s = (True, f, s')"
proof -
  obtain s1 where o: "nvs_open api NVS_READONLY s = (True, s1)" "cur s1 = cur s"
    using open_stored [OF assms(1)] assms(2) by (metis option.distinct(1))
  have "fst (nvs_get_u8 api NVS_KEY_AUX g s1)"
    by (rule nvs_keepsD(12) [OF assms(1)]) (simp add: o(2) assms(2))
  then obtain f' s2 where g: "nvs_get_u8 api NVS_KEY_AUX g s1 = (True, f', s2)" by (metis prod.collapse)
  have "f' = f" using nvs_keepsD(8) [OF assms(1) g] o(2) assms(2) by simp
  then show ?thesis by (simp add: nvs_read_aux_def o g)
qed

lemma read_id_succeeds:
  assumes "nvs_keeps api reboot cur stored" "fst (cur s) NVS_KEY_TXID = Some i" "length i = 5"
  shows "\<exists>s'. nvs_read_id api b s = (True, i, s')"
proof -
  obtain s1 where o: "nvs_open api NVS_READONLY s = (True, s1)" "cur s1 = cur s"
    using open_stored [OF assms(1)] assms(2) by (metis option.distinct(1))
  have "fst (cur s1) NVS_KEY_TXID = Some i" "length i \<le> 5" using o(2) assms(2,3) by simp_all
  then have "fst (nvs_get_blob api NVS_KEY_TXID b 5 s1)" by (rule nvs_keepsD(11) [OF assms(1)])
  then obtain i' n' s2 where g: "nvs_get_blob api NVS_KEY_TXID b 5 s1 = (True, i', n', s2)" by (metis prod.collapse)
  have "i' = i \<and> n' = 5" using nvs_keepsD(7) [OF assms(1) g] o(2) assms(2,3) by simp
  then show ?thesis by (simp add: nvs_read_id_def o g)
qed

section \<open>Properties\<close>

text \<open>C22: Settings survive a reboot.  Whatever the random words are, the generated transmitter id is usable (five
  bytes, not all zero).  When it and later a set of AUX flags have been saved successfully and the board restarts, which
  drops everything that was set but not committed, the loads of the next boot succeed and return that id and
  those flags; AUX flags outside the mask are refused and leave the store alone.  The store behaves as the
  SDK documents it: only a commit makes a value last.\<close>

theorem settings_persist:
  assumes "nvs_keeps api reboot cur stored"
    and "generate_and_save_transmitter_id api r1 r2 (Some b) s0 = (True, tx_id, s1)"
    and "save_aux_flags api f s1 = (True, s2)"
  shows "transmitter_id_is_valid tx_id \<and> length (the tx_id) = 5 \<and>
    (\<exists>s'. load_transmitter_id api (Some b') (reboot s2) = (True, tx_id, s')) \<and>
    (\<exists>s'. load_aux_flags api (Some g) (reboot s2) = (True, Some f, s')) \<and>
    (e AND NOT SETTINGS_AUX_MASK \<noteq> 0 \<longrightarrow> save_aux_flags api e s2 = (False, s2))"
proof -
  let ?i = "transmitter_id_of r1 r2"
  have i: "tx_id = Some ?i" and w: "nvs_write_id api ?i s0 = (True, s1)"
    using assms(2) by (auto simp: generate_and_save_transmitter_id_def save_transmitter_id_to_def nvs_storage_def
        Let_def split: prod.splits)
  have f: "f AND NOT SETTINGS_AUX_MASK = 0" and wf: "nvs_write_aux api f s1 = (True, s2)"
    using assms(3) by (auto simp: save_aux_flags_def save_aux_flags_to_def nvs_storage_def split: if_splits)
  have "fst (cur (reboot s2)) NVS_KEY_TXID = Some ?i" "snd (cur (reboot s2)) NVS_KEY_AUX = Some f"
    using write_id_stores [OF assms(1) w] write_aux_stores [OF assms(1) wf] by (simp_all add: nvs_keepsD(9) [OF assms(1)])
  with read_id_succeeds [OF assms(1), of "reboot s2" ?i b'] read_aux_succeeds [OF assms(1), of "reboot s2" f g]
  obtain sa sb where "nvs_read_id api b' (reboot s2) = (True, ?i, sa)" "nvs_read_aux api g (reboot s2) = (True, f, sb)"
    by auto
  then show ?thesis
    by (simp add: i f load_transmitter_id_def load_transmitter_id_from_def load_aux_flags_def load_aux_flags_from_def
        nvs_storage_def save_aux_flags_def save_aux_flags_to_def)
qed

text \<open>A store of two layers: sets change the first, a commit copies it to the second, a restart copies it back.  An
  empty namespace cannot be opened for reading.\<close>

record map_store =
  ms_cur :: nvs_view
  ms_stored :: nvs_view

definition map_reboot :: "map_store \<Rightarrow> map_store" where
  "map_reboot s = s\<lparr> ms_cur := ms_stored s \<rparr>"

definition map_nvs :: "map_store nvs_api" where
  "map_nvs = \<lparr> nvs_open = (\<lambda>mode s. (mode = NVS_READWRITE \<or> ms_cur s \<noteq> (Map.empty, Map.empty), s)),
     nvs_get_blob = (\<lambda>key buf n s. case fst (ms_cur s) key of None \<Rightarrow> (False, buf, n, s)
        | Some b \<Rightarrow> if length b \<le> n then (True, b, length b, s) else (False, buf, n, s)),
     nvs_set_blob = (\<lambda>key b s. (True, s\<lparr> ms_cur := ((fst (ms_cur s))(key \<mapsto> b), snd (ms_cur s)) \<rparr>)),
     nvs_get_u8 = (\<lambda>key c s. case snd (ms_cur s) key of None \<Rightarrow> (False, c, s) | Some b \<Rightarrow> (True, b, s)),
     nvs_set_u8 = (\<lambda>key c s. (True, s\<lparr> ms_cur := (fst (ms_cur s), (snd (ms_cur s))(key \<mapsto> c)) \<rparr>)),
     nvs_commit = (\<lambda>s. (True, s\<lparr> ms_stored := ms_cur s \<rparr>)), nvs_close = (\<lambda>s. s) \<rparr>"

definition map_empty :: map_store where
  "map_empty = \<lparr> ms_cur = (Map.empty, Map.empty), ms_stored = (Map.empty, Map.empty) \<rparr>"

lemma map_nvs_ok: "nvs_keeps map_nvs map_reboot ms_cur ms_stored"
  by (auto simp: nvs_keeps_def same_store_def map_nvs_def map_reboot_def split: option.splits if_splits)

theorem settings_persist_witness:
  "nvs_keeps map_nvs map_reboot ms_cur ms_stored \<and>
   (\<exists>s1 s2. generate_and_save_transmitter_id map_nvs 0 0 (Some [0, 0, 0, 0, 0]) map_empty = (True, Some [1, 0, 0, 0, 0], s1) \<and>
      save_aux_flags map_nvs 5 s1 = (True, s2) \<and>
      (\<exists>s'. load_transmitter_id map_nvs (Some [9, 9, 9, 9, 9]) (map_reboot s2) = (True, Some [1, 0, 0, 0, 0], s')) \<and>
      (\<exists>s'. load_aux_flags map_nvs (Some 0) (map_reboot s2) = (True, Some 5, s')))"
proof -
  let ?v1 = "([NVS_KEY_TXID \<mapsto> [1, 0, 0, 0, 0]], Map.empty) :: nvs_view"
  let ?v2 = "([NVS_KEY_TXID \<mapsto> [1, 0, 0, 0, 0]], [NVS_KEY_AUX \<mapsto> 5]) :: nvs_view"
  have a: "generate_and_save_transmitter_id map_nvs 0 0 (Some [0, 0, 0, 0, 0]) map_empty =
      (True, Some [1, 0, 0, 0, 0], \<lparr> ms_cur = ?v1, ms_stored = ?v1 \<rparr>)"
    by (simp add: generate_and_save_transmitter_id_def transmitter_id_of_def settings_defs map_nvs_def map_empty_def
        transmitter_id_is_valid_def to_u8_def numeral_eq_Suc Let_def)
  have b: "save_aux_flags map_nvs 5 \<lparr> ms_cur = ?v1, ms_stored = ?v1 \<rparr> = (True, \<lparr> ms_cur = ?v2, ms_stored = ?v2 \<rparr>)"
    by (simp add: settings_defs map_nvs_def SETTINGS_AUX_MASK_def)
  show ?thesis
    using settings_persist [OF map_nvs_ok a b, of "[9, 9, 9, 9, 9]" 0 0] a b map_nvs_ok by blast
qed

end
