(* ===== verification/Control_Task.thy ===== *)
theory Control_Task
  imports Prearm_Guard Console Feedback Settings Xn297 "HOL-Library.Monad_Syntax"
begin

text \<open>
  The control and radio task: \<^verbatim>\<open>src/main/app_main.cpp\<close>, with the settings of \<^verbatim>\<open>config.h\<close> (telemetry on, analog
  AUX off, text output).  One record holds the statics of the modules the task owns and the task's local
  variables; one pass of its loop is the function \<open>control_cycle\<close>, made of the same steps in the same order.
  The two polling loops may run forever if the clock stands still, so a cycle returns an option, \<^const>\<open>None\<close>
  when it does not end.  Bluetooth runs concurrently: between two cycles the seats may change arbitrarily.
\<close>

definition RADIO_TX_TIMEOUT_US :: int where "RADIO_TX_TIMEOUT_US = 1000"

definition RADIO_FAILURE_LIMIT :: u8 where "RADIO_FAILURE_LIMIT = 3"

definition CONTROL_LOOP_PERIOD_MS :: int where "CONTROL_LOOP_PERIOD_MS = 5"

definition ARM_THROTTLE_MAX :: u16 where "ARM_THROTTLE_MAX = 10"

definition PREARM_MODE_TIMEOUT_US :: int where "PREARM_MODE_TIMEOUT_US = 2000000"

definition TELEMETRY_RX_DEADLINE_US :: int where "TELEMETRY_RX_DEADLINE_US = 4400"

definition STATUS_PRINT_HZ :: int where "STATUS_PRINT_HZ = 5"

definition ROLL_REVERSED :: bool where "ROLL_REVERSED = False"

definition PITCH_REVERSED :: bool where "PITCH_REVERSED = False"

definition YAW_REVERSED :: bool where "YAW_REVERSED = False"

definition BAYANG_ENABLE_TELEMETRY :: bool where "BAYANG_ENABLE_TELEMETRY = True"

definition BAYANG_ENABLE_ANALOG_AUX :: bool where "BAYANG_ENABLE_ANALOG_AUX = False"

text \<open>The modules' statics first, then the locals of \<^verbatim>\<open>control_radio_task\<close>.\<close>

record 's control_task =
  ct_radio :: xradio
  ct_failsafe :: failsafe
  ct_telemetry :: telemetry
  ct_bayang :: bayang
  ct_gamepad :: gamepad_manager
  ct_bp32 :: Bluepad32
  ct_bt :: bp32
  ct_console :: console
  ct_feedback :: feedback
  ct_nvs :: 's
  ct_tx_id :: bytes
  ct_hopping_channels :: bytes
  radio_initialized :: bool
  channel_index :: u8
  consecutive_tx_failures :: u8
  stats :: RadioStats
  controls :: ControlState
  previous_connected :: bool
  previous_buttons :: ButtonEdgeState
  aux_state :: NfeSilverwareAuxState
  gesture_player :: NfeSilverwareGesturePlayer
  previous_state :: SystemState
  next_status_us :: time_us
  prearm_started_us :: time_us

definition ct_now :: "'s control_task \<Rightarrow> time_us \<times> 's control_task" where
  "ct_now s =
     (let (now, h) = esp_timer_get_time (xhw (ct_radio s)) in (now, s\<lparr> ct_radio := (ct_radio s)\<lparr> xhw := h \<rparr> \<rparr>))"

text \<open>\<^verbatim>\<open>LOG\<close> reads the clock for its time stamp; the text is not modelled.\<close>

definition log_line :: "'s control_task \<Rightarrow> 's control_task" where
  "log_line s = snd (ct_now s)"

definition publish_event :: "ConsoleEventType \<Rightarrow> SystemState \<Rightarrow> SystemState \<Rightarrow> 's control_task \<Rightarrow> 's control_task" where
  "publish_event t previous cur s =
     s\<lparr> ct_console := console_publish_event \<lparr> ev_type = t, previousState = previous, currentState = cur \<rparr> (ct_console s) \<rparr>"

definition publish_state_change :: "SystemState \<Rightarrow> SystemState \<Rightarrow> 's control_task \<Rightarrow> 's control_task" where
  "publish_state_change previous cur s =
     (if previous = cur then s
      else publish_event StateChanged previous cur
             (s\<lparr> ct_feedback := feedback_notify_state previous cur (ct_feedback s) \<rparr>))"

section \<open>The control states\<close>

definition neutral_control :: BayangControlState where
  "neutral_control = bayang_control_zero\<lparr> bc_roll := 512, bc_pitch := 512, bc_yaw := 512, bc_throttle := 0 \<rparr>"

definition gesture_request :: "ControlState \<Rightarrow> NfeSilverwareGesture" where
  "gesture_request c =
     (if \<not> btnR3 c then GNone
      else if btnDPadDown c then Save
      else if btnDPadUp c then ToggleBindStorage
      else if btnDPadLeft c then ToggleLowVoltageLanding
      else if btnDPadRight c then ToggleFeature1
      else if btnA c then TogglePropsDirection
      else if btnB c then StickTravelOff
      else if btnX c then StickTravelOn
      else if btnY c then NextPidTerm
      else if btnL3 c then NextPidAxis
      else if btnRB c then IncreasePid
      else if btnLB c then DecreasePid
      else GNone)"

definition locked_control :: "ControlState \<Rightarrow> NfeSilverwareGestureOutput \<Rightarrow> BayangControlState" where
  "locked_control c automatic_gesture =
     (let manual_gesture = cs_connected c \<and> btnL3 c
      in if \<not> go_active automatic_gesture \<and> \<not> manual_gesture
         then nfe_silverware_make_locked_control False 512 512
         else
           let roll = (if go_active automatic_gesture then go_roll automatic_gesture
                       else gamepad_get_bayang_channel (rollRaw c) False ROLL_REVERSED STICK_DEADBAND ROLL_EXPO);
               pitch = (if go_active automatic_gesture then go_pitch automatic_gesture
                        else gamepad_get_bayang_channel (pitchRaw c) False PITCH_REVERSED STICK_DEADBAND PITCH_EXPO)
           in nfe_silverware_make_locked_control True roll pitch)"

definition active_control :: "ControlState \<Rightarrow> NfeSilverwareAuxState \<Rightarrow> BayangControlState" where
  "active_control c aux =
     nfe_silverware_apply_multi_aux
       (bayang_control_zero\<lparr>
          bc_roll := gamepad_get_bayang_channel (rollRaw c) False ROLL_REVERSED STICK_DEADBAND ROLL_EXPO,
          bc_pitch := gamepad_get_bayang_channel (pitchRaw c) False PITCH_REVERSED STICK_DEADBAND PITCH_EXPO,
          bc_yaw := gamepad_get_bayang_channel (yawRaw c) False YAW_REVERSED STICK_DEADBAND YAW_EXPO,
          bc_throttle := gamepad_get_bayang_channel (uint (throttleRaw c)) True False 0 0 \<rparr>)
       True aux"

definition prearm_control :: "NfeSilverwareAuxState \<Rightarrow> BayangControlState" where
  "prearm_control aux =
     nfe_silverware_apply_multi_aux
       (bayang_control_zero\<lparr> bc_roll := 512, bc_pitch := 512, bc_yaw := 512, bc_throttle := 0 \<rparr>) False aux"

section \<open>Transmission\<close>

text \<open>The \<^verbatim>\<open>while\<close> loop of \<^verbatim>\<open>transmit_packet\<close>: the condition reads the clock on every pass.\<close>

partial_function (option) poll_tx :: "time_us \<Rightarrow> xradio \<Rightarrow> (bool \<times> xradio) option" where
  "poll_tx start_us r =
     (let (now, h) = esp_timer_get_time (xhw r); r1 = r\<lparr> xhw := h \<rparr>
      in if now - start_us \<le> RADIO_TX_TIMEOUT_US then
           let (status, r2) = xn297_get_tx_status r1
           in if status = Sent then Some (True, r2)
              else if status = TxError then Some (False, r2)
              else poll_tx start_us (r2\<lparr> xhw := delayMicroseconds 10 (xhw r2) \<rparr>)
         else Some (False, r1))"

definition transmit_packet :: "bytes \<Rightarrow> xradio \<Rightarrow> (bool \<times> xradio) option" where
  "transmit_packet packet r =
     (let (ok, r1) = xn297_write_payload (Some packet) (xn297_set_tx_mode r)
      in if \<not> ok then Some (False, r1)
         else let (start_us, h) = esp_timer_get_time (xhw r1) in poll_tx start_us (r1\<lparr> xhw := h \<rparr>))"

text \<open>
  The receive window: until the deadline, the first time the interrupt pin is low and the status says a packet is
  there, it is read and parsed and the window ends.
\<close>

definition receive_one :: "telemetry \<Rightarrow> RadioStats \<Rightarrow> xradio \<Rightarrow> telemetry \<times> RadioStats \<times> xradio" where
  "receive_one t st r =
     (let (received_us, h) = esp_timer_get_time (xhw r);
          (received, r1) = xn297_read_payload BAYANG_PACKET_SIZE (r\<lparr> xhw := h \<rparr>)
      in case received of
           None \<Rightarrow> (t, st\<lparr> telemetryRejected := telemetryRejected st + 1 \<rparr>, r1)
         | Some p \<Rightarrow>
             (case telemetry_parse (Some p) received_us t of (ok, t') \<Rightarrow>
               if ok then (t', st\<lparr> telemetryAccepted := telemetryAccepted st + 1 \<rparr>, r1)
               else (t', st\<lparr> telemetryRejected := telemetryRejected st + 1 \<rparr>, r1)))"

definition rx_signalled :: "xradio \<Rightarrow> bool \<times> xradio" where
  "rx_signalled r =
     (let (irq, r1) = xn297_irq_asserted r in if irq then xn297_is_rx_ready r1 else (False, r1))"

partial_function (option) rx_window ::
  "time_us \<Rightarrow> telemetry \<Rightarrow> RadioStats \<Rightarrow> xradio \<Rightarrow> (telemetry \<times> RadioStats \<times> xradio) option" where
  "rx_window deadline_us t st r =
     (let (now, h) = esp_timer_get_time (xhw r); r1 = r\<lparr> xhw := h \<rparr>
      in if now < deadline_us then
           let (ready, r2) = rx_signalled r1
           in if ready then Some (receive_one t st r2)
              else rx_window deadline_us t st (r2\<lparr> xhw := delayMicroseconds 10 (xhw r2) \<rparr>)
         else Some (t, st, r1))"

section \<open>Start of the task\<close>

definition radio_init_failed :: "'s control_task \<Rightarrow> 's control_task" where
  "radio_init_failed s =
     (let s1 = s\<lparr> ct_failsafe := failsafe_report_radio_error (ct_failsafe s) \<rparr>;
          s2 = publish_event RadioInitFailed (previous_state s1) STATE_RADIO_ERROR s1;
          s3 = publish_state_change (previous_state s2) STATE_RADIO_ERROR s2
      in s3\<lparr> previous_state := STATE_RADIO_ERROR \<rparr>)"

definition task_locals :: "'s nvs_api \<Rightarrow> 's control_task \<Rightarrow> 's control_task" where
  "task_locals api s =
     (let (loaded, flags, nvs') = load_aux_flags api (Some 0) (ct_nvs s)
      in s\<lparr> channel_index := 0, consecutive_tx_failures := 0, stats := RadioStats_zero,
            controls := ControlState_zero, previous_connected := False,
            previous_buttons := \<lparr> be_start = False, be_view = False, be_b = False \<rparr>, gesture_player := player_zero,
            ct_nvs := nvs',
            aux_state := (if loaded then the (nfe_silverware_restore_aux (Some aux_zero) (the flags)) else aux_zero),
            previous_state := failsafe_get_state (ct_failsafe s), next_status_us := 0, prearm_started_us := 0 \<rparr>)"

definition start_radio :: "'s control_task \<Rightarrow> 's control_task" where
  "start_radio s =
     (if \<not> radio_initialized s then radio_init_failed s
      else
        let (ok, r) = xn297_set_rx_address (Some (ct_tx_id s)) BAYANG_PACKET_SIZE (ct_radio s);
            s1 = s\<lparr> ct_radio := r \<rparr>
        in if \<not> ok then radio_init_failed s1 else s1)"

definition control_radio_task_start :: "'s nvs_api \<Rightarrow> 's control_task \<Rightarrow> 's control_task" where
  "control_radio_task_start api s = start_radio (task_locals api s)"

section \<open>One cycle\<close>

text \<open>The controls: the gamepad is polled, and a change of the connection reported.\<close>

definition read_controls :: "'s control_task \<Rightarrow> 's control_task" where
  "read_controls s =
     (let (m, b, w, h) = gamepad_update (ct_gamepad s, ct_bp32 s, ct_bt s, xhw (ct_radio s));
          s1 = s\<lparr> ct_gamepad := m, ct_bp32 := b, ct_bt := w, ct_radio := (ct_radio s)\<lparr> xhw := h \<rparr>,
                  controls := gamepad_get_state m \<rparr>
      in if cs_connected (controls s1) \<noteq> previous_connected s1
         then (publish_event (if cs_connected (controls s1) then GamepadConnected else GamepadDisconnected)
                 (previous_state s1) (previous_state s1) s1)\<lparr> previous_connected := cs_connected (controls s1) \<rparr>
         else s1)"

definition failsafe_arguments :: "time_us \<Rightarrow> SystemState \<Rightarrow> ControlState \<Rightarrow> ButtonEdges \<Rightarrow> failsafe_inputs" where
  "failsafe_arguments cycle_start_us before_update c edges =
     \<lparr> fi_now = cycle_start_us, gamepad_connected = cs_connected c, last_gamepad_update = lastUpdateUs c,
       throttle_idle = throttleRaw c \<le> ARM_THROTTLE_MAX, unlock_clicked = startClicked edges,
       bind_clicked = viewClicked edges,
       disarm_clicked = bClicked edges \<or> startClicked edges \<and>
          (before_update = STATE_ACTIVE \<or> before_update = STATE_PREARM_MODE) \<rparr>"

text \<open>
  The safety state: the failsafe machine, then the pre-arm confirmation or its timeout, then the report of a change
  and the restart of the hopping sequence after binding.
\<close>

definition update_failsafe :: "time_us \<Rightarrow> 's control_task \<Rightarrow> 's control_task" where
  "update_failsafe cycle_start_us s =
     (let (edges, pb) = detect_button_edges (previous_buttons s) (btnStart (controls s)) (btnView (controls s))
            (btnB (controls s));
          before_update = failsafe_get_state (ct_failsafe s);
          fs = failsafe_update_at (failsafe_arguments cycle_start_us before_update (controls s) edges) (ct_failsafe s);
          s1 = s\<lparr> previous_buttons := pb, ct_failsafe := fs \<rparr>
      in if before_update \<noteq> STATE_PREARM_MODE \<and> failsafe_get_state fs = STATE_PREARM_MODE
         then s1\<lparr> prearm_started_us := cycle_start_us \<rparr> else s1)"

definition check_prearm :: "time_us \<Rightarrow> 's control_task \<Rightarrow> 's control_task" where
  "check_prearm cycle_start_us s =
     (if failsafe_get_state (ct_failsafe s) = STATE_PREARM_MODE then
        if prearm_configuration_confirmed (telemetry_get_snapshot cycle_start_us (ct_telemetry s)) (aux_state s)
             (prearm_started_us s)
        then s\<lparr> ct_failsafe := failsafe_complete_prearm (ct_failsafe s) \<rparr>
        else if cycle_start_us - prearm_started_us s \<ge> PREARM_MODE_TIMEOUT_US
        then s\<lparr> ct_failsafe := failsafe_cancel_prearm (ct_failsafe s) \<rparr>
        else s
      else s)"

definition note_state :: "'s control_task \<Rightarrow> 's control_task" where
  "note_state s =
     (let sys = failsafe_get_state (ct_failsafe s);
          s1 = publish_state_change (previous_state s) sys s;
          s2 = (if previous_state s1 = STATE_BINDING \<and> sys \<noteq> STATE_BINDING then s1\<lparr> channel_index := 0 \<rparr> else s1)
      in s2\<lparr> previous_state := sys \<rparr>)"

definition update_safety :: "time_us \<Rightarrow> 's control_task \<Rightarrow> 's control_task" where
  "update_safety cycle_start_us s = note_state (check_prearm cycle_start_us (update_failsafe cycle_start_us s))"

text \<open>The AUX selections and their persistence.\<close>

definition update_aux :: "'s nvs_api \<Rightarrow> SystemState \<Rightarrow> 's control_task \<Rightarrow> 's control_task" where
  "update_aux api sys s =
     (let previous_aux_flags = nfe_silverware_aux_flags (aux_state s);
          c = controls s;
          s1 = s\<lparr> aux_state := nfe_silverware_update_aux (aux_state s) (sys = STATE_ACTIVE) (btnA c) (btnX c) (btnY c)
                    (btnRB c) (btnLB c) \<rparr>;
          current_aux_flags = nfe_silverware_aux_flags (aux_state s1)
      in if current_aux_flags \<noteq> previous_aux_flags then
           let (saved, nvs') = save_aux_flags api current_aux_flags (ct_nvs s1);
               s2 = s1\<lparr> ct_nvs := nvs' \<rparr>
           in if \<not> saved then log_line s2 else s2
         else s1)"

definition update_gesture ::
  "time_us \<Rightarrow> SystemState \<Rightarrow> 's control_task \<Rightarrow> NfeSilverwareGestureOutput \<times> 's control_task" where
  "update_gesture cycle_start_us sys s =
     (if sys = STATE_LOCKED then
        let (pl, g) = nfe_silverware_update_gesture (Some (gesture_player s)) (gesture_request (controls s)) cycle_start_us
        in (g, s\<lparr> gesture_player := the pl \<rparr>)
      else (gesture_output_zero,
            s\<lparr> gesture_player := the (nfe_silverware_cancel_gesture (Some (gesture_player s))) \<rparr>))"

text \<open>The control state a data packet carries, and the packet with its address and channel.\<close>

definition cycle_control ::
  "SystemState \<Rightarrow> NfeSilverwareGestureOutput \<Rightarrow> 's control_task \<Rightarrow> BayangControlState" where
  "cycle_control sys automatic_gesture s =
     (if sys = STATE_ACTIVE then active_control (controls s) (aux_state s)
      else if sys = STATE_PREARM_MODE then prearm_control (aux_state s)
      else if sys = STATE_LOCKED then locked_control (controls s) automatic_gesture
      else neutral_control)"

definition prepare_packet ::
  "SystemState \<Rightarrow> NfeSilverwareGestureOutput \<Rightarrow> 's control_task \<Rightarrow> bytes option \<times> 's control_task" where
  "prepare_packet sys automatic_gesture s =
     (if sys = STATE_BINDING then
        let bind_header = bayang_select_bind_header BAYANG_ENABLE_TELEMETRY BAYANG_ENABLE_ANALOG_AUX;
            packet = bayang_build_bind_packet (ct_bayang s) bind_header
        in (Some packet,
            s\<lparr> ct_radio := xn297_set_channel 0 (xn297_set_tx_address [0, 0, 0, 0, 0] (ct_radio s)) \<rparr>)
      else if sys \<noteq> STATE_RADIO_ERROR then
        let packet = bayang_build_data_packet (ct_bayang s) (cycle_control sys automatic_gesture s)
        in (Some packet,
            s\<lparr> ct_radio := xn297_set_channel (ct_hopping_channels s ! unat (channel_index s))
                 (xn297_set_tx_address (ct_tx_id s) (ct_radio s)),
               channel_index := (channel_index s + 1) mod of_nat BAYANG_RF_CHANNELS \<rparr>)
      else (None, s))"

definition receive_telemetry :: "time_us \<Rightarrow> 's control_task \<Rightarrow> 's control_task option" where
  "receive_telemetry cycle_start_us s =
     do { (t, st, r) \<leftarrow> rx_window (cycle_start_us + TELEMETRY_RX_DEADLINE_US) (ct_telemetry s) (stats s)
            (xn297_set_rx_mode (ct_radio s));
          Some (s\<lparr> ct_telemetry := t, stats := st, ct_radio := r \<rparr>) }"

definition transmit_failed :: "'s control_task \<Rightarrow> 's control_task" where
  "transmit_failed s =
     (let s1 = s\<lparr> stats := (stats s)\<lparr> txFailures := txFailures (stats s) + 1 \<rparr>,
                  consecutive_tx_failures := consecutive_tx_failures s + 1 \<rparr>
      in if consecutive_tx_failures s1 \<ge> RADIO_FAILURE_LIMIT then
           let old_state = failsafe_get_state (ct_failsafe s1);
               s2 = s1\<lparr> ct_failsafe := failsafe_report_radio_error (ct_failsafe s1) \<rparr>;
               sys = failsafe_get_state (ct_failsafe s2);
               s3 = publish_event RadioRuntimeFailed old_state sys s2;
               s4 = publish_state_change old_state sys s3
           in s4\<lparr> previous_state := sys \<rparr>
         else s1)"

definition exchange_packet ::
  "time_us \<Rightarrow> SystemState \<Rightarrow> NfeSilverwareGestureOutput \<Rightarrow> 's control_task \<Rightarrow> 's control_task option" where
  "exchange_packet cycle_start_us sys automatic_gesture s =
     (let (packet, s1) = prepare_packet sys automatic_gesture s
      in case packet of
           None \<Rightarrow> Some s1
         | Some p \<Rightarrow>
             let s2 = s1\<lparr> stats := (stats s1)\<lparr> txPackets := txPackets (stats s1) + 1 \<rparr> \<rparr>
             in do { (sent, r) \<leftarrow> transmit_packet p (ct_radio s2);
                     let s3 = s2\<lparr> ct_radio := r \<rparr>;
                     if sent then
                       let s4 = s3\<lparr> consecutive_tx_failures := 0 \<rparr>
                       in if sys \<noteq> STATE_BINDING then receive_telemetry cycle_start_us s4 else Some s4
                     else Some (transmit_failed s3) })"

text \<open>
  The end of the cycle.  The local \<^verbatim>\<open>state\<close> of the source is the failsafe state at this point: both branches of
  the transmission leave it so.
\<close>

definition finish_cycle :: "time_us \<Rightarrow> 's control_task \<Rightarrow> 's control_task" where
  "finish_cycle cycle_start_us s =
     (let (cycle_end_us, s1) = ct_now s;
          s2 = (if cycle_end_us - cycle_start_us > CONTROL_LOOP_PERIOD_MS * 1000
                then s1\<lparr> stats := (stats s1)\<lparr> deadlineMisses := deadlineMisses (stats s1) + 1 \<rparr> \<rparr> else s1)
      in if cycle_end_us \<ge> next_status_us s2 then
           s2\<lparr> ct_console := console_publish_status
                 \<lparr> timestampUs = cycle_end_us, st_state = failsafe_get_state (ct_failsafe s2), st_controls = controls s2,
                   st_telemetry = telemetry_get_snapshot cycle_end_us (ct_telemetry s2), st_radio = stats s2 \<rparr>
                 (ct_console s2),
               next_status_us := cycle_end_us + 1000000 div STATUS_PRINT_HZ \<rparr>
         else s2)"

definition control_cycle :: "'s nvs_api \<Rightarrow> 's control_task \<Rightarrow> 's control_task option" where
  "control_cycle api s =
     (let (cycle_start_us, s1) = ct_now s;
          s2 = update_safety cycle_start_us (read_controls s1);
          sys = failsafe_get_state (ct_failsafe s2);
          s3 = update_aux api sys s2;
          (automatic_gesture, s4) = update_gesture cycle_start_us sys s3
      in map_option (finish_cycle cycle_start_us) (exchange_packet cycle_start_us sys automatic_gesture s4))"

section \<open>Start of the program\<close>

text \<open>
  \<^verbatim>\<open>setup\<close>.  What the SDK answers is the argument \<open>env\<close>: the flash partition's set-up over the store, two random words,
  and whether the queues, the tasks and the tone generator could be created.  \<^verbatim>\<open>ESP_ERROR_CHECK\<close> aborts the program
  (\<^const>\<open>None\<close>); otherwise the result says whether the control task was created.
\<close>

datatype esp_err = ESP_OK | ESP_ERR_NVS_NO_FREE_PAGES | ESP_ERR_NVS_NEW_VERSION_FOUND | ESP_OTHER

record 's boot_env =
  nvs_flash_init :: "'s \<Rightarrow> esp_err \<times> 's"
  nvs_flash_erase :: "'s \<Rightarrow> esp_err \<times> 's"
  random_1 :: u32
  random_2 :: u32
  status_queue_created :: bool
  event_queue_created :: bool
  console_task_created :: bool
  ledc_attached :: bool
  feedback_task_created :: bool
  control_task_created :: bool

definition init_flash :: "'s boot_env \<Rightarrow> 's \<Rightarrow> 's option" where
  "init_flash env store =
     (let (result, store1) = nvs_flash_init env store
      in if result = ESP_ERR_NVS_NO_FREE_PAGES \<or> result = ESP_ERR_NVS_NEW_VERSION_FOUND then
           let (erased, store2) = nvs_flash_erase env store1
           in if erased \<noteq> ESP_OK then None
              else let (result2, store3) = nvs_flash_init env store2
                   in if result2 = ESP_OK then Some store3 else None
         else if result = ESP_OK then Some store1 else None)"

text \<open>A warning is logged when a part could not be set up; the program goes on.\<close>

definition warn_unless :: "bool \<Rightarrow> 's control_task \<Rightarrow> 's control_task" where
  "warn_unless ok s = (if ok then s else log_line s)"

definition setup_id :: "'s nvs_api \<Rightarrow> 's boot_env \<Rightarrow> 's control_task \<Rightarrow> 's control_task" where
  "setup_id api env s =
     (let (loaded, i, store) = load_transmitter_id api (Some (ct_tx_id s)) (ct_nvs s);
          s1 = s\<lparr> ct_tx_id := the i, ct_nvs := store \<rparr>
      in if loaded then s1
         else let (saved, i', store') = generate_and_save_transmitter_id api (random_1 env) (random_2 env)
                    (Some (ct_tx_id s1)) (ct_nvs s1)
              in warn_unless saved (s1\<lparr> ct_tx_id := the i', ct_nvs := store' \<rparr>))"

definition setup_modules :: "'s boot_env \<Rightarrow> 's control_task \<Rightarrow> 's control_task" where
  "setup_modules env s =
     (let (m, w) = gamepad_init (ct_gamepad s) (ct_bt s);
          s1 = s\<lparr> ct_gamepad := m, ct_bt := w, ct_failsafe := failsafe_init (ct_failsafe s) \<rparr>;
          (fb_ok, fb) = feedback_init (ledc_attached env) (feedback_task_created env)
             (failsafe_get_state (ct_failsafe s1)) (ct_feedback s1);
          s2 = warn_unless fb_ok (s1\<lparr> ct_feedback := fb \<rparr>);
          s3 = s2\<lparr> ct_telemetry := telemetry_init (ct_telemetry s2) \<rparr>;
          (ok, r) = xn297_init (ct_radio s3);
          b = bayang_init (ct_tx_id s3)
      in s3\<lparr> ct_radio := r, radio_initialized := ok, ct_bayang := b,
              ct_hopping_channels := bayang_get_hopping_channels b \<rparr>)"

definition tx_setup :: "'s nvs_api \<Rightarrow> 's boot_env \<Rightarrow> 's control_task \<Rightarrow> (bool \<times> 's control_task) option" where
  "tx_setup api env s =
     do { store \<leftarrow> init_flash env (ct_nvs s);
          let (con_ok, con) = console_init (status_queue_created env) (event_queue_created env)
                (console_task_created env) (ct_console s);
              s1 = log_line (warn_unless con_ok (s\<lparr> ct_nvs := store, ct_console := con \<rparr>));
              s2 = setup_modules env (log_line (setup_id api env s1))
          in Some (control_task_created env, warn_unless (control_task_created env) s2) }"

text \<open>The statics before \<^verbatim>\<open>setup\<close>, over a board, a Bluetooth world and a store.\<close>

definition statics :: "hw \<Rightarrow> bp32 \<Rightarrow> 's \<Rightarrow> 's control_task" where
  "statics h w store =
     \<lparr> ct_radio = \<lparr> xn297_tx_addr = replicate 5 0, xhw = h \<rparr>, ct_failsafe = failsafe_boot, ct_telemetry = telemetry_boot,
       ct_bayang = \<lparr> rx_tx_addr = replicate 5 0, bay_hopping_channels = replicate 4 0 \<rparr>,
       ct_gamepad = manager_boot, ct_bp32 = Bluepad32_zero 1, ct_bt = w, ct_console = console_boot,
       ct_feedback = \<lparr> requested_transition = 0, outputs = [] \<rparr>, ct_nvs = store, ct_tx_id = replicate 5 0,
       ct_hopping_channels = replicate 4 0, radio_initialized = False, channel_index = 0, consecutive_tx_failures = 0,
       stats = RadioStats_zero, controls = ControlState_zero, previous_connected = False,
       previous_buttons = \<lparr> be_start = False, be_view = False, be_b = False \<rparr>, aux_state = aux_zero,
       gesture_player = player_zero, previous_state = STATE_BOOT, next_status_us = 0, prearm_started_us = 0 \<rparr>"

text \<open>
  The states the task passes through at the top of its loop.  Between two cycles the Bluetooth side may do anything
  to its world except change the number of seats.
\<close>

inductive tx_reach :: "'s nvs_api \<Rightarrow> 's boot_env \<Rightarrow> 's control_task \<Rightarrow> bool" for api env where
  start: "mono (clock h) \<Longrightarrow> tx_setup api env (statics h w store) = Some (True, s) \<Longrightarrow> length (Hid_Device.controllers w) = 1 \<Longrightarrow>
    tx_reach api env (control_radio_task_start api s)"
| cycle: "tx_reach api env s \<Longrightarrow> control_cycle api s = Some s' \<Longrightarrow> tx_reach api env s'"
| bluetooth: "tx_reach api env s \<Longrightarrow> length (Hid_Device.controllers w) = 1 \<Longrightarrow> tx_reach api env (s\<lparr> ct_bt := w \<rparr>)"

end
