(* ===== verification/Radio_Trace.thy ===== *)
theory Radio_Trace
  imports Xn297
begin

text \<open>
  What the radio driver's operations do to the board, as one relation: \<open>emits h h' ps\<close> says that between \<open>h\<close>
  and \<open>h'\<close> the bus carried whole frames, that \<open>ps\<close> are those of them that load a packet for transmission
  (\<^verbatim>\<open>W_TX_PAYLOAD\<close>), that the clock was only read and only advanced, and that what the radio will
  answer did not change.  The control task's proofs
  compose it over a cycle.
\<close>

definition later :: "hw \<Rightarrow> hw \<Rightarrow> bool" where
  "later h h' \<longleftrightarrow> miso h' = miso h \<and> clock h' = clock h \<and> clock_n h \<le> clock_n h' \<and> delayed h \<le> delayed h'"

lemma later_refl [simp, intro]: "later h h" by (simp add: later_def)

lemma later_trans: "later h h1 \<Longrightarrow> later h1 h2 \<Longrightarrow> later h h2" by (simp add: later_def)

definition is_payload :: "bytes \<Rightarrow> bool" where
  "is_payload f \<longleftrightarrow> f \<noteq> [] \<and> hd f = NRF24_W_TX_PAYLOAD"

definition emits :: "hw \<Rightarrow> hw \<Rightarrow> bytes list \<Rightarrow> bool" where
  "emits h h' ps \<longleftrightarrow> later h h' \<and> (\<exists>fs. sends h h' fs \<and> filter is_payload fs = ps)"

lemma emits_refl [simp, intro]: "emits h h []"
  by (auto simp: emits_def)

lemma emits_trans [trans]: "emits h h1 ps \<Longrightarrow> emits h1 h2 qs \<Longrightarrow> emits h h2 (ps @ qs)"
  unfolding emits_def by (metis filter_append later_trans sends_trans)

lemma emits_trans0: "emits h h1 [] \<Longrightarrow> emits h1 h2 qs \<Longrightarrow> emits h h2 qs"
  using emits_trans [of h h1 "[]" h2 qs] by simp

lemma emits_later: "emits h h' ps \<Longrightarrow> later h h'"
  by (simp add: emits_def)

section \<open>The clock under the driver\<close>

text \<open>SPI traffic neither reads the clock nor waits; what the radio answers is up to the board.\<close>

definition timing :: "hw \<Rightarrow> (nat \<Rightarrow> u8) \<times> (nat \<Rightarrow> int) \<times> nat \<times> nat" where
  "timing h = (miso h, clock h, clock_n h, delayed h)"

lemma later_timing: "timing h' = timing h \<Longrightarrow> later h h'"
  by (simp add: timing_def later_def)

lemma timing_basic [simp]:
  "timing (emit e h) = timing h" "timing (snd (spi_transfer b h)) = timing h" "timing (spi_send b h) = timing h"
  "timing (frame_open h) = timing h" "timing (frame_close h) = timing h"
  by (simp_all add: timing_def emit_def spi_transfer_def spi_send_def frame_open_def frame_close_def)

lemma timing_spi_send_all [simp]: "timing (spi_send_all bs h) = timing h"
  by (induction bs arbitrary: h) simp_all

lemma timing_spi_read_n [simp]: "timing (snd (spi_read_n n h)) = timing h"
proof (induction n arbitrary: h)
  case (Suc n)
  then show ?case by (simp add: case_prod_beta Let_def)
qed simp

lemma timing_driver [simp]:
  "timing (nrf24_write_reg_multi reg buf h) = timing h" "timing (nrf24_write_reg reg v h) = timing h"
  "timing (snd (nrf24_read_reg_multi reg n h)) = timing h" "timing (snd (nrf24_read_reg reg h)) = timing h"
  "timing (nrf24_flush_tx h) = timing h" "timing (nrf24_flush_rx h) = timing h"
  "timing (nrf24_set_tx_mode h) = timing h" "timing (nrf24_set_rx_mode h) = timing h"
  "timing (nrf24_clear_irq_flags h) = timing h" "timing (nrf24_set_channel c h) = timing h"
  "timing (snd (nrf24_get_status h)) = timing h"
  by (simp_all add: nrf24_write_reg_multi_def nrf24_write_reg_def nrf24_read_reg_multi_def nrf24_read_reg_def
      nrf24_flush_tx_def nrf24_flush_rx_def nrf24_set_tx_mode_def nrf24_set_rx_mode_def
      nrf24_clear_irq_flags_def nrf24_set_channel_def nrf24_get_status_def case_prod_beta Let_def)

lemma timing_irq [simp]: "timing (snd (nrf24_irq_asserted h)) = timing h"
  by (simp add: nrf24_irq_asserted_def timing_def)

lemma timing_write_payload [simp]: "timing (snd (nrf24_write_payload buf h)) = timing h"
  by (simp add: nrf24_write_payload_def split: option.splits)

lemma timing_read_payload [simp]: "timing (snd (nrf24_read_payload n h)) = timing h"
  by (simp add: nrf24_read_payload_def case_prod_beta Let_def)

lemma later_clock: "later h (snd (esp_timer_get_time h))"
  by (simp add: later_def esp_timer_get_time_def)

lemma later_delay: "later h (delayMicroseconds n h)"
  by (simp add: later_def delayMicroseconds_def emit_def)

section \<open>Operations that load no packet\<close>

lemma emits_quiet:
  assumes "sends h h' fs" "later h h'" "\<forall>f\<in>set fs. f \<noteq> [] \<longrightarrow> hd f \<noteq> NRF24_W_TX_PAYLOAD"
  shows "emits h h' []"
proof -
  have "filter is_payload fs = []" using assms(3) by (auto simp: filter_empty_conv is_payload_def)
  then show ?thesis using assms(1,2) by (auto simp: emits_def)
qed

lemma emits_clock: "emits h (snd (esp_timer_get_time h)) []"
proof (rule emits_quiet)
  show "sends h (snd (esp_timer_get_time h)) []" by (rule sends_same_bus) (simp add: esp_timer_get_time_def)
qed (simp_all add: later_clock)

lemma emits_delay: "emits h (delayMicroseconds n h) []"
proof (rule emits_quiet)
  have "sends h (emit (Delay n) h) []" by (rule sends_emit) simp
  moreover have "bus (delayMicroseconds n h) = bus (emit (Delay n) h)" by (simp add: delayMicroseconds_def)
  ultimately show "sends h (delayMicroseconds n h) []" by (simp add: sends_def)
qed (simp_all add: later_delay)

lemma emits_irq: "emits h (snd (nrf24_irq_asserted h)) []"
proof (rule emits_quiet)
  show "sends h (snd (nrf24_irq_asserted h)) []" by (rule sends_same_bus) (simp add: nrf24_irq_asserted_def)
qed (simp_all add: later_timing)

lemma emits_get_status: "emits h (snd (nrf24_get_status h)) []"
  by (rule emits_quiet [OF sends_get_status]) (simp_all add: later_timing nrf24_consts)

lemma emits_set_channel: "emits h (nrf24_set_channel c h) []"
  by (rule emits_quiet [OF sends_set_channel]) (simp_all add: later_timing nrf24_consts)

lemma emits_clear_irq: "emits h (nrf24_clear_irq_flags h) []"
  by (rule emits_quiet [OF sends_clear_irq_flags]) (simp_all add: later_timing nrf24_consts)

lemma emits_set_tx_mode: "emits h (nrf24_set_tx_mode h) []"
  by (rule emits_quiet [OF sends_set_tx_mode]) (simp_all add: later_timing nrf24_consts)

lemma emits_set_rx_mode: "emits h (nrf24_set_rx_mode h) []"
  by (rule emits_quiet [OF sends_set_rx_mode]) (simp_all add: later_timing nrf24_consts)

lemma emits_tx_addr: "emits h (nrf24_write_reg_multi NRF24_REG_TX_ADDR bs h) []"
  by (rule emits_quiet [OF sends_write_reg_multi]) (simp_all add: later_timing nrf24_consts)

lemma emits_read_payload: "emits h (snd (nrf24_read_payload n h)) []"
proof (cases "nrf24_payload_length_valid n")
  case True
  let ?h1 = "spi_send NRF24_R_RX_PAYLOAD (frame_open h)"
  have "bus (snd (spi_read_n n ?h1)) =
      rev (map Xfer (NRF24_R_RX_PAYLOAD # replicate n 0xFF)) @ bus (frame_open h)"
    by (simp add: bus_spi_read_n)
  from sends_frame [OF this] True
  have "sends h (snd (nrf24_read_payload n h)) [NRF24_R_RX_PAYLOAD # replicate n 0xFF]"
    by (simp add: nrf24_read_payload_def Let_def case_prod_beta)
  then show ?thesis by (rule emits_quiet) (simp_all add: later_timing nrf24_consts)
qed (simp add: nrf24_read_payload_def)

section \<open>The emulated radio\<close>

lemma emits_xn297_tx_address:
  "emits (xhw r) (xhw (xn297_set_tx_address a r)) []"
  by (simp add: xn297_set_tx_address_def emits_tx_addr)

lemma emits_xn297_channel: "emits (xhw r) (xhw (xn297_set_channel c r)) []"
  by (simp add: xn297_set_channel_def emits_set_channel)

lemma emits_xn297_tx_mode: "emits (xhw r) (xhw (xn297_set_tx_mode r)) []"
  unfolding xn297_set_tx_mode_def using emits_trans0 [OF emits_clear_irq emits_set_tx_mode] by simp

lemma emits_xn297_rx_mode: "emits (xhw r) (xhw (xn297_set_rx_mode r)) []"
  unfolding xn297_set_rx_mode_def using emits_trans0 [OF emits_clear_irq emits_set_rx_mode] by simp

lemma emits_xn297_tx_status: "emits (xhw r) (xhw (snd (xn297_get_tx_status r))) []"
  using emits_get_status [of "xhw r"] by (simp add: xn297_get_tx_status_def case_prod_beta)

lemma emits_xn297_rx_ready: "emits (xhw r) (xhw (snd (xn297_is_rx_ready r))) []"
  using emits_get_status [of "xhw r"] by (simp add: xn297_is_rx_ready_def case_prod_beta)

lemma emits_xn297_irq: "emits (xhw r) (xhw (snd (xn297_irq_asserted r))) []"
  using emits_irq [of "xhw r"] by (simp add: xn297_irq_asserted_def case_prod_beta)

lemma emits_xn297_read: "emits (xhw r) (xhw (snd (xn297_read_payload n r))) []"
  using emits_read_payload [of "xhw r" n] by (simp add: xn297_read_payload_def case_prod_beta)

lemma xn297_write_valid:
  assumes "1 \<le> length m" "length m \<le> 25"
  shows "fst (xn297_write_payload (Some m) r)"
    "emits (xhw r) (xhw (snd (xn297_write_payload (Some m) r))) [NRF24_W_TX_PAYLOAD # xn297_buffer (xn297_tx_addr r) m]"
proof -
  let ?b = "xn297_buffer (xn297_tx_addr r) m"
  have v: "nrf24_payload_length_valid (length ?b)"
    using assms by (simp add: nrf24_payload_length_valid_def length_xn297_buffer)
  have w: "xn297_write_payload (Some m) r = (True, r\<lparr>xhw := snd (nrf24_write_payload (Some ?b) (xhw r))\<rparr>)"
    using assms v by (simp add: xn297_write_payload_def xn297_tx_payload_length_valid_def nrf24_write_payload_def)
  show "fst (xn297_write_payload (Some m) r)" by (simp add: w)
  have "sends (xhw r) (snd (nrf24_write_payload (Some ?b) (xhw r))) [NRF24_W_TX_PAYLOAD # ?b]"
    by (rule sends_write_payload [OF v])
  then show "emits (xhw r) (xhw (snd (xn297_write_payload (Some m) r))) [NRF24_W_TX_PAYLOAD # ?b]"
    by (auto simp: w emits_def is_payload_def intro!: later_timing)
qed

end
