(* ===== verification/Control_Loops.thy ===== *)
theory Control_Loops
  imports Control_Task Radio_Trace
begin

text \<open>
  The polling loops of the control task: what they put on the radio's bus, and that they end.  The clock may
  advance by any amount between two readings; when it never goes back, the delay of a pass brings
  each loop to its deadline.
\<close>

definition clock_monotone :: "hw \<Rightarrow> bool" where
  "clock_monotone h \<longleftrightarrow> mono (clock h)"

text \<open>The value the next reading of the clock has.\<close>

definition now_of :: "hw \<Rightarrow> time_us" where
  "now_of h = clock h (clock_n h) + int (delayed h)"

lemma later_now: "clock_monotone h \<Longrightarrow> later h h' \<Longrightarrow> now_of h \<le> now_of h' \<and> clock_monotone h'"
  by (auto simp: clock_monotone_def now_of_def later_def mono_def add_mono)

lemma clock_reads_now [simp]: "fst (esp_timer_get_time h) = now_of h"
  by (simp add: esp_timer_get_time_def now_of_def)

lemma now_after_delay: "now_of (delayMicroseconds n h) = now_of h + int n"
  by (simp add: delayMicroseconds_def now_of_def emit_def)

section \<open>What the loops emit\<close>

lemma tx_pass_emits:
  "emits (xhw r) (xhw (snd (xn297_get_tx_status (r\<lparr> xhw := snd (esp_timer_get_time (xhw r)) \<rparr>)))) []"
  using emits_trans0 [OF emits_clock emits_xn297_tx_status [of "r\<lparr> xhw := snd (esp_timer_get_time (xhw r)) \<rparr>", simplified]]
  by simp

lemma tx_status_addr [simp]: "xn297_tx_addr (snd (xn297_get_tx_status r)) = xn297_tx_addr r"
  by (simp add: xn297_get_tx_status_def case_prod_beta)

lemma poll_tx_emits:
  assumes "poll_tx start r = Some y"
  shows "emits (xhw r) (xhw (snd y)) []"
proof (rule poll_tx.raw_induct [where P = "\<lambda>start r y. emits (xhw r) (xhw (snd y)) []", OF _ assms])
  fix poll start r y
  assume ih: "\<And>start r y. poll start r = Some y \<Longrightarrow> emits (xhw r) (xhw (snd y)) []"
    and body: "(let (now, h) = esp_timer_get_time (xhw r); r1 = r\<lparr> xhw := h \<rparr>
      in if now - start \<le> RADIO_TX_TIMEOUT_US then
           let (status, r2) = xn297_get_tx_status r1
           in if status = Sent then Some (True, r2)
              else if status = TxError then Some (False, r2)
              else poll start (r2\<lparr> xhw := delayMicroseconds 10 (xhw r2) \<rparr>)
         else Some (False, r1)) = Some y"
  define r1 where "r1 = r\<lparr> xhw := snd (esp_timer_get_time (xhw r)) \<rparr>"
  define r2 where "r2 = snd (xn297_get_tx_status r1)"
  define r3 where "r3 = r2\<lparr> xhw := delayMicroseconds 10 (xhw r2) \<rparr>"
  have e1: "emits (xhw r) (xhw r1) []" by (simp add: r1_def emits_clock)
  have e2: "emits (xhw r) (xhw r2) []" unfolding r2_def r1_def by (rule tx_pass_emits)
  have e3: "emits (xhw r) (xhw r3) []" using emits_trans0 [OF e2 emits_delay] by (simp add: r3_def)
  have "snd y = r1 \<or> snd y = r2 \<or> poll start r3 = Some y"
    using body by (auto simp: r1_def [symmetric] r2_def [symmetric] r3_def [symmetric] case_prod_beta Let_def
        split: if_splits)
  then show "emits (xhw r) (xhw (snd y)) []" using e1 e2 emits_trans0 [OF e3 ih] by metis
qed

lemma emits_rx_signalled: "emits (xhw r) (xhw (snd (rx_signalled r))) []"
  using emits_xn297_irq [of r] emits_trans0 [OF emits_xn297_irq emits_xn297_rx_ready, of r]
  by (simp add: rx_signalled_def case_prod_beta)

lemma emits_receive_one: "emits (xhw r) (xhw (snd (snd (receive_one t st r)))) []"
  using emits_trans0 [OF emits_clock emits_xn297_read [of "r\<lparr> xhw := snd (esp_timer_get_time (xhw r)) \<rparr>", simplified]]
  by (auto simp: receive_one_def case_prod_beta Let_def split: option.splits if_splits)

lemma rx_window_emits:
  assumes "rx_window deadline t st r = Some y"
  shows "emits (xhw r) (xhw (snd (snd y))) []"
proof (rule rx_window.raw_induct [where P = "\<lambda>deadline t st r y. emits (xhw r) (xhw (snd (snd y))) []", OF _ assms])
  fix win deadline t st r y
  assume ih: "\<And>deadline t st r y. win deadline t st r = Some y \<Longrightarrow> emits (xhw r) (xhw (snd (snd y))) []"
    and body: "(let (now, h) = esp_timer_get_time (xhw r); r1 = r\<lparr> xhw := h \<rparr>
      in if now < deadline then
           let (ready, r2) = rx_signalled r1
           in if ready then Some (receive_one t st r2)
              else win deadline t st (r2\<lparr> xhw := delayMicroseconds 10 (xhw r2) \<rparr>)
         else Some (t, st, r1)) = Some y"
  define r1 where "r1 = r\<lparr> xhw := snd (esp_timer_get_time (xhw r)) \<rparr>"
  define r2 where "r2 = snd (rx_signalled r1)"
  define r3 where "r3 = r2\<lparr> xhw := delayMicroseconds 10 (xhw r2) \<rparr>"
  have e1: "emits (xhw r) (xhw r1) []" by (simp add: r1_def emits_clock)
  have e2: "emits (xhw r) (xhw r2) []" unfolding r2_def by (rule emits_trans0 [OF e1 emits_rx_signalled])
  have e3: "emits (xhw r) (xhw r3) []" using emits_trans0 [OF e2 emits_delay] by (simp add: r3_def)
  have "snd (snd y) = r1 \<or> receive_one t st r2 = y \<or> win deadline t st r3 = Some y"
    using body by (auto simp: r1_def [symmetric] r2_def [symmetric] r3_def [symmetric] case_prod_beta Let_def
        split: if_splits)
  moreover have "emits (xhw r) (xhw (snd (snd y))) []" if "receive_one t st r2 = y"
    using emits_trans0 [OF e2 emits_receive_one] that by blast
  ultimately show "emits (xhw r) (xhw (snd (snd y))) []" using e1 emits_trans0 [OF e3 ih] by metis
qed

lemma transmit_emits:
  assumes "1 \<le> length p" "length p \<le> 25" "transmit_packet p r = Some (b, r')"
  shows "emits (xhw r) (xhw r') [NRF24_W_TX_PAYLOAD # xn297_buffer (xn297_tx_addr r) p]"
proof -
  let ?r0 = "xn297_set_tx_mode r"
  define r1 where "r1 = snd (xn297_write_payload (Some p) ?r0)"
  have a: "xn297_tx_addr ?r0 = xn297_tx_addr r" by (simp add: xn297_set_tx_mode_def)
  have w: "xn297_write_payload (Some p) ?r0 = (True, r1)"
    using xn297_write_valid(1) [OF assms(1,2), of ?r0] by (simp add: r1_def prod_eq_iff)
  have p: "poll_tx (fst (esp_timer_get_time (xhw r1))) (r1\<lparr> xhw := snd (esp_timer_get_time (xhw r1)) \<rparr>) = Some (b, r')"
    using assms(3) by (simp add: transmit_packet_def w case_prod_beta)
  have e1: "emits (xhw r) (xhw r1) [NRF24_W_TX_PAYLOAD # xn297_buffer (xn297_tx_addr r) p]"
    using emits_trans0 [OF emits_xn297_tx_mode xn297_write_valid(2) [OF assms(1,2), of ?r0]] by (simp add: r1_def a)
  have e2: "emits (xhw r1) (xhw r') []"
    using emits_trans0 [OF emits_clock poll_tx_emits [OF p, simplified]] by simp
  show ?thesis using emits_trans [OF e1 e2] by simp
qed

section \<open>The loops end\<close>

lemma poll_tx_returns:
  assumes "clock_monotone (xhw r)"
  shows "\<exists>y. poll_tx start r = Some y"
  using assms
proof (induction "nat (start + RADIO_TX_TIMEOUT_US + 1 - now_of (xhw r))" arbitrary: r rule: less_induct)
  case less
  define r1 where "r1 = r\<lparr> xhw := snd (esp_timer_get_time (xhw r)) \<rparr>"
  define r2 where "r2 = snd (xn297_get_tx_status r1)"
  define r3 where "r3 = r2\<lparr> xhw := delayMicroseconds 10 (xhw r2) \<rparr>"
  have e2: "emits (xhw r) (xhw r2) []" unfolding r2_def r1_def by (rule tx_pass_emits)
  have n2: "now_of (xhw r) \<le> now_of (xhw r2)" "clock_monotone (xhw r2)"
    using later_now [OF less.prems emits_later [OF e2]] by simp_all
  have n3: "now_of (xhw r3) = now_of (xhw r2) + 10" by (simp add: r3_def now_after_delay)
  have m3: "clock_monotone (xhw r3)"
    using later_now [OF n2(2) later_delay] by (simp add: r3_def)
  have "\<exists>y. poll_tx start r3 = Some y" if "now_of (xhw r) - start \<le> RADIO_TX_TIMEOUT_US"
    by (rule less.hyps [OF _ m3]) (use that n2 n3 in simp)
  then show ?case
    by (subst poll_tx.simps) (simp add: r1_def [symmetric] r2_def [symmetric] r3_def [symmetric] case_prod_beta Let_def
        del: split_paired_Ex)
qed

lemma rx_window_returns:
  assumes "clock_monotone (xhw r)"
  shows "\<exists>y. rx_window deadline t st r = Some y"
  using assms
proof (induction "nat (deadline - now_of (xhw r))" arbitrary: r rule: less_induct)
  case less
  define r1 where "r1 = r\<lparr> xhw := snd (esp_timer_get_time (xhw r)) \<rparr>"
  define r2 where "r2 = snd (rx_signalled r1)"
  define r3 where "r3 = r2\<lparr> xhw := delayMicroseconds 10 (xhw r2) \<rparr>"
  have e1: "emits (xhw r) (xhw r1) []" by (simp add: r1_def emits_clock)
  have e2: "emits (xhw r) (xhw r2) []" unfolding r2_def by (rule emits_trans0 [OF e1 emits_rx_signalled])
  have n2: "now_of (xhw r) \<le> now_of (xhw r2)" "clock_monotone (xhw r2)"
    using later_now [OF less.prems emits_later [OF e2]] by simp_all
  have n3: "now_of (xhw r3) = now_of (xhw r2) + 10" by (simp add: r3_def now_after_delay)
  have m3: "clock_monotone (xhw r3)"
    using later_now [OF n2(2) later_delay] by (simp add: r3_def)
  have "\<exists>y. rx_window deadline t st r3 = Some y" if "now_of (xhw r) < deadline"
    by (rule less.hyps [OF _ m3]) (use that n2 n3 in simp)
  then show ?case
    by (subst rx_window.simps) (simp add: r1_def [symmetric] r2_def [symmetric] r3_def [symmetric] case_prod_beta Let_def
        del: split_paired_Ex)
qed

lemma write_payload_later: "later (xhw r) (xhw (snd (xn297_write_payload m r)))"
  by (auto simp: xn297_write_payload_def case_prod_beta intro!: later_timing split: option.splits)

lemma transmit_returns:
  assumes "clock_monotone (xhw r)"
  shows "\<exists>y. transmit_packet p r = Some y"
proof -
  let ?r0 = "xn297_set_tx_mode r"
  define r1 where "r1 = snd (xn297_write_payload (Some p) ?r0)"
  have "later (xhw r) (xhw r1)"
    using later_trans [OF emits_later [OF emits_xn297_tx_mode] write_payload_later] by (simp add: r1_def)
  then have "later (xhw r) (snd (esp_timer_get_time (xhw r1)))" by (rule later_trans [OF _ later_clock])
  then have "clock_monotone (snd (esp_timer_get_time (xhw r1)))" using later_now [OF assms] by simp
  then have "\<exists>y. poll_tx start (r1\<lparr> xhw := snd (esp_timer_get_time (xhw r1)) \<rparr>) = Some y" for start
    by (intro poll_tx_returns) simp
  then show ?thesis by (simp add: transmit_packet_def r1_def case_prod_beta del: split_paired_Ex)
qed

end
