(* ===== verification/Control_Laws.thy ===== *)
theory Control_Laws
  imports Control_Loops
begin

text \<open>
  Laws of the control cycle: what each step of a cycle changes, which packet a cycle may put on the air in which
  safety state, how the cycle moves the failsafe machine, and what it takes to arm.
\<close>

section \<open>Frames of the steps\<close>

lemma publish_simps [simp]:
  "ct_radio (publish_event e p c s) = ct_radio s" "ct_failsafe (publish_event e p c s) = ct_failsafe s"
  "ct_telemetry (publish_event e p c s) = ct_telemetry s" "controls (publish_event e p c s) = controls s"
  "prearm_started_us (publish_event e p c s) = prearm_started_us s" "aux_state (publish_event e p c s) = aux_state s"
  "previous_state (publish_event e p c s) = previous_state s"
  "consecutive_tx_failures (publish_event e p c s) = consecutive_tx_failures s"
  "previous_buttons (publish_event e p c s) = previous_buttons s"
  "ct_bayang (publish_event e p c s) = ct_bayang s" "channel_index (publish_event e p c s) = channel_index s"
  "ct_gamepad (publish_event e p c s) = ct_gamepad s" "ct_bp32 (publish_event e p c s) = ct_bp32 s"
  "ct_bt (publish_event e p c s) = ct_bt s" "stats (publish_event e p c s) = stats s"
  by (simp_all add: publish_event_def)

lemma publish_change_simps [simp]:
  "ct_radio (publish_state_change p c s) = ct_radio s" "ct_failsafe (publish_state_change p c s) = ct_failsafe s"
  "ct_telemetry (publish_state_change p c s) = ct_telemetry s" "controls (publish_state_change p c s) = controls s"
  "prearm_started_us (publish_state_change p c s) = prearm_started_us s"
  "aux_state (publish_state_change p c s) = aux_state s" "previous_state (publish_state_change p c s) = previous_state s"
  "consecutive_tx_failures (publish_state_change p c s) = consecutive_tx_failures s"
  "previous_buttons (publish_state_change p c s) = previous_buttons s"
  "ct_bayang (publish_state_change p c s) = ct_bayang s" "channel_index (publish_state_change p c s) = channel_index s"
  "ct_gamepad (publish_state_change p c s) = ct_gamepad s" "ct_bp32 (publish_state_change p c s) = ct_bp32 s"
  "ct_bt (publish_state_change p c s) = ct_bt s" "stats (publish_state_change p c s) = stats s"
  by (simp_all add: publish_state_change_def)

abbreviation ct_hw :: "'s control_task \<Rightarrow> hw" where
  "ct_hw s \<equiv> xhw (ct_radio s)"

text \<open>Steps that change neither the safety state nor the telemetry nor the radio's address.\<close>

definition keeps :: "'s control_task \<Rightarrow> 's control_task \<Rightarrow> bool" where
  "keeps s s' \<longleftrightarrow> ct_failsafe s' = ct_failsafe s \<and> ct_telemetry s' = ct_telemetry s \<and>
     prearm_started_us s' = prearm_started_us s \<and> consecutive_tx_failures s' = consecutive_tx_failures s \<and>
     ct_bayang s' = ct_bayang s \<and> emits (ct_hw s) (ct_hw s') []"

lemma keeps_refl [simp, intro]: "keeps s s"
  by (simp add: keeps_def)

lemma keeps_trans: "keeps s s1 \<Longrightarrow> keeps s1 s2 \<Longrightarrow> keeps s s2"
  unfolding keeps_def using emits_trans0 by metis

lemma ct_now_eq: "ct_now s = (now_of (ct_hw s), s\<lparr> ct_radio := (ct_radio s)\<lparr> xhw := snd (esp_timer_get_time (ct_hw s)) \<rparr> \<rparr>)"
  by (simp add: ct_now_def case_prod_beta)

lemma keeps_now: "keeps s (snd (ct_now s))"
  by (simp add: keeps_def ct_now_eq emits_clock)

lemma gamepad_update_clock:
  "snd (snd (snd (gamepad_update (m, b, w, h)))) \<in> {h, snd (esp_timer_get_time h)}"
  by (auto simp: gamepad_update_def case_prod_beta Let_def split: option.splits)

lemma read_controls_keeps: "keeps s (read_controls s)"
proof -
  have "emits (ct_hw s) (snd (snd (snd (gamepad_update (ct_gamepad s, ct_bp32 s, ct_bt s, ct_hw s))))) []"
    using gamepad_update_clock [of "ct_gamepad s" "ct_bp32 s" "ct_bt s" "ct_hw s"] emits_clock [of "ct_hw s"] by auto
  then show ?thesis by (simp add: keeps_def read_controls_def case_prod_beta Let_def)
qed

lemma read_controls_simps [simp]:
  "previous_state (read_controls s) = previous_state s" "previous_buttons (read_controls s) = previous_buttons s"
  "aux_state (read_controls s) = aux_state s"
  "controls (read_controls s) =
     gamepad_get_state (fst (gamepad_update (ct_gamepad s, ct_bp32 s, ct_bt s, ct_hw s)))"
  by (simp_all add: read_controls_def case_prod_beta Let_def)

lemma update_aux_keeps: "keeps s (update_aux api sys s)"
proof -
  have k: "keeps s (s\<lparr> aux_state := a, ct_nvs := n \<rparr>)" for a n by (simp add: keeps_def)
  have k': "keeps s (s\<lparr> aux_state := a \<rparr>)" for a by (simp add: keeps_def)
  show ?thesis
    using keeps_trans [OF k keeps_now] k k' by (simp add: update_aux_def log_line_def case_prod_beta Let_def)
qed

lemma update_aux_simps [simp]: "controls (update_aux api sys s) = controls s"
  by (simp add: update_aux_def log_line_def ct_now_eq case_prod_beta Let_def)

lemma update_gesture_keeps: "keeps s (snd (update_gesture t sys s))"
  by (simp add: keeps_def update_gesture_def case_prod_beta Let_def)

lemma update_gesture_simps [simp]:
  "controls (snd (update_gesture t sys s)) = controls s" "aux_state (snd (update_gesture t sys s)) = aux_state s"
  by (simp_all add: update_gesture_def case_prod_beta Let_def)

lemma finish_keeps: "keeps s (finish_cycle t s)"
  using keeps_now [of s] by (simp add: keeps_def finish_cycle_def case_prod_beta Let_def ct_now_eq)

section \<open>The safety step\<close>

definition cycle_inputs :: "time_us \<Rightarrow> 's control_task \<Rightarrow> failsafe_inputs" where
  "cycle_inputs t s = failsafe_arguments t (failsafe_get_state (ct_failsafe s)) (controls s)
     (fst (detect_button_edges (previous_buttons s) (btnStart (controls s)) (btnView (controls s)) (btnB (controls s))))"

lemma update_failsafe_simps [simp]:
  "ct_radio (update_failsafe t s) = ct_radio s" "ct_telemetry (update_failsafe t s) = ct_telemetry s"
  "controls (update_failsafe t s) = controls s" "aux_state (update_failsafe t s) = aux_state s"
  "consecutive_tx_failures (update_failsafe t s) = consecutive_tx_failures s"
  "ct_bayang (update_failsafe t s) = ct_bayang s"
  by (simp_all add: update_failsafe_def case_prod_beta Let_def)

lemma check_prearm_simps [simp]:
  "ct_radio (check_prearm t s) = ct_radio s" "ct_telemetry (check_prearm t s) = ct_telemetry s"
  "controls (check_prearm t s) = controls s" "aux_state (check_prearm t s) = aux_state s"
  "consecutive_tx_failures (check_prearm t s) = consecutive_tx_failures s"
  "ct_bayang (check_prearm t s) = ct_bayang s" "prearm_started_us (check_prearm t s) = prearm_started_us s"
  by (simp_all add: check_prearm_def)

lemma note_state_simps [simp]:
  "ct_radio (note_state s) = ct_radio s" "ct_telemetry (note_state s) = ct_telemetry s"
  "controls (note_state s) = controls s" "aux_state (note_state s) = aux_state s"
  "consecutive_tx_failures (note_state s) = consecutive_tx_failures s"
  "ct_bayang (note_state s) = ct_bayang s" "prearm_started_us (note_state s) = prearm_started_us s"
  "ct_failsafe (note_state s) = ct_failsafe s" "previous_state (note_state s) = current_state (ct_failsafe s)"
  by (simp_all add: note_state_def Let_def failsafe_get_state_def)

lemma update_safety_simps [simp]:
  "ct_radio (update_safety t s) = ct_radio s" "ct_telemetry (update_safety t s) = ct_telemetry s"
  "controls (update_safety t s) = controls s" "aux_state (update_safety t s) = aux_state s"
  "consecutive_tx_failures (update_safety t s) = consecutive_tx_failures s"
  "ct_bayang (update_safety t s) = ct_bayang s"
  "previous_state (update_safety t s) = current_state (ct_failsafe (update_safety t s))"
  by (simp_all add: update_safety_def)

text \<open>When the guard is asked and what it sees.\<close>

definition prearm_start :: "time_us \<Rightarrow> 's control_task \<Rightarrow> time_us" where
  "prearm_start t s =
     (if current_state (ct_failsafe s) \<noteq> STATE_PREARM_MODE \<and>
         current_state (failsafe_update_at (cycle_inputs t s) (ct_failsafe s)) = STATE_PREARM_MODE
      then t else prearm_started_us s)"

definition prearm_event :: "time_us \<Rightarrow> 's control_task \<Rightarrow> fs_event list" where
  "prearm_event t s =
     (if current_state (failsafe_update_at (cycle_inputs t s) (ct_failsafe s)) \<noteq> STATE_PREARM_MODE then []
      else if prearm_configuration_confirmed (telemetry_get_snapshot t (ct_telemetry s)) (aux_state s) (prearm_start t s)
      then [CompletePrearm]
      else if t - prearm_start t s \<ge> PREARM_MODE_TIMEOUT_US then [CancelPrearm] else [])"

lemma update_failsafe_run:
  "ct_failsafe (update_failsafe t s) = failsafe_update_at (cycle_inputs t s) (ct_failsafe s)"
  "prearm_started_us (update_failsafe t s) = prearm_start t s"
  by (simp_all add: update_failsafe_def cycle_inputs_def prearm_start_def case_prod_beta Let_def failsafe_get_state_def)

lemma update_safety_run:
  "ct_failsafe (update_safety t s) = fs_run (ct_failsafe s) (Update (cycle_inputs t s) # prearm_event t s)"
  "prearm_started_us (update_safety t s) = prearm_start t s"
  by (simp_all add: update_safety_def check_prearm_def update_failsafe_run prearm_event_def failsafe_get_state_def)

text \<open>The state of a cycle after its safety step.\<close>

definition cycle_safety :: "'s control_task \<Rightarrow> 's control_task" where
  "cycle_safety s = update_safety (now_of (ct_hw s)) (read_controls (snd (ct_now s)))"

definition cycle_state :: "'s control_task \<Rightarrow> SystemState" where
  "cycle_state s = current_state (ct_failsafe (cycle_safety s))"

section \<open>The packet exchange\<close>

text \<open>
  What became of a packet on the air: \<^const>\<open>None\<close> when there is none to send, otherwise whether the radio said within
  the time allowed that it was sent.  \<open>cycle_transmission\<close> is the outcome of the transmission of the cycle that
  starts in a state; it looks at the radio only, not at the task's statistics or its counter of failures.
\<close>

definition packet_sent :: "SystemState \<Rightarrow> NfeSilverwareGestureOutput \<Rightarrow> 's control_task \<Rightarrow> bool option" where
  "packet_sent sys g s =
     (case prepare_packet sys g s of
        (None, s1) \<Rightarrow> None
      | (Some p, s1) \<Rightarrow> map_option fst (transmit_packet p (ct_radio s1)))"

definition cycle_transmission :: "'s nvs_api \<Rightarrow> 's control_task \<Rightarrow> bool option" where
  "cycle_transmission api s =
     (let (g, s4) = update_gesture (now_of (ct_hw s)) (cycle_state s) (update_aux api (cycle_state s) (cycle_safety s))
      in packet_sent (cycle_state s) g s4)"

lemma transmit_emits_any:
  assumes "transmit_packet p r = Some (b, r')"
  shows "\<exists>ps. emits (xhw r) (xhw r') ps \<and> (ps = [] \<or> ps = [NRF24_W_TX_PAYLOAD # xn297_buffer (xn297_tx_addr r) p])"
proof (cases "1 \<le> length p \<and> length p \<le> 25")
  case True
  then show ?thesis using transmit_emits [OF _ _ assms] by blast
next
  case False
  then have "r' = xn297_set_tx_mode r"
    using assms by (auto simp: transmit_packet_def xn297_write_payload_def xn297_tx_payload_length_valid_def)
  then show ?thesis using emits_xn297_tx_mode by blast
qed

lemma prepare_simps:
  assumes "prepare_packet sys g s = (p, s1)"
  shows "emits (ct_hw s) (ct_hw s1) []" "ct_failsafe s1 = ct_failsafe s" "ct_telemetry s1 = ct_telemetry s"
    "prearm_started_us s1 = prearm_started_us s" "consecutive_tx_failures s1 = consecutive_tx_failures s"
    "ct_bayang s1 = ct_bayang s" "(p = None) = (sys = STATE_RADIO_ERROR)"
  using assms emits_trans0 [OF emits_xn297_tx_address emits_xn297_channel]
  by (auto simp: prepare_packet_def Let_def split: if_splits)

lemma receive_telemetry_simps:
  assumes "receive_telemetry t s = Some s'"
  shows "emits (ct_hw s) (ct_hw s') []" "ct_failsafe s' = ct_failsafe s"
    "prearm_started_us s' = prearm_started_us s" "consecutive_tx_failures s' = consecutive_tx_failures s"
    "ct_bayang s' = ct_bayang s"
proof -
  obtain y where y: "rx_window (t + TELEMETRY_RX_DEADLINE_US) (ct_telemetry s) (stats s) (xn297_set_rx_mode (ct_radio s)) = Some y"
    "s' = s\<lparr> ct_telemetry := fst y, stats := fst (snd y), ct_radio := snd (snd y) \<rparr>"
    using assms by (auto simp: receive_telemetry_def bind_eq_Some_conv)
  then show "emits (ct_hw s) (ct_hw s') []" using emits_trans0 [OF emits_xn297_rx_mode rx_window_emits [OF y(1)]] by simp
qed (use assms in \<open>auto simp: receive_telemetry_def bind_eq_Some_conv\<close>)

lemma transmit_failed_simps [simp]:
  "ct_radio (transmit_failed s) = ct_radio s" "ct_telemetry (transmit_failed s) = ct_telemetry s"
  "prearm_started_us (transmit_failed s) = prearm_started_us s" "ct_bayang (transmit_failed s) = ct_bayang s"
  "consecutive_tx_failures (transmit_failed s) = consecutive_tx_failures s + 1"
  "ct_failsafe (transmit_failed s) =
     (if consecutive_tx_failures s + 1 \<ge> RADIO_FAILURE_LIMIT then failsafe_report_radio_error (ct_failsafe s)
      else ct_failsafe s)"
  by (simp_all add: transmit_failed_def Let_def)

lemma prepared_packet:
  assumes "prepare_packet sys g s = (Some p, s1)"
  shows "p = (if sys = STATE_BINDING
      then bayang_build_bind_packet (ct_bayang s) (bayang_select_bind_header BAYANG_ENABLE_TELEMETRY BAYANG_ENABLE_ANALOG_AUX)
      else bayang_build_data_packet (ct_bayang s) (cycle_control sys g s))"
  using assms by (auto simp: prepare_packet_def Let_def split: if_splits)

text \<open>The state in which the packet is handed to the radio.\<close>

definition count_packet :: "'s control_task \<Rightarrow> xradio \<Rightarrow> 's control_task" where
  "count_packet s r = s\<lparr> stats := (stats s)\<lparr> txPackets := txPackets (stats s) + 1 \<rparr>, ct_radio := r \<rparr>"

lemma count_packet_simps [simp]:
  "ct_radio (count_packet s r) = r" "ct_failsafe (count_packet s r) = ct_failsafe s"
  "ct_telemetry (count_packet s r) = ct_telemetry s" "prearm_started_us (count_packet s r) = prearm_started_us s"
  "consecutive_tx_failures (count_packet s r) = consecutive_tx_failures s" "ct_bayang (count_packet s r) = ct_bayang s"
  by (simp_all add: count_packet_def)

lemma exchange_cases [consumes 1, case_names off sent_bind sent_data failed]:
  assumes "exchange_packet t sys g s = Some s'"
  obtains "sys = STATE_RADIO_ERROR" "s' = s"
  | p s1 r where "prepare_packet sys g s = (Some p, s1)" "transmit_packet p (ct_radio s1) = Some (True, r)"
      "sys = STATE_BINDING" "s' = (count_packet s1 r)\<lparr> consecutive_tx_failures := 0 \<rparr>"
  | p s1 r where "prepare_packet sys g s = (Some p, s1)" "transmit_packet p (ct_radio s1) = Some (True, r)"
      "sys \<noteq> STATE_BINDING" "sys \<noteq> STATE_RADIO_ERROR"
      "receive_telemetry t ((count_packet s1 r)\<lparr> consecutive_tx_failures := 0 \<rparr>) = Some s'"
  | p s1 r where "prepare_packet sys g s = (Some p, s1)" "transmit_packet p (ct_radio s1) = Some (False, r)"
      "sys \<noteq> STATE_RADIO_ERROR" "s' = transmit_failed (count_packet s1 r)"
proof -
  obtain p s1 where p: "prepare_packet sys g s = (p, s1)" by (cases "prepare_packet sys g s")
  show thesis
  proof (cases p)
    case None
    then have "sys = STATE_RADIO_ERROR" using prepare_simps(7) [OF p] by simp
    moreover from this have "s1 = s" using p by (simp add: prepare_packet_def)
    ultimately show thesis using assms p None that(1) by (simp add: exchange_packet_def)
  next
    case (Some pk)
    then have n: "sys \<noteq> STATE_RADIO_ERROR" using prepare_simps(7) [OF p] by simp
    obtain b r where t: "transmit_packet pk (ct_radio s1) = Some (b, r)"
      using assms p Some by (auto simp: exchange_packet_def bind_eq_Some_conv)
    note u = assms [unfolded exchange_packet_def p Some, simplified, unfolded t, simplified, folded count_packet_def]
    show thesis
    proof (cases b)
      case True
      with u p Some t n that(2,3) show thesis
        by (cases "sys = STATE_BINDING") (auto simp: count_packet_def)
    next
      case False
      with u p Some t n that(4) show thesis by (auto simp: count_packet_def)
    qed
  qed
qed

lemma exchange_failsafe:
  assumes "exchange_packet t sys g s = Some s'"
  shows "ct_failsafe s' = ct_failsafe s \<and>
      (sys = STATE_RADIO_ERROR \<or> consecutive_tx_failures s' = 0 \<or>
       consecutive_tx_failures s' = consecutive_tx_failures s + 1 \<and> \<not> RADIO_FAILURE_LIMIT \<le> consecutive_tx_failures s') \<or>
    ct_failsafe s' = failsafe_report_radio_error (ct_failsafe s) \<and> sys \<noteq> STATE_RADIO_ERROR \<and>
      consecutive_tx_failures s' = consecutive_tx_failures s + 1 \<and> RADIO_FAILURE_LIMIT \<le> consecutive_tx_failures s'"
  using assms
proof (cases rule: exchange_cases)
  case (sent_data p s1 r)
  then show ?thesis using receive_telemetry_simps [OF sent_data(5)] prepare_simps [OF sent_data(1)] by simp
next
  case (sent_bind p s1 r)
  then show ?thesis using prepare_simps [OF sent_bind(1)] by simp
next
  case (failed p s1 r)
  then show ?thesis using prepare_simps [OF failed(1)] by simp
qed simp

lemma exchange_bayang_prearm:
  assumes "exchange_packet t sys g s = Some s'"
  shows "ct_bayang s' = ct_bayang s \<and> prearm_started_us s' = prearm_started_us s"
  using assms
proof (cases rule: exchange_cases)
  case (sent_data p s1 r)
  then show ?thesis using receive_telemetry_simps [OF sent_data(5)] prepare_simps [OF sent_data(1)] by simp
next
  case (sent_bind p s1 r)
  then show ?thesis using prepare_simps [OF sent_bind(1)] by simp
next
  case (failed p s1 r)
  then show ?thesis using prepare_simps [OF failed(1)] by simp
qed simp

lemma exchange_emits:
  assumes "exchange_packet t sys g s = Some s'"
  shows "\<exists>ps. emits (ct_hw s) (ct_hw s') ps \<and> (sys = STATE_RADIO_ERROR \<longrightarrow> ps = []) \<and>
    (ps = [] \<or> (\<exists>p s1 a. prepare_packet sys g s = (Some p, s1) \<and> ps = [NRF24_W_TX_PAYLOAD # xn297_buffer a p]))"
proof -
  have *: "\<exists>ps. emits (ct_hw s) (xhw r) ps \<and>
      (ps = [] \<or> ps = [NRF24_W_TX_PAYLOAD # xn297_buffer (xn297_tx_addr (ct_radio s1)) p])"
    if "prepare_packet sys g s = (Some p, s1)" "transmit_packet p (ct_radio s1) = Some (b, r)" for p s1 b r
    using emits_trans0 [OF prepare_simps(1) [OF that(1)]] transmit_emits_any [OF that(2)] by blast
  from assms show ?thesis
  proof (cases rule: exchange_cases)
    case off
    then show ?thesis by (intro exI [of _ "[]"]) simp
  next
    case (sent_bind p s1 r)
    have "ct_hw s' = xhw r" by (simp add: sent_bind(4))
    then show ?thesis using * [OF sent_bind(1,2)] sent_bind(1,3) by force
  next
    case (sent_data p s1 r)
    have "emits (xhw r) (ct_hw s') []" using receive_telemetry_simps(1) [OF sent_data(5)] by simp
    then have "emits (ct_hw s) (ct_hw s') ps" if "emits (ct_hw s) (xhw r) ps" for ps
      using emits_trans [OF that] by fastforce
    then show ?thesis using * [OF sent_data(1,2)] sent_data(1,4) by blast
  next
    case (failed p s1 r)
    have "ct_hw s' = xhw r" by (simp add: failed(4))
    then show ?thesis using * [OF failed(1,2)] failed(1,3) by force
  qed
qed

text \<open>How the outcome of the transmission moves the counter and the safety state.\<close>

lemma exchange_outcome:
  assumes "exchange_packet t sys g s = Some s'"
  shows "packet_sent sys g s = None \<and> sys = STATE_RADIO_ERROR \<and> s' = s \<or>
    packet_sent sys g s = Some True \<and> sys \<noteq> STATE_RADIO_ERROR \<and> consecutive_tx_failures s' = 0 \<and>
      ct_failsafe s' = ct_failsafe s \<or>
    packet_sent sys g s = Some False \<and> sys \<noteq> STATE_RADIO_ERROR \<and>
      consecutive_tx_failures s' = consecutive_tx_failures s + 1 \<and>
      ct_failsafe s' = (if RADIO_FAILURE_LIMIT \<le> consecutive_tx_failures s + 1
        then failsafe_report_radio_error (ct_failsafe s) else ct_failsafe s)"
  using assms
proof (cases rule: exchange_cases)
  case off
  then show ?thesis by (simp add: packet_sent_def prepare_packet_def)
next
  case (sent_bind p s1 r)
  then show ?thesis using prepare_simps [OF sent_bind(1)] by (simp add: packet_sent_def)
next
  case (sent_data p s1 r)
  then show ?thesis
    using receive_telemetry_simps [OF sent_data(5)] prepare_simps [OF sent_data(1)] by (simp add: packet_sent_def)
next
  case (failed p s1 r)
  then show ?thesis using prepare_simps [OF failed(1)] by (simp add: packet_sent_def)
qed

text \<open>What the gamepad said and the buttons as the edge detection left them stay until the next cycle.\<close>

definition same_input :: "'s control_task \<Rightarrow> 's control_task \<Rightarrow> bool" where
  "same_input s s' \<longleftrightarrow> controls s' = controls s \<and> previous_buttons s' = previous_buttons s"

lemma same_input_trans: "same_input s s1 \<Longrightarrow> same_input s1 s2 \<Longrightarrow> same_input s s2"
  by (simp add: same_input_def)

lemma same_input_steps:
  "same_input s (update_aux api sys s)" "same_input s (snd (update_gesture t sys s))" "same_input s (finish_cycle t s)"
  "same_input s (transmit_failed s)" "same_input s (snd (prepare_packet sys g s))"
  by (simp_all add: same_input_def update_aux_def log_line_def ct_now_eq update_gesture_def finish_cycle_def
      transmit_failed_def prepare_packet_def case_prod_beta Let_def)

lemma same_input_exchange:
  assumes "exchange_packet t sys g s = Some s'"
  shows "same_input s s'"
  using assms
proof (cases rule: exchange_cases)
  case (sent_data p s1 r)
  have "same_input ((count_packet s1 r)\<lparr> consecutive_tx_failures := 0 \<rparr>) s'"
    using sent_data(5) by (auto simp: receive_telemetry_def same_input_def bind_eq_Some_conv)
  then show ?thesis
    using same_input_steps(5) [of s sys g] sent_data(1) by (simp add: same_input_def count_packet_def)
next
  case (sent_bind p s1 r)
  then show ?thesis using same_input_steps(5) [of s sys g] by (simp add: same_input_def count_packet_def)
next
  case (failed p s1 r)
  then show ?thesis
    using same_input_steps(5) [of s sys g] same_input_steps(4) [of "count_packet s1 r"]
    by (simp add: same_input_def count_packet_def)
qed (simp add: same_input_def)

end
