(* ===== verification/Control_Safety.thy ===== *)
theory Control_Safety
  imports Control_Laws
begin

text \<open>
  The properties of the whole transmitter.  A cycle is split into its safety step and its packet exchange; the
  invariant \<open>task_ok\<close> of the reachable states ties the gamepad manager, the clock, the telemetry and the failure
  counter together, and the properties follow for every state the task can reach.
\<close>

section \<open>A cycle and its parts\<close>

lemma keeps_emits: "keeps s s' \<Longrightarrow> emits (ct_hw s) (ct_hw s') []"
  by (simp add: keeps_def)

lemma safety_emits: "emits (ct_hw s) (ct_hw (cycle_safety s)) []"
  using keeps_emits [OF keeps_trans [OF keeps_now read_controls_keeps], of s] by (simp add: cycle_safety_def)

definition same_pad :: "'s control_task \<Rightarrow> 's control_task \<Rightarrow> bool" where
  "same_pad s s' \<longleftrightarrow> ct_gamepad s' = ct_gamepad s \<and> ct_bp32 s' = ct_bp32 s \<and> ct_bt s' = ct_bt s"

lemma same_pad_trans: "same_pad s s1 \<Longrightarrow> same_pad s1 s2 \<Longrightarrow> same_pad s s2"
  by (simp add: same_pad_def)

lemma same_pad_safety: "same_pad s (update_safety t s)"
proof -
  have "same_pad s (update_failsafe t s)" for s :: "'a control_task"
    by (simp add: same_pad_def update_failsafe_def case_prod_beta Let_def)
  moreover have "same_pad s (check_prearm t s)" for s :: "'a control_task"
    by (simp add: same_pad_def check_prearm_def)
  moreover have "same_pad s (note_state s)" for s :: "'a control_task"
    by (simp add: same_pad_def note_state_def Let_def)
  ultimately show ?thesis unfolding update_safety_def using same_pad_trans by metis
qed

lemma same_pad_aux: "same_pad s (update_aux api sys s)"
  by (simp add: same_pad_def update_aux_def log_line_def ct_now_eq case_prod_beta Let_def)

lemma same_pad_gesture: "same_pad s (snd (update_gesture t sys s))"
  by (simp add: same_pad_def update_gesture_def case_prod_beta Let_def)

lemma same_pad_finish: "same_pad s (finish_cycle t s)"
  by (simp add: same_pad_def finish_cycle_def ct_now_eq case_prod_beta Let_def)

lemma same_pad_failed: "same_pad s (transmit_failed s)"
  by (simp add: same_pad_def transmit_failed_def Let_def)

lemma same_pad_prepare: "same_pad s (snd (prepare_packet sys g s))"
  by (simp add: same_pad_def prepare_packet_def Let_def)

lemma same_pad_receive: "receive_telemetry t s = Some s' \<Longrightarrow> same_pad s s'"
  by (auto simp: receive_telemetry_def same_pad_def bind_eq_Some_conv)

lemma same_pad_exchange:
  assumes "exchange_packet t sys g s = Some s'"
  shows "same_pad s s'"
  using assms
proof (cases rule: exchange_cases)
  case (sent_data p s1 r)
  then show ?thesis
    using same_pad_receive [OF sent_data(5)] same_pad_prepare [of s sys g]
    by (simp add: same_pad_def count_packet_def)
next
  case (sent_bind p s1 r)
  then show ?thesis using same_pad_prepare [of s sys g] by (simp add: same_pad_def count_packet_def)
next
  case (failed p s1 r)
  then show ?thesis
    using same_pad_prepare [of s sys g] same_pad_failed [of "count_packet s1 r"]
    by (simp add: same_pad_def count_packet_def)
qed (simp add: same_pad_def)

lemma cycle_parts:
  assumes "control_cycle api s = Some s'"
  obtains g s4 s5 where "keeps (cycle_safety s) s4" "same_pad (cycle_safety s) s4"
    "exchange_packet (now_of (ct_hw s)) (cycle_state s) g s4 = Some s5" "s' = finish_cycle (now_of (ct_hw s)) s5"
    "cycle_transmission api s = packet_sent (cycle_state s) g s4" "same_input (cycle_safety s) s4"
proof -
  let ?t = "now_of (ct_hw s)" and ?s3 = "update_aux api (cycle_state s) (cycle_safety s)"
  let ?u = "update_gesture ?t (cycle_state s) ?s3"
  have "map_option (finish_cycle ?t) (exchange_packet ?t (cycle_state s) (fst ?u) (snd ?u)) = Some s'"
    using assms by (simp add: control_cycle_def ct_now_eq case_prod_beta Let_def cycle_safety_def cycle_state_def
        failsafe_get_state_def)
  then obtain s5 where "exchange_packet ?t (cycle_state s) (fst ?u) (snd ?u) = Some s5" "s' = finish_cycle ?t s5"
    by blast
  moreover have "cycle_transmission api s = packet_sent (cycle_state s) (fst ?u) (snd ?u)"
    by (simp add: cycle_transmission_def case_prod_beta)
  ultimately show thesis
    using that [of "snd ?u"] keeps_trans [OF update_aux_keeps update_gesture_keeps]
      same_pad_trans [OF same_pad_aux same_pad_gesture] same_input_trans [OF same_input_steps(1,2)] by blast
qed

lemma cycle_returns:
  assumes "clock_monotone (ct_hw s)"
  shows "\<exists>s'. control_cycle api s = Some s'"
proof -
  let ?t = "now_of (ct_hw s)" and ?s3 = "update_aux api (cycle_state s) (cycle_safety s)"
  let ?u = "update_gesture ?t (cycle_state s) ?s3"
  have e: "emits (ct_hw s) (ct_hw (snd ?u)) []"
    using emits_trans0 [OF safety_emits keeps_emits [OF keeps_trans [OF update_aux_keeps update_gesture_keeps]]] .
  have "\<exists>s5. exchange_packet ?t (cycle_state s) (fst ?u) (snd ?u) = Some s5"
  proof (cases "prepare_packet (cycle_state s) (fst ?u) (snd ?u)")
    case (Pair p s1)
    show ?thesis
    proof (cases p)
      case None
      then show ?thesis using Pair by (simp add: exchange_packet_def)
    next
      case (Some pk)
      have m: "clock_monotone (ct_hw s1)"
        using later_now [OF assms emits_later [OF emits_trans0 [OF e prepare_simps(1) [OF Pair]]]] by simp
      then obtain b r where t: "transmit_packet pk (ct_radio s1) = Some (b, r)"
        using transmit_returns [OF m, of pk] by auto
      obtain ps where "emits (ct_hw s1) (xhw r) ps" using transmit_emits_any [OF t] by blast
      then have "clock_monotone (xhw r)" using later_now [OF m emits_later] by blast
      then have "clock_monotone (xhw (xn297_set_rx_mode r))"
        using later_now [OF _ emits_later [OF emits_xn297_rx_mode]] by blast
      then have "\<exists>y. rx_window d tl st (xn297_set_rx_mode r) = Some y" for d tl st by (rule rx_window_returns)
      then show ?thesis using Pair Some t
        by (cases b; cases "cycle_state s = STATE_BINDING")
          (simp_all add: exchange_packet_def receive_telemetry_def bind_eq_Some_conv Let_def case_prod_beta
            del: split_paired_Ex)
    qed
  qed
  then show ?thesis by (simp add: control_cycle_def ct_now_eq case_prod_beta Let_def cycle_safety_def cycle_state_def
        failsafe_get_state_def)
qed

section \<open>Which packets are safe\<close>

text \<open>A packet that cannot move the motors: a bind packet, or one whose receiver reads throttle 0 and the arming channel off.\<close>

definition safe_packet :: "bytes \<Rightarrow> bool" where
  "safe_packet p \<longleftrightarrow> p ! 0 = BAYANG_BIND_A3 \<or>
     bc_throttle (receiver_decode p) = 0 \<and> \<not> aux_flip (receiver_decode p)"

definition only_safe :: "bytes list \<Rightarrow> bool" where
  "only_safe ps \<longleftrightarrow> length ps \<le> 1 \<and> (\<forall>f\<in>set ps. \<exists>a p. f = NRF24_W_TX_PAYLOAD # xn297_buffer a p \<and> safe_packet p)"

lemma control_off:
  "sys \<noteq> STATE_ACTIVE \<Longrightarrow> bc_throttle (cycle_control sys g s) = 0 \<and> \<not> aux_flip (cycle_control sys g s)"
  by (simp add: cycle_control_def prearm_control_def locked_control_def neutral_control_def
      nfe_silverware_apply_multi_aux_def nfe_silverware_make_locked_control_def bayang_control_zero_def Let_def)

lemma bind_packet_header: "bayang_build_bind_packet b h ! 0 = h"
  by (simp add: bayang_build_bind_packet_def Let_def)

lemma prepared_safe:
  assumes "prepare_packet sys g s = (Some p, s1)" "sys \<noteq> STATE_ACTIVE"
  shows "safe_packet p"
  using prepared_packet [OF assms(1)] control_off [OF assms(2), of g s]
  by (auto simp: safe_packet_def receiver_decode_data_packet clamped_def clamp_channel_def bind_packet_header
      bayang_select_bind_header_def BAYANG_ENABLE_TELEMETRY_def BAYANG_ENABLE_ANALOG_AUX_def)

lemma cycle_emits_safe:
  assumes "control_cycle api s = Some s'" "cycle_state s \<noteq> STATE_ACTIVE"
  shows "\<exists>ps. emits (ct_hw s) (ct_hw s') ps \<and> only_safe ps \<and> (cycle_state s = STATE_RADIO_ERROR \<longrightarrow> ps = [])"
  using assms(1)
proof (rule cycle_parts)
  fix g s4 s5
  assume k: "keeps (cycle_safety s) s4" and x: "exchange_packet (now_of (ct_hw s)) (cycle_state s) g s4 = Some s5"
    and f: "s' = finish_cycle (now_of (ct_hw s)) s5"
  have e4: "emits (ct_hw s) (ct_hw s4) []" by (rule emits_trans0 [OF safety_emits keeps_emits [OF k]])
  obtain ps where ps: "emits (ct_hw s4) (ct_hw s5) ps" "cycle_state s = STATE_RADIO_ERROR \<longrightarrow> ps = []"
    "ps = [] \<or> (\<exists>p s1 a. prepare_packet (cycle_state s) g s4 = (Some p, s1) \<and>
        ps = [NRF24_W_TX_PAYLOAD # xn297_buffer a p])"
    using exchange_emits [OF x] by blast
  have "only_safe ps" using ps(3) prepared_safe [OF _ assms(2)] by (fastforce simp: only_safe_def)
  moreover have "emits (ct_hw s) (ct_hw s') ps"
    using emits_trans [OF emits_trans0 [OF e4 ps(1)] keeps_emits [OF finish_keeps]] by (simp add: f)
  ultimately show ?thesis using ps(2) by blast
qed

section \<open>Telemetry comes from the past\<close>

definition tel_past :: "telemetry \<Rightarrow> hw \<Rightarrow> bool" where
  "tel_past t h \<longleftrightarrow> (has_telemetry t \<longrightarrow> lastValidUs (current_telemetry t) \<le> now_of h)"

lemma tel_past_later: "tel_past t h \<Longrightarrow> clock_monotone h \<Longrightarrow> later h h' \<Longrightarrow> tel_past t h'"
  using later_now [of h h'] by (auto simp: tel_past_def)

lemma parse_stamps: "snd (telemetry_parse p now t) = t \<or> lastValidUs (current_telemetry (snd (telemetry_parse p now t))) = now"
  by (auto simp: telemetry_parse_def Let_def split: option.splits if_splits)

lemma receive_one_past:
  assumes "clock_monotone (xhw r)" "tel_past t (xhw r)"
  shows "tel_past (fst (receive_one t st r)) (xhw (snd (snd (receive_one t st r))))"
proof -
  let ?r' = "snd (snd (receive_one t st r))"
  have l: "later (xhw r) (xhw ?r')" by (rule emits_later [OF emits_receive_one])
  have n: "now_of (xhw r) \<le> now_of (xhw ?r')" using later_now [OF assms(1) l] by simp
  have "fst (receive_one t st r) = t \<or> lastValidUs (current_telemetry (fst (receive_one t st r))) = now_of (xhw r)"
    using parse_stamps by (auto simp: receive_one_def case_prod_beta Let_def split: option.splits)
  then show ?thesis using tel_past_later [OF assms(2,1) l] n by (auto simp: tel_past_def)
qed

lemma rx_window_past:
  assumes "rx_window deadline t st r = Some y"
  shows "clock_monotone (xhw r) \<longrightarrow> tel_past t (xhw r) \<longrightarrow> tel_past (fst y) (xhw (snd (snd y)))"
proof (rule rx_window.raw_induct [where P = "\<lambda>deadline t st r y. clock_monotone (xhw r) \<longrightarrow> tel_past t (xhw r) \<longrightarrow>
    tel_past (fst y) (xhw (snd (snd y)))", OF _ assms], intro impI)
  fix win deadline t st r y
  assume ih: "\<And>deadline t st r y. win deadline t st r = Some y \<Longrightarrow>
      clock_monotone (xhw r) \<longrightarrow> tel_past t (xhw r) \<longrightarrow> tel_past (fst y) (xhw (snd (snd y)))"
    and body: "(let (now, h) = esp_timer_get_time (xhw r); r1 = r\<lparr> xhw := h \<rparr>
      in if now < deadline then
           let (ready, r2) = rx_signalled r1
           in if ready then Some (receive_one t st r2)
              else win deadline t st (r2\<lparr> xhw := delayMicroseconds 10 (xhw r2) \<rparr>)
         else Some (t, st, r1)) = Some y"
    and m: "clock_monotone (xhw r)" and p: "tel_past t (xhw r)"
  define r1 where "r1 = r\<lparr> xhw := snd (esp_timer_get_time (xhw r)) \<rparr>"
  define r2 where "r2 = snd (rx_signalled r1)"
  define r3 where "r3 = r2\<lparr> xhw := delayMicroseconds 10 (xhw r2) \<rparr>"
  have l1: "later (xhw r) (xhw r1)" by (simp add: r1_def later_clock)
  have l2: "later (xhw r) (xhw r2)" unfolding r2_def by (rule later_trans [OF l1 emits_later [OF emits_rx_signalled]])
  have l3: "later (xhw r) (xhw r3)" using later_trans [OF l2 later_delay] by (simp add: r3_def)
  have "y = (t, st, r1) \<or> y = receive_one t st r2 \<or> win deadline t st r3 = Some y"
    using body by (auto simp: r1_def [symmetric] r2_def [symmetric] r3_def [symmetric] case_prod_beta Let_def
        split: if_splits)
  then show "tel_past (fst y) (xhw (snd (snd y)))"
  proof (elim disjE)
    assume "y = (t, st, r1)"
    then show ?thesis using tel_past_later [OF p m l1] by simp
  next
    assume "y = receive_one t st r2"
    then show ?thesis using receive_one_past [of r2 t st] later_now [OF m l2] tel_past_later [OF p m l2] by simp
  next
    assume "win deadline t st r3 = Some y"
    then show ?thesis using ih [of deadline t st r3 y] later_now [OF m l3] tel_past_later [OF p m l3] by simp
  qed
qed

lemma exchange_past:
  assumes "exchange_packet t sys g s = Some s'" "clock_monotone (ct_hw s)" "tel_past (ct_telemetry s) (ct_hw s)"
  shows "tel_past (ct_telemetry s') (ct_hw s')"
proof -
  obtain ps where "emits (ct_hw s) (ct_hw s') ps" using exchange_emits [OF assms(1)] by blast
  then have l: "later (ct_hw s) (ct_hw s')" by (rule emits_later)
  from assms(1) show ?thesis
  proof (cases rule: exchange_cases)
    case (sent_data p s1 r)
    let ?c = "(count_packet s1 r)\<lparr> consecutive_tx_failures := 0 \<rparr>"
    obtain qs where "emits (ct_hw s1) (xhw r) qs" using transmit_emits_any [OF sent_data(2)] by blast
    then have l2: "later (ct_hw s) (xhw (xn297_set_rx_mode r))"
      using later_trans [OF later_trans [OF emits_later [OF prepare_simps(1) [OF sent_data(1)]] emits_later]
          emits_later [OF emits_xn297_rx_mode]] by blast
    have te: "ct_telemetry s1 = ct_telemetry s" by (rule prepare_simps(3) [OF sent_data(1)])
    obtain y where y: "rx_window (t + TELEMETRY_RX_DEADLINE_US) (ct_telemetry s) (stats ?c) (xn297_set_rx_mode r) = Some y"
      "ct_telemetry s' = fst y" "ct_radio s' = snd (snd y)"
      using sent_data(5) by (auto simp: receive_telemetry_def bind_eq_Some_conv te)
    show ?thesis
      using rx_window_past [OF y(1)] later_now [OF assms(2) l2] tel_past_later [OF assms(3,2) l2] y(2,3) by simp
  next
    case (sent_bind p s1 r)
    then have "ct_telemetry s' = ct_telemetry s" using prepare_simps(3) [OF sent_bind(1)] by simp
    then show ?thesis using tel_past_later [OF assms(3,2) l] by simp
  next
    case (failed p s1 r)
    then have "ct_telemetry s' = ct_telemetry s" using prepare_simps(3) [OF failed(1)] by simp
    then show ?thesis using tel_past_later [OF assms(3,2) l] by simp
  qed (use assms in simp)
qed

section \<open>The invariant\<close>

definition task_ok :: "'s control_task \<Rightarrow> bool" where
  "task_ok s \<longleftrightarrow> link_ok (ct_gamepad s) (ct_bp32 s) (ct_bt s) \<and> clock_monotone (ct_hw s) \<and>
     tel_past (ct_telemetry s) (ct_hw s) \<and> current_state (ct_failsafe s) \<noteq> STATE_BOOT \<and>
     (current_state (ct_failsafe s) = STATE_RADIO_ERROR \<or> consecutive_tx_failures s < RADIO_FAILURE_LIMIT)"

lemma update_keeps_started:
  "current_state fs \<noteq> STATE_BOOT \<Longrightarrow> current_state (fs_step fs e) \<noteq> STATE_BOOT"
  by (cases e) (auto simp: failsafe_defs split: SystemState.splits)

lemma radio_error_absorbs:
  "current_state fs = STATE_RADIO_ERROR \<Longrightarrow> current_state (fs_run fs es) = STATE_RADIO_ERROR"
proof (induction es arbitrary: fs)
  case (Cons e es)
  have "current_state (fs_step fs e) = STATE_RADIO_ERROR" using Cons.prems by (cases e) (simp_all add: failsafe_defs)
  then show ?case by (simp add: Cons.IH)
qed simp

lemma run_keeps_started:
  "current_state fs \<noteq> STATE_BOOT \<Longrightarrow> current_state (fs_run fs es) \<noteq> STATE_BOOT"
  by (induction es arbitrary: fs) (simp_all add: update_keeps_started)

text \<open>The events of one cycle: one update, at most one decision on pre-arm, at most one radio error.\<close>

definition cycle_events :: "'s control_task \<Rightarrow> fs_event list" where
  "cycle_events s = (let s1 = read_controls (snd (ct_now s))
     in Update (cycle_inputs (now_of (ct_hw s)) s1) # prearm_event (now_of (ct_hw s)) s1)"

lemma entry_keeps: "keeps s (read_controls (snd (ct_now s)))"
  by (rule keeps_trans [OF keeps_now read_controls_keeps])

lemma cycle_safety_run: "ct_failsafe (cycle_safety s) = fs_run (ct_failsafe s) (cycle_events s)"
  using entry_keeps [of s]
  by (simp add: cycle_safety_def update_safety_run cycle_events_def keeps_def Let_def del: fs_run.simps)

lemma cycle_safety_failures: "consecutive_tx_failures (cycle_safety s) = consecutive_tx_failures s"
  using entry_keeps [of s] by (simp add: cycle_safety_def keeps_def)

lemma cycle_safety_telemetry: "ct_telemetry (cycle_safety s) = ct_telemetry s"
  using entry_keeps [of s] by (simp add: cycle_safety_def keeps_def)

lemma cycle_failsafe:
  assumes "control_cycle api s = Some s'"
  shows "ct_failsafe s' = fs_run (ct_failsafe s) (cycle_events s) \<and>
      (cycle_state s = STATE_RADIO_ERROR \<or> consecutive_tx_failures s' = 0 \<or>
       consecutive_tx_failures s' = consecutive_tx_failures s + 1 \<and> \<not> RADIO_FAILURE_LIMIT \<le> consecutive_tx_failures s') \<or>
    ct_failsafe s' = fs_run (ct_failsafe s) (cycle_events s @ [RadioError]) \<and> cycle_state s \<noteq> STATE_RADIO_ERROR \<and>
      consecutive_tx_failures s' = consecutive_tx_failures s + 1 \<and> RADIO_FAILURE_LIMIT \<le> consecutive_tx_failures s'"
  using assms
proof (rule cycle_parts)
  fix g s4 s5
  assume k: "keeps (cycle_safety s) s4" and x: "exchange_packet (now_of (ct_hw s)) (cycle_state s) g s4 = Some s5"
    and f: "s' = finish_cycle (now_of (ct_hw s)) s5"
  have "ct_failsafe s4 = fs_run (ct_failsafe s) (cycle_events s)" "consecutive_tx_failures s4 = consecutive_tx_failures s"
    using k cycle_safety_run [of s] cycle_safety_failures [of s] by (simp_all add: keeps_def)
  moreover have "ct_failsafe s' = ct_failsafe s5" "consecutive_tx_failures s' = consecutive_tx_failures s5"
    using finish_keeps [of s5 "now_of (ct_hw s)"] by (simp_all add: f keeps_def)
  ultimately show ?thesis using exchange_failsafe [OF x] by simp
qed

text \<open>The same by the outcome of the transmission.\<close>

lemma cycle_outcome:
  assumes "control_cycle api s = Some s'"
  shows "cycle_transmission api s = None \<and> cycle_state s = STATE_RADIO_ERROR \<and>
      consecutive_tx_failures s' = consecutive_tx_failures s \<and> ct_failsafe s' = fs_run (ct_failsafe s) (cycle_events s) \<or>
    cycle_transmission api s = Some True \<and> cycle_state s \<noteq> STATE_RADIO_ERROR \<and> consecutive_tx_failures s' = 0 \<and>
      ct_failsafe s' = fs_run (ct_failsafe s) (cycle_events s) \<or>
    cycle_transmission api s = Some False \<and> cycle_state s \<noteq> STATE_RADIO_ERROR \<and>
      consecutive_tx_failures s' = consecutive_tx_failures s + 1 \<and>
      ct_failsafe s' = fs_run (ct_failsafe s) (cycle_events s @
        (if RADIO_FAILURE_LIMIT \<le> consecutive_tx_failures s + 1 then [RadioError] else []))"
  using assms
proof (rule cycle_parts)
  fix g s4 s5
  assume k: "keeps (cycle_safety s) s4" and x: "exchange_packet (now_of (ct_hw s)) (cycle_state s) g s4 = Some s5"
    and f: "s' = finish_cycle (now_of (ct_hw s)) s5" and o: "cycle_transmission api s = packet_sent (cycle_state s) g s4"
  have "ct_failsafe s4 = fs_run (ct_failsafe s) (cycle_events s)" "consecutive_tx_failures s4 = consecutive_tx_failures s"
    using k cycle_safety_run [of s] cycle_safety_failures [of s] by (simp_all add: keeps_def)
  moreover have "ct_failsafe s' = ct_failsafe s5" "consecutive_tx_failures s' = consecutive_tx_failures s5"
    using finish_keeps [of s5 "now_of (ct_hw s)"] by (simp_all add: f keeps_def)
  ultimately show ?thesis using exchange_outcome [OF x] by (auto simp: o)
qed

text \<open>The inputs a cycle worked with are still there at its end.\<close>

lemma cycle_input:
  assumes "control_cycle api s = Some s'"
  shows "same_input (cycle_safety s) s' \<and> same_pad (cycle_safety s) s'"
  using assms
proof (rule cycle_parts)
  fix g s4 s5
  assume p: "same_pad (cycle_safety s) s4" and i: "same_input (cycle_safety s) s4"
    and x: "exchange_packet (now_of (ct_hw s)) (cycle_state s) g s4 = Some s5"
    and f: "s' = finish_cycle (now_of (ct_hw s)) s5"
  show ?thesis
    unfolding f using same_input_trans [OF same_input_trans [OF i same_input_exchange [OF x]] same_input_steps(3)]
      same_pad_trans [OF same_pad_trans [OF p same_pad_exchange [OF x]] same_pad_finish] by blast
qed

lemma cycle_clock:
  assumes "control_cycle api s = Some s'"
  shows "later (ct_hw s) (ct_hw s')"
  using assms
proof (rule cycle_parts)
  fix g s4 s5
  assume k: "keeps (cycle_safety s) s4" and x: "exchange_packet (now_of (ct_hw s)) (cycle_state s) g s4 = Some s5"
    and f: "s' = finish_cycle (now_of (ct_hw s)) s5"
  obtain ps where "emits (ct_hw s4) (ct_hw s5) ps" using exchange_emits [OF x] by blast
  then show ?thesis
    using later_trans [OF later_trans [OF emits_later [OF emits_trans0 [OF safety_emits keeps_emits [OF k]]] emits_later]
        emits_later [OF keeps_emits [OF finish_keeps]]] by (simp add: f)
qed

lemma cycle_keeps_ok:
  assumes "task_ok s" "control_cycle api s = Some s'"
  shows "task_ok s'"
proof -
  note c = cycle_failsafe [OF assms(2)]
  have m: "clock_monotone (ct_hw s')" using later_now [OF _ cycle_clock [OF assms(2)]] assms(1) by (simp add: task_ok_def)
  have st: "current_state (ct_failsafe s') \<noteq> STATE_BOOT"
    using c assms(1) run_keeps_started by (fastforce simp: task_ok_def simp del: fs_run_snoc)
  have er: "current_state (ct_failsafe s') = STATE_RADIO_ERROR \<or> consecutive_tx_failures s' < RADIO_FAILURE_LIMIT"
    using c assms(1)
    by (auto simp: cycle_state_def cycle_safety_run failsafe_report_radio_error_def not_le RADIO_FAILURE_LIMIT_def)
  from assms(2) have "link_ok (ct_gamepad s') (ct_bp32 s') (ct_bt s') \<and> tel_past (ct_telemetry s') (ct_hw s')"
  proof (rule cycle_parts)
    fix g s4 s5
    assume k: "keeps (cycle_safety s) s4" and sp: "same_pad (cycle_safety s) s4"
      and x: "exchange_packet (now_of (ct_hw s)) (cycle_state s) g s4 = Some s5"
      and f: "s' = finish_cycle (now_of (ct_hw s)) s5"
    let ?s1 = "snd (ct_now s)"
    have "same_pad (read_controls ?s1) s'"
      using same_pad_trans [OF same_pad_trans [OF same_pad_trans [OF same_pad_safety sp [unfolded cycle_safety_def]]
          same_pad_exchange [OF x]] same_pad_finish] by (simp add: f)
    moreover have "link_ok (ct_gamepad (read_controls ?s1)) (ct_bp32 (read_controls ?s1)) (ct_bt (read_controls ?s1))"
    proof -
      have "link_ok (ct_gamepad ?s1) (ct_bp32 ?s1) (ct_bt ?s1)" using assms(1) by (simp add: task_ok_def ct_now_eq)
      from gamepad_update_single [OF this, of "ct_hw ?s1"] show ?thesis
        by (simp add: read_controls_def case_prod_beta Let_def publish_simps)
    qed
    ultimately have a: "link_ok (ct_gamepad s') (ct_bp32 s') (ct_bt s')" by (simp add: same_pad_def)
    have l4: "later (ct_hw s) (ct_hw s4)" by (rule emits_later [OF emits_trans0 [OF safety_emits keeps_emits [OF k]]])
    have m4: "clock_monotone (ct_hw s4)" using later_now [OF _ l4] assms(1) by (simp add: task_ok_def)
    have "tel_past (ct_telemetry s4) (ct_hw s4)"
      using tel_past_later [OF _ _ l4] assms(1) k cycle_safety_telemetry [of s] by (simp add: task_ok_def keeps_def)
    then have p5: "tel_past (ct_telemetry s5) (ct_hw s5)" by (rule exchange_past [OF x m4])
    obtain ps where "emits (ct_hw s4) (ct_hw s5) ps" using exchange_emits [OF x] by blast
    then have m5: "clock_monotone (ct_hw s5)" using later_now [OF m4 emits_later] by blast
    have "tel_past (ct_telemetry s') (ct_hw s')"
      using tel_past_later [OF p5 m5 emits_later [OF keeps_emits [OF finish_keeps]]] finish_keeps [of s5 "now_of (ct_hw s)"]
      by (simp add: f keeps_def)
    with a show ?thesis by simp
  qed
  with m st er show ?thesis by (simp add: task_ok_def)
qed

section \<open>The start\<close>

lemma clock_of_timing: "timing h' = timing h \<Longrightarrow> clock h' = clock h"
  by (simp add: timing_def)

lemma clock_of_later: "later h h' \<Longrightarrow> clock h' = clock h"
  by (simp add: later_def)

lemma timing_nrf24_test [simp]: "timing (snd (nrf24_test h)) = timing h"
  by (simp add: nrf24_test_def case_prod_beta Let_def)

lemma timing_standby [simp]: "timing (nrf24_set_standby h) = timing h"
  by (simp add: nrf24_set_standby_def)

lemma clock_nrf24_init: "clock (snd (nrf24_init h)) = clock h"
proof -
  have r: "timing (h\<lparr> spi_ready := b \<rparr>) = timing h" for h b by (simp add: timing_def)
  have d: "clock (delayMicroseconds n h) = clock h" for n h by (simp add: delayMicroseconds_def emit_def)
  show ?thesis
    by (simp add: nrf24_init_def case_prod_beta Let_def d)
      (intro conjI impI; rule clock_of_timing; simp add: r)
qed

text \<open>What a step of the start leaves alone.\<close>

definition start_frame :: "'s control_task \<Rightarrow> 's control_task \<Rightarrow> bool" where
  "start_frame s s' \<longleftrightarrow> ct_failsafe s' = ct_failsafe s \<and> ct_telemetry s' = ct_telemetry s \<and>
     ct_gamepad s' = ct_gamepad s \<and> ct_bp32 s' = ct_bp32 s \<and> ct_bt s' = ct_bt s \<and> clock (ct_hw s') = clock (ct_hw s)"

lemma start_frame_trans: "start_frame s s1 \<Longrightarrow> start_frame s1 s2 \<Longrightarrow> start_frame s s2"
  by (simp add: start_frame_def)

lemma start_frame_log [simp]: "start_frame s (log_line s)" "start_frame s (warn_unless ok s)"
  using clock_of_later [OF later_clock] by (simp_all add: start_frame_def warn_unless_def log_line_def ct_now_eq)

lemma start_frame_id: "start_frame s (setup_id api env s)"
proof -
  have f: "start_frame s (s\<lparr> ct_tx_id := i, ct_nvs := n \<rparr>)" for i n by (simp add: start_frame_def)
  have "start_frame s (warn_unless ok (s\<lparr> ct_tx_id := i, ct_nvs := n \<rparr>))" for ok i n
    by (rule start_frame_trans [OF f start_frame_log(2)])
  then show ?thesis using f by (simp add: setup_id_def case_prod_beta Let_def)
qed

lemma setup_modules_state:
  "ct_failsafe (setup_modules env s) = failsafe_init (ct_failsafe s)" "\<not> has_telemetry (ct_telemetry (setup_modules env s))"
  "ct_gamepad (setup_modules env s) = (ct_gamepad s)\<lparr> gm_state := ControlState_zero \<rparr>"
  "ct_bp32 (setup_modules env s) = ct_bp32 s" "ct_bt (setup_modules env s) = (ct_bt s)\<lparr> virtual_device_enabled := False \<rparr>"
  "clock (ct_hw (setup_modules env s)) = clock (ct_hw s)"
  using clock_of_later [OF later_clock]
  by (simp_all add: setup_modules_def gamepad_init_def xn297_init_def warn_unless_def log_line_def ct_now_eq
      telemetry_init_def clock_nrf24_init case_prod_beta Let_def)

lemma setup_state:
  assumes "tx_setup api env s0 = Some (ok, s)"
  shows "ct_failsafe s = failsafe_init (ct_failsafe s0) \<and> \<not> has_telemetry (ct_telemetry s) \<and>
    ct_gamepad s = (ct_gamepad s0)\<lparr> gm_state := ControlState_zero \<rparr> \<and> ct_bp32 s = ct_bp32 s0 \<and>
    ct_bt s = (ct_bt s0)\<lparr> virtual_device_enabled := False \<rparr> \<and> clock (ct_hw s) = clock (ct_hw s0)"
proof -
  obtain store con con_ok where s: "s = warn_unless ok (setup_modules env (log_line (setup_id api env
      (log_line (warn_unless con_ok (s0\<lparr> ct_nvs := store, ct_console := con \<rparr>))))))"
    using assms by (auto simp: tx_setup_def bind_eq_Some_conv case_prod_beta Let_def)
  define s1 where "s1 = log_line (setup_id api env (log_line (warn_unless con_ok (s0\<lparr> ct_nvs := store, ct_console := con \<rparr>))))"
  have "start_frame s0 (s0\<lparr> ct_nvs := store, ct_console := con \<rparr>)" by (simp add: start_frame_def)
  then have "start_frame s0 s1"
    unfolding s1_def by (intro start_frame_trans [OF _ start_frame_log(1)] start_frame_trans [OF _ start_frame_id]
        start_frame_trans [OF _ start_frame_log(2)])
  moreover have "start_frame (setup_modules env s1) s" by (simp add: s s1_def [symmetric])
  ultimately show ?thesis by (simp add: start_frame_def setup_modules_state)
qed

lemma init_failed_simps [simp]:
  "ct_failsafe (radio_init_failed s) = failsafe_report_radio_error (ct_failsafe s)"
  "ct_telemetry (radio_init_failed s) = ct_telemetry s" "ct_gamepad (radio_init_failed s) = ct_gamepad s"
  "ct_bp32 (radio_init_failed s) = ct_bp32 s" "ct_bt (radio_init_failed s) = ct_bt s"
  "ct_radio (radio_init_failed s) = ct_radio s"
  "consecutive_tx_failures (radio_init_failed s) = consecutive_tx_failures s"
  by (simp_all add: radio_init_failed_def Let_def)

lemma clock_rx_address: "clock (xhw (snd (xn297_set_rx_address a n r))) = clock (xhw r)"
  by (auto simp: xn297_set_rx_address_def Let_def split: option.splits intro!: clock_of_timing)

lemma start_radio_state:
  "(ct_failsafe (start_radio s) = ct_failsafe s \<or>
     ct_failsafe (start_radio s) = failsafe_report_radio_error (ct_failsafe s)) \<and>
   ct_telemetry (start_radio s) = ct_telemetry s \<and> ct_gamepad (start_radio s) = ct_gamepad s \<and>
   ct_bp32 (start_radio s) = ct_bp32 s \<and> ct_bt (start_radio s) = ct_bt s \<and>
   clock (ct_hw (start_radio s)) = clock (ct_hw s) \<and>
   consecutive_tx_failures (start_radio s) = consecutive_tx_failures s"
  by (simp add: start_radio_def case_prod_beta Let_def clock_rx_address)

lemma task_locals_state:
  "ct_failsafe (task_locals api s) = ct_failsafe s" "ct_telemetry (task_locals api s) = ct_telemetry s"
  "ct_gamepad (task_locals api s) = ct_gamepad s" "ct_bp32 (task_locals api s) = ct_bp32 s"
  "ct_bt (task_locals api s) = ct_bt s" "ct_radio (task_locals api s) = ct_radio s"
  "consecutive_tx_failures (task_locals api s) = 0"
  by (simp_all add: task_locals_def case_prod_beta Let_def)

lemma start_state:
  "(ct_failsafe (control_radio_task_start api s) = ct_failsafe s \<or>
     ct_failsafe (control_radio_task_start api s) = failsafe_report_radio_error (ct_failsafe s)) \<and>
   ct_telemetry (control_radio_task_start api s) = ct_telemetry s \<and>
   ct_gamepad (control_radio_task_start api s) = ct_gamepad s \<and>
   ct_bp32 (control_radio_task_start api s) = ct_bp32 s \<and> ct_bt (control_radio_task_start api s) = ct_bt s \<and>
   clock (ct_hw (control_radio_task_start api s)) = clock (ct_hw s) \<and>
   consecutive_tx_failures (control_radio_task_start api s) = 0"
  using start_radio_state [of "task_locals api s"] by (simp add: control_radio_task_start_def task_locals_state)

lemma reach_base:
  assumes "mono (clock h)" "tx_setup api env (statics h w store) = Some (True, s)" "length (Hid_Device.controllers w) = 1"
  shows "task_ok (control_radio_task_start api s)"
    "\<exists>es. ct_failsafe (control_radio_task_start api s) = fs_run (failsafe_init failsafe_boot) es"
proof -
  note a = setup_state [OF assms(2)] and b = start_state [of api s]
  have l: "link_ok (manager_boot\<lparr> gm_state := ControlState_zero \<rparr>) (Bluepad32_zero 1) (w\<lparr> virtual_device_enabled := False \<rparr>)"
    using assms(3) by (simp add: link_ok_def manager_boot_def Bluepad32_zero_def Controller_zero_def)
  have f: "ct_failsafe (statics h w store) = failsafe_boot" "ct_gamepad (statics h w store) = manager_boot"
    "ct_bp32 (statics h w store) = Bluepad32_zero 1" "ct_bt (statics h w store) = w" "ct_hw (statics h w store) = h"
    by (simp_all add: statics_def)
  show "task_ok (control_radio_task_start api s)"
    using a b l assms(1) unfolding task_ok_def clock_monotone_def tel_past_def f
    by (auto simp: failsafe_init_def failsafe_report_radio_error_def RADIO_FAILURE_LIMIT_def)
  have "ct_failsafe (control_radio_task_start api s) = fs_run (failsafe_init failsafe_boot) [] \<or>
      ct_failsafe (control_radio_task_start api s) = fs_run (failsafe_init failsafe_boot) [RadioError]"
    using a b unfolding f by simp
  then show "\<exists>es. ct_failsafe (control_radio_task_start api s) = fs_run (failsafe_init failsafe_boot) es" by blast
qed

lemma bluetooth_keeps_ok:
  "task_ok s \<Longrightarrow> length (Hid_Device.controllers w) = 1 \<Longrightarrow> task_ok (s\<lparr> ct_bt := w \<rparr>)"
  by (simp add: task_ok_def link_ok_def)

lemma reach_ok: "tx_reach api env s \<Longrightarrow> task_ok s"
  by (induction rule: tx_reach.induct) (auto intro: reach_base(1) cycle_keeps_ok bluetooth_keeps_ok)

end
