(* ===== verification/Transmitter.thy ===== *)
theory Transmitter
  imports Control_Safety
begin

text \<open>
  What the transmitter as a whole guarantees: which packets it can send, how it arms, what happens when the gamepad or
  the radio is lost, and that its task never hangs.  Every statement is about \<^const>\<open>control_cycle\<close>, the pass of
  the task's loop, on states the program reaches.
\<close>

section \<open>The gamepad of a cycle\<close>

lemma cycle_inputs_at: "cycle_events s = Update (cycle_inputs (now_of (ct_hw s)) (read_controls (snd (ct_now s)))) #
    prearm_event (now_of (ct_hw s)) (read_controls (snd (ct_now s)))"
  by (simp add: cycle_events_def Let_def)

lemma cycle_inputs_sel:
  "gamepad_connected (cycle_inputs t s) = cs_connected (controls s)"
  "last_gamepad_update (cycle_inputs t s) = lastUpdateUs (controls s)" "fi_now (cycle_inputs t s) = t"
  "throttle_idle (cycle_inputs t s) = (throttleRaw (controls s) \<le> ARM_THROTTLE_MAX)"
  by (simp_all add: cycle_inputs_def failsafe_arguments_def)

lemma controls_of_cycle: "controls (cycle_safety s) = controls (read_controls (snd (ct_now s)))"
  by (simp add: cycle_safety_def del: read_controls_simps)

text \<open>The gamepad is lost when its seat is empty or when it has sent nothing for half a second.\<close>

definition gamepad_lost :: "'s control_task \<Rightarrow> bool" where
  "gamepad_lost s \<longleftrightarrow>
     (let seat = Hid_Device.controllers (ct_bt s) ! 0
      in seat_idx seat = -1 \<or>
         \<not> seat_data_updated seat \<and> now_of (ct_hw s) - lastUpdateUs (gm_state (ct_gamepad s)) > GAMEPAD_TIMEOUT_MS * 1000)"

lemma lost_times_out:
  assumes "task_ok s" "gamepad_lost s"
  shows "gamepad_timeout (cycle_inputs (now_of (ct_hw s)) (read_controls (snd (ct_now s))))"
proof -
  let ?s1 = "snd (ct_now s)"
  have l: "link_ok (ct_gamepad ?s1) (ct_bp32 ?s1) (ct_bt ?s1)" using assms(1) by (simp add: task_ok_def ct_now_eq)
  have c: "controls (read_controls ?s1) =
      (if \<not> seat_taken (ct_bt s) then ControlState_zero
       else if seat_data_updated (Hid_Device.controllers (ct_bt s) ! 0)
       then read_controller (Controller_zero\<lparr> c_data := seat_data (Hid_Device.controllers (ct_bt s) ! 0) \<rparr>)
         (now_of (ct_hw ?s1))
       else gm_state (ct_gamepad s))"
    using gamepad_update_single [OF l, of "ct_hw ?s1"]
    by (simp add: gamepad_get_state_def case_prod_beta ct_now_eq)
  show ?thesis
    using assms(2) unfolding gamepad_timeout_def cycle_inputs_sel c
    by (auto simp: gamepad_lost_def seat_taken_def ControlState_zero_def Let_def)
qed

lemma timed_out_update:
  "gamepad_timeout i \<Longrightarrow> current_state fs \<noteq> STATE_BOOT \<Longrightarrow>
   current_state (failsafe_update_at i fs) \<in> {STATE_WAIT_GAMEPAD, STATE_GAMEPAD_FAILSAFE, STATE_RADIO_ERROR}"
  by (auto simp: failsafe_update_at_def split: SystemState.splits)

lemma lost_state:
  assumes "task_ok s" "gamepad_lost s"
  shows "cycle_state s \<in> {STATE_WAIT_GAMEPAD, STATE_GAMEPAD_FAILSAFE, STATE_RADIO_ERROR}"
proof -
  let ?s1 = "read_controls (snd (ct_now s))"
  have f: "ct_failsafe ?s1 = ct_failsafe s" using entry_keeps [of s] by (simp add: keeps_def)
  have u: "current_state (failsafe_update_at (cycle_inputs (now_of (ct_hw s)) ?s1) (ct_failsafe s)) \<in>
      {STATE_WAIT_GAMEPAD, STATE_GAMEPAD_FAILSAFE, STATE_RADIO_ERROR}"
    by (rule timed_out_update [OF lost_times_out [OF assms]]) (use assms(1) in \<open>simp add: task_ok_def\<close>)
  then have "prearm_event (now_of (ct_hw s)) ?s1 = []" by (auto simp: prearm_event_def f)
  with u show ?thesis by (simp add: cycle_state_def cycle_safety_run cycle_inputs_at)
qed

section \<open>How a cycle arms\<close>

lemma update_to_prearm:
  "current_state (failsafe_update_at i fs) = STATE_PREARM_MODE \<Longrightarrow>
   \<not> gamepad_timeout i \<and> throttle_idle i \<and> (current_state fs = STATE_PREARM_MODE \<or> unlock_clicked i)"
  by (auto simp: failsafe_update_at_def split: SystemState.splits if_splits)

lemma update_to_active: "current_state (failsafe_update_at i fs) = STATE_ACTIVE \<Longrightarrow> current_state fs = STATE_ACTIVE"
  by (auto simp: failsafe_update_at_def split: SystemState.splits if_splits)

lemma arming_event:
  assumes "cycle_state s = STATE_ACTIVE" "current_state (ct_failsafe s) \<noteq> STATE_ACTIVE"
  shows "let s1 = read_controls (snd (ct_now s)); t = now_of (ct_hw s) in
    current_state (failsafe_update_at (cycle_inputs t s1) (ct_failsafe s)) = STATE_PREARM_MODE \<and>
    prearm_configuration_confirmed (telemetry_get_snapshot t (ct_telemetry s)) (aux_state s) (prearm_start t s1)"
proof -
  let ?s1 = "read_controls (snd (ct_now s))" and ?t = "now_of (ct_hw s)"
  have f: "ct_failsafe ?s1 = ct_failsafe s" "ct_telemetry ?s1 = ct_telemetry s" "aux_state (snd (ct_now s)) = aux_state s"
    using entry_keeps [of s] by (simp_all add: keeps_def ct_now_eq)
  let ?u = "failsafe_update_at (cycle_inputs ?t ?s1) (ct_failsafe s)"
  have u: "current_state ?u \<noteq> STATE_ACTIVE" using update_to_active assms(2) by blast
  have r: "current_state (fs_run ?u (prearm_event ?t ?s1)) = STATE_ACTIVE"
    using assms(1) by (simp add: cycle_state_def cycle_safety_run cycle_inputs_at)
  have "prearm_event ?t ?s1 = [CompletePrearm]"
    using r u by (auto simp: prearm_event_def f failsafe_defs split: if_splits)
  then show ?thesis by (auto simp: prearm_event_def f Let_def split: if_splits)
qed

lemma arming_was_prearm:
  assumes "tel_past (ct_telemetry s) (ct_hw s)" "cycle_state s = STATE_ACTIVE" "current_state (ct_failsafe s) \<noteq> STATE_ACTIVE"
  shows "current_state (ct_failsafe s) = STATE_PREARM_MODE"
    "prearm_configuration_confirmed (telemetry_get_snapshot (now_of (ct_hw s)) (ct_telemetry s)) (aux_state s)
       (prearm_started_us s)"
proof -
  let ?s1 = "read_controls (snd (ct_now s))" and ?t = "now_of (ct_hw s)"
  have f: "ct_failsafe ?s1 = ct_failsafe s" "prearm_started_us ?s1 = prearm_started_us s"
    using entry_keeps [of s] by (simp_all add: keeps_def)
  note a = arming_event [OF assms(2,3), unfolded Let_def]
  have "prearm_start ?t ?s1 < ?t"
    using confirmed_fresh [OF conjunct2 [OF a]] assms(1) by (auto simp: tel_past_def)
  then have p: "prearm_start ?t ?s1 = prearm_started_us s" "current_state (ct_failsafe s) = STATE_PREARM_MODE"
    using a by (auto simp: prearm_start_def f split: if_splits)
  show "current_state (ct_failsafe s) = STATE_PREARM_MODE" by (rule p(2))
  show "prearm_configuration_confirmed (telemetry_get_snapshot ?t (ct_telemetry s)) (aux_state s) (prearm_started_us s)"
    using a p(1) by simp
qed

section \<open>The count of failures\<close>

lemma small_count: "(n :: u8) < RADIO_FAILURE_LIMIT \<Longrightarrow> n \<in> {0, 1, 2}"
proof -
  assume "n < RADIO_FAILURE_LIMIT"
  then have "unat n < 3" by (simp add: RADIO_FAILURE_LIMIT_def word_less_nat_alt)
  then have "unat n \<in> {0, 1, 2}" by auto
  then show "n \<in> {0, 1, 2}" by (auto simp: word_unat_eq_iff)
qed

lemma update_no_error:
  "current_state fs \<noteq> STATE_RADIO_ERROR \<Longrightarrow> current_state (failsafe_update_at i fs) \<noteq> STATE_RADIO_ERROR"
  by (auto simp: failsafe_update_at_def split: SystemState.splits)

lemma safety_no_error:
  "current_state (fs_run (ct_failsafe s) (cycle_events s)) = STATE_RADIO_ERROR \<longleftrightarrow>
   current_state (ct_failsafe s) = STATE_RADIO_ERROR"
proof
  let ?s1 = "read_controls (snd (ct_now s))" and ?t = "now_of (ct_hw s)"
  assume e: "current_state (fs_run (ct_failsafe s) (cycle_events s)) = STATE_RADIO_ERROR"
  show "current_state (ct_failsafe s) = STATE_RADIO_ERROR"
  proof (rule ccontr)
    assume "current_state (ct_failsafe s) \<noteq> STATE_RADIO_ERROR"
    then have "current_state (failsafe_update_at (cycle_inputs ?t ?s1) (ct_failsafe s)) \<noteq> STATE_RADIO_ERROR"
      by (rule update_no_error)
    moreover have "prearm_event ?t ?s1 \<in> {[], [CompletePrearm], [CancelPrearm]}" by (simp add: prearm_event_def)
    ultimately show False using e
      by (auto simp: cycle_inputs_at failsafe_complete_prearm_def failsafe_cancel_prearm_def split: if_splits)
  qed
qed (rule radio_error_absorbs)

text \<open>A cycle's effect on the counter, by what became of its transmission.\<close>

lemma cycle_count:
  assumes "control_cycle api s = Some s'"
  shows "if current_state (ct_failsafe s) = STATE_RADIO_ERROR
    then cycle_transmission api s = None \<and> current_state (ct_failsafe s') = STATE_RADIO_ERROR
    else cycle_transmission api s = Some True \<and> consecutive_tx_failures s' = 0 \<and>
        current_state (ct_failsafe s') \<noteq> STATE_RADIO_ERROR \<or>
      cycle_transmission api s = Some False \<and> consecutive_tx_failures s' = consecutive_tx_failures s + 1 \<and>
        (current_state (ct_failsafe s') = STATE_RADIO_ERROR \<longleftrightarrow> 3 \<le> consecutive_tx_failures s + 1)"
proof -
  have c: "cycle_state s = STATE_RADIO_ERROR \<longleftrightarrow> current_state (ct_failsafe s) = STATE_RADIO_ERROR"
    by (simp add: cycle_state_def cycle_safety_run safety_no_error)
  show ?thesis
    using cycle_outcome [OF assms] c safety_no_error [of s]
    by (cases "3 \<le> consecutive_tx_failures s + 1")
      (auto simp: RADIO_FAILURE_LIMIT_def failsafe_report_radio_error_def)
qed

lemma error_silent:
  assumes "control_cycle api s = Some s'" "current_state (ct_failsafe s) = STATE_RADIO_ERROR"
  shows "emits (ct_hw s) (ct_hw s') []"
proof -
  have "cycle_state s = STATE_RADIO_ERROR" using assms(2) by (simp add: cycle_state_def cycle_safety_run safety_no_error)
  then show ?thesis using cycle_emits_safe [OF assms(1)] by auto
qed

section \<open>The run of a cycle\<close>

lemma cycle_controls:
  assumes "control_cycle api s = Some s'"
  shows "controls (read_controls (snd (ct_now s))) = gm_state (ct_gamepad s')"
    "previous_buttons s' = (let c = gm_state (ct_gamepad s')
       in \<lparr> be_start = btnStart c, be_view = btnView c, be_b = btnB c \<rparr>)"
proof -
  have r: "controls (read_controls s1) = gm_state (ct_gamepad (read_controls s1))" for s1 :: "'a control_task"
    by (simp add: read_controls_def gamepad_get_state_def publish_simps case_prod_beta Let_def)
  have g: "ct_gamepad s' = ct_gamepad (read_controls (snd (ct_now s)))"
    using cycle_input [OF assms] same_pad_safety [of "read_controls (snd (ct_now s))" "now_of (ct_hw s)"]
    by (simp add: same_pad_def cycle_safety_def)
  show c: "controls (read_controls (snd (ct_now s))) = gm_state (ct_gamepad s')" by (simp add: g r del: read_controls_simps)
  have "previous_buttons (update_safety t s1) =
      \<lparr> be_start = btnStart (controls s1), be_view = btnView (controls s1), be_b = btnB (controls s1) \<rparr>"
    for t and s1 :: "'a control_task"
    by (simp add: update_safety_def note_state_def check_prearm_def update_failsafe_def detect_button_edges_def
        case_prod_beta Let_def)
  then show "previous_buttons s' = (let c = gm_state (ct_gamepad s')
       in \<lparr> be_start = btnStart c, be_view = btnView c, be_b = btnB c \<rparr>)"
    using cycle_input [OF assms] c by (simp add: same_input_def cycle_safety_def Let_def del: read_controls_simps)
qed

lemma failed_third:
  assumes "task_ok s" "cycle_state s \<noteq> STATE_RADIO_ERROR"
  shows "RADIO_FAILURE_LIMIT \<le> consecutive_tx_failures s + 1 \<longleftrightarrow> consecutive_tx_failures s = 2"
proof -
  have "current_state (ct_failsafe s) \<noteq> STATE_RADIO_ERROR"
    using radio_error_absorbs assms(2) by (auto simp: cycle_state_def cycle_safety_run)
  then have "consecutive_tx_failures s \<in> {0, 1, 2}" using assms(1) by (auto simp: task_ok_def dest: small_count)
  then show ?thesis by (auto simp: RADIO_FAILURE_LIMIT_def word_le_nat_alt)
qed

lemma cycle_run:
  assumes "task_ok s" "control_cycle api s = Some s'"
  shows "let now = now_of (ct_hw s); before = current_state (ct_failsafe s); c = gm_state (ct_gamepad s');
           start = (btnStart c \<and> \<not> be_start (previous_buttons s));
           i = \<lparr> fi_now = now, gamepad_connected = cs_connected c, last_gamepad_update = lastUpdateUs c,
             throttle_idle = (throttleRaw c \<le> 10), unlock_clicked = start,
             bind_clicked = (btnView c \<and> \<not> be_view (previous_buttons s)),
             disarm_clicked = (btnB c \<and> \<not> be_b (previous_buttons s) \<or>
               start \<and> before \<in> {STATE_ACTIVE, STATE_PREARM_MODE}) \<rparr>;
           updated = failsafe_update_at i (ct_failsafe s);
           began = (if before = STATE_PREARM_MODE then prearm_started_us s else now);
           decision = (if current_state updated \<noteq> STATE_PREARM_MODE then []
             else if prearm_configuration_confirmed (telemetry_get_snapshot now (ct_telemetry s)) (aux_state s) began
             then [CompletePrearm]
             else if now - began \<ge> 2000000 then [CancelPrearm] else []);
           error = (if cycle_transmission api s = Some False \<and> consecutive_tx_failures s = 2 then [RadioError] else [])
       in ct_failsafe s' = fs_run updated (decision @ error) \<and>
          previous_buttons s' = \<lparr> be_start = btnStart c, be_view = btnView c, be_b = btnB c \<rparr>"
proof -
  let ?s1 = "read_controls (snd (ct_now s))" and ?t = "now_of (ct_hw s)" and ?c = "gm_state (ct_gamepad s')"
  have f: "ct_failsafe ?s1 = ct_failsafe s" "prearm_started_us ?s1 = prearm_started_us s" "ct_telemetry ?s1 = ct_telemetry s"
    "aux_state ?s1 = aux_state s" "previous_buttons ?s1 = previous_buttons s"
    "aux_state (snd (ct_now s)) = aux_state s" "previous_buttons (snd (ct_now s)) = previous_buttons s"
    using entry_keeps [of s] by (simp_all add: keeps_def ct_now_eq)
  note c = cycle_controls [OF assms(2)]
  have i: "cycle_inputs ?t ?s1 =
      \<lparr> fi_now = ?t, gamepad_connected = cs_connected ?c, last_gamepad_update = lastUpdateUs ?c,
        throttle_idle = (throttleRaw ?c \<le> 10), unlock_clicked = (btnStart ?c \<and> \<not> be_start (previous_buttons s)),
        bind_clicked = (btnView ?c \<and> \<not> be_view (previous_buttons s)),
        disarm_clicked = (btnB ?c \<and> \<not> be_b (previous_buttons s) \<or>
          (btnStart ?c \<and> \<not> be_start (previous_buttons s)) \<and>
          current_state (ct_failsafe s) \<in> {STATE_ACTIVE, STATE_PREARM_MODE}) \<rparr>"
    by (simp add: cycle_inputs_def failsafe_arguments_def detect_button_edges_def f c(1) failsafe_get_state_def
        ARM_THROTTLE_MAX_def del: read_controls_simps)
  have run: "ct_failsafe s' = fs_run (ct_failsafe s) (cycle_events s @
      (if cycle_transmission api s = Some False \<and> consecutive_tx_failures s = 2 then [RadioError] else []))"
    using cycle_outcome [OF assms(2)] failed_third [OF assms(1)] by (auto simp del: fs_run.simps fs_run_append)
  have d: "prearm_event ?t ?s1 =
      (let began = (if current_state (ct_failsafe s) = STATE_PREARM_MODE then prearm_started_us s else ?t)
       in if current_state (failsafe_update_at (cycle_inputs ?t ?s1) (ct_failsafe s)) \<noteq> STATE_PREARM_MODE then []
          else if prearm_configuration_confirmed (telemetry_get_snapshot ?t (ct_telemetry s)) (aux_state s) began
          then [CompletePrearm] else if ?t - began \<ge> 2000000 then [CancelPrearm] else [])"
    by (simp add: prearm_event_def prearm_start_def f PREARM_MODE_TIMEOUT_US_def Let_def)
  show ?thesis
    using run c(2) unfolding cycle_inputs_at d i Let_def by simp
qed

section \<open>Properties\<close>

text \<open>C1: Only the active state can move the motors.  In every cycle whose safety step does not leave the machine in
  the active state, the radio is loaded with at most one packet, and that packet is a bind packet or one from which
  the receiver reads throttle 0 and the arming channel off, whatever the sticks, the gestures and the AUX
  selections are; everything else on the bus is well-framed register traffic.\<close>

theorem only_active_moves_motors:
  assumes "control_cycle api s = Some s'" "cycle_state s \<noteq> STATE_ACTIVE"
  shows "\<exists>ps. emits (ct_hw s) (ct_hw s') ps \<and> only_safe ps"
  using cycle_emits_safe [OF assms] by blast

text \<open>C2: A lost gamepad stops the motors in the same cycle.  In every reachable state, when the gamepad's seat is empty
  or its last report is older than half a second and no new one has come, the next cycle ends armed operation: it
  leaves the machine waiting, in failsafe or in radio error, and the packet it sends, if any, has throttle 0 and
  the arming channel off.\<close>

theorem lost_gamepad_stops_motors:
  assumes "tx_reach api env s" "gamepad_lost s" "control_cycle api s = Some s'"
  shows "current_state (ct_failsafe s') \<in> {STATE_WAIT_GAMEPAD, STATE_GAMEPAD_FAILSAFE, STATE_RADIO_ERROR} \<and>
    (\<exists>ps. emits (ct_hw s) (ct_hw s') ps \<and> only_safe ps)"
proof
  have l: "cycle_state s \<in> {STATE_WAIT_GAMEPAD, STATE_GAMEPAD_FAILSAFE, STATE_RADIO_ERROR}"
    by (rule lost_state [OF reach_ok [OF assms(1)] assms(2)])
  show "current_state (ct_failsafe s') \<in> {STATE_WAIT_GAMEPAD, STATE_GAMEPAD_FAILSAFE, STATE_RADIO_ERROR}"
    using cycle_failsafe [OF assms(3)] l
    by (auto simp: cycle_state_def cycle_safety_run failsafe_report_radio_error_def)
  show "\<exists>ps. emits (ct_hw s) (ct_hw s') ps \<and> only_safe ps"
    using cycle_emits_safe [OF assms(3)] l by auto
qed

text \<open>C3: The transmitter arms only on fresh confirmation.  A cycle that enters the active state started in pre-arm
  mode, with the gamepad connected, its report at most half a second old and the throttle at rest, and with a telemetry
  packet that arrived after pre-arm began and at most half a second ago; when the flight controller reports
  extended telemetry, a flight page after that moment shows it disarmed and in the selected mode and profile.\<close>

theorem arms_only_when_confirmed:
  assumes "task_ok s" "cycle_state s = STATE_ACTIVE" "current_state (ct_failsafe s) \<noteq> STATE_ACTIVE"
  shows "current_state (ct_failsafe s) = STATE_PREARM_MODE \<and>
    (let c = controls (cycle_safety s); d = current_telemetry (ct_telemetry s); now = now_of (ct_hw s) in
      cs_connected c \<and> now - lastUpdateUs c \<le> 500000 \<and> throttleRaw c \<le> 10 \<and>
      has_telemetry (ct_telemetry s) \<and> prearm_started_us s < lastValidUs d \<and> lastValidUs d \<le> now \<and>
      now - lastValidUs d \<le> 500000 \<and>
      (protocol d = ExtendedV1 \<longrightarrow> prearm_started_us s < lastFlightPageUs d \<and> \<not> armed d \<and>
         flightMode d = selected_flight_mode (aux_state s) \<and> pidProfile d = aux_pidProfile (aux_state s)))"
proof -
  have tp: "tel_past (ct_telemetry s) (ct_hw s)" using assms(1) by (simp add: task_ok_def)
  note p = arming_was_prearm [OF tp assms(2,3)]
  note u = update_to_prearm [OF conjunct1 [OF arming_event [OF assms(2,3), unfolded Let_def]]]
  note f = confirmed_fresh [OF p(2)] and x = confirmed_extended [OF p(2)]
  show ?thesis
    using p(1) u f x tp
    by (simp add: Let_def controls_of_cycle gamepad_timeout_def cycle_inputs_sel GAMEPAD_TIMEOUT_MS_def
        TELEMETRY_TIMEOUT_MS_def ARM_THROTTLE_MAX_def tel_past_def del: read_controls_simps split: if_splits)
qed

text \<open>C4: The control task implements the failsafe machine.  The safety state of every reachable state of the task is
  the result of a run of the failsafe module's operations from its initial state, and each cycle is a run of it on
  concrete inputs.  It is one update with the time of the cycle, the connection, the report time and the throttle that
  the gamepad manager holds, Start to unlock, View to bind and B to disarm, each as the edge against the buttons of
  the cycle before (Start also disarms in the armed and in the pre-arm state); then, only when that update leaves pre-arm
  mode, its completion if the configuration is confirmed, else its cancellation after two seconds; then the radio error
  exactly when this cycle's transmission failed as the third in a row.  The buttons are remembered for the next
  cycle.\<close>

theorem task_refines_failsafe:
  assumes "tx_reach api env s"
  shows "(\<exists>es. ct_failsafe s = fs_run (failsafe_init failsafe_boot) es) \<and>
    (\<forall>s'. control_cycle api s = Some s' \<longrightarrow>
      (let now = now_of (ct_hw s); before = current_state (ct_failsafe s); c = gm_state (ct_gamepad s');
           start = (btnStart c \<and> \<not> be_start (previous_buttons s));
           i = \<lparr> fi_now = now, gamepad_connected = cs_connected c, last_gamepad_update = lastUpdateUs c,
             throttle_idle = (throttleRaw c \<le> 10), unlock_clicked = start,
             bind_clicked = (btnView c \<and> \<not> be_view (previous_buttons s)),
             disarm_clicked = (btnB c \<and> \<not> be_b (previous_buttons s) \<or>
               start \<and> before \<in> {STATE_ACTIVE, STATE_PREARM_MODE}) \<rparr>;
           updated = failsafe_update_at i (ct_failsafe s);
           began = (if before = STATE_PREARM_MODE then prearm_started_us s else now);
           decision = (if current_state updated \<noteq> STATE_PREARM_MODE then []
             else if prearm_configuration_confirmed (telemetry_get_snapshot now (ct_telemetry s)) (aux_state s) began
             then [CompletePrearm]
             else if now - began \<ge> 2000000 then [CancelPrearm] else []);
           error = (if cycle_transmission api s = Some False \<and> consecutive_tx_failures s = 2 then [RadioError] else [])
       in ct_failsafe s' = fs_run updated (decision @ error) \<and>
          previous_buttons s' = \<lparr> be_start = btnStart c, be_view = btnView c, be_b = btnB c \<rparr>))"
proof
  show "\<exists>es. ct_failsafe s = fs_run (failsafe_init failsafe_boot) es"
    using assms
  proof (induction rule: tx_reach.induct)
    case (start h w store s)
    then show ?case by (rule reach_base(2))
  next
    case (cycle s s')
    then obtain es where "ct_failsafe s = fs_run (failsafe_init failsafe_boot) es" by blast
    with cycle_failsafe [OF cycle.hyps(2)] show ?case by (metis fs_run_append)
  qed simp
qed (intro allI impI cycle_run [OF reach_ok [OF assms]])

text \<open>C5: The control task never hangs.  From every reachable state the next cycle ends: as long as the clock does not run
  backwards, the transmission poll and the receive window reach their deadlines whatever the radio answers.\<close>

theorem task_never_hangs:
  assumes "tx_reach api env s"
  shows "\<exists>s'. control_cycle api s = Some s'"
  by (rule cycle_returns) (use reach_ok [OF assms] in \<open>simp add: task_ok_def\<close>)

text \<open>C6: Radio errors take three failed transmissions in a row, and are final and silent.  Take three cycles from a
  reachable state, with anything on the Bluetooth side between them.  When the transmission of each of them
  fails - there is a packet, and the radio reports an error or nothing within the time allowed - the machine is in the
  radio-error state; and when it enters that state in the third cycle, all three transmissions have failed.  From
  the radio-error state a cycle stays in it and loads no packet into the radio.\<close>

theorem radio_error_silences:
  assumes "tx_reach api env s" "control_cycle api s = Some s1"
    and "control_cycle api (s1\<lparr> ct_bt := w1 \<rparr>) = Some s2" "control_cycle api (s2\<lparr> ct_bt := w2 \<rparr>) = Some s3"
  shows "let failed = (\<lambda>t. cycle_transmission api t = Some False)
    in (failed s \<and> failed (s1\<lparr> ct_bt := w1 \<rparr>) \<and> failed (s2\<lparr> ct_bt := w2 \<rparr>) \<longrightarrow>
          current_state (ct_failsafe s3) = STATE_RADIO_ERROR) \<and>
       (current_state (ct_failsafe s2) \<noteq> STATE_RADIO_ERROR \<and> current_state (ct_failsafe s3) = STATE_RADIO_ERROR \<longrightarrow>
          failed s \<and> failed (s1\<lparr> ct_bt := w1 \<rparr>) \<and> failed (s2\<lparr> ct_bt := w2 \<rparr>)) \<and>
       (current_state (ct_failsafe s) = STATE_RADIO_ERROR \<longrightarrow>
          current_state (ct_failsafe s1) = STATE_RADIO_ERROR \<and> emits (ct_hw s) (ct_hw s1) [])"
proof -
  note a = cycle_count [OF assms(2)] cycle_count [OF assms(3), simplified] cycle_count [OF assms(4), simplified]
  have ok: "current_state (ct_failsafe s) = STATE_RADIO_ERROR \<or> consecutive_tx_failures s \<in> {0, 1, 2}"
    using reach_ok [OF assms(1)] by (auto simp: task_ok_def dest: small_count)
  have "current_state (ct_failsafe s) = STATE_RADIO_ERROR \<Longrightarrow> emits (ct_hw s) (ct_hw s1) []"
    by (rule error_silent [OF assms(2)])
  then show ?thesis
    using a ok unfolding Let_def by (auto simp: word_le_nat_alt split: if_splits)
qed

text \<open>C7: Pre-arm mode lasts less than two seconds.  A cycle that leaves the machine in pre-arm mode started less than
  two seconds after the cycle in which the pre-arm request was made; the request's time is taken exactly when the mode
  is entered.\<close>

theorem prearm_window_bounded:
  assumes "cycle_state s = STATE_PREARM_MODE"
  shows "now_of (ct_hw s) - prearm_started_us (cycle_safety s) < 2000000 \<and>
    prearm_started_us (cycle_safety s) =
      (if current_state (ct_failsafe s) = STATE_PREARM_MODE then prearm_started_us s else now_of (ct_hw s))"
proof -
  let ?s1 = "read_controls (snd (ct_now s))" and ?t = "now_of (ct_hw s)"
  have f: "ct_failsafe ?s1 = ct_failsafe s" "prearm_started_us ?s1 = prearm_started_us s"
    using entry_keeps [of s] by (simp_all add: keeps_def)
  let ?u = "failsafe_update_at (cycle_inputs ?t ?s1) (ct_failsafe s)"
  have r: "current_state (fs_run ?u (prearm_event ?t ?s1)) = STATE_PREARM_MODE"
    using assms by (simp add: cycle_state_def cycle_safety_run cycle_inputs_at)
  have "current_state ?u = STATE_PREARM_MODE \<and> prearm_event ?t ?s1 = []"
    using r by (auto simp: prearm_event_def f failsafe_defs split: if_splits)
  then have u: "current_state ?u = STATE_PREARM_MODE" and w: "?t - prearm_start ?t ?s1 < PREARM_MODE_TIMEOUT_US"
    by (auto simp: prearm_event_def f split: if_splits)
  have "prearm_started_us (cycle_safety s) = prearm_start ?t ?s1" by (simp add: cycle_safety_def update_safety_run)
  then show ?thesis using u w by (simp add: prearm_start_def f PREARM_MODE_TIMEOUT_US_def)
qed

section \<open>Witnesses\<close>

text \<open>A silent board with a clock that stands at 200 ms, and a program started on it: its radio does not answer.\<close>

definition silent_hw :: hw where
  "silent_hw = \<lparr> miso = (\<lambda>_. 0), miso_n = 0, irq_low = (\<lambda>_. False), irq_n = 0, clock = (\<lambda>_. 200000), clock_n = 0,
     delayed = 0, spi_ready = False, bus = [] \<rparr>"

definition plain_env :: "'s boot_env" where
  "plain_env = \<lparr> nvs_flash_init = (\<lambda>s. (ESP_OK, s)), nvs_flash_erase = (\<lambda>s. (ESP_OK, s)), random_1 = 1, random_2 = 2,
     status_queue_created = True, event_queue_created = True, console_task_created = True, ledc_attached = True,
     feedback_task_created = True, control_task_created = True \<rparr>"

definition empty_world :: bp32 where
  "empty_world = bp32_boot 1 (\<lambda>_. GAP_CONNECTION_INVALID)"

lemma silent_monotone: "mono (clock silent_hw)" "clock_monotone silent_hw" "now_of silent_hw = 200000"
  by (simp_all add: silent_hw_def clock_monotone_def now_of_def mono_def)

lemma empty_world_seat: "length (Hid_Device.controllers empty_world) = 1" "seat_idx (Hid_Device.controllers empty_world ! 0) = -1"
  using boot_seat [of "\<lambda>_. GAP_CONNECTION_INVALID"]
  by (simp_all add: empty_world_def bp32_boot_def arduino_init_def uni_hid_device_setup_def)

lemma setup_succeeds: "\<exists>s. tx_setup api plain_env (statics h w store) = Some (True, s)"
  by (simp add: tx_setup_def init_flash_def plain_env_def statics_def Let_def case_prod_beta)

definition empty_store :: map_store where
  "empty_store = map_empty"

lemma map_nvs_reachable: "\<exists>s. tx_reach map_nvs plain_env s \<and> gamepad_lost s"
proof -
  obtain s where "tx_setup map_nvs plain_env (statics silent_hw empty_world empty_store) = Some (True, s)"
    by (rule exE [OF setup_succeeds [of map_nvs silent_hw empty_world empty_store]])
  then have "tx_reach map_nvs plain_env (control_radio_task_start map_nvs s)"
    by (rule tx_reach.start [OF silent_monotone(1) _ empty_world_seat(1)])
  then have "tx_reach map_nvs plain_env ((control_radio_task_start map_nvs s)\<lparr> ct_bt := empty_world \<rparr>)"
    by (rule tx_reach.bluetooth [OF _ empty_world_seat(1)])
  moreover have "gamepad_lost ((control_radio_task_start map_nvs s)\<lparr> ct_bt := empty_world \<rparr>)"
    by (simp add: gamepad_lost_def empty_world_seat Let_def)
  ultimately show ?thesis by blast
qed

lemma statics_cycle_state: "cycle_state (statics silent_hw empty_world store) = STATE_BOOT"
proof -
  have "current_state (failsafe_update_at i fs) = STATE_BOOT" if "current_state fs = STATE_BOOT" for i fs
    using that by (simp add: failsafe_update_at_def)
  moreover have "ct_failsafe (read_controls (snd (ct_now (statics silent_hw empty_world store)))) = failsafe_boot"
    using entry_keeps [of "statics silent_hw empty_world store"] by (simp add: keeps_def statics_def)
  ultimately show ?thesis
    by (simp add: cycle_state_def cycle_safety_run cycle_inputs_at prearm_event_def failsafe_boot_def statics_def)
qed

theorem only_active_moves_motors_witness:
  "\<exists>s' ps. control_cycle map_nvs (statics silent_hw empty_world empty_store) = Some s' \<and>
     emits silent_hw (ct_hw s') ps \<and> only_safe ps"
proof -
  let ?s = "statics silent_hw empty_world empty_store"
  have h: "ct_hw ?s = silent_hw" by (simp add: statics_def)
  obtain s' where "control_cycle map_nvs ?s = Some s'" using cycle_returns [of ?s map_nvs] silent_monotone(2) unfolding h by blast
  then show ?thesis
    using only_active_moves_motors [of map_nvs ?s s'] h
      statics_cycle_state [of empty_store] by auto
qed

theorem lost_gamepad_stops_motors_witness:
  "\<exists>s s' ps. tx_reach map_nvs plain_env s \<and> control_cycle map_nvs s = Some s' \<and>
     emits (ct_hw s) (ct_hw s') ps \<and> only_safe ps"
proof -
  obtain s where r: "tx_reach map_nvs plain_env s" "gamepad_lost s" using map_nvs_reachable by blast
  obtain s' where c: "control_cycle map_nvs s = Some s'"
    using cycle_returns [of s map_nvs] reach_ok [OF r(1)] by (auto simp: task_ok_def)
  show ?thesis using lost_gamepad_stops_motors [OF r c] r c by blast
qed

theorem task_refines_failsafe_witness:
  "\<exists>s es. tx_reach map_nvs plain_env s \<and> ct_failsafe s = fs_run (failsafe_init failsafe_boot) es"
proof -
  obtain s where r: "tx_reach map_nvs plain_env s" using map_nvs_reachable by blast
  show ?thesis using task_refines_failsafe [OF r] r by blast
qed

theorem task_never_hangs_witness: "\<exists>s s'. tx_reach map_nvs plain_env s \<and> control_cycle map_nvs s = Some s'"
proof -
  obtain s where r: "tx_reach map_nvs plain_env s" using map_nvs_reachable by blast
  show ?thesis using task_never_hangs [OF r] r by blast
qed

text \<open>
  A board whose radio answers \<open>0x55\<close> to everything: the presence test of the driver passes, and every transmission ends
  with the retry flag of the status register.
\<close>

definition stuck_hw :: hw where
  "stuck_hw = silent_hw\<lparr> miso := \<lambda>_. 0x55 \<rparr>"

definition stuck :: "hw \<Rightarrow> bool" where
  "stuck h \<longleftrightarrow> miso h = (\<lambda>_. 0x55)"

lemma stuck_later: "later h h' \<Longrightarrow> stuck h \<Longrightarrow> stuck h'"
  by (simp add: later_def stuck_def)

lemma stuck_timing: "timing h' = timing h \<Longrightarrow> stuck h' = stuck h"
  by (simp add: timing_def stuck_def)

lemma stuck_xfer: "stuck h \<Longrightarrow> fst (spi_transfer b h) = 0x55"
  by (simp add: stuck_def spi_transfer_def)

lemma stuck_status: "xn297_decode_tx_status 0x55 = TxError"
  by (simp add: xn297_decode_tx_status_def)

lemma stuck_transmit:
  assumes "stuck (xhw r)"
  shows "\<exists>r'. transmit_packet p r = Some (False, r')"
proof -
  define r1 where "r1 = snd (xn297_write_payload (Some p) (xn297_set_tx_mode r))"
  define r2 where "r2 = r1\<lparr> xhw := snd (esp_timer_get_time (xhw r1)) \<rparr>"
  define r3 where "r3 = r2\<lparr> xhw := snd (esp_timer_get_time (xhw r2)) \<rparr>"
  have "later (xhw r) (xhw r1)"
    using later_trans [OF emits_later [OF emits_xn297_tx_mode] write_payload_later] by (simp add: r1_def)
  from later_trans [OF later_trans [OF this later_clock] later_clock]
  have "later (xhw r) (xhw r3)" by (simp add: r3_def r2_def)
  from stuck_later [OF this assms] have "stuck (frame_open (xhw r3))" by (simp add: stuck_timing [OF timing_basic(4)])
  from stuck_xfer [OF this] have "fst (nrf24_get_status (xhw r3)) = 0x55"
    by (simp add: nrf24_get_status_def case_prod_beta)
  then have "fst (xn297_get_tx_status r3) = TxError"
    by (simp add: xn297_get_tx_status_def stuck_status case_prod_beta)
  then have "\<exists>r'. poll_tx start r2 = Some (False, r')" for start
    by (subst poll_tx.simps) (simp add: r3_def [symmetric] case_prod_beta Let_def)
  then show ?thesis by (simp add: transmit_packet_def r1_def [symmetric] r2_def [symmetric] case_prod_beta Let_def)
qed

lemma stuck_cycle:
  assumes "stuck (ct_hw s)" "current_state (ct_failsafe s) \<noteq> STATE_RADIO_ERROR"
  shows "cycle_transmission api s = Some False"
proof -
  let ?t = "now_of (ct_hw s)" and ?sys = "cycle_state s"
  let ?u = "update_gesture ?t ?sys (update_aux api ?sys (cycle_safety s))"
  have n: "?sys \<noteq> STATE_RADIO_ERROR" using assms(2) by (simp add: cycle_state_def cycle_safety_run safety_no_error)
  have e: "emits (ct_hw s) (ct_hw (snd ?u)) []"
    using emits_trans0 [OF safety_emits keeps_emits [OF keeps_trans [OF update_aux_keeps update_gesture_keeps]]] .
  obtain p s1 where p: "prepare_packet ?sys (fst ?u) (snd ?u) = (Some p, s1)"
    using prepare_simps(7) n by (metis option.exhaust prod.exhaust)
  have "stuck (ct_hw s1)"
    using stuck_later [OF emits_later [OF emits_trans0 [OF e prepare_simps(1) [OF p]]] assms(1)] .
  then obtain r where "transmit_packet p (ct_radio s1) = Some (False, r)" using stuck_transmit by blast
  then show ?thesis by (simp add: cycle_transmission_def packet_sent_def p case_prod_beta)
qed

lemma stuck_init: "stuck h \<Longrightarrow> fst (nrf24_init h) \<and> stuck (snd (nrf24_init h))"
proof -
  assume a: "stuck h"
  have d: "stuck (delayMicroseconds n h) = stuck h" for n h by (simp add: stuck_def delayMicroseconds_def emit_def)
  have e: "stuck (h\<lparr> spi_ready := b \<rparr>) = stuck h" for b h by (simp add: stuck_def)
  note t = stuck_timing [OF timing_basic(1)] stuck_timing [OF timing_basic(2)] stuck_timing [OF timing_basic(3)]
    stuck_timing [OF timing_basic(4)] stuck_timing [OF timing_basic(5)] stuck_timing [OF timing_driver(1)]
    stuck_timing [OF timing_driver(2)] stuck_timing [OF timing_driver(4)] stuck_timing [OF timing_driver(5)]
    stuck_timing [OF timing_driver(6)] stuck_timing [OF timing_standby]
  have r: "stuck h \<Longrightarrow> fst (nrf24_read_reg reg h) = 0x55" for reg h
    by (simp add: nrf24_read_reg_def nrf24_read_reg_multi_def case_prod_beta Let_def stuck_xfer t)
  show ?thesis
    using a by (simp add: nrf24_init_def nrf24_test_def case_prod_beta Let_def r t d e)
qed

lemma stuck_start:
  assumes "tx_setup api plain_env (statics stuck_hw w store) = Some (True, s)"
  shows "stuck (ct_hw (control_radio_task_start api s))"
    "current_state (ct_failsafe (control_radio_task_start api s)) = STATE_WAIT_GAMEPAD"
proof -
  have l: "stuck (ct_hw (log_line s)) = stuck (ct_hw s)" "stuck (ct_hw (warn_unless ok s)) = stuck (ct_hw s)"
    for ok and s :: "'a control_task"
    by (simp_all add: warn_unless_def log_line_def ct_now_eq stuck_def esp_timer_get_time_def)
  have i: "stuck (ct_hw (setup_id api plain_env s)) = stuck (ct_hw s)" for s
    by (simp add: setup_id_def case_prod_beta Let_def l)
  obtain n con con_ok where s: "s = warn_unless True
      (setup_modules plain_env (log_line (setup_id api plain_env
        (log_line (warn_unless con_ok ((statics stuck_hw w store)\<lparr> ct_nvs := n, ct_console := con \<rparr>))))))"
    using assms by (auto simp: tx_setup_def bind_eq_Some_conv case_prod_beta Let_def)
  define s0 where "s0 = log_line (setup_id api plain_env
      (log_line (warn_unless con_ok ((statics stuck_hw w store)\<lparr> ct_nvs := n, ct_console := con \<rparr>))))"
  have "stuck (ct_hw s0)" unfolding s0_def l i by (simp add: statics_def stuck_def stuck_hw_def)
  then have "radio_initialized (setup_modules plain_env s0) \<and> stuck (ct_hw (setup_modules plain_env s0))"
    using stuck_init by (simp add: setup_modules_def xn297_init_def case_prod_beta Let_def l gamepad_init_def)
  then have m: "radio_initialized s \<and> stuck (ct_hw s)"
    unfolding s s0_def [symmetric] by (simp add: warn_unless_def)
  have ok: "start_radio s' = s'\<lparr> ct_radio := snd (xn297_set_rx_address (Some (ct_tx_id s')) BAYANG_PACKET_SIZE (ct_radio s')) \<rparr>"
    if "radio_initialized s'" for s' :: "'a control_task"
    using that by (simp add: start_radio_def xn297_set_rx_address_def nrf24_payload_length_valid_def BAYANG_PACKET_SIZE_def
        case_prod_beta Let_def)
  have k: "radio_initialized (task_locals api s) = radio_initialized s"
    by (simp add: task_locals_def case_prod_beta Let_def)
  have x: "stuck (xhw (snd (xn297_set_rx_address a n r))) = stuck (xhw r)" for a n r
    by (simp add: xn297_set_rx_address_def Let_def stuck_timing [OF timing_driver(1)] stuck_timing [OF timing_driver(2)]
        split: option.splits)
  show "stuck (ct_hw (control_radio_task_start api s))"
    using m by (simp add: control_radio_task_start_def ok k x task_locals_state)
  show "current_state (ct_failsafe (control_radio_task_start api s)) = STATE_WAIT_GAMEPAD"
    using setup_state [OF assms] m
    by (simp add: control_radio_task_start_def ok k task_locals_state failsafe_init_def)
qed

theorem radio_error_silences_witness:
  "\<exists>s s1 s2 s3. tx_reach map_nvs plain_env s \<and> control_cycle map_nvs s = Some s1 \<and>
     control_cycle map_nvs s1 = Some s2 \<and> control_cycle map_nvs s2 = Some s3 \<and>
     cycle_transmission map_nvs s = Some False \<and> cycle_transmission map_nvs s1 = Some False \<and>
     cycle_transmission map_nvs s2 = Some False \<and> current_state (ct_failsafe s) = STATE_WAIT_GAMEPAD \<and>
     current_state (ct_failsafe s3) = STATE_RADIO_ERROR"
proof -
  obtain s0 where "tx_setup map_nvs plain_env (statics stuck_hw empty_world empty_store) = Some (True, s0)"
    by (rule exE [OF setup_succeeds [of map_nvs stuck_hw empty_world empty_store]])
  note st = stuck_start [OF this] start_state [of map_nvs s0]
    and r = tx_reach.start [OF _ this empty_world_seat(1)]
  define s where "s = control_radio_task_start map_nvs s0"
  have r: "tx_reach map_nvs plain_env s" unfolding s_def by (rule r) (simp add: stuck_hw_def silent_monotone)
  have k: "stuck (ct_hw s)" "current_state (ct_failsafe s) = STATE_WAIT_GAMEPAD" "consecutive_tx_failures s = 0"
    using st by (simp_all add: s_def)
  note step = cycle_count stuck_later [OF cycle_clock]
  obtain s1 where c1: "control_cycle map_nvs s = Some s1"
    using cycle_returns [of s map_nvs] reach_ok [OF r] by (auto simp: task_ok_def)
  have f1: "cycle_transmission map_nvs s = Some False" by (rule stuck_cycle) (simp_all add: k)
  have k1: "stuck (ct_hw s1)" "current_state (ct_failsafe s1) \<noteq> STATE_RADIO_ERROR" "consecutive_tx_failures s1 = 1"
    using step [OF c1] k f1 by (auto simp: word_le_nat_alt)
  obtain s2 where c2: "control_cycle map_nvs s1 = Some s2"
    using cycle_returns [of s1 map_nvs] reach_ok [OF tx_reach.cycle [OF r c1]] by (auto simp: task_ok_def)
  have f2: "cycle_transmission map_nvs s1 = Some False" by (rule stuck_cycle) (simp_all add: k1)
  have k2: "stuck (ct_hw s2)" "current_state (ct_failsafe s2) \<noteq> STATE_RADIO_ERROR"
    using step [OF c2] k1 f2 by (auto simp: word_le_nat_alt)
  obtain s3 where c3: "control_cycle map_nvs s2 = Some s3"
    using cycle_returns [of s2 map_nvs] reach_ok [OF tx_reach.cycle [OF tx_reach.cycle [OF r c1] c2]]
    by (auto simp: task_ok_def)
  have f3: "cycle_transmission map_nvs s2 = Some False" by (rule stuck_cycle) (simp_all add: k2)
  have same: "s1\<lparr> ct_bt := ct_bt s1 \<rparr> = s1" "s2\<lparr> ct_bt := ct_bt s2 \<rparr> = s2" by simp_all
  have "current_state (ct_failsafe s3) = STATE_RADIO_ERROR"
    using radio_error_silences [OF r c1, of "ct_bt s1" s2 "ct_bt s2" s3, unfolded same, OF c2 c3] f1 f2 f3
    by (simp add: Let_def)
  with r c1 c2 c3 f1 f2 f3 k(2) show ?thesis by blast
qed

text \<open>A transmitter in pre-arm mode since 50 ms, with a gamepad report at 100 ms and legacy telemetry at \<open>tel\<close>.\<close>

definition seated_world :: bp32 where
  "seated_world = empty_world\<lparr> Hid_Device.controllers := [(Hid_Device.controllers empty_world ! 0)\<lparr> seat_idx := 0,
     seat_data_updated := False \<rparr>] \<rparr>"

definition prearmed :: "time_us \<Rightarrow> unit control_task" where
  "prearmed tel = (statics silent_hw seated_world ())\<lparr>
     ct_failsafe := \<lparr> current_state = STATE_PREARM_MODE, bind_start = 0 \<rparr>,
     ct_telemetry := telemetry_boot\<lparr> has_telemetry := True, current_telemetry := telemetry_data_zero\<lparr> lastValidUs := tel \<rparr> \<rparr>,
     ct_gamepad := \<lparr> myController = Some 0, gm_state = ControlState_zero\<lparr> cs_connected := True, lastUpdateUs := 100000 \<rparr> \<rparr>,
     ct_bp32 := \<lparr> prevConnectedControllers = 1, bp_controllers = [Controller_zero\<lparr> c_connected := True \<rparr>] \<rparr>,
     prearm_started_us := 50000 \<rparr>"

lemma prearmed_simps:
  "ct_failsafe (prearmed tel) = \<lparr> current_state = STATE_PREARM_MODE, bind_start = 0 \<rparr>"
  "ct_hw (prearmed tel) = silent_hw" "prearm_started_us (prearmed tel) = 50000" "aux_state (prearmed tel) = aux_zero"
  "ct_telemetry (prearmed tel) =
     telemetry_boot\<lparr> has_telemetry := True, current_telemetry := telemetry_data_zero\<lparr> lastValidUs := tel \<rparr> \<rparr>"
  "consecutive_tx_failures (prearmed tel) = 0"
  by (simp_all add: prearmed_def statics_def)

lemma prearmed_link: "link_ok (ct_gamepad (prearmed tel)) (ct_bp32 (prearmed tel)) (ct_bt (prearmed tel))"
  by (simp add: prearmed_def statics_def link_ok_def seated_world_def)

lemma prearmed_ok: "tel \<le> 200000 \<Longrightarrow> task_ok (prearmed tel)"
  using prearmed_link [of tel]
  by (simp add: task_ok_def prearmed_simps silent_monotone tel_past_def RADIO_FAILURE_LIMIT_def)

lemma prearmed_controls:
  "controls (read_controls (snd (ct_now (prearmed tel)))) =
     ControlState_zero\<lparr> cs_connected := True, lastUpdateUs := 100000 \<rparr>"
proof -
  let ?s1 = "snd (ct_now (prearmed tel))"
  have "link_ok (ct_gamepad ?s1) (ct_bp32 ?s1) (ct_bt ?s1)" using prearmed_link by (simp add: ct_now_eq)
  from gamepad_update_single [OF this, of "ct_hw ?s1"] show ?thesis
    by (simp add: gamepad_get_state_def case_prod_beta ct_now_eq seat_taken_def prearmed_def statics_def seated_world_def)
qed

lemma prearmed_update:
  "current_state (failsafe_update_at (cycle_inputs 200000 (read_controls (snd (ct_now (prearmed tel)))))
     (ct_failsafe (prearmed tel))) = STATE_PREARM_MODE"
proof -
  let ?s1 = "read_controls (snd (ct_now (prearmed tel)))"
  have "\<not> disarm_clicked (cycle_inputs 200000 ?s1)"
    unfolding cycle_inputs_def prearmed_controls
    by (simp add: failsafe_arguments_def detect_button_edges_def ControlState_zero_def)
  then show ?thesis
    unfolding failsafe_update_at_def gamepad_timeout_def cycle_inputs_sel prearmed_controls
    by (simp add: prearmed_simps GAMEPAD_TIMEOUT_MS_def ControlState_zero_def)
qed

lemma prearmed_run:
  "cycle_state (prearmed tel) =
     (if prearm_configuration_confirmed (telemetry_get_snapshot 200000 (ct_telemetry (prearmed tel))) aux_zero 50000
      then STATE_ACTIVE else STATE_PREARM_MODE)"
proof -
  let ?s1 = "read_controls (snd (ct_now (prearmed tel)))"
  have f: "ct_failsafe ?s1 = ct_failsafe (prearmed tel)" "prearm_started_us ?s1 = 50000"
    "ct_telemetry ?s1 = ct_telemetry (prearmed tel)" "aux_state (snd (ct_now (prearmed tel))) = aux_zero"
    using entry_keeps [of "prearmed tel"] by (simp_all add: keeps_def prearmed_simps ct_now_eq)
  have p: "prearm_start 200000 ?s1 = 50000" using f by (simp add: prearm_start_def prearmed_simps)
  show ?thesis
    using prearmed_update [of tel]
    by (simp add: cycle_state_def cycle_safety_run cycle_inputs_at prearmed_simps(2) silent_monotone prearm_event_def f p
        failsafe_complete_prearm_def PREARM_MODE_TIMEOUT_US_def)
qed

theorem arms_only_when_confirmed_witness:
  "task_ok (prearmed 100000) \<and> cycle_state (prearmed 100000) = STATE_ACTIVE \<and>
   throttleRaw (controls (cycle_safety (prearmed 100000))) \<le> 10"
proof -
  have a: "cycle_state (prearmed 100000) = STATE_ACTIVE"
    by (simp add: prearmed_run prearm_configuration_confirmed_def telemetry_get_snapshot_def prearmed_simps
        telemetry_data_zero_def TELEMETRY_TIMEOUT_MS_def Let_def)
  show ?thesis
    using arms_only_when_confirmed [OF prearmed_ok a] a prearmed_ok [of 100000] by (simp add: prearmed_simps Let_def)
qed

theorem prearm_window_bounded_witness:
  "cycle_state (prearmed 0) = STATE_PREARM_MODE \<and>
   now_of (ct_hw (prearmed 0)) - prearm_started_us (cycle_safety (prearmed 0)) < 2000000"
proof -
  have a: "cycle_state (prearmed 0) = STATE_PREARM_MODE"
    by (simp add: prearmed_run prearm_configuration_confirmed_def telemetry_get_snapshot_def prearmed_simps
        telemetry_data_zero_def TELEMETRY_TIMEOUT_MS_def Let_def)
  show ?thesis using prearm_window_bounded [OF a] a by blast
qed

end
