(* ===== verification/Pc_Protocol.thy ===== *)
theory Pc_Protocol
  imports Nfe_Profile Xn297
begin

text \<open>
  The PC telemetry protocol of \<^verbatim>\<open>src/main/telemetry/pc_telemetry_protocol.cpp\<close> and \<^verbatim>\<open>.h\<close>: records in a CRC-16
  envelope, framed with consistent overhead byte stuffing (COBS) and a zero terminator.  Output buffers are lists of
  their capacity that the encoder updates in place; the decoder writes its output in sequence, so its buffer is the list
  of the bytes written so far and the capacity.
\<close>

definition PC_TELEMETRY_PROTOCOL_VERSION :: u8 where "PC_TELEMETRY_PROTOCOL_VERSION = 1"

definition PC_TELEMETRY_MESSAGE_RAW_BAYANG :: u8 where "PC_TELEMETRY_MESSAGE_RAW_BAYANG = 1"

definition PC_TELEMETRY_MESSAGE_LOCAL_STATE :: u8 where "PC_TELEMETRY_MESSAGE_LOCAL_STATE = 2"

definition PC_TELEMETRY_ENVELOPE_SIZE :: nat where "PC_TELEMETRY_ENVELOPE_SIZE = 14"

definition PC_TELEMETRY_CRC_SIZE :: nat where "PC_TELEMETRY_CRC_SIZE = 2"

definition PC_TELEMETRY_LOCAL_STATE_PAYLOAD_SIZE :: nat where "PC_TELEMETRY_LOCAL_STATE_PAYLOAD_SIZE = 44"

definition PC_TELEMETRY_LOCAL_STATE_RECORD_SIZE :: nat where
  "PC_TELEMETRY_LOCAL_STATE_RECORD_SIZE =
     PC_TELEMETRY_ENVELOPE_SIZE + PC_TELEMETRY_LOCAL_STATE_PAYLOAD_SIZE + PC_TELEMETRY_CRC_SIZE"

definition PC_TELEMETRY_MAX_FRAME_SIZE :: nat where
  "PC_TELEMETRY_MAX_FRAME_SIZE = PC_TELEMETRY_LOCAL_STATE_RECORD_SIZE + 1 + 1"

record PcTelemetrySample =
  ps_sequence :: u16
  ps_timestampUs :: u64
  ps_packet :: bytes

record PcTelemetryLocalState =
  systemState :: u8
  statusFlags :: u16
  lbuttons :: u16
  auxModes :: u8
  consecutiveTxFailures :: u8
  nextHoppingChannelIndex :: u8
  l_rollRaw :: u16
  l_pitchRaw :: u16
  l_yawRaw :: u16
  l_throttleRaw :: u16
  gamepadAgeMs :: u16
  fcTelemetryAgeMs :: u16
  l_txPackets :: u32
  l_txFailures :: u32
  l_telemetryAccepted :: u32
  l_telemetryRejected :: u32
  l_deadlineMisses :: u32
  exportQueueDrops :: u32

section \<open>Big-endian numbers\<close>

definition write_u16_be :: "u16 \<Rightarrow> bytes" where
  "write_u16_be v = [to_u8 (drop_bit 8 v), to_u8 v]"

definition write_u32_be :: "u32 \<Rightarrow> bytes" where
  "write_u32_be v = map (\<lambda>index. to_u8 (drop_bit ((3 - index) * 8) v)) [0..<4]"

definition write_u64_be :: "u64 \<Rightarrow> bytes" where
  "write_u64_be v = map (\<lambda>index. to_u8 (drop_bit ((7 - index) * 8) v)) [0..<8]"

definition read_u16_be :: "bytes \<Rightarrow> u16" where
  "read_u16_be input = push_bit 8 (to_u16 (input ! 0)) OR to_u16 (input ! 1)"

definition read_u32_be :: "bytes \<Rightarrow> u32" where
  "read_u32_be input = foldl (\<lambda>v index. push_bit 8 v OR to_u32 (input ! index)) 0 [0..<4]"

definition read_u64_be :: "bytes \<Rightarrow> u64" where
  "read_u64_be input = foldl (\<lambda>v index. push_bit 8 v OR to_u64 (input ! index)) 0 [0..<8]"

section \<open>The checksum\<close>

definition pc_crc_bit :: "u16 \<Rightarrow> u16" where
  "pc_crc_bit crc = (if nonzero (crc AND 0x8000) then push_bit 1 crc XOR 0x1021 else push_bit 1 crc)"

definition pc_crc_byte :: "u16 \<Rightarrow> u8 \<Rightarrow> u16" where
  "pc_crc_byte crc b = (pc_crc_bit ^^ 8) (crc XOR push_bit 8 (to_u16 b))"

definition pc_telemetry_crc16_ccitt_false :: "bytes option \<Rightarrow> u16" where
  "pc_telemetry_crc16_ccitt_false data = (case data of None \<Rightarrow> 0xFFFF | Some d \<Rightarrow> foldl pc_crc_byte 0xFFFF d)"

section \<open>Byte stuffing\<close>

definition pc_telemetry_cobs_max_encoded_size :: "nat \<Rightarrow> nat" where
  "pc_telemetry_cobs_max_encoded_size input_length = input_length + input_length div 254 + 1"

text \<open>The loop of the encoder: read, write and code position, the running code, the buffer.\<close>

function cobs_encode_loop :: "bytes \<Rightarrow> nat \<Rightarrow> nat \<Rightarrow> nat \<Rightarrow> u8 \<Rightarrow> bytes \<Rightarrow> nat \<times> bytes" where
  "cobs_encode_loop input read_index write_index code_index code output =
     (if read_index < length input then
        if input ! read_index = 0 then
          cobs_encode_loop input (read_index + 1) (write_index + 1) write_index 1 (output[code_index := code])
        else
          let output1 = output[write_index := input ! read_index]
          in if code + 1 = 0xFF then
               cobs_encode_loop input (read_index + 1) (write_index + 2) (write_index + 1) 1
                 (output1[code_index := code + 1])
             else cobs_encode_loop input (read_index + 1) (write_index + 1) code_index (code + 1) output1
      else (write_index, output[code_index := code]))"
  by auto
termination by (relation "measure (\<lambda>(input, read_index, _). length input - read_index)") auto

declare cobs_encode_loop.simps [simp del]

text \<open>The result is the length and the buffer; 0 for a refused call, which leaves the buffer alone.\<close>

definition pc_telemetry_cobs_encode :: "bytes option \<Rightarrow> bytes option \<Rightarrow> nat \<times> bytes option" where
  "pc_telemetry_cobs_encode input output =
     (case output of None \<Rightarrow> (0, None)
      | Some out \<Rightarrow>
          let bs = (case input of None \<Rightarrow> [] | Some i \<Rightarrow> i)
          in if length out < pc_telemetry_cobs_max_encoded_size (length bs) then (0, Some out)
             else let (n, out') = cobs_encode_loop bs 0 1 0 1 out in (n, Some out'))"

fun copy_block :: "nat \<Rightarrow> bytes \<Rightarrow> nat \<Rightarrow> nat \<Rightarrow> bytes \<Rightarrow> bytes option" where
  "copy_block cap input 0 read_index out = Some out"
| "copy_block cap input (Suc n) read_index out =
     (if length out \<ge> cap then None else copy_block cap input n (read_index + 1) (out @ [input ! read_index]))"

function cobs_decode_loop :: "nat \<Rightarrow> bytes \<Rightarrow> nat \<Rightarrow> bytes \<Rightarrow> bytes option" where
  "cobs_decode_loop cap input read_index out =
     (if read_index < length input then
        let code = unat (input ! read_index); read1 = read_index + 1
        in if code = 0 \<or> read1 + code - 1 > length input then None
           else case copy_block cap input (code - 1) read1 out of None \<Rightarrow> None
             | Some out1 \<Rightarrow>
                 let read2 = read1 + code - 1
                 in if code \<noteq> 0xFF \<and> read2 < length input then
                      if length out1 \<ge> cap then None else cobs_decode_loop cap input read2 (out1 @ [0])
                    else cobs_decode_loop cap input read2 out1
      else Some out)"
  by auto
termination by (relation "measure (\<lambda>(cap, input, read_index, _). length input - read_index)") auto

declare cobs_decode_loop.simps [simp del]

definition pc_telemetry_cobs_decode :: "bytes option \<Rightarrow> nat \<Rightarrow> bytes option" where
  "pc_telemetry_cobs_decode input cap =
     (case input of None \<Rightarrow> None | Some i \<Rightarrow> if length i = 0 then None else cobs_decode_loop cap i 0 [])"

section \<open>Messages\<close>

definition message_record :: "u8 \<Rightarrow> u16 \<Rightarrow> u64 \<Rightarrow> bytes \<Rightarrow> bytes" where
  "message_record message_type sequence timestamp_us payload =
     (let rec = [PC_TELEMETRY_PROTOCOL_VERSION, message_type] @ write_u16_be (of_nat (length payload)) @
            write_u16_be sequence @ write_u64_be timestamp_us @ payload
      in rec @ write_u16_be (pc_telemetry_crc16_ccitt_false (Some rec)))"

text \<open>The frame written, \<^const>\<open>None\<close> for the result 0.\<close>

definition encode_message :: "u8 \<Rightarrow> u16 \<Rightarrow> u64 \<Rightarrow> bytes option \<Rightarrow> bytes option \<Rightarrow> bytes option" where
  "encode_message message_type sequence timestamp_us payload output =
     (case (payload, output) of
        (Some pl, Some out) \<Rightarrow>
          let record_length = PC_TELEMETRY_ENVELOPE_SIZE + length pl + PC_TELEMETRY_CRC_SIZE
          in if record_length > PC_TELEMETRY_LOCAL_STATE_RECORD_SIZE \<or>
                length out < pc_telemetry_cobs_max_encoded_size record_length + 1 then None
             else
               let (n, out') = pc_telemetry_cobs_encode (Some (message_record message_type sequence timestamp_us pl))
                     (Some (take (length out - 1) out))
               in if n = 0 then None else Some (take n (the out') @ [0])
      | _ \<Rightarrow> None)"

definition decode_message :: "bytes option \<Rightarrow> u8 \<Rightarrow> nat \<Rightarrow> (u16 \<times> u64 \<times> bytes) option" where
  "decode_message frame expected_type expected_payload_length =
     (case frame of None \<Rightarrow> None
      | Some f \<Rightarrow>
          if length f < 2 \<or> f ! (length f - 1) \<noteq> 0 then None
          else case pc_telemetry_cobs_decode (Some (take (length f - 1) f)) PC_TELEMETRY_LOCAL_STATE_RECORD_SIZE of
                 None \<Rightarrow> None
               | Some rec \<Rightarrow>
                   let expected_record_length =
                         PC_TELEMETRY_ENVELOPE_SIZE + expected_payload_length + PC_TELEMETRY_CRC_SIZE;
                       crc_offset = PC_TELEMETRY_ENVELOPE_SIZE + expected_payload_length
                   in if length rec \<noteq> expected_record_length \<or> rec ! 0 \<noteq> PC_TELEMETRY_PROTOCOL_VERSION \<or>
                         rec ! 1 \<noteq> expected_type \<or> unat (read_u16_be (drop 2 rec)) \<noteq> expected_payload_length then None
                      else if read_u16_be (drop crc_offset rec) \<noteq>
                         pc_telemetry_crc16_ccitt_false (Some (take crc_offset rec)) then None
                      else Some (read_u16_be (drop 4 rec), read_u64_be (drop 6 rec),
                                 take expected_payload_length (drop PC_TELEMETRY_ENVELOPE_SIZE rec)))"

definition serialize_local_state :: "PcTelemetryLocalState \<Rightarrow> bytes" where
  "serialize_local_state s =
     [systemState s] @ write_u16_be (statusFlags s) @ write_u16_be (lbuttons s) @
     [auxModes s, consecutiveTxFailures s, nextHoppingChannelIndex s] @
     write_u16_be (l_rollRaw s) @ write_u16_be (l_pitchRaw s) @ write_u16_be (l_yawRaw s) @
     write_u16_be (l_throttleRaw s) @ write_u16_be (gamepadAgeMs s) @ write_u16_be (fcTelemetryAgeMs s) @
     write_u32_be (l_txPackets s) @ write_u32_be (l_txFailures s) @ write_u32_be (l_telemetryAccepted s) @
     write_u32_be (l_telemetryRejected s) @ write_u32_be (l_deadlineMisses s) @ write_u32_be (exportQueueDrops s)"

definition deserialize_local_state :: "bytes \<Rightarrow> PcTelemetryLocalState" where
  "deserialize_local_state p =
     \<lparr> systemState = p ! 0, statusFlags = read_u16_be (drop 1 p), lbuttons = read_u16_be (drop 3 p),
       auxModes = p ! 5, consecutiveTxFailures = p ! 6, nextHoppingChannelIndex = p ! 7,
       l_rollRaw = read_u16_be (drop 8 p), l_pitchRaw = read_u16_be (drop 10 p), l_yawRaw = read_u16_be (drop 12 p),
       l_throttleRaw = read_u16_be (drop 14 p), gamepadAgeMs = read_u16_be (drop 16 p),
       fcTelemetryAgeMs = read_u16_be (drop 18 p), l_txPackets = read_u32_be (drop 20 p),
       l_txFailures = read_u32_be (drop 24 p), l_telemetryAccepted = read_u32_be (drop 28 p),
       l_telemetryRejected = read_u32_be (drop 32 p), l_deadlineMisses = read_u32_be (drop 36 p),
       exportQueueDrops = read_u32_be (drop 40 p) \<rparr>"

definition pc_telemetry_make_sample ::
  "PcTelemetrySample option \<Rightarrow> bytes option \<Rightarrow> u64 \<Rightarrow> u16 \<Rightarrow> PcTelemetrySample option" where
  "pc_telemetry_make_sample sample packet timestamp_us sequence =
     (case (sample, packet) of
        (Some s, Some p) \<Rightarrow> Some \<lparr> ps_sequence = sequence, ps_timestampUs = timestamp_us, ps_packet = take BAYANG_PACKET_SIZE p \<rparr>
      | _ \<Rightarrow> sample)"

definition EXTENDED_FLIGHT_PAGE :: u8 where "EXTENDED_FLIGHT_PAGE = 1"

definition FLIGHT_FLAG_LEVEL :: u8 where "FLIGHT_FLAG_LEVEL = 8"

definition FLIGHT_FLAG_RACE :: u8 where "FLIGHT_FLAG_RACE = 16"

definition FLIGHT_FLAG_HORIZON :: u8 where "FLIGHT_FLAG_HORIZON = 32"

definition FLIGHT_FLAG_PID_PROFILE :: u8 where "FLIGHT_FLAG_PID_PROFILE = 64"

definition FLIGHT_CONFIG_MASK :: u8 where
  "FLIGHT_CONFIG_MASK = FLIGHT_FLAG_LEVEL OR FLIGHT_FLAG_RACE OR FLIGHT_FLAG_HORIZON OR FLIGHT_FLAG_PID_PROFILE"

definition saved_flight_flags :: "u8 \<Rightarrow> u8" where
  "saved_flight_flags aux = flag (nonzero (aux AND NFE_SILVERWARE_AUX_LEVEL)) FLIGHT_FLAG_LEVEL OR
     flag (nonzero (aux AND NFE_SILVERWARE_AUX_RACE)) FLIGHT_FLAG_RACE OR
     flag (nonzero (aux AND NFE_SILVERWARE_AUX_HORIZON)) FLIGHT_FLAG_HORIZON OR
     flag (nonzero (aux AND NFE_SILVERWARE_AUX_PID_PROFILE)) FLIGHT_FLAG_PID_PROFILE"

definition pc_telemetry_overlay_saved_flight_config :: "bytes option \<Rightarrow> u8 \<Rightarrow> bool \<times> bytes option" where
  "pc_telemetry_overlay_saved_flight_config packet saved_aux_flags =
     (case packet of None \<Rightarrow> (False, None)
      | Some p \<Rightarrow>
          if \<not> bayang_check_telemetry packet \<or> p ! 0 \<noteq> 0x86 \<or> drop_bit 6 (p ! 1) \<noteq> EXTENDED_FLIGHT_PAGE then (False, packet)
          else
            let p1 = p[13 := (p ! 13 AND NOT FLIGHT_CONFIG_MASK) OR saved_flight_flags saved_aux_flags]
            in (True, Some (p1[BAYANG_PACKET_SIZE - 1 := bayang_calculate_checksum (Some p1)])))"

definition pc_telemetry_encode_frame :: "PcTelemetrySample \<Rightarrow> bytes option \<Rightarrow> bytes option" where
  "pc_telemetry_encode_frame sample output =
     encode_message PC_TELEMETRY_MESSAGE_RAW_BAYANG (ps_sequence sample) (ps_timestampUs sample) (Some (ps_packet sample)) output"

definition pc_telemetry_decode_frame :: "bytes option \<Rightarrow> PcTelemetrySample option" where
  "pc_telemetry_decode_frame frame =
     (case decode_message frame PC_TELEMETRY_MESSAGE_RAW_BAYANG BAYANG_PACKET_SIZE of None \<Rightarrow> None
      | Some (sequence, timestamp_us, payload) \<Rightarrow>
          Some \<lparr> ps_sequence = sequence, ps_timestampUs = timestamp_us, ps_packet = payload \<rparr>)"

definition pc_telemetry_encode_local_state_frame ::
  "PcTelemetryLocalState \<Rightarrow> u16 \<Rightarrow> u64 \<Rightarrow> bytes option \<Rightarrow> bytes option" where
  "pc_telemetry_encode_local_state_frame s sequence timestamp_us output =
     encode_message PC_TELEMETRY_MESSAGE_LOCAL_STATE sequence timestamp_us (Some (serialize_local_state s)) output"

definition pc_telemetry_decode_local_state_frame ::
  "bytes option \<Rightarrow> (PcTelemetryLocalState \<times> u16 \<times> u64) option" where
  "pc_telemetry_decode_local_state_frame frame =
     (case decode_message frame PC_TELEMETRY_MESSAGE_LOCAL_STATE PC_TELEMETRY_LOCAL_STATE_PAYLOAD_SIZE of None \<Rightarrow> None
      | Some (sequence, timestamp_us, payload) \<Rightarrow> Some (deserialize_local_state payload, sequence, timestamp_us))"

end
