(* ===== verification/Pc_Protocol_Laws.thy ===== *)
theory Pc_Protocol_Laws
  imports Pc_Protocol Prearm_Guard
begin

text \<open>
  Laws of the PC telemetry protocol.  The encoder's in-place loop is compared with a reference definition of
  consistent overhead byte stuffing on lists, the decoder inverts the reference, and the frames of both message types
  survive the wire.
\<close>

section \<open>Reference stuffing\<close>

text \<open>
  \<open>cobs blk xs\<close> is the code of \<open>xs\<close> when the block \<open>blk\<close> of non-zero bytes is still open.  A block ends at a
  zero byte, at 254 bytes, or at the end of the data, and is preceded by its length plus one.
\<close>

fun cobs :: "bytes \<Rightarrow> bytes \<Rightarrow> bytes" where
  "cobs blk [] = of_nat (length blk + 1) # blk"
| "cobs blk (x # xs) =
     (if x = 0 then of_nat (length blk + 1) # blk @ cobs [] xs
      else if length blk + 1 = 254 then 0xFF # blk @ x # cobs [] xs
      else cobs (blk @ [x]) xs)"

lemma cobs_not_Nil [simp]: "cobs blk xs \<noteq> []"
  by (induction blk xs rule: cobs.induct) auto

lemma length_cobs: "length blk \<le> 253 \<Longrightarrow> length (cobs blk xs) \<le> length blk + length xs + (length blk + length xs) div 254 + 1"
proof (induction blk xs rule: cobs.induct)
  case (2 blk x xs)
  consider "x = 0" | "x \<noteq> 0" "length blk + 1 = 254" | "x \<noteq> 0" "length blk + 1 \<noteq> 254" by blast
  then show ?case
  proof cases
    case 1
    have "length xs div 254 \<le> (length blk + Suc (length xs)) div 254" by (rule div_le_mono) simp
    then show ?thesis using 2 1 by simp
  next
    case 2
    have "(length blk + Suc (length xs)) div 254 = length xs div 254 + 1" using 2(2) by simp
    then show ?thesis using "2.IH"(2) 2 by simp
  next
    case 3
    then show ?thesis using "2.IH"(3) "2.prems" by simp
  qed
qed simp

lemma of_nat_code: "n \<le> 255 \<Longrightarrow> unat (of_nat n :: u8) = n"
  by (simp add: unat_of_nat)

lemma code_nonzero: "0 < n \<Longrightarrow> n \<le> 254 \<Longrightarrow> (of_nat n :: u8) \<noteq> 0"
  using of_nat_code [of n] by auto

lemma cobs_no_zero: "0 \<notin> set blk \<Longrightarrow> length blk \<le> 253 \<Longrightarrow> 0 \<notin> set (cobs blk xs)"
proof (induction blk xs rule: cobs.induct)
  case (1 blk)
  then show ?case using code_nonzero [of "length blk + 1"] by fastforce
next
  case (2 blk x xs)
  have "(of_nat (length blk + 1) :: u8) \<noteq> 0" by (rule code_nonzero) (use "2.prems" in simp_all)
  then show ?case using 2 by (auto simp del: of_nat_add of_nat_Suc)
qed

section \<open>The encoder computes the reference\<close>

lemma length_cobs_ge: "length blk + 1 \<le> length (cobs blk xs)"
  by (induction blk xs rule: cobs.induct) auto

lemma u8_255: "unat (of_nat 255 :: u8) = 255"
  by (simp add: unat_of_nat)

lemma code_step: "code = of_nat (length blk + 1) \<Longrightarrow> length blk \<le> 253 \<Longrightarrow>
  (code + 1 = (0xFF :: u8)) = (length blk + 1 = 254)"
proof -
  assume c: "code = of_nat (length blk + 1)" and l: "length blk \<le> 253"
  have "(code + 1 = (0xFF :: u8)) = (of_nat (length blk + 2) = (of_nat 255 :: u8))" by (simp add: c)
  also have "\<dots> = (length blk + 2 = 255)"
  proof -
    have "unat (of_nat (length blk + 2) :: u8) = length blk + 2"
      by (rule of_nat_code) (use l in simp)
    then show ?thesis by (metis of_nat_numeral u8_255)
  qed
  finally show ?thesis by simp
qed

text \<open>The buffer holds what is finished, a place for the code, the open block, then whatever was there.\<close>

lemma encode_loop_cobs:
  assumes "r \<le> length input" "length blk \<le> 253" "w = length pre + 1 + length blk"
    and "length (cobs blk (drop r input)) \<le> 1 + length blk + length post"
  shows "\<exists>rest. cobs_encode_loop input r w (length pre) (of_nat (length blk + 1)) (pre @ hole # blk @ post) =
    (length (pre @ cobs blk (drop r input)), pre @ cobs blk (drop r input) @ rest)"
  using assms
proof (induction "length input - r" arbitrary: r w pre hole blk post)
  case 0
  then show ?case by (subst cobs_encode_loop.simps) simp
next
  case (Suc k)
  then have r: "r < length input" and k: "k = length input - (r + 1)" by simp_all
  define x xs where "x = input ! r" and "xs = drop (r + 1) input"
  have d: "drop r input = x # xs" using r by (simp add: Cons_nth_drop_Suc x_def xs_def)
  have long: "length (cobs blk (x # xs)) \<le> 1 + length blk + length post" using Suc.prems(4) d by simp
  have w: "w = length (pre @ hole # blk)" using Suc.prems(3) by simp
  have ge: "1 \<le> length (cobs [] xs)" "length blk + 2 \<le> length (cobs (blk @ [x]) xs)"
    using length_cobs_ge [of "[]" xs] length_cobs_ge [of "blk @ [x]" xs] by simp_all
  have "post \<noteq> []" using long ge by (auto split: if_splits)
  then obtain p post' where post: "post = p # post'" by (cases post) auto
  show ?case
  proof (cases "x = 0")
    case True
    let ?pre = "pre @ of_nat (length blk + 1) # blk"
    have "\<exists>rest. cobs_encode_loop input (r + 1) (length ?pre + 1) (length ?pre) (of_nat (length ([] :: bytes) + 1))
        (?pre @ p # [] @ post') = (length (?pre @ cobs [] xs), ?pre @ cobs [] xs @ rest)"
      unfolding xs_def by (rule Suc.hyps(1)) (use k r long True post d in \<open>auto simp: xs_def\<close>)
    then show ?thesis
      using r True by (subst cobs_encode_loop.simps) (simp add: d w x_def [symmetric] post list_update_append)
  next
    case False
    show ?thesis
    proof (cases "length blk + 1 = 254")
      case full: True
      let ?pre = "pre @ 0xFF # blk @ [x]"
      have "post' \<noteq> []" using long ge(1) False full post by auto
      then obtain q post2 where post': "post' = q # post2" by (cases post') auto
      have "\<exists>rest. cobs_encode_loop input (r + 1) (length ?pre + 1) (length ?pre) (of_nat (length ([] :: bytes) + 1))
          (?pre @ q # [] @ post2) = (length (?pre @ cobs [] xs), ?pre @ cobs [] xs @ rest)"
        unfolding xs_def by (rule Suc.hyps(1)) (use k r long False full post post' d in \<open>auto simp: xs_def\<close>)
      moreover have "(of_nat (length blk + 1) :: u8) + 1 = 0xFF" using code_step [OF refl, of blk] full by simp
      ultimately show ?thesis
        using r False full
        by (subst cobs_encode_loop.simps) (simp add: d w x_def [symmetric] post post' list_update_append Let_def ac_simps)
    next
      case part: False
      have l: "length (blk @ [x]) \<le> 253" using Suc.prems(2) part by simp
      have "\<exists>rest. cobs_encode_loop input (r + 1) (w + 1) (length pre) (of_nat (length (blk @ [x]) + 1))
          (pre @ hole # (blk @ [x]) @ post') = (length (pre @ cobs (blk @ [x]) xs), pre @ cobs (blk @ [x]) xs @ rest)"
        unfolding xs_def by (rule Suc.hyps(1)) (use k r l long False part post d w in \<open>auto simp: xs_def\<close>)
      moreover have "(of_nat (length blk + 1) :: u8) + 1 \<noteq> 0xFF"
        using code_step [OF refl Suc.prems(2)] part by simp
      ultimately show ?thesis
        using r False part
        by (subst cobs_encode_loop.simps) (simp add: d w x_def [symmetric] post list_update_append Let_def)
    qed
  qed
qed

section \<open>The decoder inverts the reference\<close>

lemma copy_block_take:
  "length out + n \<le> cap \<Longrightarrow> r + n \<le> length input \<Longrightarrow>
   copy_block cap input n r out = Some (out @ take n (drop r input))"
proof (induction n arbitrary: r out)
  case (Suc n)
  have "drop r input = input ! r # drop (r + 1) input" using Suc.prems by (simp add: Cons_nth_drop_Suc)
  then have "take (Suc n) (drop r input) = input ! r # take n (drop (r + 1) input)" by simp
  moreover have "copy_block cap input n (r + 1) (out @ [input ! r]) =
      Some ((out @ [input ! r]) @ take n (drop (r + 1) input))"
    by (rule Suc.IH) (use Suc.prems in simp_all)
  ultimately show ?case using Suc.prems by simp
qed simp

text \<open>One block: its code, its bytes, and what follows.\<close>

lemma decode_block:
  assumes "input = pre @ c # blk @ rest" "unat c = length blk + 1" "length out + length blk \<le> cap"
  shows "cobs_decode_loop cap input (length pre) out =
    (if unat c \<noteq> 0xFF \<and> rest \<noteq> [] then
       if length (out @ blk) \<ge> cap then None
       else cobs_decode_loop cap input (length (pre @ c # blk)) (out @ blk @ [0])
     else cobs_decode_loop cap input (length (pre @ c # blk)) (out @ blk))"
proof -
  have n: "input ! length pre = c" "length pre < length input" by (simp_all add: assms(1))
  have d: "drop (length pre + 1) input = blk @ rest" by (simp add: assms(1))
  have cp: "copy_block cap input (length blk) (length pre + 1) out = Some (out @ blk)"
    using copy_block_take [of out "length blk" cap "length pre + 1" input] assms(3) d by (simp add: assms(1))
  show ?thesis
    using n cp assms(2) by (subst cobs_decode_loop.simps) (simp add: Let_def assms(1))
qed

lemma decode_end [simp]: "cobs_decode_loop cap input (length input) out = Some out"
  by (subst cobs_decode_loop.simps) simp

lemma decode_cobs:
  assumes "length blk \<le> 253" "length (out @ blk @ xs) \<le> cap"
  shows "cobs_decode_loop cap (pre @ cobs blk xs) (length pre) out = Some (out @ blk @ xs)"
  using assms
proof (induction blk xs arbitrary: pre out rule: cobs.induct)
  case (1 blk)
  have u: "unat (of_nat (length blk + 1) :: u8) = length blk + 1" by (rule of_nat_code) (use "1.prems" in simp)
  have "cobs_decode_loop cap (pre @ cobs blk []) (length pre) out =
      cobs_decode_loop cap (pre @ cobs blk []) (length (pre @ of_nat (length blk + 1) # blk)) (out @ blk)"
    using decode_block [of "pre @ cobs blk []" pre "of_nat (length blk + 1)" blk "[]" out cap] u "1.prems" by simp
  also have "length (pre @ of_nat (length blk + 1) # blk) = length (pre @ cobs blk [])" by simp
  finally show ?case by (simp only: decode_end append_Nil2)
next
  case (2 blk x xs)
  have u: "unat (of_nat (length blk + 1) :: u8) = length blk + 1" by (rule of_nat_code) (use "2.prems" in simp)
  consider (zero) "x = 0" | (full) "x \<noteq> 0" "length blk + 1 = 254" | (within) "x \<noteq> 0" "length blk + 1 \<noteq> 254" by blast
  then show ?case
  proof cases
    case zero
    let ?c = "of_nat (length blk + 1) :: u8" and ?i = "pre @ cobs blk (x # xs)"
    have i: "?i = pre @ ?c # blk @ cobs [] xs" "?i = (pre @ ?c # blk) @ cobs [] xs" using zero by simp_all
    have "cobs_decode_loop cap ?i (length pre) out =
        cobs_decode_loop cap ?i (length (pre @ ?c # blk)) (out @ blk @ [0])"
      using decode_block [OF i(1) u, of out cap] "2.prems" u by simp
    also have "\<dots> = Some ((out @ blk @ [0]) @ [] @ xs)"
      unfolding i(2) by (rule "2.IH"(1) [OF zero]) (use "2.prems" in simp_all)
    finally show ?thesis using zero by simp
  next
    case full
    let ?i = "pre @ cobs blk (x # xs)"
    have i: "?i = pre @ 0xFF # (blk @ [x]) @ cobs [] xs" "?i = (pre @ 0xFF # (blk @ [x])) @ cobs [] xs"
      using full by simp_all
    have c: "unat (0xFF :: u8) = length (blk @ [x]) + 1" using full by simp
    have "cobs_decode_loop cap ?i (length pre) out =
        cobs_decode_loop cap ?i (length (pre @ 0xFF # (blk @ [x]))) (out @ blk @ [x])"
      using decode_block [OF i(1) c, of out cap] "2.prems" by simp
    also have "\<dots> = Some ((out @ blk @ [x]) @ [] @ xs)"
      unfolding i(2) by (rule "2.IH"(2) [OF full]) (use "2.prems" in simp_all)
    finally show ?thesis by simp
  next
    case within
    have "cobs_decode_loop cap (pre @ cobs (blk @ [x]) xs) (length pre) out = Some (out @ (blk @ [x]) @ xs)"
      by (rule "2.IH"(3) [OF within]) (use "2.prems" within in simp_all)
    then show ?thesis using within by simp
  qed
qed

lemma encode_is_cobs:
  assumes "pc_telemetry_cobs_max_encoded_size (length xs) \<le> length out"
  shows "\<exists>rest. pc_telemetry_cobs_encode (Some xs) (Some out) =
    (length (cobs [] xs), Some (cobs [] xs @ rest))"
proof -
  have l: "length (cobs [] xs) \<le> length out"
    using length_cobs [of "[]" xs] assms by (simp add: pc_telemetry_cobs_max_encoded_size_def)
  then obtain h post where out: "out = h # post" using length_cobs_ge [of "[]" xs] by (cases out) auto
  have "\<exists>rest. cobs_encode_loop xs 0 1 (length ([] :: bytes)) (of_nat (length ([] :: bytes) + 1)) ([] @ h # [] @ post) =
      (length ([] @ cobs [] (drop 0 xs)), [] @ cobs [] (drop 0 xs) @ rest)"
    by (rule encode_loop_cobs) (use l out in simp_all)
  then show ?thesis using assms by (auto simp: pc_telemetry_cobs_encode_def out Let_def)
qed

section \<open>Numbers on the wire\<close>

lemma length_be [simp]: "length (write_u16_be a) = 2" "length (write_u32_be b) = 4" "length (write_u64_be c) = 8"
  by (simp_all add: write_u16_be_def write_u32_be_def write_u64_be_def)

lemma join_byte:
  "push_bit 8 (drop_bit 8 a) OR to_u16 (to_u8 a) = (a :: u16)"
  "push_bit 8 (drop_bit 8 b) OR to_u32 (to_u8 b) = (b :: u32)"
  "push_bit 8 (drop_bit 8 c) OR to_u64 (to_u8 c) = (c :: u64)"
  by (rule bit_word_eqI; auto simp: bit_simps bit_to_word)+

lemma read_write_u16 [simp]: "read_u16_be (write_u16_be v @ ys) = v"
proof -
  have "to_u16 (to_u8 (drop_bit 8 v)) = drop_bit 8 v"
    by (rule bit_word_eqI) (auto simp: bit_simps bit_to_word dest: u16_bit_bound)
  then show ?thesis using join_byte(1) [of v] by (simp add: read_u16_be_def write_u16_be_def)
qed

lemma be_step:
  "m < 4 \<Longrightarrow> push_bit 8 (drop_bit ((4 - m) * 8) v) OR to_u32 (to_u8 (drop_bit ((3 - m) * 8) v)) = drop_bit ((3 - m) * 8) (v :: u32)"
  "n < 8 \<Longrightarrow> push_bit 8 (drop_bit ((8 - n) * 8) w) OR to_u64 (to_u8 (drop_bit ((7 - n) * 8) w)) = drop_bit ((7 - n) * 8) (w :: u64)"
proof -
  assume "m < 4"
  then have "(4 - m) * 8 = 8 + (3 - m) * 8" by simp
  then show "push_bit 8 (drop_bit ((4 - m) * 8) v) OR to_u32 (to_u8 (drop_bit ((3 - m) * 8) v)) = drop_bit ((3 - m) * 8) v"
    using join_byte(2) [of "drop_bit ((3 - m) * 8) v"] by (simp only: drop_bit_drop_bit)
next
  assume "n < 8"
  then have "(8 - n) * 8 = 8 + (7 - n) * 8" by simp
  then show "push_bit 8 (drop_bit ((8 - n) * 8) w) OR to_u64 (to_u8 (drop_bit ((7 - n) * 8) w)) = drop_bit ((7 - n) * 8) w"
    using join_byte(3) [of "drop_bit ((7 - n) * 8) w"] by (simp only: drop_bit_drop_bit)
qed

lemma read_write_u32 [simp]: "read_u32_be (write_u32_be v @ ys) = v"
proof -
  have "foldl (\<lambda>w i. push_bit 8 w OR to_u32 ((write_u32_be v @ ys) ! i)) 0 [0..<m] = drop_bit ((4 - m) * 8) v"
    if "m \<le> 4" for m
    using that
  proof (induction m)
    case 0
    show ?case by (simp add: drop_bit_word_beyond)
  next
    case (Suc m)
    then have "(write_u32_be v @ ys) ! m = to_u8 (drop_bit ((3 - m) * 8) v)"
      by (simp add: nth_append write_u32_be_def)
    then show ?case using Suc be_step(1) [of m v] by simp
  qed
  from this [of 4] show ?thesis by (simp add: read_u32_be_def)
qed

lemma read_write_u64 [simp]: "read_u64_be (write_u64_be v @ ys) = v"
proof -
  have "foldl (\<lambda>w i. push_bit 8 w OR to_u64 ((write_u64_be v @ ys) ! i)) 0 [0..<m] = drop_bit ((8 - m) * 8) v"
    if "m \<le> 8" for m
    using that
  proof (induction m)
    case 0
    show ?case by (simp add: drop_bit_word_beyond)
  next
    case (Suc m)
    then have "(write_u64_be v @ ys) ! m = to_u8 (drop_bit ((7 - m) * 8) v)"
      by (simp add: nth_append write_u64_be_def)
    then show ?case using Suc be_step(2) [of m v] by simp
  qed
  from this [of 8] show ?thesis by (simp add: read_u64_be_def)
qed

lemmas read_write_end [simp] =
  read_write_u16 [where ys = "[]", simplified] read_write_u32 [where ys = "[]", simplified]

section \<open>Messages survive the wire\<close>

lemma message_roundtrip:
  assumes "length payload \<le> PC_TELEMETRY_LOCAL_STATE_PAYLOAD_SIZE" "PC_TELEMETRY_MAX_FRAME_SIZE \<le> length out"
  shows "\<exists>f. encode_message t sq ts (Some payload) (Some out) = Some f \<and> length f \<le> PC_TELEMETRY_MAX_FRAME_SIZE \<and>
    last f = 0 \<and> 0 \<notin> set (butlast f) \<and>
    decode_message (Some f) t (length payload) = Some (sq, ts, payload)"
proof -
  define hd_part where "hd_part = [PC_TELEMETRY_PROTOCOL_VERSION, t] @ write_u16_be (of_nat (length payload)) @
      write_u16_be sq @ write_u64_be ts @ payload"
  define crc where "crc = pc_telemetry_crc16_ccitt_false (Some hd_part)"
  have rec: "message_record t sq ts payload = hd_part @ write_u16_be crc"
    by (simp add: message_record_def hd_part_def crc_def Let_def)
  note sizes = PC_TELEMETRY_LOCAL_STATE_PAYLOAD_SIZE_def PC_TELEMETRY_MAX_FRAME_SIZE_def
    PC_TELEMETRY_LOCAL_STATE_RECORD_SIZE_def PC_TELEMETRY_ENVELOPE_SIZE_def PC_TELEMETRY_CRC_SIZE_def
  have p: "length payload \<le> 44" using assms(1) by (simp add: sizes)
  have h: "length hd_part = 14 + length payload" by (simp add: hd_part_def)
  let ?rec = "message_record t sq ts payload"
  have l: "length ?rec = 16 + length payload" by (simp add: rec h)
  have d: "length ?rec div 254 = 0" using p l by simp
  have "pc_telemetry_cobs_max_encoded_size (length ?rec) \<le> length (take (length out - 1) out)"
    using assms(2) p l d by (simp add: pc_telemetry_cobs_max_encoded_size_def sizes)
  then obtain rest where e: "pc_telemetry_cobs_encode (Some ?rec) (Some (take (length out - 1) out)) =
      (length (cobs [] ?rec), Some (cobs [] ?rec @ rest))"
    using encode_is_cobs by blast
  let ?f = "cobs [] ?rec @ [0]"
  have enc: "encode_message t sq ts (Some payload) (Some out) = Some ?f"
    using assms(2) p d e by (simp add: encode_message_def sizes pc_telemetry_cobs_max_encoded_size_def Let_def)
  have "length ?f \<le> PC_TELEMETRY_MAX_FRAME_SIZE"
    using length_cobs [of "[]" ?rec] p l d by (simp add: sizes)
  moreover have "0 \<notin> set (butlast ?f)" using cobs_no_zero [of "[]" ?rec] by simp
  moreover have "decode_message (Some ?f) t (length payload) = Some (sq, ts, payload)"
  proof -
    have "cobs_decode_loop PC_TELEMETRY_LOCAL_STATE_RECORD_SIZE ([] @ cobs [] ?rec) (length ([] :: bytes)) [] =
        Some ([] @ [] @ ?rec)"
      by (rule decode_cobs) (use p l in \<open>simp_all add: sizes\<close>)
    then have dec: "pc_telemetry_cobs_decode (Some (cobs [] ?rec)) PC_TELEMETRY_LOCAL_STATE_RECORD_SIZE = Some ?rec"
      by (simp add: pc_telemetry_cobs_decode_def)
    have f: "?rec ! 0 = PC_TELEMETRY_PROTOCOL_VERSION" "?rec ! 1 = t"
      "read_u16_be (drop 2 ?rec) = of_nat (length payload)" "read_u16_be (drop 4 ?rec) = sq"
      "read_u64_be (drop 6 ?rec) = ts" "take (length payload) (drop 14 ?rec) = payload"
      by (simp_all add: rec hd_part_def)
    have c: "drop (14 + length payload) ?rec = write_u16_be crc" "take (14 + length payload) ?rec = hd_part"
      by (simp_all add: rec h)
    have n: "unat (of_nat (length payload) :: u16) = length payload" using p by (simp add: unat_of_nat)
    have ok: "0 < length (cobs [] ?rec)" by simp
    show ?thesis
      using ok unfolding decode_message_def
      by (simp add: dec f [unfolded One_nat_def] c n l PC_TELEMETRY_ENVELOPE_SIZE_def PC_TELEMETRY_CRC_SIZE_def
          crc_def Let_def nth_append Suc_le_eq)
  qed
  ultimately show ?thesis using enc by simp
qed

lemma length_serialize [simp]: "length (serialize_local_state s) = 44"
  by (simp add: serialize_local_state_def)

lemma deserialize_serialize: "deserialize_local_state (serialize_local_state s) = s"
  by (simp add: deserialize_local_state_def serialize_local_state_def nth_append)

section \<open>The overlay of the saved configuration\<close>

lemma bit_flag: "k < 8 \<Longrightarrow> bit (flag c (2 ^ k :: u8)) n = (c \<and> n = k)"
  by (auto simp: flag_def bit_simps)

lemma flight_flag_powers:
  "FLIGHT_FLAG_LEVEL = 2 ^ 3" "FLIGHT_FLAG_RACE = 2 ^ 4" "FLIGHT_FLAG_HORIZON = 2 ^ 5" "FLIGHT_FLAG_PID_PROFILE = 2 ^ 6"
  by (simp_all add: FLIGHT_FLAG_LEVEL_def FLIGHT_FLAG_RACE_def FLIGHT_FLAG_HORIZON_def FLIGHT_FLAG_PID_PROFILE_def)

lemma aux_flag_powers:
  "NFE_SILVERWARE_AUX_LEVEL = 2 ^ 0" "NFE_SILVERWARE_AUX_RACE = 2 ^ 1" "NFE_SILVERWARE_AUX_HORIZON = 2 ^ 2"
  "NFE_SILVERWARE_AUX_PID_PROFILE = 2 ^ 3"
  by (simp_all add: nfe_aux_consts)

lemma saved_flag_bits:
  "bit (saved_flight_flags aux) n =
     (n = 3 \<and> bit aux 0 \<or> n = 4 \<and> bit aux 1 \<or> n = 5 \<and> bit aux 2 \<or> n = 6 \<and> bit aux 3)"
  unfolding saved_flight_flags_def flight_flag_powers aux_flag_powers nonzero_and_bit bit_or_iff
  by (subst bit_flag, simp)+ auto

lemma config_mask_bits: "bit FLIGHT_CONFIG_MASK n = (n \<in> {3, 4, 5, 6})"
proof -
  have power: "bit (2 ^ k :: u8) n = (n = k)" if "k < 8" for k
    using bit_flag [OF that, of True n] by (simp add: flag_def)
  show ?thesis
    unfolding FLIGHT_CONFIG_MASK_def flight_flag_powers bit_or_iff by (subst power, simp)+ auto
qed

lemma overlay_flag_bits:
  "n < 8 \<Longrightarrow> bit ((b AND NOT FLIGHT_CONFIG_MASK) OR saved_flight_flags aux) n =
     (if n \<in> {3, 4, 5, 6} then bit aux (n - 3) else bit b n)"
  by (auto simp: bit_simps config_mask_bits saved_flag_bits)

lemma restored_aux_bits:
  assumes "nfe_silverware_restore_aux (Some s) f = Some a"
  shows "levelMode a = bit f 0" "raceMode a = bit f 1" "horizonMode a = bit f 2" "aux_pidProfile a = bit f 3"
  using assms unfolding nfe_silverware_restore_aux_def aux_flag_powers nonzero_and_bit by (auto simp: aux_zero_def)

section \<open>Properties\<close>

text \<open>C24: Byte stuffing is reference COBS and loses nothing.  With a large enough buffer the in-place encoder writes
  exactly the reference code of its input at the start of the buffer, which contains no zero byte and is no longer
  than the announced maximum; the decoder gets the input back whenever its buffer holds it.\<close>

theorem cobs_roundtrip:
  assumes "pc_telemetry_cobs_max_encoded_size (length xs) \<le> length out" "length xs \<le> cap"
  shows "\<exists>n out'. pc_telemetry_cobs_encode (Some xs) (Some out) = (n, Some out') \<and>
    take n out' = cobs [] xs \<and> 0 \<notin> set (take n out') \<and> n \<le> pc_telemetry_cobs_max_encoded_size (length xs) \<and>
    pc_telemetry_cobs_decode (Some (take n out')) cap = Some xs"
proof -
  obtain rest where e: "pc_telemetry_cobs_encode (Some xs) (Some out) = (length (cobs [] xs), Some (cobs [] xs @ rest))"
    using encode_is_cobs [OF assms(1)] by blast
  have "cobs_decode_loop cap ([] @ cobs [] xs) (length ([] :: bytes)) [] = Some ([] @ [] @ xs)"
    by (rule decode_cobs) (use assms(2) in simp_all)
  then have "pc_telemetry_cobs_decode (Some (cobs [] xs)) cap = Some xs" by (simp add: pc_telemetry_cobs_decode_def)
  with e show ?thesis
    using cobs_no_zero [of "[]" xs] length_cobs [of "[]" xs] by (simp add: pc_telemetry_cobs_max_encoded_size_def)
qed

theorem cobs_roundtrip_witness:
  "\<exists>n out'. pc_telemetry_cobs_encode (Some [1, 0, 2]) (Some (replicate 4 9)) = (n, Some out') \<and>
     pc_telemetry_cobs_decode (Some (take n out')) 3 = Some [1, 0, 2]"
proof -
  have "pc_telemetry_cobs_max_encoded_size (length [1, 0, 2 :: u8]) \<le> length (replicate 4 (9 :: u8))"
    by (simp add: pc_telemetry_cobs_max_encoded_size_def)
  from cobs_roundtrip [OF this, of 3] show ?thesis by auto
qed

text \<open>C25: Every PC telemetry frame is decoded to what was encoded.  With the frame buffer of the exporter, a Bayang
  sample of a packet's size and a local state of any contents are encoded into a frame that ends in its only zero byte
  and fits the buffer; decoding it gives back the packet or the state, the sequence number and the time stamp,
  field by field.\<close>

theorem frames_roundtrip:
  assumes "PC_TELEMETRY_MAX_FRAME_SIZE \<le> length out" "length (ps_packet sample) = BAYANG_PACKET_SIZE"
  shows "(\<exists>f. pc_telemetry_encode_frame sample (Some out) = Some f \<and> length f \<le> PC_TELEMETRY_MAX_FRAME_SIZE \<and>
      last f = 0 \<and> 0 \<notin> set (butlast f) \<and> pc_telemetry_decode_frame (Some f) = Some sample) \<and>
    (\<exists>f. pc_telemetry_encode_local_state_frame s sq ts (Some out) = Some f \<and> length f \<le> PC_TELEMETRY_MAX_FRAME_SIZE \<and>
      last f = 0 \<and> 0 \<notin> set (butlast f) \<and> pc_telemetry_decode_local_state_frame (Some f) = Some (s, sq, ts))"
proof
  have b: "length (ps_packet sample) \<le> PC_TELEMETRY_LOCAL_STATE_PAYLOAD_SIZE"
    using assms(2) by (simp add: BAYANG_PACKET_SIZE_def PC_TELEMETRY_LOCAL_STATE_PAYLOAD_SIZE_def)
  obtain f where f: "encode_message PC_TELEMETRY_MESSAGE_RAW_BAYANG (ps_sequence sample) (ps_timestampUs sample)
      (Some (ps_packet sample)) (Some out) = Some f" "length f \<le> PC_TELEMETRY_MAX_FRAME_SIZE" "last f = 0"
    "0 \<notin> set (butlast f)" "decode_message (Some f) PC_TELEMETRY_MESSAGE_RAW_BAYANG (length (ps_packet sample)) =
      Some (ps_sequence sample, ps_timestampUs sample, ps_packet sample)"
    using message_roundtrip [OF b assms(1)] by blast
  then have "pc_telemetry_decode_frame (Some f) = Some sample"
    by (simp add: pc_telemetry_decode_frame_def assms(2))
  with f show "\<exists>f. pc_telemetry_encode_frame sample (Some out) = Some f \<and> length f \<le> PC_TELEMETRY_MAX_FRAME_SIZE \<and>
      last f = 0 \<and> 0 \<notin> set (butlast f) \<and> pc_telemetry_decode_frame (Some f) = Some sample"
    by (simp add: pc_telemetry_encode_frame_def)
next
  have b: "length (serialize_local_state s) \<le> PC_TELEMETRY_LOCAL_STATE_PAYLOAD_SIZE"
    by (simp add: PC_TELEMETRY_LOCAL_STATE_PAYLOAD_SIZE_def)
  obtain f where f: "encode_message PC_TELEMETRY_MESSAGE_LOCAL_STATE sq ts (Some (serialize_local_state s)) (Some out) = Some f"
    "length f \<le> PC_TELEMETRY_MAX_FRAME_SIZE" "last f = 0" "0 \<notin> set (butlast f)"
    "decode_message (Some f) PC_TELEMETRY_MESSAGE_LOCAL_STATE (length (serialize_local_state s)) =
      Some (sq, ts, serialize_local_state s)"
    using message_roundtrip [OF b assms(1)] by blast
  then have "pc_telemetry_decode_local_state_frame (Some f) = Some (s, sq, ts)"
    by (simp add: pc_telemetry_decode_local_state_frame_def PC_TELEMETRY_LOCAL_STATE_PAYLOAD_SIZE_def deserialize_serialize)
  with f show "\<exists>f. pc_telemetry_encode_local_state_frame s sq ts (Some out) = Some f \<and>
      length f \<le> PC_TELEMETRY_MAX_FRAME_SIZE \<and> last f = 0 \<and> 0 \<notin> set (butlast f) \<and>
      pc_telemetry_decode_local_state_frame (Some f) = Some (s, sq, ts)"
    by (simp add: pc_telemetry_encode_local_state_frame_def)
qed

theorem frames_roundtrip_witness:
  "\<exists>f. pc_telemetry_encode_frame \<lparr> ps_sequence = 7, ps_timestampUs = 1000000, ps_packet = replicate 15 0 \<rparr>
      (Some (replicate 62 0)) = Some f \<and>
    pc_telemetry_decode_frame (Some f) = Some \<lparr> ps_sequence = 7, ps_timestampUs = 1000000, ps_packet = replicate 15 0 \<rparr>"
proof -
  let ?s = "\<lparr> ps_sequence = 7, ps_timestampUs = 1000000, ps_packet = replicate 15 0 \<rparr>"
  have "PC_TELEMETRY_MAX_FRAME_SIZE \<le> length (replicate 62 (0 :: u8))"
    by (simp add: PC_TELEMETRY_MAX_FRAME_SIZE_def PC_TELEMETRY_LOCAL_STATE_RECORD_SIZE_def
        PC_TELEMETRY_ENVELOPE_SIZE_def PC_TELEMETRY_LOCAL_STATE_PAYLOAD_SIZE_def PC_TELEMETRY_CRC_SIZE_def)
  moreover have "length (ps_packet ?s) = BAYANG_PACKET_SIZE" by (simp add: BAYANG_PACKET_SIZE_def)
  ultimately show ?thesis using frames_roundtrip [of "replicate 62 0" ?s] by blast
qed

text \<open>C28: The overlay shows the saved configuration and nothing else changes.  On a valid extended flight page the overlay
  succeeds; the packet stays valid, differs at most in its flag and checksum bytes, keeps the flags that are not
  configuration, and shows the flight mode and PID profile that the saved AUX flags select; any other packet is refused
  unchanged.\<close>

theorem overlay_shows_saved_config:
  assumes "length p = 15" "nfe_silverware_restore_aux (Some s) aux = Some a"
  shows "(if bayang_check_telemetry (Some p) \<and> p ! 0 = 0x86 \<and> drop_bit 6 (p ! 1) = 1
    then \<exists>q. pc_telemetry_overlay_saved_flight_config (Some p) aux = (True, Some q) \<and>
      length q = 15 \<and> (\<forall>i<13. q ! i = p ! i) \<and> bayang_check_telemetry (Some q) \<and>
      (\<forall>n\<in>{0, 1, 2, 7}. bit (q ! 13) n = bit (p ! 13) n) \<and>
      decode_flight_mode (q ! 13) = selected_flight_mode a \<and> bit (q ! 13) 6 = aux_pidProfile a
    else pc_telemetry_overlay_saved_flight_config (Some p) aux = (False, Some p))"
proof (cases "bayang_check_telemetry (Some p) \<and> p ! 0 = 0x86 \<and> drop_bit 6 (p ! 1) = 1")
  case True
  let ?b = "(p ! 13 AND NOT FLIGHT_CONFIG_MASK) OR saved_flight_flags aux"
  let ?p1 = "p[13 := ?b]"
  let ?q = "?p1[14 := checksum_loop ?p1]"
  have o: "pc_telemetry_overlay_saved_flight_config (Some p) aux = (True, Some ?q)"
    using True by (simp add: pc_telemetry_overlay_saved_flight_config_def EXTENDED_FLIGHT_PAGE_def
        BAYANG_PACKET_SIZE_def bayang_calculate_checksum_def Let_def)
  have q13: "?q ! 13 = ?b" using assms(1) by simp
  have chk: "bayang_check_telemetry (Some ?q)"
    using True assms(1) by (simp add: bayang_check_telemetry_def bayang_calculate_checksum_def checksum_loop_ignores_last)
  note bits = overlay_flag_bits [of _ "p ! 13" aux]
  have "decode_flight_mode ?b = selected_flight_mode a"
    by (simp add: decode_flight_mode_def selected_flight_mode_def bits restored_aux_bits [OF assms(2)] Let_def)
  moreover have "bit ?b 6 = aux_pidProfile a" by (simp add: bits restored_aux_bits [OF assms(2)])
  moreover have "\<forall>n\<in>{0, 1, 2, 7}. bit ?b n = bit (p ! 13) n" by (simp add: bits)
  ultimately have "length ?q = 15 \<and> (\<forall>i<13. ?q ! i = p ! i) \<and> bayang_check_telemetry (Some ?q) \<and>
      (\<forall>n\<in>{0, 1, 2, 7}. bit (?q ! 13) n = bit (p ! 13) n) \<and>
      decode_flight_mode (?q ! 13) = selected_flight_mode a \<and> bit (?q ! 13) 6 = aux_pidProfile a"
    using assms(1) chk unfolding q13 by simp
  with o True show ?thesis by auto
next
  case False
  then show ?thesis
    by (auto simp: pc_telemetry_overlay_saved_flight_config_def EXTENDED_FLIGHT_PAGE_def)
qed

theorem overlay_shows_saved_config_witness:
  "\<exists>q. pc_telemetry_overlay_saved_flight_config (Some [0x86, 0x40, 0, 0, 0, 0, 0, 0, 0, 0, 0, 0, 0, 0x78, 0x3E]) 1 = (True, Some q) \<and>
     decode_flight_mode (q ! 13) = Level"
proof -
  let ?p = "[0x86, 0x40, 0, 0, 0, 0, 0, 0, 0, 0, 0, 0, 0, 0x78, 0x3E] :: bytes"
  let ?a = "aux_zero\<lparr> levelMode := True \<rparr>"
  have r: "nfe_silverware_restore_aux (Some aux_zero) 1 = Some ?a"
    by (simp add: nfe_silverware_restore_aux_def nfe_aux_consts aux_zero_def)
  have c: "bayang_check_telemetry (Some ?p)" by code_simp
  have "selected_flight_mode ?a = Level" by (simp add: selected_flight_mode_def aux_zero_def)
  with overlay_shows_saved_config [of ?p aux_zero 1 ?a, OF _ r] c show ?thesis
    by (auto simp: drop_bit_eq_div)
qed

end
