(* ===== verification/Pc_State.thy ===== *)
theory Pc_State
  imports Pc_Protocol_Laws Gamepad Telemetry Failsafe
begin

text \<open>
  The local state the transmitter reports to a PC: \<^verbatim>\<open>src/main/telemetry/pc_telemetry_state.cpp\<close> and \<^verbatim>\<open>.h\<close>.  Flag
  sets are words of the width of the C enumerations; ages are milliseconds saturated below the mark for
  \<^verbatim>\<open>never\<close>.  The laws say when a flag is set, that ages saturate instead of wrapping, and how the reported
  freshness of the gamepad relates to the time-out of the failsafe machine.
\<close>

definition PC_TELEMETRY_LOCAL_STATE_PERIOD_US :: time_us where "PC_TELEMETRY_LOCAL_STATE_PERIOD_US = 50000"

definition PC_TELEMETRY_AGE_NEVER :: u16 where "PC_TELEMETRY_AGE_NEVER = 0xFFFF"

definition PC_TELEMETRY_AGE_MAX :: u16 where "PC_TELEMETRY_AGE_MAX = 0xFFFE"

datatype PcTelemetryStatusFlag =
    PC_TELEMETRY_STATUS_GAMEPAD_CONNECTED | PC_TELEMETRY_STATUS_GAMEPAD_FRESH | PC_TELEMETRY_STATUS_SAFETY_LOCKED
  | PC_TELEMETRY_STATUS_CONTROL_ENABLED | PC_TELEMETRY_STATUS_BINDING | PC_TELEMETRY_STATUS_GAMEPAD_FAILSAFE
  | PC_TELEMETRY_STATUS_RADIO_ERROR | PC_TELEMETRY_STATUS_RADIO_INITIALIZED | PC_TELEMETRY_STATUS_FC_TELEMETRY_SEEN
  | PC_TELEMETRY_STATUS_FC_TELEMETRY_FRESH | PC_TELEMETRY_STATUS_FC_TELEMETRY_STALE

text \<open>The bit of a flag; its value in the C enumeration is two to that power.\<close>

fun status_bit :: "PcTelemetryStatusFlag \<Rightarrow> nat" where
  "status_bit PC_TELEMETRY_STATUS_GAMEPAD_CONNECTED = 0"
| "status_bit PC_TELEMETRY_STATUS_GAMEPAD_FRESH = 1"
| "status_bit PC_TELEMETRY_STATUS_SAFETY_LOCKED = 2"
| "status_bit PC_TELEMETRY_STATUS_CONTROL_ENABLED = 3"
| "status_bit PC_TELEMETRY_STATUS_BINDING = 4"
| "status_bit PC_TELEMETRY_STATUS_GAMEPAD_FAILSAFE = 5"
| "status_bit PC_TELEMETRY_STATUS_RADIO_ERROR = 6"
| "status_bit PC_TELEMETRY_STATUS_RADIO_INITIALIZED = 7"
| "status_bit PC_TELEMETRY_STATUS_FC_TELEMETRY_SEEN = 8"
| "status_bit PC_TELEMETRY_STATUS_FC_TELEMETRY_FRESH = 9"
| "status_bit PC_TELEMETRY_STATUS_FC_TELEMETRY_STALE = 10"

definition status_flag :: "bool \<Rightarrow> PcTelemetryStatusFlag \<Rightarrow> u16" where
  "status_flag b f = flag b (push_bit (status_bit f) 1)"

datatype PcTelemetryButtonFlag =
    PC_TELEMETRY_BUTTON_A | PC_TELEMETRY_BUTTON_B | PC_TELEMETRY_BUTTON_X | PC_TELEMETRY_BUTTON_Y
  | PC_TELEMETRY_BUTTON_LB | PC_TELEMETRY_BUTTON_RB | PC_TELEMETRY_BUTTON_L3 | PC_TELEMETRY_BUTTON_R3
  | PC_TELEMETRY_BUTTON_START | PC_TELEMETRY_BUTTON_VIEW | PC_TELEMETRY_BUTTON_DPAD_UP | PC_TELEMETRY_BUTTON_DPAD_DOWN
  | PC_TELEMETRY_BUTTON_DPAD_LEFT | PC_TELEMETRY_BUTTON_DPAD_RIGHT

fun button_bit :: "PcTelemetryButtonFlag \<Rightarrow> nat" where
  "button_bit PC_TELEMETRY_BUTTON_A = 0"
| "button_bit PC_TELEMETRY_BUTTON_B = 1"
| "button_bit PC_TELEMETRY_BUTTON_X = 2"
| "button_bit PC_TELEMETRY_BUTTON_Y = 3"
| "button_bit PC_TELEMETRY_BUTTON_LB = 4"
| "button_bit PC_TELEMETRY_BUTTON_RB = 5"
| "button_bit PC_TELEMETRY_BUTTON_L3 = 6"
| "button_bit PC_TELEMETRY_BUTTON_R3 = 7"
| "button_bit PC_TELEMETRY_BUTTON_START = 8"
| "button_bit PC_TELEMETRY_BUTTON_VIEW = 9"
| "button_bit PC_TELEMETRY_BUTTON_DPAD_UP = 10"
| "button_bit PC_TELEMETRY_BUTTON_DPAD_DOWN = 11"
| "button_bit PC_TELEMETRY_BUTTON_DPAD_LEFT = 12"
| "button_bit PC_TELEMETRY_BUTTON_DPAD_RIGHT = 13"

definition button_flag :: "bool \<Rightarrow> PcTelemetryButtonFlag \<Rightarrow> u16" where
  "button_flag b f = flag b (push_bit (button_bit f) 1)"

section \<open>Ages\<close>

text \<open>The common part of the two functions: clamp a negative age, convert, saturate.\<close>

definition saturated_ms :: "time_us \<Rightarrow> u16" where
  "saturated_ms age_us0 =
     (let age_us = (if age_us0 < 0 then 0 else age_us0);
          milliseconds = (word_of_int age_us :: u64) div 1000
      in if milliseconds > to_u64 PC_TELEMETRY_AGE_MAX then PC_TELEMETRY_AGE_MAX else to_u16 milliseconds)"

definition age_ms :: "time_us \<Rightarrow> time_us \<Rightarrow> bool \<Rightarrow> u16" where
  "age_ms now_us update_us has_update =
     (if \<not> has_update then PC_TELEMETRY_AGE_NEVER else saturated_ms (now_us - update_us))"

definition elapsed_age_ms :: "time_us \<Rightarrow> bool \<Rightarrow> u16" where
  "elapsed_age_ms age_us has_update =
     (if \<not> has_update then PC_TELEMETRY_AGE_NEVER else saturated_ms age_us)"

section \<open>Flags\<close>

definition button_flags :: "ControlState \<Rightarrow> u16" where
  "button_flags c =
     button_flag (btnA c) PC_TELEMETRY_BUTTON_A OR button_flag (btnB c) PC_TELEMETRY_BUTTON_B OR
     button_flag (btnX c) PC_TELEMETRY_BUTTON_X OR button_flag (btnY c) PC_TELEMETRY_BUTTON_Y OR
     button_flag (btnLB c) PC_TELEMETRY_BUTTON_LB OR button_flag (btnRB c) PC_TELEMETRY_BUTTON_RB OR
     button_flag (btnL3 c) PC_TELEMETRY_BUTTON_L3 OR button_flag (btnR3 c) PC_TELEMETRY_BUTTON_R3 OR
     button_flag (btnStart c) PC_TELEMETRY_BUTTON_START OR button_flag (btnView c) PC_TELEMETRY_BUTTON_VIEW OR
     button_flag (btnDPadUp c) PC_TELEMETRY_BUTTON_DPAD_UP OR button_flag (btnDPadDown c) PC_TELEMETRY_BUTTON_DPAD_DOWN OR
     button_flag (btnDPadLeft c) PC_TELEMETRY_BUTTON_DPAD_LEFT OR
     button_flag (btnDPadRight c) PC_TELEMETRY_BUTTON_DPAD_RIGHT"

text \<open>The values of \<^verbatim>\<open>PcTelemetryAuxFlag\<close>.\<close>

definition PC_TELEMETRY_AUX_LEVEL :: u8 where "PC_TELEMETRY_AUX_LEVEL = 1"

definition PC_TELEMETRY_AUX_RACE :: u8 where "PC_TELEMETRY_AUX_RACE = 2"

definition PC_TELEMETRY_AUX_HORIZON :: u8 where "PC_TELEMETRY_AUX_HORIZON = 4"

definition PC_TELEMETRY_AUX_PID_PROFILE :: u8 where "PC_TELEMETRY_AUX_PID_PROFILE = 8"

definition PC_TELEMETRY_AUX_LEDS :: u8 where "PC_TELEMETRY_AUX_LEDS = 16"

definition aux_flags :: "NfeSilverwareAuxState \<Rightarrow> u8" where
  "aux_flags aux =
     flag (levelMode aux) PC_TELEMETRY_AUX_LEVEL OR flag (raceMode aux) PC_TELEMETRY_AUX_RACE OR
     flag (horizonMode aux) PC_TELEMETRY_AUX_HORIZON OR flag (aux_pidProfile aux) PC_TELEMETRY_AUX_PID_PROFILE OR
     flag (leds aux) PC_TELEMETRY_AUX_LEDS"

record PcTelemetryLocalStateInput =
  li_nowUs :: time_us
  li_systemState :: SystemState
  li_controls :: ControlState
  li_auxState :: NfeSilverwareAuxState
  li_radioInitialized :: bool
  li_consecutiveTxFailures :: u8
  li_nextHoppingChannelIndex :: u8
  li_telemetry :: TelemetrySnapshot
  li_txPackets :: u32
  li_txFailures :: u32
  li_telemetryAccepted :: u32
  li_telemetryRejected :: u32
  li_deadlineMisses :: u32
  li_exportQueueDrops :: u32

definition gamepad_fresh :: "ControlState \<Rightarrow> u16 \<Rightarrow> bool" where
  "gamepad_fresh c gamepad_age \<longleftrightarrow>
     cs_connected c \<and> gamepad_age \<noteq> PC_TELEMETRY_AGE_NEVER \<and> uint gamepad_age \<le> GAMEPAD_TIMEOUT_MS"

definition status_flags :: "PcTelemetryLocalStateInput \<Rightarrow> u16 \<Rightarrow> u16" where
  "status_flags input gamepad_age =
     (let c = li_controls input; sys = li_systemState input; fr = freshness (li_telemetry input)
      in status_flag (cs_connected c) PC_TELEMETRY_STATUS_GAMEPAD_CONNECTED OR
         status_flag (gamepad_fresh c gamepad_age) PC_TELEMETRY_STATUS_GAMEPAD_FRESH OR
         status_flag (sys \<noteq> STATE_ACTIVE) PC_TELEMETRY_STATUS_SAFETY_LOCKED OR
         status_flag (sys = STATE_ACTIVE) PC_TELEMETRY_STATUS_CONTROL_ENABLED OR
         status_flag (sys = STATE_BINDING) PC_TELEMETRY_STATUS_BINDING OR
         status_flag (sys = STATE_GAMEPAD_FAILSAFE) PC_TELEMETRY_STATUS_GAMEPAD_FAILSAFE OR
         status_flag (sys = STATE_RADIO_ERROR) PC_TELEMETRY_STATUS_RADIO_ERROR OR
         status_flag (li_radioInitialized input) PC_TELEMETRY_STATUS_RADIO_INITIALIZED OR
         status_flag (fr \<noteq> Never) PC_TELEMETRY_STATUS_FC_TELEMETRY_SEEN OR
         status_flag (fr = Fresh) PC_TELEMETRY_STATUS_FC_TELEMETRY_FRESH OR
         status_flag (fr = Stale) PC_TELEMETRY_STATUS_FC_TELEMETRY_STALE)"

section \<open>The local state\<close>

definition pc_telemetry_make_local_state :: "PcTelemetryLocalStateInput \<Rightarrow> PcTelemetryLocalState" where
  "pc_telemetry_make_local_state input =
     (let c = li_controls input;
          gamepad_age = age_ms (li_nowUs input) (lastUpdateUs c) (lastUpdateUs c > 0);
          telemetry_age = elapsed_age_ms (ageUs (li_telemetry input)) (freshness (li_telemetry input) \<noteq> Never)
      in \<lparr> systemState = of_nat (state_code (li_systemState input)),
           statusFlags = status_flags input gamepad_age,
           lbuttons = button_flags c,
           auxModes = aux_flags (li_auxState input),
           consecutiveTxFailures = li_consecutiveTxFailures input,
           nextHoppingChannelIndex = li_nextHoppingChannelIndex input AND 0x03,
           l_rollRaw = word_of_int (rollRaw c),
           l_pitchRaw = word_of_int (pitchRaw c),
           l_yawRaw = word_of_int (yawRaw c),
           l_throttleRaw = throttleRaw c,
           gamepadAgeMs = gamepad_age,
           fcTelemetryAgeMs = telemetry_age,
           l_txPackets = li_txPackets input,
           l_txFailures = li_txFailures input,
           l_telemetryAccepted = li_telemetryAccepted input,
           l_telemetryRejected = li_telemetryRejected input,
           l_deadlineMisses = li_deadlineMisses input,
           exportQueueDrops = li_exportQueueDrops input \<rparr>)"

definition pc_telemetry_local_state_due :: "time_us \<Rightarrow> time_us option \<Rightarrow> bool \<times> time_us option" where
  "pc_telemetry_local_state_due now_us next_publish_us =
     (case next_publish_us of None \<Rightarrow> (False, None)
      | Some next_us \<Rightarrow>
          if now_us < next_us then (False, Some next_us)
          else (True, Some (now_us + PC_TELEMETRY_LOCAL_STATE_PERIOD_US)))"

section \<open>Laws\<close>

lemma bit_flag16: "k < 16 \<Longrightarrow> bit (flag b (push_bit k 1 :: u16)) n = (b \<and> n = k)"
  by (auto simp: flag_def bit_simps)

lemma bit_status_flag [simp]: "bit (status_flag b f) n = (b \<and> n = status_bit f)"
  unfolding status_flag_def by (rule bit_flag16) (cases f; simp)

lemma bit_button_flag [simp]: "bit (button_flag b f) n = (b \<and> n = button_bit f)"
  unfolding button_flag_def by (rule bit_flag16) (cases f; simp)

text \<open>Every flag says what its name says; no flag hides another.\<close>

lemma status_flag_meaning:
  "bit (status_flags input age) (status_bit f) =
     (case f of
        PC_TELEMETRY_STATUS_GAMEPAD_CONNECTED \<Rightarrow> cs_connected (li_controls input)
      | PC_TELEMETRY_STATUS_GAMEPAD_FRESH \<Rightarrow> gamepad_fresh (li_controls input) age
      | PC_TELEMETRY_STATUS_SAFETY_LOCKED \<Rightarrow> li_systemState input \<noteq> STATE_ACTIVE
      | PC_TELEMETRY_STATUS_CONTROL_ENABLED \<Rightarrow> li_systemState input = STATE_ACTIVE
      | PC_TELEMETRY_STATUS_BINDING \<Rightarrow> li_systemState input = STATE_BINDING
      | PC_TELEMETRY_STATUS_GAMEPAD_FAILSAFE \<Rightarrow> li_systemState input = STATE_GAMEPAD_FAILSAFE
      | PC_TELEMETRY_STATUS_RADIO_ERROR \<Rightarrow> li_systemState input = STATE_RADIO_ERROR
      | PC_TELEMETRY_STATUS_RADIO_INITIALIZED \<Rightarrow> li_radioInitialized input
      | PC_TELEMETRY_STATUS_FC_TELEMETRY_SEEN \<Rightarrow> freshness (li_telemetry input) \<noteq> Never
      | PC_TELEMETRY_STATUS_FC_TELEMETRY_FRESH \<Rightarrow> freshness (li_telemetry input) = Fresh
      | PC_TELEMETRY_STATUS_FC_TELEMETRY_STALE \<Rightarrow> freshness (li_telemetry input) = Stale)"
  by (cases f) (simp_all add: status_flags_def Let_def bit_or_iff)

lemma button_flag_meaning:
  "bit (button_flags c) (button_bit f) =
     (case f of
        PC_TELEMETRY_BUTTON_A \<Rightarrow> btnA c | PC_TELEMETRY_BUTTON_B \<Rightarrow> btnB c
      | PC_TELEMETRY_BUTTON_X \<Rightarrow> btnX c | PC_TELEMETRY_BUTTON_Y \<Rightarrow> btnY c
      | PC_TELEMETRY_BUTTON_LB \<Rightarrow> btnLB c | PC_TELEMETRY_BUTTON_RB \<Rightarrow> btnRB c
      | PC_TELEMETRY_BUTTON_L3 \<Rightarrow> btnL3 c | PC_TELEMETRY_BUTTON_R3 \<Rightarrow> btnR3 c
      | PC_TELEMETRY_BUTTON_START \<Rightarrow> btnStart c | PC_TELEMETRY_BUTTON_VIEW \<Rightarrow> btnView c
      | PC_TELEMETRY_BUTTON_DPAD_UP \<Rightarrow> btnDPadUp c | PC_TELEMETRY_BUTTON_DPAD_DOWN \<Rightarrow> btnDPadDown c
      | PC_TELEMETRY_BUTTON_DPAD_LEFT \<Rightarrow> btnDPadLeft c | PC_TELEMETRY_BUTTON_DPAD_RIGHT \<Rightarrow> btnDPadRight c)"
  by (cases f) (simp_all add: button_flags_def bit_or_iff)

text \<open>The AUX byte on the wire is the byte that is stored, so one set of masks reads both.\<close>

lemma aux_flags_stored: "aux_flags aux = nfe_silverware_aux_flags aux"
  by (simp add: aux_flags_def nfe_silverware_aux_flags_def PC_TELEMETRY_AUX_LEVEL_def PC_TELEMETRY_AUX_RACE_def
      PC_TELEMETRY_AUX_HORIZON_def PC_TELEMETRY_AUX_PID_PROFILE_def PC_TELEMETRY_AUX_LEDS_def nfe_aux_consts)

lemma saturated_ms_value:
  assumes "age < 2 ^ 63"
  shows "uint (saturated_ms age) = min (max 0 age div 1000) 65534"
proof -
  let ?a = "if age < 0 then 0 else age"
  have r: "0 \<le> ?a" "?a < 2 ^ 63" using assms by auto
  have v: "uint ((word_of_int ?a :: u64) div 1000) = ?a div 1000"
    using r by (simp add: uint_div_distrib uint_word_of_int del: word_of_int_eq_iff)
  have m: "uint (to_u64 PC_TELEMETRY_AGE_MAX) = 65534" "uint PC_TELEMETRY_AGE_MAX = 65534"
    by (simp_all add: to_u64_def PC_TELEMETRY_AGE_MAX_def)
  have "uint (to_u16 ((word_of_int ?a :: u64) div 1000)) = ?a div 1000" if "?a div 1000 \<le> 65534"
    using that r v by (simp add: to_u16_def unsigned_ucast_eq take_bit_int_eq_self)
  then show ?thesis
    using v m by (auto simp: saturated_ms_def Let_def word_less_def max_def min_def not_less)
qed

lemma saturated_not_never: "age < 2 ^ 63 \<Longrightarrow> saturated_ms age \<noteq> PC_TELEMETRY_AGE_NEVER"
  using saturated_ms_value [of age] by (auto simp: PC_TELEMETRY_AGE_NEVER_def)

text \<open>
  The failsafe machine compares microseconds, the report whole milliseconds: the report may call a gamepad fresh for
  less than a millisecond longer, never shorter.
\<close>

lemma fresh_iff_age:
  assumes "now - lastUpdateUs c < 2 ^ 63"
  shows "gamepad_fresh c (age_ms now (lastUpdateUs c) (lastUpdateUs c > 0)) \<longleftrightarrow>
    cs_connected c \<and> 0 < lastUpdateUs c \<and> now - lastUpdateUs c < (GAMEPAD_TIMEOUT_MS + 1) * 1000"
proof (cases "0 < lastUpdateUs c")
  case True
  have "(min (max 0 a div 1000) 65534 \<le> (500 :: int)) = (a < 501000)" for a :: int
    by (auto simp: min_def max_def)
  with True show ?thesis
    using saturated_ms_value [OF assms] saturated_not_never [OF assms]
    by (simp add: gamepad_fresh_def age_ms_def GAMEPAD_TIMEOUT_MS_def)
qed (simp add: gamepad_fresh_def age_ms_def)

lemma age_ms_value:
  "now - update < 2 ^ 63 \<Longrightarrow>
   uint (age_ms now update b) = (if b then min (max 0 (now - update) div 1000) 65534 else 65535)"
  "age < 2 ^ 63 \<Longrightarrow> uint (elapsed_age_ms age b) = (if b then min (max 0 age div 1000) 65534 else 65535)"
  by (simp_all add: age_ms_def elapsed_age_ms_def saturated_ms_value PC_TELEMETRY_AGE_NEVER_def)

section \<open>Properties\<close>


text \<open>A gamepad heard of 500.4 ms ago: the failsafe machine has timed out, the report still says fresh.\<close>

definition late_input :: PcTelemetryLocalStateInput where
  "late_input = \<lparr> li_nowUs = 1000000, li_systemState = STATE_GAMEPAD_FAILSAFE,
     li_controls = ControlState_zero\<lparr> cs_connected := True, lastUpdateUs := 499600 \<rparr>, li_auxState = aux_zero,
     li_radioInitialized = True, li_consecutiveTxFailures = 0, li_nextHoppingChannelIndex = 0,
     li_telemetry = telemetry_get_snapshot 1000000 telemetry_boot, li_txPackets = 0, li_txFailures = 0,
     li_telemetryAccepted = 0, li_telemetryRejected = 0, li_deadlineMisses = 0, li_exportQueueDrops = 0 \<rparr>"


end
