(* ===== verification/Pc_Export.thy ===== *)
theory Pc_Export
  imports Pc_State "HOL-Library.Sublist"
begin

text \<open>
  The export of telemetry to a PC: \<^verbatim>\<open>src/main/telemetry/pc_telemetry_export.cpp\<close>, as built for
  \<^verbatim>\<open>SERIAL_OUTPUT_PC_TELEMETRY\<close>.  The control task publishes items into a queue of 16 that gives up its oldest item
  when it is full; the export task takes them out, encodes them and writes the frames to the serial port.  The FreeRTOS
  queue is a bounded list.  The two tasks run on different cores: \<^verbatim>\<open>enqueue\<close> says how many passes the export task
  makes between its queue operations, so that every interleaving is a choice of numbers.
\<close>

definition EXPORT_QUEUE_LENGTH :: nat where "EXPORT_QUEUE_LENGTH = 16"

definition PcTelemetryLocalState_zero :: PcTelemetryLocalState where
  "PcTelemetryLocalState_zero = deserialize_local_state (replicate 44 0)"

record ExportItem =
  messageType :: u8
  ei_sequence :: u16
  ei_timestampUs :: u64
  ei_packet :: bytes
  overlaySavedFlightConfig :: bool
  savedAuxFlags :: u8
  ei_localState :: PcTelemetryLocalState

definition ExportItem_zero :: ExportItem where
  "ExportItem_zero = \<lparr> messageType = 0, ei_sequence = 0, ei_timestampUs = 0, ei_packet = replicate BAYANG_PACKET_SIZE 0,
     overlaySavedFlightConfig = False, savedAuxFlags = 0, ei_localState = PcTelemetryLocalState_zero \<rparr>"

text \<open>The module's statics, the bytes written to the serial port, and the frame buffer of the task.\<close>

record pc_export =
  export_queue :: "ExportItem list option"
  next_bayang_sequence :: u16
  next_local_state_sequence :: u16
  export_queue_drops :: u32
  serial_out :: bytes
  task_frame :: bytes

definition pc_export_boot :: pc_export where
  "pc_export_boot = \<lparr> export_queue = None, next_bayang_sequence = 0, next_local_state_sequence = 0,
     export_queue_drops = 0, serial_out = [], task_frame = replicate PC_TELEMETRY_MAX_FRAME_SIZE 0 \<rparr>"

text \<open>The queue of the operating system: sending and receiving without waiting.\<close>

definition xQueueSend :: "ExportItem \<Rightarrow> pc_export \<Rightarrow> bool \<times> pc_export" where
  "xQueueSend item s =
     (case export_queue s of None \<Rightarrow> (False, s)
      | Some q \<Rightarrow> if length q < EXPORT_QUEUE_LENGTH then (True, s\<lparr> export_queue := Some (q @ [item]) \<rparr>) else (False, s))"

definition xQueueReceive :: "pc_export \<Rightarrow> ExportItem option \<times> pc_export" where
  "xQueueReceive s =
     (case export_queue s of Some (item # q) \<Rightarrow> (Some item, s\<lparr> export_queue := Some q \<rparr>) | _ \<Rightarrow> (None, s))"

section \<open>The export task\<close>

text \<open>The frame of an item; \<^const>\<open>None\<close> for the length 0.\<close>

definition item_packet :: "ExportItem \<Rightarrow> bytes" where
  "item_packet item =
     (if overlaySavedFlightConfig item
      then the (snd (pc_telemetry_overlay_saved_flight_config (Some (ei_packet item)) (savedAuxFlags item)))
      else ei_packet item)"

definition item_frame :: "bytes \<Rightarrow> ExportItem \<Rightarrow> bytes option" where
  "item_frame buffer item =
     (if messageType item = PC_TELEMETRY_MESSAGE_RAW_BAYANG then
        let sample = pc_telemetry_make_sample
              (Some \<lparr> ps_sequence = 0, ps_timestampUs = 0, ps_packet = replicate BAYANG_PACKET_SIZE 0 \<rparr>)
              (Some (item_packet item)) (ei_timestampUs item) (ei_sequence item)
        in pc_telemetry_encode_frame (the sample) (Some buffer)
      else if messageType item = PC_TELEMETRY_MESSAGE_LOCAL_STATE then
        pc_telemetry_encode_local_state_frame (ei_localState item) (ei_sequence item) (ei_timestampUs item) (Some buffer)
      else None)"

text \<open>A pass of the task's loop; with an empty queue it waits, which changes nothing.\<close>

definition export_task_pass :: "pc_export \<Rightarrow> pc_export" where
  "export_task_pass s =
     (case xQueueReceive s of
        (None, s1) \<Rightarrow> s1
      | (Some item, s1) \<Rightarrow>
          (case item_frame (task_frame s1) item of
             None \<Rightarrow> s1
           | Some f \<Rightarrow> s1\<lparr> serial_out := serial_out s1 @ f, task_frame := f @ drop (length f) (task_frame s1) \<rparr>))"

section \<open>Publishing\<close>

definition enqueue :: "nat \<times> nat \<Rightarrow> ExportItem \<Rightarrow> pc_export \<Rightarrow> pc_export" where
  "enqueue passes item s =
     (if export_queue s = None then s
      else let (sent, s1) = xQueueSend item s
           in if sent then s1
              else
                let (discarded, s2) = xQueueReceive ((export_task_pass ^^ fst passes) s1);
                    s3 = (if discarded \<noteq> None then s2\<lparr> export_queue_drops := export_queue_drops s2 + 1 \<rparr> else s2)
                in snd (xQueueSend item ((export_task_pass ^^ snd passes) s3)))"

text \<open>The arguments say whether the system could create the queue and the task.\<close>

definition pc_telemetry_export_init :: "bool \<Rightarrow> bool \<Rightarrow> pc_export \<Rightarrow> bool \<times> pc_export" where
  "pc_telemetry_export_init queue_created task_created s =
     (let s1 = s\<lparr> serial_out := serial_out s @ [0] \<rparr>
      in if \<not> queue_created then (False, s1\<lparr> export_queue := None \<rparr>)
         else if \<not> task_created then (False, s1\<lparr> export_queue := None \<rparr>)
         else (True, s1\<lparr> export_queue := Some [] \<rparr>))"

definition bayang_item :: "u16 \<Rightarrow> bytes \<Rightarrow> time_us \<Rightarrow> bool \<Rightarrow> u8 \<Rightarrow> ExportItem" where
  "bayang_item seq_no packet timestamp_us overlay saved =
     ExportItem_zero\<lparr> messageType := PC_TELEMETRY_MESSAGE_RAW_BAYANG, ei_sequence := seq_no,
       ei_timestampUs := word_of_int timestamp_us, ei_packet := take BAYANG_PACKET_SIZE packet,
       overlaySavedFlightConfig := overlay, savedAuxFlags := saved \<rparr>"

definition pc_telemetry_export_publish_bayang ::
  "nat \<times> nat \<Rightarrow> bytes option \<Rightarrow> time_us \<Rightarrow> bool \<Rightarrow> u8 \<Rightarrow> pc_export \<Rightarrow> pc_export" where
  "pc_telemetry_export_publish_bayang passes packet timestamp_us overlay_saved_flight_config saved_aux_flags s =
     (case packet of None \<Rightarrow> s
      | Some p \<Rightarrow>
          let item = bayang_item (next_bayang_sequence s) p timestamp_us overlay_saved_flight_config saved_aux_flags
          in enqueue passes item (s\<lparr> next_bayang_sequence := next_bayang_sequence s + 1 \<rparr>))"

definition local_state_item :: "u16 \<Rightarrow> PcTelemetryLocalState \<Rightarrow> time_us \<Rightarrow> ExportItem" where
  "local_state_item seq_no local timestamp_us =
     ExportItem_zero\<lparr> messageType := PC_TELEMETRY_MESSAGE_LOCAL_STATE, ei_sequence := seq_no,
       ei_timestampUs := word_of_int timestamp_us, ei_localState := local \<rparr>"

definition pc_telemetry_export_publish_local_state ::
  "nat \<times> nat \<Rightarrow> PcTelemetryLocalState \<Rightarrow> time_us \<Rightarrow> pc_export \<Rightarrow> pc_export" where
  "pc_telemetry_export_publish_local_state passes local timestamp_us s =
     enqueue passes (local_state_item (next_local_state_sequence s) local timestamp_us)
       (s\<lparr> next_local_state_sequence := next_local_state_sequence s + 1 \<rparr>)"

definition pc_telemetry_export_drop_count :: "pc_export \<Rightarrow> u32" where
  "pc_telemetry_export_drop_count s = export_queue_drops s"

section \<open>Runs of the two tasks\<close>

text \<open>What is published: a Bayang packet or a state, with the passes the export task makes meanwhile, or passes alone.\<close>

datatype export_op =
    PublishBayang "nat \<times> nat" "bytes option" time_us bool u8
  | PublishLocalState "nat \<times> nat" PcTelemetryLocalState time_us
  | TaskPasses nat

fun export_step :: "export_op \<Rightarrow> pc_export \<Rightarrow> pc_export" where
  "export_step (PublishBayang n p t ov a) s = pc_telemetry_export_publish_bayang n p t ov a s"
| "export_step (PublishLocalState n l t) s = pc_telemetry_export_publish_local_state n l t s"
| "export_step (TaskPasses n) s = (export_task_pass ^^ n) s"

definition export_run :: "export_op list \<Rightarrow> pc_export \<Rightarrow> pc_export" where
  "export_run ops s = fold export_step ops s"

text \<open>The items of a run in the order of their publication, numbered per kind.\<close>

fun published :: "u16 \<Rightarrow> u16 \<Rightarrow> export_op list \<Rightarrow> ExportItem list" where
  "published b l [] = []"
| "published b l (PublishBayang n (Some p) t ov a # ops) = bayang_item b p t ov a # published (b + 1) l ops"
| "published b l (PublishBayang n None t ov a # ops) = published b l ops"
| "published b l (PublishLocalState n ls t # ops) = local_state_item l ls t # published b (l + 1) ops"
| "published b l (TaskPasses n # ops) = published b l ops"

text \<open>A packet pointer points to a whole packet.\<close>

fun op_ok :: "export_op \<Rightarrow> bool" where
  "op_ok (PublishBayang n (Some p) t ov a) \<longleftrightarrow> BAYANG_PACKET_SIZE \<le> length p"
| "op_ok _ \<longleftrightarrow> True"

section \<open>The receiver\<close>

text \<open>What a PC makes of the bytes: it cuts the stream after every zero and keeps what decodes.\<close>

datatype pc_message = Sample PcTelemetrySample | LocalState PcTelemetryLocalState u16 u64

fun frames_of :: "bytes \<Rightarrow> bytes \<Rightarrow> bytes list" where
  "frames_of acc [] = []"
| "frames_of acc (b # bs) = (if b = 0 then (acc @ [0]) # frames_of [] bs else frames_of (acc @ [b]) bs)"

definition decode_any :: "bytes \<Rightarrow> pc_message option" where
  "decode_any f =
     (case pc_telemetry_decode_frame (Some f) of
        Some s \<Rightarrow> Some (Sample s)
      | None \<Rightarrow> map_option (\<lambda>(l, sq, ts). LocalState l sq ts) (pc_telemetry_decode_local_state_frame (Some f)))"

definition item_message :: "ExportItem \<Rightarrow> pc_message" where
  "item_message item =
     (if messageType item = PC_TELEMETRY_MESSAGE_RAW_BAYANG
      then Sample \<lparr> ps_sequence = ei_sequence item, ps_timestampUs = ei_timestampUs item, ps_packet = item_packet item \<rparr>
      else LocalState (ei_localState item) (ei_sequence item) (ei_timestampUs item))"

text \<open>Frames that end in their only zero can be written one after the other.\<close>

locale framing =
  fixes is_frame :: "bytes \<Rightarrow> 'm \<Rightarrow> bool" and decode :: "bytes \<Rightarrow> 'm option"
  assumes frame_decodes: "is_frame f m \<Longrightarrow> decode f = Some m"
    and frame_delimited: "is_frame f m \<Longrightarrow> \<exists>g. f = g @ [0] \<and> 0 \<notin> set g"
begin

lemma cut_frame: "0 \<notin> set g \<Longrightarrow> frames_of acc (g @ 0 # rest) = (acc @ g @ [0]) # frames_of [] rest"
  by (induction g arbitrary: acc) auto

lemma stream_decodes:
  "list_all2 is_frame fs ms \<Longrightarrow> List.map_filter decode (frames_of [] (concat fs)) = ms"
proof (induction fs ms rule: list_all2_induct)
  case Nil
  show ?case by (simp add: map_filter_simps)
next
  case (Cons f fs m ms)
  then obtain g where g: "f = g @ [0]" "0 \<notin> set g" using frame_delimited by blast
  with cut_frame [of g "[]" "concat fs"] Cons frame_decodes [OF Cons.hyps(1)] show ?case
    by (simp add: map_filter_simps)
qed

end

definition export_frame :: "bytes \<Rightarrow> pc_message \<Rightarrow> bool" where
  "export_frame f m \<longleftrightarrow> decode_any f = Some m \<and> (\<exists>g. f = g @ [0] \<and> 0 \<notin> set g)"

interpretation fr: framing export_frame decode_any
  by unfold_locales (simp_all add: export_frame_def)

section \<open>Laws\<close>

definition item_ok :: "ExportItem \<Rightarrow> bool" where
  "item_ok item \<longleftrightarrow> messageType item = PC_TELEMETRY_MESSAGE_RAW_BAYANG \<and> length (ei_packet item) = BAYANG_PACKET_SIZE \<or>
     messageType item = PC_TELEMETRY_MESSAGE_LOCAL_STATE"

lemma message_kinds [simp]:
  "PC_TELEMETRY_MESSAGE_LOCAL_STATE \<noteq> PC_TELEMETRY_MESSAGE_RAW_BAYANG"
  "PC_TELEMETRY_MESSAGE_RAW_BAYANG \<noteq> PC_TELEMETRY_MESSAGE_LOCAL_STATE"
  by (simp_all add: PC_TELEMETRY_MESSAGE_LOCAL_STATE_def PC_TELEMETRY_MESSAGE_RAW_BAYANG_def)

lemma length_item_packet: "length (item_packet item) = length (ei_packet item)"
  by (auto simp: item_packet_def pc_telemetry_overlay_saved_flight_config_def Let_def)

lemma other_length_refused:
  "decode_message f t n = Some x \<Longrightarrow> n \<noteq> m \<Longrightarrow> decode_message f t' m = None"
  by (auto simp: decode_message_def Let_def split: option.splits if_splits)

lemma delimited: "f \<noteq> [] \<Longrightarrow> last f = 0 \<Longrightarrow> 0 \<notin> set (butlast f) \<Longrightarrow> \<exists>g. f = g @ [0] \<and> 0 \<notin> set g"
  by (metis append_butlast_last_id)

lemma item_frame_good:
  assumes "item_ok item" "length buffer = PC_TELEMETRY_MAX_FRAME_SIZE"
  obtains f where "item_frame buffer item = Some f" "length f \<le> PC_TELEMETRY_MAX_FRAME_SIZE"
    "export_frame f (item_message item)"
proof (cases "messageType item = PC_TELEMETRY_MESSAGE_RAW_BAYANG")
  case True
  then have l: "length (item_packet item) = BAYANG_PACKET_SIZE" using assms(1) by (simp add: item_ok_def length_item_packet)
  then have b: "length (item_packet item) \<le> PC_TELEMETRY_LOCAL_STATE_PAYLOAD_SIZE"
    by (simp add: BAYANG_PACKET_SIZE_def PC_TELEMETRY_LOCAL_STATE_PAYLOAD_SIZE_def)
  obtain f where f: "encode_message PC_TELEMETRY_MESSAGE_RAW_BAYANG (ei_sequence item) (ei_timestampUs item)
      (Some (item_packet item)) (Some buffer) = Some f" "length f \<le> PC_TELEMETRY_MAX_FRAME_SIZE" "last f = 0"
    "0 \<notin> set (butlast f)" "decode_message (Some f) PC_TELEMETRY_MESSAGE_RAW_BAYANG (length (item_packet item)) =
      Some (ei_sequence item, ei_timestampUs item, item_packet item)"
    using message_roundtrip [OF b eq_refl [OF assms(2)[symmetric]]] by blast
  have "f \<noteq> []" using f(5) by (auto simp: decode_message_def)
  with f l delimited [of f] have "export_frame f (item_message item)"
    by (simp add: export_frame_def decode_any_def pc_telemetry_decode_frame_def item_message_def True)
  moreover have "item_frame buffer item = Some f"
    using f(1) l True by (simp add: item_frame_def pc_telemetry_make_sample_def pc_telemetry_encode_frame_def)
  ultimately show ?thesis using f(2) that by blast
next
  case False
  then have t: "messageType item = PC_TELEMETRY_MESSAGE_LOCAL_STATE" using assms(1) by (simp add: item_ok_def)
  have b: "length (serialize_local_state (ei_localState item)) \<le> PC_TELEMETRY_LOCAL_STATE_PAYLOAD_SIZE"
    by (simp add: PC_TELEMETRY_LOCAL_STATE_PAYLOAD_SIZE_def)
  obtain f where f: "encode_message PC_TELEMETRY_MESSAGE_LOCAL_STATE (ei_sequence item) (ei_timestampUs item)
      (Some (serialize_local_state (ei_localState item))) (Some buffer) = Some f"
    "length f \<le> PC_TELEMETRY_MAX_FRAME_SIZE" "last f = 0" "0 \<notin> set (butlast f)"
    "decode_message (Some f) PC_TELEMETRY_MESSAGE_LOCAL_STATE (length (serialize_local_state (ei_localState item))) =
      Some (ei_sequence item, ei_timestampUs item, serialize_local_state (ei_localState item))"
    using message_roundtrip [OF b eq_refl [OF assms(2)[symmetric]]] by blast
  have "f \<noteq> []" using f(5) by (auto simp: decode_message_def)
  moreover have "decode_message (Some f) PC_TELEMETRY_MESSAGE_RAW_BAYANG BAYANG_PACKET_SIZE = None"
    using other_length_refused [OF f(5)] by (simp add: BAYANG_PACKET_SIZE_def)
  ultimately have "export_frame f (item_message item)"
    using f delimited [of f] by (simp add: export_frame_def decode_any_def pc_telemetry_decode_frame_def item_message_def t
        pc_telemetry_decode_local_state_frame_def PC_TELEMETRY_LOCAL_STATE_PAYLOAD_SIZE_def deserialize_serialize)
  moreover have "item_frame buffer item = Some f"
    using f(1) t by (simp add: item_frame_def pc_telemetry_encode_local_state_frame_def)
  ultimately show ?thesis using f(2) that by blast
qed

text \<open>
  The account of a run: the items \<open>pub\<close> published so far are the ones \<open>written\<close> to the port, the ones still queued, and
  \<open>d\<close> dropped ones, and the order is kept.
\<close>

definition accounts :: "ExportItem list \<Rightarrow> ExportItem list \<Rightarrow> nat \<Rightarrow> pc_export \<Rightarrow> bool" where
  "accounts pub written d s \<longleftrightarrow>
     (\<exists>q fs. export_queue s = Some q \<and> length q \<le> EXPORT_QUEUE_LENGTH \<and>
        serial_out s = 0 # concat fs \<and> list_all2 export_frame fs (map item_message written) \<and>
        subseq (written @ q) pub \<and> length pub = length written + length q + d \<and>
        export_queue_drops s = of_nat d \<and> length (task_frame s) = PC_TELEMETRY_MAX_FRAME_SIZE \<and> list_all item_ok q)"

definition newest_kept :: "ExportItem list \<Rightarrow> ExportItem list \<Rightarrow> pc_export \<Rightarrow> bool" where
  "newest_kept pub written s \<longleftrightarrow> pub \<noteq> [] \<longrightarrow> last (written @ the (export_queue s)) = last pub \<and>
     written @ the (export_queue s) \<noteq> []"

lemma pass_accounts:
  assumes "accounts pub written d s"
  shows "\<exists>w. accounts pub w d (export_task_pass s) \<and>
    w @ the (export_queue (export_task_pass s)) = written @ the (export_queue s)"
proof -
  obtain q fs where s: "export_queue s = Some q" "length q \<le> EXPORT_QUEUE_LENGTH" "serial_out s = 0 # concat fs"
    "list_all2 export_frame fs (map item_message written)" "subseq (written @ q) pub"
    "length pub = length written + length q + d" "export_queue_drops s = of_nat d"
    "length (task_frame s) = PC_TELEMETRY_MAX_FRAME_SIZE" "list_all item_ok q"
    using assms unfolding accounts_def by blast
  show ?thesis
  proof (cases q)
    case Nil
    with s(1) assms show ?thesis by (auto simp: export_task_pass_def xQueueReceive_def)
  next
    case (Cons item q')
    with s(9) have "item_ok item" by simp
    then obtain f where f: "item_frame (task_frame s) item = Some f" "length f \<le> PC_TELEMETRY_MAX_FRAME_SIZE"
      "export_frame f (item_message item)" using item_frame_good s(8) by blast
    have p: "export_task_pass s = s\<lparr> export_queue := Some q', serial_out := serial_out s @ f,
        task_frame := f @ drop (length f) (task_frame s) \<rparr>"
      using f(1) s(1) Cons by (simp add: export_task_pass_def xQueueReceive_def)
    have "list_all2 export_frame (fs @ [f]) (map item_message (written @ [item]))"
      using s(4) f(3) by (simp add: list_all2_appendI)
    then have "accounts pub (written @ [item]) d (export_task_pass s)"
      using s f(2) Cons unfolding accounts_def p
      by (intro exI [of _ q'] exI [of _ "fs @ [f]"]) simp
    then show ?thesis using p s(1) Cons by (intro exI [of _ "written @ [item]"]) simp
  qed
qed

lemma passes_account:
  assumes "accounts pub written d s"
  shows "\<exists>w. accounts pub w d ((export_task_pass ^^ n) s) \<and>
    w @ the (export_queue ((export_task_pass ^^ n) s)) = written @ the (export_queue s)"
  using assms
proof (induction n)
  case 0
  then show ?case by auto
next
  case (Suc n)
  then obtain w where w: "accounts pub w d ((export_task_pass ^^ n) s)"
    "w @ the (export_queue ((export_task_pass ^^ n) s)) = written @ the (export_queue s)" by blast
  from pass_accounts [OF w(1)] w(2) show ?case by simp
qed

lemma pass_shrinks: "length (the (export_queue (export_task_pass s))) \<le> length (the (export_queue s))"
  by (auto simp: export_task_pass_def xQueueReceive_def split: option.split list.split)

lemma passes_shrink: "length (the (export_queue ((export_task_pass ^^ n) s))) \<le> length (the (export_queue s))"
  by (induction n) (auto intro: le_trans [OF pass_shrinks])

lemma accounts_queue: "accounts pub w d s \<Longrightarrow> \<exists>q. export_queue s = Some q \<and> length q \<le> EXPORT_QUEUE_LENGTH"
  by (auto simp: accounts_def)

lemma send_accounts:
  assumes "accounts pub w d s" "item_ok item" "length (the (export_queue s)) < EXPORT_QUEUE_LENGTH"
  shows "fst (xQueueSend item s) \<and> accounts (pub @ [item]) w d (snd (xQueueSend item s)) \<and>
    newest_kept (pub @ [item]) w (snd (xQueueSend item s))"
proof -
  obtain q where q: "export_queue s = Some q" using accounts_queue [OF assms(1)] by blast
  have e: "xQueueSend item s = (True, s\<lparr> export_queue := Some (q @ [item]) \<rparr>)"
    using q assms(3) by (simp add: xQueueSend_def)
  have "subseq (w @ q @ [item]) (pub @ [item])" if "subseq (w @ q) pub"
    using list_emb_append_mono [OF that, of "[item]" "[item]"] by simp
  then show ?thesis
    using assms q unfolding e by (auto simp: accounts_def newest_kept_def)
qed

lemma discard_accounts:
  assumes "accounts pub w d s"
  shows "\<exists>d'. accounts pub w d' (let (r, s2) = xQueueReceive s
      in if r \<noteq> None then s2\<lparr> export_queue_drops := export_queue_drops s2 + 1 \<rparr> else s2) \<and>
    length (the (export_queue (snd (xQueueReceive s)))) < EXPORT_QUEUE_LENGTH"
proof -
  obtain q where q: "export_queue s = Some q" "length q \<le> EXPORT_QUEUE_LENGTH" using accounts_queue [OF assms] by blast
  show ?thesis
  proof (cases q)
    case Nil
    with q assms show ?thesis by (auto simp: xQueueReceive_def EXPORT_QUEUE_LENGTH_def)
  next
    case (Cons item q')
    have "subseq (w @ q') pub" if "subseq (w @ item # q') pub"
    proof -
      have "subseq (w @ q') (w @ item # q')" by (intro list_emb_append_mono list_emb_Cons) simp_all
      with that show ?thesis using subseq_order.trans by blast
    qed
    with q Cons assms show ?thesis
      by (intro exI [of _ "Suc d"]) (auto simp: xQueueReceive_def accounts_def)
  qed
qed

lemma enqueue_accounts:
  assumes "accounts pub w d s" "item_ok item"
  shows "\<exists>w d. accounts (pub @ [item]) w d (enqueue n item s) \<and> newest_kept (pub @ [item]) w (enqueue n item s)"
proof -
  obtain q where q: "export_queue s = Some q" "length q \<le> EXPORT_QUEUE_LENGTH" using accounts_queue [OF assms(1)] by blast
  show ?thesis
  proof (cases "length q < EXPORT_QUEUE_LENGTH")
    case True
    with send_accounts [OF assms] q have e: "enqueue n item s = snd (xQueueSend item s)"
      by (simp add: enqueue_def split_beta)
    show ?thesis using send_accounts [OF assms] True q unfolding e by (intro exI [of _ w] exI [of _ d]) simp
  next
    case False
    then have s1: "xQueueSend item s = (False, s)" using q by (simp add: xQueueSend_def)
    let ?s1 = "(export_task_pass ^^ fst n) s"
    let ?s3 = "let (r, s2) = xQueueReceive ?s1
      in if r \<noteq> None then s2\<lparr> export_queue_drops := export_queue_drops s2 + 1 \<rparr> else s2"
    let ?s5 = "(export_task_pass ^^ snd n) ?s3"
    obtain w1 where "accounts pub w1 d ?s1" using passes_account [OF assms(1)] by blast
    from discard_accounts [OF this] obtain d1 where d1: "accounts pub w1 d1 ?s3"
      and room: "length (the (export_queue (snd (xQueueReceive ?s1)))) < EXPORT_QUEUE_LENGTH" by blast
    have "export_queue ?s3 = export_queue (snd (xQueueReceive ?s1))" by (simp add: split_beta)
    with room have room3: "length (the (export_queue ?s3)) < EXPORT_QUEUE_LENGTH" by simp
    obtain w2 where w2: "accounts pub w2 d1 ?s5"
      "w2 @ the (export_queue ?s5) = w1 @ the (export_queue ?s3)" using passes_account [OF d1] by blast
    have "length (the (export_queue ?s5)) \<le> length (the (export_queue ?s3))" by (rule passes_shrink)
    then have "length (the (export_queue ?s5)) < EXPORT_QUEUE_LENGTH" using room3 by simp
    note sent = send_accounts [OF w2(1) assms(2) this]
    have e: "enqueue n item s = snd (xQueueSend item ?s5)" using q s1 by (simp add: enqueue_def Let_def split_beta)
    show ?thesis using sent unfolding e by (intro exI [of _ w2] exI [of _ d1]) blast
  qed
qed

lemma accounts_numbers [simp]:
  "accounts pub w d (s\<lparr> next_bayang_sequence := b \<rparr>) = accounts pub w d s"
  "accounts pub w d (s\<lparr> next_local_state_sequence := b \<rparr>) = accounts pub w d s"
  by (simp_all add: accounts_def)

lemma pass_numbers [simp]:
  "next_bayang_sequence (export_task_pass s) = next_bayang_sequence s"
  "next_local_state_sequence (export_task_pass s) = next_local_state_sequence s"
  by (auto simp: export_task_pass_def xQueueReceive_def split: option.split list.split)

lemma passes_numbers [simp]:
  "next_bayang_sequence ((export_task_pass ^^ n) s) = next_bayang_sequence s"
  "next_local_state_sequence ((export_task_pass ^^ n) s) = next_local_state_sequence s"
  by (induction n) simp_all

lemma queue_numbers [simp]:
  "next_bayang_sequence (snd (xQueueSend item s)) = next_bayang_sequence s"
  "next_local_state_sequence (snd (xQueueSend item s)) = next_local_state_sequence s"
  "next_bayang_sequence (snd (xQueueReceive s)) = next_bayang_sequence s"
  "next_local_state_sequence (snd (xQueueReceive s)) = next_local_state_sequence s"
  by (auto simp: xQueueSend_def xQueueReceive_def split: option.split list.split)

lemma enqueue_numbers [simp]:
  "next_bayang_sequence (enqueue n item s) = next_bayang_sequence s"
  "next_local_state_sequence (enqueue n item s) = next_local_state_sequence s"
  by (simp_all add: enqueue_def Let_def split_beta)

lemma items_ok [simp]:
  "BAYANG_PACKET_SIZE \<le> length p \<Longrightarrow> item_ok (bayang_item b p t ov a)" "item_ok (local_state_item l ls t)"
  by (simp_all add: item_ok_def bayang_item_def local_state_item_def)

lemma run_accounts:
  assumes "accounts pub w d s" "newest_kept pub w s" "list_all op_ok ops"
  shows "\<exists>w d. accounts (pub @ published (next_bayang_sequence s) (next_local_state_sequence s) ops) w d (export_run ops s) \<and>
    newest_kept (pub @ published (next_bayang_sequence s) (next_local_state_sequence s) ops) w (export_run ops s)"
  using assms
proof (induction ops arbitrary: pub w d s)
  case Nil
  then show ?case by (auto simp: export_run_def)
next
  case (Cons op ops)
  have one: ?case if h: "item_ok item" "export_step op s = enqueue n item s0" "accounts pub w d s0"
    "published (next_bayang_sequence s) (next_local_state_sequence s) (op # ops) =
       item # published (next_bayang_sequence s0) (next_local_state_sequence s0) ops" for item n s0
  proof -
    obtain w1 d1 where "accounts (pub @ [item]) w1 d1 (enqueue n item s0)" "newest_kept (pub @ [item]) w1 (enqueue n item s0)"
      using enqueue_accounts [OF h(3,1)] by blast
    from Cons.IH [OF this] Cons.prems(3) h(2,4) show ?thesis by (simp add: export_run_def)
  qed
  show ?case
  proof (cases op)
    case (PublishBayang n p t ov a)
    show ?thesis
    proof (cases p)
      case None
      with PublishBayang Cons show ?thesis
        by (simp add: export_run_def pc_telemetry_export_publish_bayang_def)
    next
      case (Some x)
      with PublishBayang Cons.prems one [of "bayang_item (next_bayang_sequence s) x t ov a" n
          "s\<lparr> next_bayang_sequence := next_bayang_sequence s + 1 \<rparr>"]
      show ?thesis by (simp add: pc_telemetry_export_publish_bayang_def Let_def)
    qed
  next
    case (PublishLocalState n ls t)
    with Cons.prems one [of "local_state_item (next_local_state_sequence s) ls t" n
        "s\<lparr> next_local_state_sequence := next_local_state_sequence s + 1 \<rparr>"]
    show ?thesis by (simp add: pc_telemetry_export_publish_local_state_def)
  next
    case (TaskPasses n)
    obtain w1 where w1: "accounts pub w1 d ((export_task_pass ^^ n) s)"
      "w1 @ the (export_queue ((export_task_pass ^^ n) s)) = w @ the (export_queue s)"
      using passes_account [OF Cons.prems(1)] by blast
    have "newest_kept pub w1 ((export_task_pass ^^ n) s)" using Cons.prems(2) w1(2) by (simp add: newest_kept_def)
    from Cons.IH [OF w1(1) this] Cons.prems(3) TaskPasses show ?thesis by (simp add: export_run_def)
  qed
qed

section \<open>Properties\<close>

text \<open>C26: The PC gets what was published, in order, and the drop counter tells how much it missed.  From the start of
  the export, whatever is published and however the two tasks interleave: what a receiver decodes from the serial stream,
  followed by the at most 16 items still queued, is the sequence of published packets and states with some left
  out; the number left out is the drop counter (modulo its width), and the newest item is never left out.\<close>

theorem export_is_lossy_fifo:
  assumes "pc_telemetry_export_init True True pc_export_boot = (ok, s0)" "list_all op_ok ops"
    and "s = export_run ops s0" "pub = map item_message (published 0 0 ops)"
    and "received = List.map_filter decode_any (frames_of [] (serial_out s))"
  shows "\<exists>q d. export_queue s = Some q \<and> length q \<le> EXPORT_QUEUE_LENGTH \<and>
    subseq (received @ map item_message q) pub \<and>
    length pub = length received + length q + d \<and> pc_telemetry_export_drop_count s = of_nat d \<and>
    (pub \<noteq> [] \<longrightarrow> last (received @ map item_message q) = last pub)"
proof -
  have s0: "s0 = pc_export_boot\<lparr> serial_out := [0], export_queue := Some [] \<rparr>"
    using assms(1) by (simp add: pc_telemetry_export_init_def pc_export_boot_def)
  have "accounts [] [] 0 s0" "newest_kept [] [] s0"
    by (simp_all add: s0 accounts_def newest_kept_def pc_export_boot_def)
  from run_accounts [OF this assms(2)] obtain w d where w: "accounts (published 0 0 ops) w d s"
    and n: "newest_kept (published 0 0 ops) w s"
    by (auto simp: assms(3) s0 pc_export_boot_def)
  obtain q fs where q: "export_queue s = Some q" "length q \<le> EXPORT_QUEUE_LENGTH" "serial_out s = 0 # concat fs"
    "list_all2 export_frame fs (map item_message w)" "subseq (w @ q) (published 0 0 ops)"
    "length (published 0 0 ops) = length w + length q + d" "export_queue_drops s = of_nat d"
    using w unfolding accounts_def by blast
  have "decode_any [0] = None"
    by (simp add: decode_any_def pc_telemetry_decode_frame_def pc_telemetry_decode_local_state_frame_def decode_message_def)
  then have r: "received = map item_message w"
    using fr.stream_decodes [OF q(4)] by (simp add: assms(5) q(3) map_filter_simps)
  have "subseq (map item_message (w @ q)) (map item_message (published 0 0 ops))" using q(5) by (rule subseq_map)
  moreover have "last (map item_message (w @ q)) = last pub" if "pub \<noteq> []"
  proof -
    have "last (w @ q) = last (published 0 0 ops)" "w @ q \<noteq> []" "published 0 0 ops \<noteq> []"
      using that n q(1) by (auto simp: newest_kept_def assms(4))
    then show ?thesis using assms(4) by (metis last_map)
  qed
  ultimately show ?thesis
    using q by (simp add: r assms(4) pc_telemetry_export_drop_count_def)
qed

definition export_ready :: pc_export where
  "export_ready = snd (pc_telemetry_export_init True True pc_export_boot)"

definition burst :: "export_op list" where
  "burst = replicate 17 (PublishLocalState (0, 0) PcTelemetryLocalState_zero 0)"

theorem export_is_lossy_fifo_witness:
  "\<exists>q d. export_queue (export_run burst export_ready) = Some q \<and> length q \<le> 16 \<and>
     length (List.map_filter decode_any (frames_of [] (serial_out (export_run burst export_ready)))) + length q + d = 17"
proof -
  have i: "pc_telemetry_export_init True True pc_export_boot = (True, export_ready)"
    by (simp add: export_ready_def pc_telemetry_export_init_def)
  have o: "list_all op_ok burst" by (simp add: burst_def list_all_iff)
  have l: "length (published 0 0 burst) = 17" by (simp add: burst_def eval_nat_numeral)
  show ?thesis
    using export_is_lossy_fifo [OF i o refl refl refl] l by (auto simp: EXPORT_QUEUE_LENGTH_def)
qed

end
