(* ===== verification/Sdp_Util.thy ===== *)
theory Sdp_Util
  imports Tx_Prelude
begin

text \<open>
  SDP data elements: \<^verbatim>\<open>src/components/btstack/src/classic/sdp_util.c\<close>.  A pointer is an address into a memory
  that is total, so that a read past the end of a buffer gives whatever is stored there; which addresses are read is
  stated separately.  Types and sizes of elements are the numbers of the C enumerations.  The lengths a header
  announces are 32 bit words, iterator positions are 16 bit words, and both wrap around as in the source.
\<close>

type_synonym memory = "nat \<Rightarrow> u8"

section \<open>Big-endian numbers\<close>

definition big_endian_read_16 :: "memory \<Rightarrow> nat \<Rightarrow> u32" where
  "big_endian_read_16 m p = to_u32 (to_u16 (m (p + 1)) OR push_bit 8 (to_u16 (m p)))"

definition big_endian_read_32 :: "memory \<Rightarrow> nat \<Rightarrow> u32" where
  "big_endian_read_32 m p = to_u32 (m (p + 3)) OR push_bit 8 (to_u32 (m (p + 2))) OR push_bit 16 (to_u32 (m (p + 1))) OR
     push_bit 24 (to_u32 (m p))"

text \<open>The position of a store is a 16 bit number, counted from the buffer's start.\<close>

definition big_endian_store_16 :: "nat \<Rightarrow> u16 \<Rightarrow> u16 \<Rightarrow> memory \<Rightarrow> memory" where
  "big_endian_store_16 p pos v m =
     m(p + unat pos := to_u8 (drop_bit 8 v), p + unat (pos + 1) := to_u8 v)"

definition big_endian_store_32 :: "nat \<Rightarrow> u16 \<Rightarrow> u32 \<Rightarrow> memory \<Rightarrow> memory" where
  "big_endian_store_32 p pos v m =
     m(p + unat pos := to_u8 (drop_bit 24 v), p + unat (pos + 1) := to_u8 (drop_bit 16 v),
       p + unat (pos + 2) := to_u8 (drop_bit 8 v), p + unat (pos + 3) := to_u8 v)"

section \<open>Reading an element\<close>

definition DE_NIL :: nat where "DE_NIL = 0"

definition DE_UINT :: nat where "DE_UINT = 1"

definition DE_UUID :: nat where "DE_UUID = 3"

definition DE_STRING :: nat where "DE_STRING = 4"

definition DE_DES :: nat where "DE_DES = 6"

definition DE_SIZE_8 :: nat where "DE_SIZE_8 = 0"

definition DE_SIZE_16 :: nat where "DE_SIZE_16 = 1"

definition DE_SIZE_32 :: nat where "DE_SIZE_32 = 2"

definition DE_SIZE_128 :: nat where "DE_SIZE_128 = 4"

definition DE_SIZE_VAR_8 :: nat where "DE_SIZE_VAR_8 = 5"

definition DE_SIZE_VAR_16 :: nat where "DE_SIZE_VAR_16 = 6"

definition DE_SIZE_VAR_32 :: nat where "DE_SIZE_VAR_32 = 7"

lemmas de_consts = DE_NIL_def DE_UINT_def DE_UUID_def DE_STRING_def DE_DES_def DE_SIZE_8_def DE_SIZE_16_def
  DE_SIZE_32_def DE_SIZE_128_def DE_SIZE_VAR_8_def DE_SIZE_VAR_16_def DE_SIZE_VAR_32_def

definition de_get_size_type :: "memory \<Rightarrow> nat \<Rightarrow> nat" where
  "de_get_size_type m p = unat (m p AND 7)"

definition de_get_element_type :: "memory \<Rightarrow> nat \<Rightarrow> nat" where
  "de_get_element_type m p = unat (drop_bit 3 (m p))"

definition de_get_header_size :: "memory \<Rightarrow> nat \<Rightarrow> u32" where
  "de_get_header_size m p =
     (if de_get_size_type m p \<le> DE_SIZE_128 then 1 else 1 + push_bit (de_get_size_type m p - DE_SIZE_VAR_8) 1)"

definition de_get_data_size :: "memory \<Rightarrow> nat \<Rightarrow> u32" where
  "de_get_data_size m p =
     (if de_get_size_type m p = DE_SIZE_VAR_8 then to_u32 (m (p + 1))
      else if de_get_size_type m p = DE_SIZE_VAR_16 then big_endian_read_16 m (p + 1)
      else if de_get_size_type m p = DE_SIZE_VAR_32 then big_endian_read_32 m (p + 1)
      else if de_get_element_type m p = DE_NIL then 0
      else push_bit (de_get_size_type m p) 1)"

definition de_get_len :: "memory \<Rightarrow> nat \<Rightarrow> u32" where
  "de_get_len m p = de_get_header_size m p + de_get_data_size m p"

definition de_get_len_safe :: "memory \<Rightarrow> nat \<Rightarrow> u32 \<Rightarrow> u32" where
  "de_get_len_safe m p sz =
     (if 1 > sz then 0
      else if de_get_header_size m p > sz then 0
      else if de_get_data_size m p > sz then 0
      else if de_get_header_size m p + de_get_data_size m p > sz then 0
      else de_get_header_size m p + de_get_data_size m p)"

definition de_element_get_uint16 :: "memory \<Rightarrow> nat \<Rightarrow> u16 option" where
  "de_element_get_uint16 m p =
     (if de_get_size_type m p \<noteq> DE_SIZE_16 then None
      else Some (to_u16 (big_endian_read_16 m (p + unat (de_get_header_size m p)))))"

text \<open>The address of a string's first byte.\<close>

definition de_get_string :: "memory \<Rightarrow> nat \<Rightarrow> nat option" where
  "de_get_string m p = (if de_get_element_type m p \<noteq> DE_STRING then None else Some (p + unat (de_get_header_size m p)))"

definition bluetooth_base_uuid :: bytes where
  "bluetooth_base_uuid = [0x00, 0x00, 0x00, 0x00, 0x00, 0x00, 0x10, 0x00, 0x80, 0x00, 0x00, 0x80, 0x5F, 0x9B, 0x34, 0xFB]"

definition uuid_add_bluetooth_prefix :: "u32 \<Rightarrow> bytes" where
  "uuid_add_bluetooth_prefix short_uuid =
     [to_u8 (drop_bit 24 short_uuid), to_u8 (drop_bit 16 short_uuid), to_u8 (drop_bit 8 short_uuid), to_u8 short_uuid] @
     drop 4 bluetooth_base_uuid"

definition uuid_has_bluetooth_prefix :: "bytes \<Rightarrow> bool" where
  "uuid_has_bluetooth_prefix uuid128 \<longleftrightarrow> take 12 (drop 4 uuid128) = drop 4 bluetooth_base_uuid"

definition de_get_normalized_uuid :: "memory \<Rightarrow> nat \<Rightarrow> bytes option" where
  "de_get_normalized_uuid m p =
     (if de_get_element_type m p \<noteq> DE_UUID then None
      else if de_get_size_type m p = DE_SIZE_16 then Some (uuid_add_bluetooth_prefix (big_endian_read_16 m (p + 1)))
      else if de_get_size_type m p = DE_SIZE_32 then Some (uuid_add_bluetooth_prefix (big_endian_read_32 m (p + 1)))
      else if de_get_size_type m p = DE_SIZE_128 then Some (map (\<lambda>i. m (p + 1 + i)) [0..<16])
      else None)"

definition de_get_uuid32 :: "memory \<Rightarrow> nat \<Rightarrow> u32" where
  "de_get_uuid32 m p =
     (case de_get_normalized_uuid m p of None \<Rightarrow> 0
      | Some u \<Rightarrow> if \<not> uuid_has_bluetooth_prefix u then 0 else big_endian_read_32 (\<lambda>i. u ! i) 0)"

section \<open>Writing a record\<close>

definition descriptor_byte :: "nat \<Rightarrow> nat \<Rightarrow> u8" where
  "descriptor_byte ty sz = push_bit 3 (of_nat ty) OR of_nat sz"

definition de_store_descriptor :: "nat \<Rightarrow> nat \<Rightarrow> nat \<Rightarrow> memory \<Rightarrow> memory" where
  "de_store_descriptor p ty sz m = m(p := descriptor_byte ty sz)"

definition de_store_descriptor_with_len :: "nat \<Rightarrow> nat \<Rightarrow> nat \<Rightarrow> u32 \<Rightarrow> memory \<Rightarrow> memory" where
  "de_store_descriptor_with_len p ty sz len m =
     (let m1 = m(p := descriptor_byte ty sz)
      in if sz = DE_SIZE_VAR_8 then m1(p + 1 := to_u8 len)
         else if sz = DE_SIZE_VAR_16 then big_endian_store_16 p 1 (to_u16 len) m1
         else if sz = DE_SIZE_VAR_32 then big_endian_store_32 p 1 len m1
         else m1)"

definition de_create_sequence :: "nat \<Rightarrow> memory \<Rightarrow> memory" where
  "de_create_sequence p m = de_store_descriptor_with_len p DE_DES DE_SIZE_VAR_16 0 m"

text \<open>\<^const>\<open>None\<close> is a failed assertion.\<close>

definition is_des_16bit :: "memory \<Rightarrow> nat \<Rightarrow> bool" where
  "is_des_16bit m p \<longleftrightarrow> m p = descriptor_byte DE_DES DE_SIZE_VAR_16"

definition de_push_sequence :: "nat \<Rightarrow> memory \<Rightarrow> (nat \<times> memory) option" where
  "de_push_sequence p m =
     (if \<not> is_des_16bit m p then None
      else let element_len = unat (de_get_len m p)
           in Some (p + element_len, de_store_descriptor_with_len (p + element_len) DE_DES DE_SIZE_VAR_16 0 m))"

definition de_pop_sequence :: "nat \<Rightarrow> nat \<Rightarrow> memory \<Rightarrow> memory option" where
  "de_pop_sequence parent child m =
     (if \<not> is_des_16bit m parent then None
      else Some (big_endian_store_16 parent 1 (to_u16 (big_endian_read_16 m (parent + 1) + de_get_len m child)) m))"

text \<open>The payload of a number and the element's size; other sizes write the descriptor only.\<close>

definition number_payload :: "nat \<Rightarrow> nat \<Rightarrow> nat \<Rightarrow> u32 \<Rightarrow> u32 \<Rightarrow> memory \<Rightarrow> u32 \<times> memory" where
  "number_payload p ty sz v data_size m =
     (if sz = DE_SIZE_8
      then (if ty \<noteq> DE_NIL then (2, m(p + 4 + unat data_size := to_u8 v)) else (1, m))
      else if sz = DE_SIZE_16 then (3, big_endian_store_16 p (to_u16 (4 + data_size)) (to_u16 v) m)
      else if sz = DE_SIZE_32 then (5, big_endian_store_32 p (to_u16 (4 + data_size)) v m)
      else (1, m))"

definition de_add_number :: "nat \<Rightarrow> nat \<Rightarrow> nat \<Rightarrow> u32 \<Rightarrow> memory \<Rightarrow> memory option" where
  "de_add_number p ty sz v m =
     (if \<not> is_des_16bit m p then None
      else
        let data_size = big_endian_read_16 m (p + 1);
            m1 = de_store_descriptor (p + 3 + unat data_size) ty sz m;
            (element_size, m2) = number_payload p ty sz v data_size m1
        in Some (big_endian_store_16 p 1 (to_u16 (data_size + element_size)) m2))"

definition memcpy_from :: "bytes \<Rightarrow> nat \<Rightarrow> memory \<Rightarrow> memory" where
  "memcpy_from xs p m = (\<lambda>a. if p \<le> a \<and> a < p + length xs then xs ! (a - p) else m a)"

text \<open>\<^verbatim>\<open>xs\<close> is the block the pointer and the 16 bit size name.\<close>

definition de_add_data :: "nat \<Rightarrow> nat \<Rightarrow> bytes \<Rightarrow> memory \<Rightarrow> memory option" where
  "de_add_data p ty xs m =
     (if \<not> is_des_16bit m p then None
      else
        let data_size = unat (big_endian_read_16 m (p + 1));
            (data_size1, m1) =
              (if length xs > 0xff
               then (data_size + 3, de_store_descriptor_with_len (p + 3 + data_size) ty DE_SIZE_VAR_16 (of_nat (length xs)) m)
               else (data_size + 2, de_store_descriptor_with_len (p + 3 + data_size) ty DE_SIZE_VAR_8 (of_nat (length xs)) m))
        in Some (big_endian_store_16 p 1 (of_nat (data_size1 + length xs)) (memcpy_from xs (p + 3 + data_size1) m1)))"

definition de_add_uuid128 :: "nat \<Rightarrow> bytes \<Rightarrow> memory \<Rightarrow> memory option" where
  "de_add_uuid128 p uuid m =
     (if \<not> is_des_16bit m p then None
      else
        let data_size = unat (big_endian_read_16 m (p + 1));
            m1 = de_store_descriptor (p + 3 + data_size) DE_UUID DE_SIZE_128 m
        in Some (big_endian_store_16 p 1 (of_nat (data_size + 1 + 16)) (memcpy_from (take 16 uuid) (p + 4 + data_size) m1)))"

section \<open>The iterator\<close>

record des_iterator =
  it_element :: nat
  it_pos :: u16
  it_length :: u16

text \<open>A failed initialisation leaves the iterator as it was.\<close>

definition des_iterator_init :: "memory \<Rightarrow> nat \<Rightarrow> des_iterator \<Rightarrow> bool \<times> des_iterator" where
  "des_iterator_init m p it =
     (if de_get_element_type m p \<noteq> DE_DES then (False, it)
      else (True, \<lparr> it_element = p, it_pos = to_u16 (de_get_header_size m p), it_length = to_u16 (de_get_len m p) \<rparr>))"

definition it_address :: "des_iterator \<Rightarrow> nat" where
  "it_address it = it_element it + unat (it_pos it)"

definition des_iterator_get_type :: "memory \<Rightarrow> des_iterator \<Rightarrow> nat" where
  "des_iterator_get_type m it = de_get_element_type m (it_address it)"

definition des_iterator_get_size :: "memory \<Rightarrow> des_iterator \<Rightarrow> u16" where
  "des_iterator_get_size m it = to_u16 (de_get_len m (it_address it) - de_get_header_size m (it_address it))"

definition des_iterator_has_more :: "des_iterator \<Rightarrow> bool" where
  "des_iterator_has_more it \<longleftrightarrow> it_pos it < it_length it"

definition des_iterator_get_element :: "des_iterator \<Rightarrow> nat option" where
  "des_iterator_get_element it = (if \<not> des_iterator_has_more it then None else Some (it_address it))"

definition des_iterator_next :: "memory \<Rightarrow> des_iterator \<Rightarrow> des_iterator" where
  "des_iterator_next m it = it\<lparr> it_pos := it_pos it + to_u16 (de_get_len m (it_address it)) \<rparr>"

section \<open>Walking through a sequence\<close>

text \<open>
  Positions are \<^verbatim>\<open>int\<close>s of 32 bits.  The handler gets the element's address, type and size and the context, and says
  whether the walk is over.  \<^const>\<open>None\<close> is a walk that never ends.
\<close>

definition at :: "nat \<Rightarrow> u32 \<Rightarrow> nat" where
  "at p pos = nat (int p + sint pos)"

partial_function (option) traverse_loop ::
  "(nat \<Rightarrow> nat \<Rightarrow> nat \<Rightarrow> 's \<Rightarrow> (bool \<times> 's) option) \<Rightarrow> memory \<Rightarrow> nat \<Rightarrow> u32 \<Rightarrow> u32 \<Rightarrow> 's \<Rightarrow> 's option" where
  "traverse_loop h m p end_pos pos s =
     (if sint pos < sint end_pos then
        Option.bind (h (at p pos) (de_get_element_type m (at p pos)) (de_get_size_type m (at p pos)) s)
          (\<lambda>r. if fst r then Some (snd r)
               else traverse_loop h m p end_pos (pos + de_get_len m (at p pos)) (snd r))
      else Some s)"

definition de_traverse_sequence ::
  "(nat \<Rightarrow> nat \<Rightarrow> nat \<Rightarrow> 's \<Rightarrow> (bool \<times> 's) option) \<Rightarrow> memory \<Rightarrow> nat \<Rightarrow> 's \<Rightarrow> 's option" where
  "de_traverse_sequence h m p s =
     (if de_get_element_type m p \<noteq> DE_DES then Some s
      else traverse_loop h m p (de_get_len m p) (de_get_header_size m p) s)"

text \<open>A list of pairs of a number and a value; the handler gets the number and the value's address.\<close>

partial_function (option) attribute_loop ::
  "(u16 \<Rightarrow> nat \<Rightarrow> nat \<Rightarrow> nat \<Rightarrow> 's \<Rightarrow> (bool \<times> 's) option) \<Rightarrow> memory \<Rightarrow> nat \<Rightarrow> u32 \<Rightarrow> u32 \<Rightarrow> 's \<Rightarrow> 's option" where
  "attribute_loop h m p end_pos pos s =
     (if sint pos < sint end_pos then
        if de_get_element_type m (at p pos) \<noteq> DE_UINT \<or> de_get_size_type m (at p pos) \<noteq> DE_SIZE_16 then Some s
        else if \<not> sint (pos + 3) < sint end_pos then Some s
        else Option.bind (h (to_u16 (big_endian_read_16 m (at p (pos + 1)))) (at p (pos + 3))
                 (de_get_element_type m (at p (pos + 3))) (de_get_size_type m (at p (pos + 3))) s)
          (\<lambda>r. if fst r then Some (snd r)
               else attribute_loop h m p end_pos (pos + 3 + de_get_len m (at p (pos + 3))) (snd r))
      else Some s)"

declare traverse_loop.simps [code] attribute_loop.simps [code]

definition sdp_attribute_list_traverse_sequence ::
  "(u16 \<Rightarrow> nat \<Rightarrow> nat \<Rightarrow> nat \<Rightarrow> 's \<Rightarrow> (bool \<times> 's) option) \<Rightarrow> memory \<Rightarrow> nat \<Rightarrow> 's \<Rightarrow> 's option" where
  "sdp_attribute_list_traverse_sequence h m p s =
     (if de_get_element_type m p \<noteq> DE_DES then Some s
      else attribute_loop h m p (de_get_len m p) (de_get_header_size m p) s)"

section \<open>Attribute and pattern lists\<close>

definition sdp_traversal_attributeID_search ::
  "memory \<Rightarrow> u16 \<Rightarrow> nat \<Rightarrow> nat \<Rightarrow> nat \<Rightarrow> bool \<Rightarrow> (bool \<times> bool) option" where
  "sdp_traversal_attributeID_search m attributeID a ty sz found = Some
     (if ty \<noteq> DE_UINT then (False, found)
      else if sz = DE_SIZE_16 then
        (if big_endian_read_16 m (a + 1) = to_u32 attributeID then (True, True) else (False, found))
      else if sz = DE_SIZE_32 then
        (if big_endian_read_16 m (a + 1) \<le> to_u32 attributeID \<and> to_u32 attributeID \<le> big_endian_read_16 m (a + 3)
         then (True, True) else (False, found))
      else (False, found))"

definition sdp_attribute_list_contains_id :: "memory \<Rightarrow> nat \<Rightarrow> u16 \<Rightarrow> bool option" where
  "sdp_attribute_list_contains_id m p attributeID =
     de_traverse_sequence (sdp_traversal_attributeID_search m attributeID) m p False"

definition sdp_traversal_attribute_list_valie ::
  "memory \<Rightarrow> nat \<Rightarrow> nat \<Rightarrow> nat \<Rightarrow> bool \<Rightarrow> (bool \<times> bool) option" where
  "sdp_traversal_attribute_list_valie m a ty sz valid_so_far =
     (let ok = ty \<noteq> DE_UINT \<and> (sz = DE_SIZE_16 \<or> sz = DE_SIZE_32) \<and>
            (sz = DE_SIZE_32 \<longrightarrow> big_endian_read_16 m (a + 1) \<le> big_endian_read_16 m (a + 3))
      in Some (False, if ok then valid_so_far else False))"

definition sdp_attribute_list_valid :: "memory \<Rightarrow> nat \<Rightarrow> bool option" where
  "sdp_attribute_list_valid m p = de_traverse_sequence (sdp_traversal_attribute_list_valie m) m p True"

definition sdp_traversal_valid_uuid :: "nat \<Rightarrow> nat \<Rightarrow> nat \<Rightarrow> bool \<Rightarrow> (bool \<times> bool) option" where
  "sdp_traversal_valid_uuid a ty sz valid_so_far = Some (False, if ty = DE_UUID then valid_so_far else False)"

definition sdp_valid_service_search_pattern :: "memory \<Rightarrow> nat \<Rightarrow> bool option" where
  "sdp_valid_service_search_pattern m p = de_traverse_sequence sdp_traversal_valid_uuid m p True"

section \<open>Attributes of a record\<close>

definition sdp_traversal_attribute_by_id ::
  "u16 \<Rightarrow> u16 \<Rightarrow> nat \<Rightarrow> nat \<Rightarrow> nat \<Rightarrow> nat option \<Rightarrow> (bool \<times> nat option) option" where
  "sdp_traversal_attribute_by_id wanted attributeID a ty sz found =
     Some (if attributeID = wanted then (True, Some a) else (False, found))"

text \<open>The inner option is a null pointer.\<close>

definition sdp_get_attribute_value_for_attribute_id :: "memory \<Rightarrow> nat \<Rightarrow> u16 \<Rightarrow> nat option option" where
  "sdp_get_attribute_value_for_attribute_id m p wanted =
     sdp_attribute_list_traverse_sequence (sdp_traversal_attribute_by_id wanted) m p None"

definition sdp_traversal_set_attribute_for_id ::
  "u16 \<Rightarrow> u32 \<Rightarrow> u16 \<Rightarrow> nat \<Rightarrow> nat \<Rightarrow> nat \<Rightarrow> bool \<times> memory \<Rightarrow> (bool \<times> bool \<times> memory) option" where
  "sdp_traversal_set_attribute_for_id wanted v attributeID a ty sz = (\<lambda>(found, m).
     Some (if attributeID = wanted then
             (True, True,
              if sz = DE_SIZE_8 then (if ty \<noteq> DE_NIL then m(a + 1 := to_u8 v) else m)
              else if sz = DE_SIZE_16 then big_endian_store_16 a 1 (to_u16 v) m
              else if sz = DE_SIZE_32 then big_endian_store_32 a 1 v m
              else m)
           else (False, found, m)))"

text \<open>The handler ends the walk when it writes, so the walk reads the memory it started with.\<close>

definition sdp_set_attribute_value_for_attribute_id :: "nat \<Rightarrow> u16 \<Rightarrow> u32 \<Rightarrow> memory \<Rightarrow> (bool \<times> memory) option" where
  "sdp_set_attribute_value_for_attribute_id p wanted v m =
     sdp_attribute_list_traverse_sequence (sdp_traversal_set_attribute_for_id wanted v) m p (False, m)"

definition sdp_traversal_get_filtered_size ::
  "memory \<Rightarrow> nat \<Rightarrow> u16 \<Rightarrow> nat \<Rightarrow> nat \<Rightarrow> nat \<Rightarrow> u16 \<Rightarrow> (bool \<times> u16) option" where
  "sdp_traversal_get_filtered_size m ids attributeID a ty sz n =
     map_option (\<lambda>c. (False, if c then n + 3 + to_u16 (de_get_len m a) else n)) (sdp_attribute_list_contains_id m ids attributeID)"

definition sdp_get_filtered_size :: "memory \<Rightarrow> nat \<Rightarrow> nat \<Rightarrow> u16 option" where
  "sdp_get_filtered_size m p ids =
     sdp_attribute_list_traverse_sequence (sdp_traversal_get_filtered_size m ids) m p 0"

text \<open>The search for a UUID goes into nested sequences; the number bounds their depth.\<close>

fun sdp_record_contains_UUID128 :: "nat \<Rightarrow> memory \<Rightarrow> nat \<Rightarrow> bytes \<Rightarrow> bool option" where
  "sdp_record_contains_UUID128 0 m p uuid = None"
| "sdp_record_contains_UUID128 (Suc n) m p uuid =
     de_traverse_sequence (\<lambda>a ty sz found.
       if ty = DE_UUID then (let f = (de_get_normalized_uuid m a = Some (take 16 uuid)) in Some (f, f))
       else if ty = DE_DES then map_option (\<lambda>f. (f, f)) (sdp_record_contains_UUID128 n m a uuid)
       else Some (found, found)) m p False"

definition sdp_record_matches_service_search_pattern :: "nat \<Rightarrow> memory \<Rightarrow> nat \<Rightarrow> nat \<Rightarrow> bool option" where
  "sdp_record_matches_service_search_pattern n m p pattern =
     de_traverse_sequence (\<lambda>a ty sz ok.
       case de_get_normalized_uuid m a of None \<Rightarrow> Some (True, False)
       | Some u \<Rightarrow> map_option (\<lambda>c. if c then (False, ok) else (True, False)) (sdp_record_contains_UUID128 n m p u))
       m pattern True"

section \<open>Fragments of an answer\<close>

text \<open>The context of the filter; the bytes written so far stand for the advancing buffer pointer.\<close>

record filter_context =
  fc_buffer :: bytes
  fc_startOffset :: u16
  fc_maxBytes :: u16
  fc_usedBytes :: u16
  fc_complete :: bool

definition spd_append_range :: "u16 \<Rightarrow> (nat \<Rightarrow> u8) \<Rightarrow> filter_context \<Rightarrow> bool \<times> filter_context" where
  "spd_append_range len src c =
     (let remainder0 = len - fc_startOffset c;
          ok = \<not> fc_maxBytes c < remainder0;
          remainder_len = (if ok then remainder0 else fc_maxBytes c)
      in (ok, c\<lparr> fc_buffer := fc_buffer c @ map (\<lambda>i. src (unat (fc_startOffset c) + i)) [0..<unat remainder_len],
                fc_usedBytes := fc_usedBytes c + remainder_len, fc_maxBytes := fc_maxBytes c - remainder_len,
                fc_startOffset := 0 \<rparr>))"

text \<open>The identifier of an attribute as a data element.\<close>

definition id_buffer :: "u16 \<Rightarrow> bytes" where
  "id_buffer attributeID =
     (let m = big_endian_store_16 0 1 attributeID (de_store_descriptor 0 DE_UINT DE_SIZE_16 (\<lambda>_. 0))
      in map m [0..<3])"

definition filter_id :: "u16 \<Rightarrow> filter_context \<Rightarrow> bool \<times> filter_context" where
  "filter_id attributeID c =
     (if fc_startOffset c \<ge> 3 then (True, c\<lparr> fc_startOffset := fc_startOffset c - 3 \<rparr>)
      else spd_append_range 3 (\<lambda>i. id_buffer attributeID ! i) c)"

definition filter_value :: "memory \<Rightarrow> nat \<Rightarrow> filter_context \<Rightarrow> bool \<times> filter_context" where
  "filter_value m a c =
     (let attribute_len = de_get_len m a
      in if sint (to_u32 (fc_startOffset c)) \<ge> sint attribute_len
         then (True, c\<lparr> fc_startOffset := fc_startOffset c - to_u16 attribute_len \<rparr>)
         else spd_append_range (to_u16 attribute_len) (\<lambda>i. m (a + i)) c)"

definition sdp_traversal_filter_attributes ::
  "memory \<Rightarrow> nat \<Rightarrow> u16 \<Rightarrow> nat \<Rightarrow> nat \<Rightarrow> nat \<Rightarrow> filter_context \<Rightarrow> (bool \<times> filter_context) option" where
  "sdp_traversal_filter_attributes m ids attributeID a ty sz c =
     map_option (\<lambda>wanted.
       if \<not> wanted then (False, c)
       else let (ok, c1) = filter_id attributeID c
            in if \<not> ok then (True, c1\<lparr> fc_complete := False \<rparr>)
               else let (ok, c2) = filter_value m a c1
                    in if \<not> ok then (True, c2\<lparr> fc_complete := False \<rparr>) else (False, c2))
       (sdp_attribute_list_contains_id m ids attributeID)"

definition sdp_filter_attributes_in_attributeIDList ::
  "memory \<Rightarrow> nat \<Rightarrow> nat \<Rightarrow> u16 \<Rightarrow> u16 \<Rightarrow> (bool \<times> u16 \<times> bytes) option" where
  "sdp_filter_attributes_in_attributeIDList m p ids startOffset maxBytes =
     map_option (\<lambda>c. (fc_complete c, fc_usedBytes c, fc_buffer c))
       (sdp_attribute_list_traverse_sequence (sdp_traversal_filter_attributes m ids) m p
         \<lparr> fc_buffer = [], fc_startOffset = startOffset, fc_maxBytes = maxBytes, fc_usedBytes = 0, fc_complete = True \<rparr>)"

end
