(* ===== verification/Sdp_Laws.thy ===== *)
theory Sdp_Laws
  imports Sdp_Util
begin

text \<open>
  Laws of SDP data elements.  An element as a value has a type, a size code and its bytes; \<open>encode\<close> is its
  representation.  On a memory that holds the representation the source's getters give the parts back, and the walks
  visit the elements of a sequence one by one.
\<close>

datatype elem = Elem (elem_type: nat) (elem_size: nat) (elem_data: bytes)

definition be_bytes :: "nat \<Rightarrow> nat \<Rightarrow> bytes" where
  "be_bytes k n = map (\<lambda>i. of_nat (n div 256 ^ (k - 1 - i))) [0..<k]"

text \<open>The number of length bytes of a size code.\<close>

definition len_bytes :: "nat \<Rightarrow> nat" where
  "len_bytes sz = (if sz \<le> 4 then 0 else 2 ^ (sz - 5))"

definition encode :: "elem \<Rightarrow> bytes" where
  "encode e = descriptor_byte (elem_type e) (elem_size e) # be_bytes (len_bytes (elem_size e)) (length (elem_data e)) @ elem_data e"

definition elem_ok :: "elem \<Rightarrow> bool" where
  "elem_ok e \<longleftrightarrow> elem_type e < 32 \<and> elem_size e < 8 \<and>
     (if elem_size e \<le> 4 then length (elem_data e) = (if elem_type e = DE_NIL then 0 else 2 ^ elem_size e)
      else length (elem_data e) < 256 ^ len_bytes (elem_size e)) \<and> length (encode e) < 2 ^ 31"

definition stores :: "memory \<Rightarrow> nat \<Rightarrow> bytes \<Rightarrow> bool" where
  "stores m p bs \<longleftrightarrow> (\<forall>i<length bs. m (p + i) = bs ! i)"

lemma stores_append: "stores m p (xs @ ys) \<longleftrightarrow> stores m p xs \<and> stores m (p + length xs) ys"
proof
  assume s: "stores m p (xs @ ys)"
  then have "m (p + length xs + i) = ys ! i" if "i < length ys" for i
    using that unfolding stores_def by (metis add.assoc length_append nat_add_left_cancel_less nth_append_length_plus)
  moreover have "m (p + i) = xs ! i" if "i < length xs" for i
    using s that by (auto simp: stores_def nth_append)
  ultimately show "stores m p xs \<and> stores m (p + length xs) ys" by (simp add: stores_def)
next
  assume s: "stores m p xs \<and> stores m (p + length xs) ys"
  show "stores m p (xs @ ys)"
    unfolding stores_def
  proof (intro allI impI)
    fix i
    assume "i < length (xs @ ys)"
    with s show "m (p + i) = (xs @ ys) ! i"
      by (cases "i < length xs") (auto simp: stores_def nth_append dest: spec [of _ "i - length xs"])
  qed
qed

lemma stores_Cons: "stores m p (x # xs) \<longleftrightarrow> m p = x \<and> stores m (Suc p) xs"
  using stores_append [of m p "[x]" xs] by (simp add: stores_def)

lemma stores_Nil [simp]: "stores m p []"
  by (simp add: stores_def)

lemma length_be_bytes [simp]: "length (be_bytes k n) = k"
  by (simp add: be_bytes_def)

lemma length_elem: "length (encode e) = 1 + len_bytes (elem_size e) + length (elem_data e)"
  by (simp add: encode_def)

text \<open>The descriptor byte holds the type and the size code.\<close>

lemma descriptor_byte_table:
  "list_all (\<lambda>ty. list_all (\<lambda>sz. descriptor_byte ty sz AND 7 = of_nat sz \<and> drop_bit 3 (descriptor_byte ty sz) = of_nat ty)
     [0..<8]) [0..<32]"
  by code_simp

lemma descriptor_byte_parts:
  assumes "ty < 32" "sz < 8"
  shows "unat (descriptor_byte ty sz AND 7) = sz" "unat (drop_bit 3 (descriptor_byte ty sz)) = ty"
proof -
  have "descriptor_byte ty sz AND 7 = of_nat sz" "drop_bit 3 (descriptor_byte ty sz) = of_nat ty"
    using descriptor_byte_table assms by (auto simp: list_all_iff)
  then show "unat (descriptor_byte ty sz AND 7) = sz" "unat (drop_bit 3 (descriptor_byte ty sz)) = ty"
    using assms by (simp_all add: unat_of_nat)
qed

section \<open>Lengths\<close>

lemma split_u16: "to_u16 (to_u8 v) OR push_bit 8 (to_u16 (to_u8 (drop_bit 8 v))) = (v :: u16)"
  by (rule bit_word_eqI) (auto simp: bit_simps bit_to_word)

lemma split_u32:
  "to_u32 (to_u8 v) OR push_bit 8 (to_u32 (to_u8 (drop_bit 8 v))) OR push_bit 16 (to_u32 (to_u8 (drop_bit 16 v))) OR
   push_bit 24 (to_u32 (to_u8 (drop_bit 24 v))) = (v :: u32)"
proof (rule bit_word_eqI)
  fix n
  assume "n < LENGTH(32)"
  then consider "n < 8" | "8 \<le> n" "n < 16" | "16 \<le> n" "n < 24" | "24 \<le> n" "n < 32" by fastforce
  then show "bit (to_u32 (to_u8 v) OR push_bit 8 (to_u32 (to_u8 (drop_bit 8 v))) OR
      push_bit 16 (to_u32 (to_u8 (drop_bit 16 v))) OR push_bit 24 (to_u32 (to_u8 (drop_bit 24 v)))) n = bit v n"
    by cases (auto simp: bit_simps bit_to_word)
qed

lemma to_u8_of_nat: "n < 2 ^ LENGTH('a) \<Longrightarrow> to_u8 (drop_bit k (of_nat n :: 'a::len word)) = of_nat (n div 2 ^ k)"
  unfolding word_unat_eq_iff to_u8_def unsigned_ucast_eq unat_drop_bit_eq
  by (simp add: unat_of_nat drop_bit_eq_div take_bit_eq_mod)

lemma read_length_16:
  assumes "m p = of_nat (n div 256)" "m (p + 1) = of_nat n" "n < 65536"
  shows "big_endian_read_16 m p = of_nat n"
proof -
  have "to_u8 (drop_bit 8 (of_nat n :: u16)) = m p" "to_u8 (of_nat n :: u16) = m (p + 1)"
    using to_u8_of_nat [of n 8, where 'a = 16] to_u8_of_nat [of n 0, where 'a = 16] assms by simp_all
  then have "to_u16 (m (p + 1)) OR push_bit 8 (to_u16 (m p)) = (of_nat n :: u16)"
    using split_u16 [of "of_nat n"] by simp
  then have "big_endian_read_16 m p = to_u32 (of_nat n :: u16)" by (simp add: big_endian_read_16_def)
  also have "\<dots> = of_nat n" using assms(3) by (simp add: word_unat_eq_iff unat_widen unat_of_nat)
  finally show ?thesis .
qed

lemma read_length_32:
  assumes "m p = of_nat (n div 2 ^ 24)" "m (p + 1) = of_nat (n div 2 ^ 16)" "m (p + 2) = of_nat (n div 2 ^ 8)"
    "m (p + 3) = of_nat n" "n < 2 ^ 32"
  shows "big_endian_read_32 m p = of_nat n"
proof -
  have "to_u8 (drop_bit k (of_nat n :: u32)) = of_nat (n div 2 ^ k)" for k
    using to_u8_of_nat [of n k, where 'a = 32] assms(5) by simp
  from this [of 0] this [of 8] this [of 16] this [of 24] show ?thesis
    using split_u32 [of "of_nat n"] assms unfolding big_endian_read_32_def by simp
qed

lemma elem_kind:
  assumes "stores m p (encode e)" "elem_ok e"
  shows "de_get_size_type m p = elem_size e" "de_get_element_type m p = elem_type e"
  using assms descriptor_byte_parts [of "elem_type e" "elem_size e"]
  by (simp_all add: encode_def stores_Cons elem_ok_def de_get_size_type_def de_get_element_type_def)

lemma elem_header:
  assumes "stores m p (encode e)" "elem_ok e"
  shows "de_get_header_size m p = of_nat (1 + len_bytes (elem_size e))"
proof (cases "elem_size e \<le> 4")
  case False
  then have "elem_size e = 5 \<or> elem_size e = 6 \<or> elem_size e = 7" using assms(2) by (auto simp: elem_ok_def)
  then show ?thesis
    using elem_kind(1) [OF assms] by (auto simp: de_get_header_size_def len_bytes_def de_consts)
qed (simp add: elem_kind(1) [OF assms] de_get_header_size_def len_bytes_def de_consts)

lemma be_bytes_simps:
  "be_bytes 0 n = []" "be_bytes (Suc 0) n = [of_nat n]" "be_bytes 2 n = [of_nat (n div 256), of_nat n]"
  "be_bytes 4 n = [of_nat (n div 2 ^ 24), of_nat (n div 2 ^ 16), of_nat (n div 2 ^ 8), of_nat n]"
  by (simp_all add: be_bytes_def upt_conv_Cons)

lemma elem_data_size:
  assumes "stores m p (encode e)" "elem_ok e"
  shows "de_get_data_size m p = of_nat (length (elem_data e))"
proof -
  let ?n = "length (elem_data e)"
  note k = elem_kind [OF assms]
  have s: "stores m (Suc p) (be_bytes (len_bytes (elem_size e)) ?n)"
    using assms(1) by (simp add: encode_def stores_Cons stores_append)
  consider "elem_size e \<le> 4" | "elem_size e = 5" | "elem_size e = 6" | "elem_size e = 7"
    using assms(2) by (fastforce simp: elem_ok_def)
  then show ?thesis
  proof cases
    case 1
    with assms(2) show ?thesis by (simp add: de_get_data_size_def k de_consts elem_ok_def)
  next
    case 2
    with assms(2) have n: "?n < 256" by (simp add: elem_ok_def len_bytes_def)
    have "m (Suc p) = of_nat ?n" using s 2 by (simp add: len_bytes_def be_bytes_simps stores_Cons)
    then have "to_u32 (m (Suc p)) = of_nat ?n" using n by (simp add: word_unat_eq_iff unat_widen unat_of_nat)
    with 2 show ?thesis by (simp add: de_get_data_size_def k de_consts)
  next
    case 3
    with assms(2) have n: "?n < 65536" by (simp add: elem_ok_def len_bytes_def)
    have "big_endian_read_16 m (Suc p) = of_nat ?n"
      by (rule read_length_16) (use s 3 n in \<open>simp_all add: len_bytes_def be_bytes_simps stores_Cons\<close>)
    with 3 show ?thesis by (simp add: de_get_data_size_def k de_consts)
  next
    case 4
    with assms(2) have n: "?n < 2 ^ 32" by (simp add: elem_ok_def len_bytes_def)
    have "big_endian_read_32 m (Suc p) = of_nat ?n"
    proof (rule read_length_32)
      have "m (Suc p + i) = be_bytes 4 ?n ! i" if "i < 4" for i
        using s that 4 by (simp add: stores_def len_bytes_def)
      from this [of 0] this [of 1] this [of 2] this [of 3]
      show "m (Suc p) = of_nat (?n div 2 ^ 24)" "m (Suc p + 1) = of_nat (?n div 2 ^ 16)"
        "m (Suc p + 2) = of_nat (?n div 2 ^ 8)" "m (Suc p + 3) = of_nat ?n"
        by (simp_all add: be_bytes_simps)
    qed (rule n)
    with 4 show ?thesis by (simp add: de_get_data_size_def k de_consts)
  qed
qed

lemma elem_len:
  assumes "stores m p (encode e)" "elem_ok e"
  shows "de_get_len m p = of_nat (length (encode e))"
  by (simp add: de_get_len_def elem_header [OF assms] elem_data_size [OF assms] length_elem)

lemmas elem_read = elem_kind elem_header elem_data_size elem_len

section \<open>Walks\<close>

text \<open>What a walk over the elements \<open>es\<close> stored one after the other from address \<open>a\<close> does.\<close>

fun walk :: "(nat \<Rightarrow> nat \<Rightarrow> nat \<Rightarrow> 's \<Rightarrow> (bool \<times> 's) option) \<Rightarrow> nat \<Rightarrow> elem list \<Rightarrow> 's \<Rightarrow> 's option" where
  "walk h a [] s = Some s"
| "walk h a (e # es) s =
     Option.bind (h a (elem_type e) (elem_size e) s)
       (\<lambda>r. if fst r then Some (snd r) else walk h (a + length (encode e)) es (snd r))"

definition encode_all :: "elem list \<Rightarrow> bytes" where
  "encode_all es = concat (map encode es)"

lemma encode_all_simps [simp]: "encode_all [] = []" "encode_all (e # es) = encode e @ encode_all es"
  by (simp_all add: encode_all_def)

text \<open>A sequence with the given elements.\<close>

definition sequence_of :: "elem \<Rightarrow> elem list \<Rightarrow> bool" where
  "sequence_of d es \<longleftrightarrow> elem_ok d \<and> elem_type d = DE_DES \<and> elem_data d = encode_all es \<and> list_all elem_ok es"

lemma small_positions:
  assumes "k < 2 ^ 31"
  shows "sint (of_nat k :: u32) = int k" "at p (of_nat k) = p + k"
proof -
  have "sint (of_nat k :: u32) = signed_take_bit 31 (int k)"
    using signed_of_nat [where ?'a = int and ?'b = 32, of k] by simp
  then show "sint (of_nat k :: u32) = int k" using assms by (simp add: signed_take_bit_int_eq_self)
  then show "at p (of_nat k) = p + k" by (simp add: at_def nat_add_distrib)
qed

lemma encode_not_empty [simp]: "0 < length (encode e)" "encode e \<noteq> []"
  by (simp_all add: encode_def)

lemma traverse_walk:
  assumes "stores m (p + k) (encode_all es)" "list_all elem_ok es" "k + length (encode_all es) = L" "L < 2 ^ 31"
  shows "traverse_loop h m p (of_nat L) (of_nat k) s = walk h (p + k) es s"
  using assms
proof (induction es arbitrary: k s)
  case Nil
  then show ?case by (subst traverse_loop.simps) (simp add: small_positions)
next
  case (Cons e es)
  let ?n = "length (encode e)"
  have st: "stores m (p + k) (encode e)" "stores m (p + (k + ?n)) (encode_all es)"
    using Cons.prems(1) by (simp_all add: stores_append add.assoc)
  have e: "elem_ok e" "list_all elem_ok es" using Cons.prems(2) by simp_all
  have l: "k < L" "k + ?n + length (encode_all es) = L"
    using Cons.prems(3) encode_not_empty(1) [of e] by auto
  have a: "at p (of_nat k) = p + k" "sint (of_nat k :: u32) < sint (of_nat L :: u32)"
    using l Cons.prems(4) by (simp_all add: small_positions)
  have next_pos: "of_nat k + of_nat ?n = (of_nat (k + ?n) :: u32)" by simp
  show ?case
    apply (subst traverse_loop.simps)
    apply (simp only: a elem_read [OF st(1) e(1)] if_True next_pos)
    apply (simp only: Cons.IH [OF st(2) e(2) l(2) Cons.prems(4)] walk.simps add.assoc)
    done
qed

theorem traverse_sequence_walk:
  assumes "stores m p (encode d)" "sequence_of d es"
  shows "de_traverse_sequence h m p s = walk h (p + (1 + len_bytes (elem_size d))) es s"
proof -
  let ?k = "1 + len_bytes (elem_size d)"
  have d: "elem_ok d" "elem_type d = DE_DES" "elem_data d = encode_all es" "list_all elem_ok es"
    using assms(2) by (simp_all add: sequence_of_def)
  have "encode d = (descriptor_byte (elem_type d) (elem_size d) # be_bytes (len_bytes (elem_size d)) (length (elem_data d))) @
      encode_all es"
    by (simp add: encode_def d(3))
  then have st: "stores m (p + ?k) (encode_all es)"
    using assms(1) stores_append [of m p "descriptor_byte (elem_type d) (elem_size d) # be_bytes (len_bytes (elem_size d)) (length (elem_data d))"]
    by simp
  have l: "?k + length (encode_all es) = length (encode d)" by (simp add: length_elem d(3))
  have b: "length (encode d) < 2 ^ 31" using d(1) by (simp add: elem_ok_def)
  from traverse_walk [OF st d(4) l b, of h s] show ?thesis
    by (simp only: de_traverse_sequence_def elem_read [OF assms(1) d(1)] d(2) simp_thms if_False)
qed

text \<open>A position whose element has length 0 is never left by a handler that goes on.\<close>

lemma traverse_stuck:
  assumes "de_get_len m (at p pos) = 0" "sint pos < sint end_pos"
    and "\<And>s. \<exists>s'. h (at p pos) (de_get_element_type m (at p pos)) (de_get_size_type m (at p pos)) s = Some (False, s')"
  shows "traverse_loop h m p end_pos pos s = None"
proof -
  have "\<not> (h = h \<and> m = m \<and> p = p \<and> end_pos = end_pos \<and> pos = pos)" if "traverse_loop h m p end_pos pos s = Some y" for y
  proof (rule traverse_loop.raw_induct [where P = "\<lambda>h' m' p' e' q s y. \<not> (h' = h \<and> m' = m \<and> p' = p \<and> e' = end_pos \<and> q = pos)",
        OF _ that])
    fix loop h' m' p' e' q s y
    assume ih: "\<And>h' m' p' e' q s y. loop h' m' p' e' q s = Some y \<Longrightarrow>
        \<not> (h' = h \<and> m' = m \<and> p' = p \<and> e' = end_pos \<and> q = pos)"
      and body: "(if sint q < sint e' then
          Option.bind (h' (at p' q) (de_get_element_type m' (at p' q)) (de_get_size_type m' (at p' q)) s)
            (\<lambda>r. if fst r then Some (snd r) else loop h' m' p' e' (q + de_get_len m' (at p' q)) (snd r))
        else Some s) = Some y"
    show "\<not> (h' = h \<and> m' = m \<and> p' = p \<and> e' = end_pos \<and> q = pos)"
    proof
      assume e: "h' = h \<and> m' = m \<and> p' = p \<and> e' = end_pos \<and> q = pos"
      obtain s' where "h (at p pos) (de_get_element_type m (at p pos)) (de_get_size_type m (at p pos)) s = Some (False, s')"
        using assms(3) by blast
      with body e assms(1,2) have "loop h m p end_pos pos s' = Some y" by simp
      with ih show False by blast
    qed
  qed
  then show ?thesis by (cases "traverse_loop h m p end_pos pos s") auto
qed

section \<open>Attribute lists\<close>

text \<open>An attribute is its number and its value; on the wire the number is a data element of its own.\<close>

definition id_elem :: "u16 \<Rightarrow> elem" where
  "id_elem i = Elem DE_UINT DE_SIZE_16 [to_u8 (drop_bit 8 i), to_u8 i]"

lemma id_buffer_encode: "id_buffer i = encode (id_elem i)"
  by (simp add: id_buffer_def id_elem_def encode_def len_bytes_def be_bytes_def de_consts Let_def big_endian_store_16_def
      de_store_descriptor_def upt_conv_Cons)

lemma id_elem_ok: "elem_ok (id_elem i)"
  by (simp add: elem_ok_def id_elem_def encode_def de_consts len_bytes_def)

lemma length_id_buffer [simp]: "length (id_buffer i) = 3"
  by (simp add: id_buffer_encode length_elem id_elem_def len_bytes_def de_consts)

lemma to_u16_to_u32 [simp]: "to_u16 (to_u32 i) = (i :: u16)"
  by (rule bit_word_eqI) (auto simp: bit_to_word)

lemma id_read:
  assumes "stores m a (id_buffer i)"
  shows "de_get_element_type m a = DE_UINT" "de_get_size_type m a = DE_SIZE_16"
    "to_u16 (big_endian_read_16 m (a + 1)) = i"
proof -
  show "de_get_element_type m a = DE_UINT" "de_get_size_type m a = DE_SIZE_16"
    using elem_kind [OF assms [unfolded id_buffer_encode] id_elem_ok] by (simp_all add: id_elem_def)
  have "m (a + 1) = to_u8 (drop_bit 8 i)" "m (a + 1 + 1) = to_u8 i"
    using assms by (simp_all add: id_buffer_encode id_elem_def encode_def len_bytes_def be_bytes_def de_consts stores_Cons)
  then show "to_u16 (big_endian_read_16 m (a + 1)) = i"
    using split_u16 [of i] by (simp add: big_endian_read_16_def)
qed

fun encode_attributes :: "(u16 \<times> elem) list \<Rightarrow> bytes" where
  "encode_attributes [] = []"
| "encode_attributes ((i, v) # ats) = id_buffer i @ encode v @ encode_attributes ats"

definition record_of :: "elem \<Rightarrow> (u16 \<times> elem) list \<Rightarrow> bool" where
  "record_of d ats \<longleftrightarrow> elem_ok d \<and> elem_type d = DE_DES \<and> elem_data d = encode_attributes ats \<and> list_all (\<lambda>iv. elem_ok (snd iv)) ats"

fun attribute_walk ::
  "(u16 \<Rightarrow> nat \<Rightarrow> nat \<Rightarrow> nat \<Rightarrow> 's \<Rightarrow> (bool \<times> 's) option) \<Rightarrow> nat \<Rightarrow> (u16 \<times> elem) list \<Rightarrow> 's \<Rightarrow> 's option" where
  "attribute_walk h a [] s = Some s"
| "attribute_walk h a ((i, v) # ats) s =
     Option.bind (h i (a + 3) (elem_type v) (elem_size v) s)
       (\<lambda>r. if fst r then Some (snd r) else attribute_walk h (a + 3 + length (encode v)) ats (snd r))"

lemma attribute_loop_walk:
  assumes "stores m (p + k) (encode_attributes ats)" "list_all (\<lambda>iv. elem_ok (snd iv)) ats"
    "k + length (encode_attributes ats) = L" "L < 2 ^ 31"
  shows "attribute_loop h m p (of_nat L) (of_nat k) s = attribute_walk h (p + k) ats s"
  using assms
proof (induction ats arbitrary: k s)
  case Nil
  then show ?case by (subst attribute_loop.simps) (simp add: small_positions)
next
  case (Cons iv ats)
  obtain i v where iv: "iv = (i, v)" by fastforce
  let ?n = "length (encode v)"
  have st: "stores m (p + k) (id_buffer i)" "stores m (p + (k + 3)) (encode v)"
    "stores m (p + (k + 3 + ?n)) (encode_attributes ats)"
    using Cons.prems(1) by (simp_all add: iv stores_append add.assoc)
  have e: "elem_ok v" "list_all (\<lambda>iv. elem_ok (snd iv)) ats" using Cons.prems(2) by (simp_all add: iv)
  have l: "k < L" "k + 3 < L" "k + 3 + ?n + length (encode_attributes ats) = L"
    using Cons.prems(3) by (simp_all add: iv length_elem)
  have b: "k < 2 ^ 31" "k + 1 < 2 ^ 31" "k + 3 < 2 ^ 31" using l(2) Cons.prems(4) by simp_all
  have a: "at p (of_nat k) = p + k" "sint (of_nat k :: u32) < sint (of_nat L :: u32)" "at p (of_nat (k + 1)) = p + k + 1"
    "at p (of_nat (k + 3)) = p + (k + 3)" "sint (of_nat (k + 3) :: u32) < sint (of_nat L :: u32)"
    using l(1,2) by (simp_all only: small_positions [OF b(1)] small_positions [OF b(2)] small_positions [OF b(3)]
        small_positions [OF Cons.prems(4)] add.assoc of_nat_less_iff)
  have pos: "of_nat k + 1 = (of_nat (k + 1) :: u32)" "of_nat k + 3 = (of_nat (k + 3) :: u32)"
    "of_nat (k + 3) + of_nat ?n = (of_nat (k + 3 + ?n) :: u32)" by simp_all
  show ?case
    apply (subst attribute_loop.simps)
    apply (simp only: pos a id_read [OF st(1)] elem_read [OF st(2) e(1)] if_True if_False simp_thms)
    apply (simp only: Cons.IH [OF st(3) e(2) l(3) Cons.prems(4), unfolded add.assoc] iv attribute_walk.simps add.assoc)
    done
qed

lemma record_walk:
  assumes "stores m p (encode d)" "record_of d ats"
  shows "sdp_attribute_list_traverse_sequence h m p s = attribute_walk h (p + (1 + len_bytes (elem_size d))) ats s"
proof -
  let ?k = "1 + len_bytes (elem_size d)"
  have d: "elem_ok d" "elem_type d = DE_DES" "elem_data d = encode_attributes ats" "list_all (\<lambda>iv. elem_ok (snd iv)) ats"
    using assms(2) by (simp_all add: record_of_def)
  have "encode d = (descriptor_byte (elem_type d) (elem_size d) # be_bytes (len_bytes (elem_size d)) (length (elem_data d))) @
      encode_attributes ats"
    by (simp add: encode_def d(3))
  then have st: "stores m (p + ?k) (encode_attributes ats)"
    using assms(1) stores_append [of m p "descriptor_byte (elem_type d) (elem_size d) # be_bytes (len_bytes (elem_size d)) (length (elem_data d))"]
    by simp
  have l: "?k + length (encode_attributes ats) = length (encode d)" by (simp add: length_elem d(3))
  have b: "length (encode d) < 2 ^ 31" using d(1) by (simp add: elem_ok_def)
  from attribute_loop_walk [OF st d(4) l b, of h s] show ?thesis
    by (simp only: sdp_attribute_list_traverse_sequence_def elem_read [OF assms(1) d(1)] d(2) simp_thms if_False)
qed

section \<open>Fragments\<close>

text \<open>What a step of the filter does with a chunk of the answer, in natural numbers.\<close>

definition chunk_step :: "bytes \<Rightarrow> filter_context \<Rightarrow> bool \<times> filter_context \<Rightarrow> bool" where
  "chunk_step x c r \<longleftrightarrow>
     fst r = (length x - unat (fc_startOffset c) \<le> unat (fc_maxBytes c)) \<and>
     fc_buffer (snd r) = fc_buffer c @ take (unat (fc_maxBytes c)) (drop (unat (fc_startOffset c)) x) \<and>
     unat (fc_startOffset (snd r)) = unat (fc_startOffset c) - length x \<and>
     unat (fc_maxBytes (snd r)) = unat (fc_maxBytes c) - (length x - unat (fc_startOffset c)) \<and>
     fc_usedBytes (snd r) = fc_usedBytes c + of_nat (min (unat (fc_maxBytes c)) (length x - unat (fc_startOffset c))) \<and>
     fc_complete (snd r) = fc_complete c"

lemma append_range_step:
  assumes "unat (fc_startOffset c) \<le> length x" "length x < 2 ^ 16" "\<And>i. i < length x \<Longrightarrow> src i = x ! i"
  shows "chunk_step x c (spd_append_range (of_nat (length x)) src c)"
proof -
  let ?so = "unat (fc_startOffset c)" and ?mx = "unat (fc_maxBytes c)"
  have l: "unat (of_nat (length x) :: u16) = length x" using assms(2) by (simp add: unat_of_nat)
  have r: "unat (of_nat (length x) - fc_startOffset c) = length x - ?so"
    using assms(1) l by (simp add: unat_sub word_le_nat_alt)
  have ok: "(\<not> fc_maxBytes c < of_nat (length x) - fc_startOffset c) = (length x - ?so \<le> ?mx)"
    using r by (simp add: word_less_nat_alt not_less)
  have copy: "map (\<lambda>i. src (?so + i)) [0..<n] = take n (drop ?so x)" if "n \<le> length x - ?so" for n
    using that assms(1,3) by (intro nth_equalityI) simp_all
  have u: "of_nat (length x) - fc_startOffset c = (of_nat (length x - ?so) :: u16)"
    using assms(1) by (simp add: of_nat_diff)
  have lx: "unat (of_nat (length x - ?so) :: u16) = length x - ?so" using r u by simp
  show ?thesis
  proof (cases "length x - ?so \<le> ?mx")
    case True
    then have m: "unat (fc_maxBytes c - of_nat (length x - ?so)) = ?mx - (length x - ?so)"
      using lx by (simp add: unat_sub word_le_nat_alt del: of_nat_diff)
    have n: "\<not> fc_maxBytes c < of_nat (length x - ?so)" using ok True unfolding u by blast
    have tk: "take (length x - ?so) (drop ?so x) = take ?mx (drop ?so x)" using True by simp
    have e: "spd_append_range (of_nat (length x)) src c = (True, c\<lparr> fc_buffer := fc_buffer c @ take ?mx (drop ?so x),
        fc_usedBytes := fc_usedBytes c + of_nat (length x - ?so), fc_maxBytes := fc_maxBytes c - of_nat (length x - ?so),
        fc_startOffset := 0 \<rparr>)"
      by (simp only: spd_append_range_def Let_def u n not_False_eq_True if_True lx copy [OF order.refl] tk)
    from True m assms(1) show ?thesis
      by (simp only: e chunk_step_def fst_conv snd_conv min_absorb2) simp
  next
    case False
    then have n: "fc_maxBytes c < of_nat (length x - ?so)" using ok unfolding u by blast
    have mx: "?mx \<le> length x - ?so" using False by simp
    have e: "spd_append_range (of_nat (length x)) src c = (False, c\<lparr> fc_buffer := fc_buffer c @ take ?mx (drop ?so x),
        fc_usedBytes := fc_usedBytes c + fc_maxBytes c, fc_maxBytes := 0, fc_startOffset := 0 \<rparr>)"
      by (simp only: spd_append_range_def Let_def u n not_True_eq_False if_False copy [OF mx] diff_self)
    from False assms(1) show ?thesis
      by (simp only: e chunk_step_def fst_conv snd_conv) simp
  qed
qed

text \<open>A chunk before the start offset is skipped, which is the same step.\<close>

lemma skip_step:
  assumes "length x \<le> unat (fc_startOffset c)" "length x < 2 ^ 16"
  shows "chunk_step x c (True, c\<lparr> fc_startOffset := fc_startOffset c - of_nat (length x) \<rparr>)"
proof -
  have "unat (of_nat (length x) :: u16) = length x" using assms(2) by (simp add: unat_of_nat)
  then have "unat (fc_startOffset c - of_nat (length x)) = unat (fc_startOffset c) - length x"
    using assms(1) by (simp add: unat_sub word_le_nat_alt)
  with assms(1) show ?thesis by (simp add: chunk_step_def)
qed

lemma filter_id_step: "chunk_step (id_buffer i) c (filter_id i c)"
proof (cases "fc_startOffset c \<ge> 3")
  case True
  then have "3 \<le> unat (fc_startOffset c)" by (simp add: word_le_nat_alt)
  with skip_step [of "id_buffer i" c] True show ?thesis by (simp add: filter_id_def)
next
  case False
  then have "unat (fc_startOffset c) \<le> 3" by (simp add: word_le_nat_alt)
  with append_range_step [of c "id_buffer i" "\<lambda>j. id_buffer i ! j"] False show ?thesis by (simp add: filter_id_def)
qed

lemma filter_value_step:
  assumes "stores m a (encode v)" "elem_ok v" "length (encode v) < 2 ^ 16"
  shows "chunk_step (encode v) c (filter_value m a c)"
proof -
  let ?n = "length (encode v)" and ?so = "unat (fc_startOffset c)"
  have len: "de_get_len m a = of_nat ?n" by (rule elem_len [OF assms(1,2)])
  have so: "?so < 65536" using unsigned_less [of "fc_startOffset c", where ?'a = nat] by simp
  then have w: "to_u32 (fc_startOffset c) = of_nat ?so"
    unfolding word_unat_eq_iff unat_widen unat_of_nat by simp
  have "sint (of_nat ?so :: u32) = int ?so" "sint (of_nat ?n :: u32) = int ?n"
    by (rule small_positions(1); use so assms(3) in simp)+
  then have cmp: "(sint (to_u32 (fc_startOffset c)) \<ge> sint (of_nat ?n :: u32)) = (?n \<le> ?so)"
    unfolding w by (simp only: of_nat_le_iff)
  have n: "to_u16 (of_nat ?n :: u32) = of_nat ?n"
    using assms(3) by (simp add: word_unat_eq_iff to_u16_def unsigned_ucast_eq unat_of_nat take_bit_eq_mod)
  have src: "m (a + i) = encode v ! i" if "i < ?n" for i using assms(1) that by (simp add: stores_def)
  show ?thesis
  proof (cases "?n \<le> ?so")
    case True
    with skip_step [of "encode v" c] assms(3) show ?thesis
      by (simp only: filter_value_def len Let_def cmp n if_True)
  next
    case False
    then have "?so \<le> ?n" by simp
    from append_range_step [of c "encode v" "\<lambda>i. m (a + i)", OF this assms(3) src] False show ?thesis
      by (simp only: filter_value_def len Let_def cmp n if_False)
  qed
qed

text \<open>What the whole walk does: the wanted attributes as one byte string, cut to the fragment.\<close>

fun answer :: "(u16 \<Rightarrow> bool) \<Rightarrow> (u16 \<times> elem) list \<Rightarrow> bytes" where
  "answer W [] = []"
| "answer W ((i, v) # ats) = (if W i then id_buffer i @ encode v else []) @ answer W ats"

definition fragment_step :: "bytes \<Rightarrow> filter_context \<Rightarrow> filter_context \<Rightarrow> bool" where
  "fragment_step x c c' \<longleftrightarrow>
     fc_buffer c' = fc_buffer c @ take (unat (fc_maxBytes c)) (drop (unat (fc_startOffset c)) x) \<and>
     fc_usedBytes c' = fc_usedBytes c + of_nat (min (unat (fc_maxBytes c)) (length x - unat (fc_startOffset c))) \<and>
     fc_complete c' = (fc_complete c \<and> length x - unat (fc_startOffset c) \<le> unat (fc_maxBytes c))"

lemma fragment_min:
  fixes a b s mx :: nat
  assumes "a - s \<le> mx"
  shows "min mx (a + b - s) = (a - s) + min (mx - (a - s)) (b - (s - a))"
    and "(b - (s - a) \<le> mx - (a - s)) = (a + b - s \<le> mx)"
  using assms by (cases "s \<le> a"; simp add: min_def; linarith)+

lemma fragment_append:
  assumes "chunk_step x c r" "fst r" "fragment_step y (snd r) c'"
  shows "fragment_step (x @ y) c c'"
proof -
  let ?so = "unat (fc_startOffset c)" and ?mx = "unat (fc_maxBytes c)" and ?n = "length x"
  have fit: "?n - ?so \<le> ?mx" using assms(1,2) by (simp add: chunk_step_def)
  have c: "fc_buffer (snd r) = fc_buffer c @ drop ?so x" "unat (fc_startOffset (snd r)) = ?so - ?n"
    "unat (fc_maxBytes (snd r)) = ?mx - (?n - ?so)" "fc_usedBytes (snd r) = fc_usedBytes c + of_nat (?n - ?so)"
    "fc_complete (snd r) = fc_complete c"
    using assms(1) fit by (simp_all add: chunk_step_def min_absorb2)
  have t: "take ?mx (drop ?so (x @ y)) = drop ?so x @ take (?mx - (?n - ?so)) (drop (?so - ?n) y)"
    using fit by simp
  show ?thesis
    using assms(3) unfolding fragment_step_def c t length_append fragment_min [OF fit]
    by (simp add: add.assoc)
qed

lemma fragment_cut:
  assumes "chunk_step x c r" "\<not> fst r"
  shows "fragment_step (x @ y) c ((snd r)\<lparr> fc_complete := False \<rparr>)"
  using assms by (auto simp: chunk_step_def fragment_step_def min_def)

lemma filter_one:
  "sdp_attribute_list_contains_id m ids i = Some False \<Longrightarrow> sdp_traversal_filter_attributes m ids i a ty sz c = Some (False, c)"
  "sdp_attribute_list_contains_id m ids i = Some True \<Longrightarrow> filter_id i c = (ok1, c1) \<Longrightarrow> \<not> ok1 \<Longrightarrow>
     sdp_traversal_filter_attributes m ids i a ty sz c = Some (True, c1\<lparr> fc_complete := False \<rparr>)"
  "sdp_attribute_list_contains_id m ids i = Some True \<Longrightarrow> filter_id i c = (ok1, c1) \<Longrightarrow> ok1 \<Longrightarrow>
     filter_value m a c1 = (ok2, c2) \<Longrightarrow> sdp_traversal_filter_attributes m ids i a ty sz c =
       Some (if ok2 then (False, c2) else (True, c2\<lparr> fc_complete := False \<rparr>))"
  by (simp_all add: sdp_traversal_filter_attributes_def)

lemma filter_walk:
  assumes "stores m a (encode_attributes ats)" "list_all (\<lambda>iv. elem_ok (snd iv)) ats"
    "\<forall>iv\<in>set ats. length (encode (snd iv)) < 2 ^ 16"
    "\<And>i. i \<in> fst ` set ats \<Longrightarrow> sdp_attribute_list_contains_id m ids i = Some (W i)"
  shows "\<exists>c'. attribute_walk (sdp_traversal_filter_attributes m ids) a ats c = Some c' \<and> fragment_step (answer W ats) c c'"
  using assms
proof (induction ats arbitrary: a c)
  case Nil
  then show ?case by (simp add: fragment_step_def)
next
  case (Cons iv ats)
  obtain i v where iv: "iv = (i, v)" by fastforce
  have st: "stores m (a + 3) (encode v)" "stores m (a + 3 + length (encode v)) (encode_attributes ats)"
    using Cons.prems(1) by (simp_all add: iv stores_append add.assoc)
  have v: "elem_ok v" "length (encode v) < 2 ^ 16" using Cons.prems(2,3) by (simp_all add: iv)
  have ih: "\<exists>c'. attribute_walk (sdp_traversal_filter_attributes m ids) (a + 3 + length (encode v)) ats c1 = Some c' \<and>
      fragment_step (answer W ats) c1 c'" for c1
    using Cons.IH [OF st(2)] Cons.prems(2-4) by simp
  have w: "sdp_attribute_list_contains_id m ids i = Some (W i)" using Cons.prems(4) by (simp add: iv)
  show ?case
  proof (cases "W i")
    case False
    with ih [of c] w show ?thesis by (simp add: iv filter_one(1))
  next
    case True
    note s1 = filter_id_step [of i c]
    obtain ok1 c1 where r1: "filter_id i c = (ok1, c1)" by fastforce
    obtain ok2 c2 where r2: "filter_value m (a + 3) c1 = (ok2, c2)" by fastforce
    have s2: "chunk_step (encode v) c1 (ok2, c2)" using filter_value_step [OF st(1) v, of c1] r2 by simp
    have s1: "chunk_step (id_buffer i) c (ok1, c1)" using filter_id_step [of i c] r1 by simp
    consider "\<not> ok1" | "ok1" "\<not> ok2" | "ok1" "ok2" by blast
    then show ?thesis
    proof cases
      case 1
      with fragment_cut [OF s1, of "encode v @ answer W ats"] filter_one(2) [of m ids i c ok1 c1] w True r1 show ?thesis
        by (simp add: iv)
    next
      case 2
      have "fragment_step (id_buffer i @ encode v @ answer W ats) c (c2\<lparr> fc_complete := False \<rparr>)"
        using fragment_append [OF s1, of "encode v @ answer W ats"] fragment_cut [OF s2, of "answer W ats"] 2 by simp
      with 2 w True r1 r2 filter_one(3) [of m ids i c ok1 c1 "a + 3" ok2 c2] show ?thesis by (simp add: iv)
    next
      case 3
      obtain c' where c': "attribute_walk (sdp_traversal_filter_attributes m ids) (a + 3 + length (encode v)) ats c2 = Some c'"
        "fragment_step (answer W ats) c2 c'" using ih by blast
      have "fragment_step (id_buffer i @ encode v @ answer W ats) c c'"
        using fragment_append [OF s1, of "encode v @ answer W ats"] fragment_append [OF s2, of "answer W ats"] c'(2) 3 by simp
      with 3 c'(1) w True r1 r2 filter_one(3) [of m ids i c ok1 c1 "a + 3" ok2 c2] show ?thesis by (simp add: iv)
    qed
  qed
qed

section \<open>The list of wanted attributes\<close>

text \<open>An element of the list names one attribute or a range of attributes.\<close>

definition selects :: "elem \<Rightarrow> u16 \<Rightarrow> bool" where
  "selects e i \<longleftrightarrow> elem_type e = DE_UINT \<and>
     (let word = (\<lambda>k. big_endian_read_16 (\<lambda>j. elem_data e ! j) k)
      in if elem_size e = DE_SIZE_16 then word 0 = to_u32 i
         else elem_size e = DE_SIZE_32 \<and> word 0 \<le> to_u32 i \<and> to_u32 i \<le> word 2)"

lemma read_payload:
  assumes "stores m a (encode e)" "len_bytes (elem_size e) = 0" "Suc k < length (elem_data e)"
  shows "big_endian_read_16 m (a + (1 + k)) = big_endian_read_16 (\<lambda>j. elem_data e ! j) k"
proof -
  have "m (a + 1 + j) = elem_data e ! j" if "j < length (elem_data e)" for j
    using assms(1,2) that by (simp add: encode_def be_bytes_simps stores_Cons) (simp add: stores_def)
  from this [of k] this [of "Suc k"] assms(3) show ?thesis by (simp add: big_endian_read_16_def)
qed

lemma search_step:
  assumes "stores m a (encode e)" "elem_ok e"
  shows "sdp_traversal_attributeID_search m i a (elem_type e) (elem_size e) found =
    Some (if selects e i then (True, True) else (False, found))"
proof -
  have "big_endian_read_16 m (a + 1) = big_endian_read_16 (\<lambda>j. elem_data e ! j) 0"
    if "elem_type e = DE_UINT" "elem_size e = DE_SIZE_16 \<or> elem_size e = DE_SIZE_32"
  proof -
    have "len_bytes (elem_size e) = 0" "Suc 0 < length (elem_data e)"
      using assms(2) that by (auto simp: elem_ok_def de_consts len_bytes_def)
    with read_payload [OF assms(1), of 0] show ?thesis by simp
  qed
  moreover have "big_endian_read_16 m (a + 3) = big_endian_read_16 (\<lambda>j. elem_data e ! j) 2"
    if "elem_type e = DE_UINT" "elem_size e = DE_SIZE_32"
  proof -
    have "len_bytes (elem_size e) = 0" "Suc 2 < length (elem_data e)" "a + (1 + 2) = a + 3"
      using assms(2) that by (simp_all add: elem_ok_def de_consts len_bytes_def)
    with read_payload [OF assms(1), of 2] show ?thesis by metis
  qed
  ultimately show ?thesis
    by (simp add: sdp_traversal_attributeID_search_def selects_def Let_def de_consts split: if_splits)
qed

lemma search_walk:
  assumes "stores m a (encode_all es)" "list_all elem_ok es"
  shows "walk (sdp_traversal_attributeID_search m i) a es found = Some (found \<or> (\<exists>e\<in>set es. selects e i))"
  using assms
proof (induction es arbitrary: a)
  case (Cons e es)
  have st: "stores m a (encode e)" "stores m (a + length (encode e)) (encode_all es)"
    using Cons.prems(1) by (simp_all add: stores_append)
  show ?case
    using search_step [OF st(1), of i found] Cons.IH [OF st(2)] Cons.prems(2) by simp
qed simp

lemma contains_id:
  assumes "stores m q (encode l)" "sequence_of l es"
  shows "sdp_attribute_list_contains_id m q i = Some (\<exists>e\<in>set es. selects e i)"
proof -
  have "encode l = (descriptor_byte (elem_type l) (elem_size l) # be_bytes (len_bytes (elem_size l)) (length (elem_data l))) @
      encode_all es"
    using assms(2) by (simp add: encode_def sequence_of_def)
  then have "stores m (q + (1 + len_bytes (elem_size l))) (encode_all es)"
    using assms(1)
      stores_append [of m q "descriptor_byte (elem_type l) (elem_size l) # be_bytes (len_bytes (elem_size l)) (length (elem_data l))"]
    by simp
  moreover have "list_all elem_ok es" using assms(2) by (simp add: sequence_of_def)
  ultimately show ?thesis
    unfolding sdp_attribute_list_contains_id_def traverse_sequence_walk [OF assms] by (simp add: search_walk)
qed

section \<open>The check of the list of wanted attributes\<close>

text \<open>
  The check calls a list invalid as soon as one of its elements is a number, which is what a list of attributes
  consists of; the server negates the result once more, so that it refuses the empty list and takes every list of
  numbers, whatever the order of the ends of a range.
\<close>

theorem attribute_check_inverted:
  assumes "stores m q (encode l)" "sequence_of l es" "\<forall>e\<in>set es. elem_type e = DE_UINT"
  shows "sdp_attribute_list_valid m q = Some (es = [])"
proof -
  have w: "walk (sdp_traversal_attribute_list_valie m) a es ok = Some (if es = [] then ok else False)" for a ok
    using assms(3) by (induction es arbitrary: a ok) (simp_all add: sdp_traversal_attribute_list_valie_def)
  show ?thesis unfolding sdp_attribute_list_valid_def traverse_sequence_walk [OF assms(1,2)] w by simp
qed

section \<open>Properties\<close>

lemma filter_sequence:
  assumes "stores m p (encode d)" "record_of d ats" "\<forall>iv\<in>set ats. length (encode (snd iv)) < 2 ^ 16"
    and "stores m q (encode l)" "sequence_of l es"
  shows "\<exists>c'. sdp_attribute_list_traverse_sequence (sdp_traversal_filter_attributes m q) m p c = Some c' \<and>
    fragment_step (answer (\<lambda>i. \<exists>e\<in>set es. selects e i) ats) c c'"
proof -
  have "encode d = (descriptor_byte (elem_type d) (elem_size d) # be_bytes (len_bytes (elem_size d)) (length (elem_data d))) @
      encode_attributes ats"
    using assms(2) by (simp add: encode_def record_of_def)
  then have "stores m (p + (1 + len_bytes (elem_size d))) (encode_attributes ats)"
    using assms(1)
      stores_append [of m p "descriptor_byte (elem_type d) (elem_size d) # be_bytes (len_bytes (elem_size d)) (length (elem_data d))"]
    by simp
  moreover have "list_all (\<lambda>iv. elem_ok (snd iv)) ats" using assms(2) by (simp add: record_of_def)
  ultimately show ?thesis
    unfolding record_walk [OF assms(1,2)]
    by (rule filter_walk) (use assms(3) contains_id [OF assms(4,5)] in simp_all)
qed

lemma answer_filter: "answer W ats = encode_attributes (filter (\<lambda>iv. W (fst iv)) ats)"
  by (induction ats) auto

text \<open>C37: On a stored record and a stored list of wanted attributes, the filter that answers a remote attribute
  request returns the fragment of the answer that starts at the start offset and has at most the given number of
  bytes, where the whole answer is the attributes the list selects, in the record's order, number and value each as
  a data element; it reports the fragment's length, and completeness exactly when the rest of the answer fits.  Each
  value is shorter than 2^16 bytes, the reach of the filter's 16 bit counters.\<close>

theorem sdp_answer_fragments:
  assumes "stores m p (encode d)" "record_of d ats" "\<forall>iv\<in>set ats. length (encode (snd iv)) < 2 ^ 16"
    and "stores m q (encode l)" "sequence_of l es"
    and "whole = encode_attributes (filter (\<lambda>iv. \<exists>e\<in>set es. selects e (fst iv)) ats)"
  shows "sdp_filter_attributes_in_attributeIDList m p q startOffset maxBytes =
    Some (length whole - unat startOffset \<le> unat maxBytes,
          of_nat (min (unat maxBytes) (length whole - unat startOffset)),
          take (unat maxBytes) (drop (unat startOffset) whole))"
proof -
  define c where "c = \<lparr> fc_buffer = [], fc_startOffset = startOffset, fc_maxBytes = maxBytes, fc_usedBytes = 0, fc_complete = True \<rparr>"
  obtain c' where "sdp_attribute_list_traverse_sequence (sdp_traversal_filter_attributes m q) m p c = Some c'"
    "fragment_step whole c c'"
    using filter_sequence [OF assms(1-5), of c] unfolding assms(6) answer_filter by blast
  then show ?thesis
    by (simp add: sdp_filter_attributes_in_attributeIDList_def fragment_step_def flip: c_def) (simp add: c_def)
qed

text \<open>A record of three attributes and a list that asks for a range holding the first two.\<close>

definition sample_record :: elem where
  "sample_record = Elem DE_DES DE_SIZE_VAR_8 (encode_attributes [(1, Elem DE_UINT DE_SIZE_8 [7]),
     (4, Elem DE_STRING DE_SIZE_VAR_8 [0x48, 0x69]), (9, Elem DE_UINT DE_SIZE_8 [3])])"

definition sample_list :: elem where
  "sample_list = Elem DE_DES DE_SIZE_VAR_8 (encode_all [Elem DE_UINT DE_SIZE_32 [0, 0, 0, 5]])"

definition sample_memory :: memory where
  "sample_memory = (\<lambda>a. (encode sample_record @ encode sample_list) ! a)"

lemma stores_list: "stores (\<lambda>a. (xs @ bs @ ys) ! a) (length xs) bs"
  by (simp add: stores_def nth_append)

lemma sample_lengths: "length (encode sample_record) = 19" "length (encode sample_list) = 7"
  by (simp_all add: sample_record_def sample_list_def length_elem de_consts len_bytes_def)

lemma sdp_answer_fragments_witness:
  "sdp_filter_attributes_in_attributeIDList sample_memory 0 19 3 6 = Some (False, 6, [8, 7, 9, 0, 4, 0x25])"
proof -
  let ?ats = "[(1, Elem DE_UINT DE_SIZE_8 [7]), (4, Elem DE_STRING DE_SIZE_VAR_8 [0x48, 0x69]), (9, Elem DE_UINT DE_SIZE_8 [3])]"
  let ?es = "[Elem DE_UINT DE_SIZE_32 [0, 0, 0, 5]]"
  have s: "stores sample_memory 0 (encode sample_record)" "stores sample_memory 19 (encode sample_list)"
    using stores_list [of "[]" "encode sample_record" "encode sample_list"]
      stores_list [of "encode sample_record" "encode sample_list" "[]"]
    by (simp_all add: sample_memory_def sample_lengths)
  have r: "record_of sample_record ?ats" "sequence_of sample_list ?es"
    using sample_lengths by (simp_all add: record_of_def sequence_of_def elem_ok_def sample_record_def sample_list_def
        de_consts len_bytes_def length_elem)
  have l: "\<forall>iv\<in>set ?ats. length (encode (snd iv)) < 2 ^ 16" by (simp add: length_elem de_consts len_bytes_def)
  have w: "encode_attributes (filter (\<lambda>iv. \<exists>e\<in>set ?es. selects e (fst iv)) ?ats) =
    [9, 0, 1, 8, 7, 9, 0, 4, 0x25, 2, 0x48, 0x69]" by code_simp
  show ?thesis
    using sdp_answer_fragments [OF s(1) r(1) l s(2) r(2) refl, of 3 6] unfolding w by simp
qed

text \<open>C40: A service search pattern that is a sequence (with a one byte length other than zero) whose first element is a
  UUID with a four byte length that wraps its 32 bit total to zero keeps the check of the pattern in place forever: the
  server calls it on the bytes of a remote request before it compares their announced length with the packet's.\<close>

theorem hostile_pattern_never_returns:
  assumes "stores m p [0x35, n, 0x1F, 0xFF, 0xFF, 0xFF, 0xFB]" "0 < n"
  shows "sdp_valid_service_search_pattern m p = None"
proof -
  have b: "m p = 0x35" "m (p + 1) = n" "m (p + 2) = 0x1F" "m (p + 3) = 0xFF" "m (p + 4) = 0xFF" "m (p + 5) = 0xFF" "m (p + 6) = 0xFB"
    using assms(1) by (simp_all add: stores_Cons eval_nat_numeral)
  have n: "de_get_len m p = 2 + to_u32 n" "de_get_header_size m p = 2" "de_get_element_type m p = DE_DES"
    using b(1,2) by (simp_all add: de_get_len_def de_get_header_size_def de_get_data_size_def de_get_size_type_def
        de_get_element_type_def de_consts)
  have a: "at p 2 = p + 2" by (simp add: at_def nat_add_distrib)
  have z: "de_get_len m (p + 2) = 0"
  proof -
    have "p + 2 + 1 = p + 3" "p + 3 + 1 = p + 4" "p + 3 + 2 = p + 5" "p + 3 + 3 = p + 6" by simp_all
    with b have "big_endian_read_32 m (p + 2 + 1) = 0xFFFFFFFB"
      unfolding big_endian_read_32_def by (simp only:) code_simp
    with b(3) show ?thesis
      by (simp add: de_get_len_def de_get_header_size_def de_get_data_size_def de_get_size_type_def de_consts)
  qed
  have u: "unat n < 256" "0 < unat n" using unsigned_less [of n, where ?'a = nat] assms(2) by (simp_all add: word_less_nat_alt)
  have "to_u32 n = of_nat (unat n)" using u unfolding word_unat_eq_iff unat_widen unat_of_nat by simp
  then have "2 + to_u32 n = of_nat (2 + unat n)" by simp
  moreover have "sint (of_nat (2 + unat n) :: u32) = int (2 + unat n)" "sint (of_nat 2 :: u32) = int 2"
    using u by (intro small_positions; simp)+
  ultimately have more: "sint (2::u32) < sint (2 + to_u32 n)"
    using u(2) by (simp only: of_nat_less_iff) (simp only: of_nat_numeral of_nat_less_iff)
  show ?thesis
    unfolding sdp_valid_service_search_pattern_def de_traverse_sequence_def n
    by (simp add: traverse_stuck [of m p 2, unfolded a, OF z more] sdp_traversal_valid_uuid_def)
qed

lemma hostile_pattern_never_returns_witness:
  "sdp_valid_service_search_pattern (\<lambda>a. [0x35, 5, 0x1F, 0xFF, 0xFF, 0xFF, 0xFB] ! a) 0 = None"
proof (rule hostile_pattern_never_returns)
  show "stores (\<lambda>a. [0x35, 5, 0x1F, 0xFF, 0xFF, 0xFF, 0xFB] ! a) 0 [0x35, 5, 0x1F, 0xFF, 0xFF, 0xFF, 0xFB]"
    by (simp add: stores_def)
qed simp

end
