(* ===== verification/Uni_Property.thy ===== *)
theory Uni_Property
  imports Settings
begin

text \<open>
  Bluepad32's properties: \<^verbatim>\<open>src/components/bluepad32/uni_property.c\<close>, \<^verbatim>\<open>include/uni_property.h\<close> and the storage in
  \<^verbatim>\<open>arch/uni_property_esp32.c\<close>.  The flash store of the vendor's SDK is a parameter, as in theory \<^verbatim>\<open>Settings\<close>, here
  with its entry points for strings and for numbers of 32 bits.  A property's value is a union of a number, whose
  narrower members are its low bytes, and a string pointer; \<^const>\<open>None\<close> is the null pointer.
\<close>

record uni_property_value =
  pv_u32 :: u32
  pv_str :: "string option"

definition pv_u8 :: "uni_property_value \<Rightarrow> u8" where
  "pv_u8 v = to_u8 (pv_u32 v)"

text \<open>Writing the member of one byte leaves the other bytes as they are.\<close>

definition pv_set_u8 :: "u8 \<Rightarrow> uni_property_value \<Rightarrow> uni_property_value" where
  "pv_set_u8 b v = v\<lparr> pv_u32 := (pv_u32 v AND NOT 0xFF) OR to_u32 b \<rparr>"

datatype uni_property_type =
    UNI_PROPERTY_TYPE_BOOL | UNI_PROPERTY_TYPE_U8 | UNI_PROPERTY_TYPE_U32 | UNI_PROPERTY_TYPE_FLOAT
  | UNI_PROPERTY_TYPE_STRING

record uni_property =
  prop_idx :: nat
  prop_name :: string
  prop_kind :: uni_property_type
  default_value :: uni_property_value
  prop_read_only :: bool

definition UNI_PROPERTY_IDX_ALLOWLIST_ENABLED :: nat where "UNI_PROPERTY_IDX_ALLOWLIST_ENABLED = 0"

definition UNI_PROPERTY_IDX_ALLOWLIST_LIST :: nat where "UNI_PROPERTY_IDX_ALLOWLIST_LIST = 1"

definition UNI_PROPERTY_IDX_BLE_ENABLED :: nat where "UNI_PROPERTY_IDX_BLE_ENABLED = 2"

definition UNI_PROPERTY_IDX_GAP_INQ_LEN :: nat where "UNI_PROPERTY_IDX_GAP_INQ_LEN = 3"

definition UNI_PROPERTY_IDX_GAP_LEVEL :: nat where "UNI_PROPERTY_IDX_GAP_LEVEL = 4"

definition UNI_PROPERTY_IDX_GAP_MAX_PERIODIC_LEN :: nat where "UNI_PROPERTY_IDX_GAP_MAX_PERIODIC_LEN = 5"

definition UNI_PROPERTY_IDX_GAP_MIN_PERIODIC_LEN :: nat where "UNI_PROPERTY_IDX_GAP_MIN_PERIODIC_LEN = 6"

definition UNI_PROPERTY_IDX_MOUSE_SCALE :: nat where "UNI_PROPERTY_IDX_MOUSE_SCALE = 7"

definition UNI_PROPERTY_IDX_VERSION :: nat where "UNI_PROPERTY_IDX_VERSION = 8"

definition UNI_PROPERTY_IDX_VIRTUAL_DEVICE_ENABLED :: nat where "UNI_PROPERTY_IDX_VIRTUAL_DEVICE_ENABLED = 9"

definition UNI_PROPERTY_IDX_LAST :: nat where "UNI_PROPERTY_IDX_LAST = 10"

definition UNI_PROPERTY_IDX_COUNT :: nat where "UNI_PROPERTY_IDX_COUNT = 18"

definition number_value :: "u32 \<Rightarrow> uni_property_value" where
  "number_value n = \<lparr> pv_u32 = n, pv_str = None \<rparr>"

text \<open>The table with the defaults of \<^verbatim>\<open>sdkconfig.defaults\<close> and \<^verbatim>\<open>Kconfig\<close>: BLE and GAP security on.\<close>

definition properties :: "uni_property list" where
  "properties =
    [\<lparr> prop_idx = UNI_PROPERTY_IDX_ALLOWLIST_ENABLED, prop_name = ''bp.bt.allow_en'',
       prop_kind = UNI_PROPERTY_TYPE_BOOL, default_value = number_value 0, prop_read_only = False \<rparr>,
     \<lparr> prop_idx = UNI_PROPERTY_IDX_ALLOWLIST_LIST, prop_name = ''bp.bt.allowlist'',
       prop_kind = UNI_PROPERTY_TYPE_STRING, default_value = number_value 0, prop_read_only = False \<rparr>,
     \<lparr> prop_idx = UNI_PROPERTY_IDX_BLE_ENABLED, prop_name = ''bp.ble.enabled'',
       prop_kind = UNI_PROPERTY_TYPE_BOOL, default_value = number_value 1, prop_read_only = False \<rparr>,
     \<lparr> prop_idx = UNI_PROPERTY_IDX_GAP_INQ_LEN, prop_name = ''bp.gap.inq_len'',
       prop_kind = UNI_PROPERTY_TYPE_U8, default_value = number_value 3, prop_read_only = False \<rparr>,
     \<lparr> prop_idx = UNI_PROPERTY_IDX_GAP_LEVEL, prop_name = ''bp.gap.level'',
       prop_kind = UNI_PROPERTY_TYPE_U8, default_value = number_value 2, prop_read_only = False \<rparr>,
     \<lparr> prop_idx = UNI_PROPERTY_IDX_GAP_MAX_PERIODIC_LEN, prop_name = ''bp.gap.max_len'',
       prop_kind = UNI_PROPERTY_TYPE_U8, default_value = number_value 5, prop_read_only = False \<rparr>,
     \<lparr> prop_idx = UNI_PROPERTY_IDX_GAP_MIN_PERIODIC_LEN, prop_name = ''bp.gap.min_len'',
       prop_kind = UNI_PROPERTY_TYPE_U8, default_value = number_value 4, prop_read_only = False \<rparr>,
     \<lparr> prop_idx = UNI_PROPERTY_IDX_MOUSE_SCALE, prop_name = ''bp.mouse.scale'',
       prop_kind = UNI_PROPERTY_TYPE_FLOAT, default_value = number_value 0x3F800000, prop_read_only = False \<rparr>,
     \<lparr> prop_idx = UNI_PROPERTY_IDX_VERSION, prop_name = ''bp.version'',
       prop_kind = UNI_PROPERTY_TYPE_STRING, default_value = \<lparr> pv_u32 = 0, pv_str = Some ''4.2.0'' \<rparr>,
       prop_read_only = True \<rparr>,
     \<lparr> prop_idx = UNI_PROPERTY_IDX_VIRTUAL_DEVICE_ENABLED, prop_name = ''bp.virt_dev_en'',
       prop_kind = UNI_PROPERTY_TYPE_BOOL, default_value = number_value 0, prop_read_only = False \<rparr>]"

text \<open>The Arduino platform has no properties of its own.\<close>

definition arduino_get_property :: "nat \<Rightarrow> uni_property option" where
  "arduino_get_property idx = None"

definition get_property :: "nat \<Rightarrow> uni_property option" where
  "get_property idx =
     (if idx \<ge> UNI_PROPERTY_IDX_LAST then arduino_get_property idx else Some (properties ! idx))"

definition uni_property_get_property_by_name :: "string option \<Rightarrow> uni_property option" where
  "uni_property_get_property_by_name name =
     (case name of None \<Rightarrow> None
      | Some s \<Rightarrow> List.find (\<lambda>p. prop_name p = s) (List.map_filter get_property [0..<UNI_PROPERTY_IDX_COUNT]))"

section \<open>The store\<close>

text \<open>
  Reading a string gets the size of the caller's buffer and returns its contents up to the terminating zero.  The
  handle is left out, since a function holds one at a time.
\<close>

record 's bp32_nvs =
  bp_open :: "nvs_mode \<Rightarrow> 's \<Rightarrow> bool \<times> 's"
  bp_get_u8 :: "string \<Rightarrow> 's \<Rightarrow> u8 option \<times> 's"
  bp_set_u8 :: "string \<Rightarrow> u8 \<Rightarrow> 's \<Rightarrow> bool \<times> 's"
  bp_get_u32 :: "string \<Rightarrow> 's \<Rightarrow> u32 option \<times> 's"
  bp_set_u32 :: "string \<Rightarrow> u32 \<Rightarrow> 's \<Rightarrow> bool \<times> 's"
  bp_get_str :: "string \<Rightarrow> nat \<Rightarrow> 's \<Rightarrow> string option \<times> 's"
  bp_set_str :: "string \<Rightarrow> string option \<Rightarrow> 's \<Rightarrow> bool \<times> 's"
  bp_commit :: "'s \<Rightarrow> bool \<times> 's"
  bp_close :: "'s \<Rightarrow> 's"

definition PROPERTY_STRING_MAX_LEN :: nat where "PROPERTY_STRING_MAX_LEN = 128"

definition write_property :: "'s bp32_nvs \<Rightarrow> uni_property \<Rightarrow> uni_property_value \<Rightarrow> 's \<Rightarrow> bool \<times> 's" where
  "write_property api p v s =
     (case prop_kind p of
        UNI_PROPERTY_TYPE_BOOL \<Rightarrow> bp_set_u8 api (prop_name p) (pv_u8 v) s
      | UNI_PROPERTY_TYPE_U8 \<Rightarrow> bp_set_u8 api (prop_name p) (pv_u8 v) s
      | UNI_PROPERTY_TYPE_U32 \<Rightarrow> bp_set_u32 api (prop_name p) (pv_u32 v) s
      | UNI_PROPERTY_TYPE_FLOAT \<Rightarrow> bp_set_u32 api (prop_name p) (pv_u32 v) s
      | UNI_PROPERTY_TYPE_STRING \<Rightarrow> bp_set_str api (prop_name p) (pv_str v) s)"

definition uni_property_set_with_property ::
  "'s bp32_nvs \<Rightarrow> uni_property option \<Rightarrow> uni_property_value \<Rightarrow> 's \<Rightarrow> 's" where
  "uni_property_set_with_property api po v s =
     (case po of None \<Rightarrow> s
      | Some p \<Rightarrow>
          if prop_read_only p then s
          else
            let (opened, s1) = bp_open api NVS_READWRITE s
            in if \<not> opened then s1
               else let (ok, s2) = write_property api p v s1
                    in if ok then bp_close api (snd (bp_commit api s2)) else bp_close api s2)"

text \<open>\<^verbatim>\<open>ret\<close> is an uninitialised local variable: \<open>junk\<close> is what is on the stack.\<close>

definition read_property ::
  "'s bp32_nvs \<Rightarrow> uni_property \<Rightarrow> uni_property_value \<Rightarrow> 's \<Rightarrow> uni_property_value option \<times> 's" where
  "read_property api p junk s =
     (case prop_kind p of
        UNI_PROPERTY_TYPE_BOOL \<Rightarrow> map_prod (map_option (\<lambda>b. pv_set_u8 b junk)) id (bp_get_u8 api (prop_name p) s)
      | UNI_PROPERTY_TYPE_U8 \<Rightarrow> map_prod (map_option (\<lambda>b. pv_set_u8 b junk)) id (bp_get_u8 api (prop_name p) s)
      | UNI_PROPERTY_TYPE_U32 \<Rightarrow>
          map_prod (map_option (\<lambda>n. junk\<lparr> pv_u32 := n \<rparr>)) id (bp_get_u32 api (prop_name p) s)
      | UNI_PROPERTY_TYPE_FLOAT \<Rightarrow>
          map_prod (map_option (\<lambda>n. junk\<lparr> pv_u32 := n \<rparr>)) id (bp_get_u32 api (prop_name p) s)
      | UNI_PROPERTY_TYPE_STRING \<Rightarrow>
          map_prod (map_option (\<lambda>t. junk\<lparr> pv_str := Some t \<rparr>)) id
            (bp_get_str api (prop_name p) (PROPERTY_STRING_MAX_LEN - 1) s))"

definition uni_property_get_with_property ::
  "'s bp32_nvs \<Rightarrow> uni_property option \<Rightarrow> uni_property_value \<Rightarrow> 's \<Rightarrow> uni_property_value \<times> 's" where
  "uni_property_get_with_property api po junk s =
     (case po of None \<Rightarrow> (pv_set_u8 0 junk, s)
      | Some p \<Rightarrow>
          let (opened, s1) = bp_open api NVS_READONLY s
          in if \<not> opened then (default_value p, s1)
             else let (v, s2) = read_property api p junk s1
                  in ((case v of None \<Rightarrow> default_value p | Some r \<Rightarrow> r), bp_close api s2))"

definition uni_property_set :: "'s bp32_nvs \<Rightarrow> nat \<Rightarrow> uni_property_value \<Rightarrow> 's \<Rightarrow> 's" where
  "uni_property_set api idx v s =
     (case get_property idx of None \<Rightarrow> s | Some p \<Rightarrow> uni_property_set_with_property api (Some p) v s)"

definition uni_property_get ::
  "'s bp32_nvs \<Rightarrow> nat \<Rightarrow> uni_property_value \<Rightarrow> 's \<Rightarrow> uni_property_value \<times> 's" where
  "uni_property_get api idx junk s =
     (case get_property idx of None \<Rightarrow> (pv_set_u8 0 junk, s)
      | Some p \<Rightarrow> uni_property_get_with_property api (Some p) junk s)"

section \<open>The properties of the Bluetooth code\<close>

text \<open>\<^verbatim>\<open>uni_bt.c\<close> and \<^verbatim>\<open>uni_virtual_device.c\<close>; \<open>junk\<close> is the caller's uninitialised value.\<close>

definition uni_bt_set_gap_security_level :: "'s bp32_nvs \<Rightarrow> u32 \<Rightarrow> uni_property_value \<Rightarrow> 's \<Rightarrow> 's" where
  "uni_bt_set_gap_security_level api gap junk s =
     uni_property_set api UNI_PROPERTY_IDX_GAP_LEVEL (junk\<lparr> pv_u32 := gap \<rparr>) s"

definition uni_bt_get_gap_security_level :: "'s bp32_nvs \<Rightarrow> uni_property_value \<Rightarrow> 's \<Rightarrow> u32 \<times> 's" where
  "uni_bt_get_gap_security_level api junk s = map_prod pv_u32 id (uni_property_get api UNI_PROPERTY_IDX_GAP_LEVEL junk s)"

definition uni_bt_set_gap_inquiry_length :: "'s bp32_nvs \<Rightarrow> u32 \<Rightarrow> uni_property_value \<Rightarrow> 's \<Rightarrow> 's" where
  "uni_bt_set_gap_inquiry_length api len junk s =
     uni_property_set api UNI_PROPERTY_IDX_GAP_INQ_LEN (pv_set_u8 (to_u8 len) junk) s"

definition uni_bt_get_gap_inquiry_length :: "'s bp32_nvs \<Rightarrow> uni_property_value \<Rightarrow> 's \<Rightarrow> u8 \<times> 's" where
  "uni_bt_get_gap_inquiry_length api junk s = map_prod pv_u8 id (uni_property_get api UNI_PROPERTY_IDX_GAP_INQ_LEN junk s)"

definition uni_bt_set_gap_max_peridic_length :: "'s bp32_nvs \<Rightarrow> u32 \<Rightarrow> uni_property_value \<Rightarrow> 's \<Rightarrow> 's" where
  "uni_bt_set_gap_max_peridic_length api len junk s =
     uni_property_set api UNI_PROPERTY_IDX_GAP_MAX_PERIODIC_LEN (pv_set_u8 (to_u8 len) junk) s"

definition uni_bt_get_gap_max_periodic_length :: "'s bp32_nvs \<Rightarrow> uni_property_value \<Rightarrow> 's \<Rightarrow> u8 \<times> 's" where
  "uni_bt_get_gap_max_periodic_length api junk s =
     map_prod pv_u8 id (uni_property_get api UNI_PROPERTY_IDX_GAP_MAX_PERIODIC_LEN junk s)"

definition uni_bt_set_gap_min_peridic_length :: "'s bp32_nvs \<Rightarrow> u32 \<Rightarrow> uni_property_value \<Rightarrow> 's \<Rightarrow> 's" where
  "uni_bt_set_gap_min_peridic_length api len junk s =
     uni_property_set api UNI_PROPERTY_IDX_GAP_MIN_PERIODIC_LEN (pv_set_u8 (to_u8 len) junk) s"

definition uni_bt_get_gap_min_periodic_length :: "'s bp32_nvs \<Rightarrow> uni_property_value \<Rightarrow> 's \<Rightarrow> u8 \<times> 's" where
  "uni_bt_get_gap_min_periodic_length api junk s =
     map_prod pv_u8 id (uni_property_get api UNI_PROPERTY_IDX_GAP_MIN_PERIODIC_LEN junk s)"

text \<open>The pair is the static variable and the store.\<close>

definition uni_virtual_device_set_enabled ::
  "'s bp32_nvs \<Rightarrow> bool \<Rightarrow> uni_property_value \<Rightarrow> bool \<times> 's \<Rightarrow> bool \<times> 's" where
  "uni_virtual_device_set_enabled api b junk = (\<lambda>(enabled, s).
     if b \<noteq> enabled
     then (b, uni_property_set api UNI_PROPERTY_IDX_VIRTUAL_DEVICE_ENABLED (pv_set_u8 (if b then 1 else 0) junk) s)
     else (enabled, s))"

definition uni_virtual_device_init :: "'s bp32_nvs \<Rightarrow> uni_property_value \<Rightarrow> bool \<times> 's \<Rightarrow> bool \<times> 's" where
  "uni_virtual_device_init api junk = (\<lambda>(_, s).
     map_prod (\<lambda>v. pv_u8 v \<noteq> 0) id (uni_property_get api UNI_PROPERTY_IDX_VIRTUAL_DEVICE_ENABLED junk s))"

section \<open>Laws of the store\<close>

text \<open>
  What the SDK documents of a store whose writes do not fail, over two views of it, each its strings and its bytes by
  their keys: \<open>cur s\<close> is what a read returns now, \<open>stored s\<close> what is on the flash for good, and \<open>reboot\<close> what a
  restart leaves.  A set is seen by the next read, but only a commit stores it: nothing is said about \<open>stored\<close> between a
  set and its commit.  A restart goes on with what is stored.  Opening, reading and closing change nothing.  A namespace
  never written to need not open for reading.  A string is read when it fits into the buffer with its
  terminating zero.
\<close>

type_synonym bp_view = "(string \<rightharpoonup> string) \<times> (string \<rightharpoonup> u8)"

definition same_flash :: "('s \<Rightarrow> bp_view) \<Rightarrow> ('s \<Rightarrow> bp_view) \<Rightarrow> 's \<Rightarrow> 's \<Rightarrow> bool" where
  "same_flash cur stored s s' \<longleftrightarrow> cur s' = cur s \<and> stored s' = stored s"

definition bp_keeps ::
  "'s bp32_nvs \<Rightarrow> ('s \<Rightarrow> 's) \<Rightarrow> ('s \<Rightarrow> bp_view) \<Rightarrow> ('s \<Rightarrow> bp_view) \<Rightarrow> bool" where
  "bp_keeps api reboot cur stored \<longleftrightarrow>
     (\<forall>md s. same_flash cur stored s (snd (bp_open api md s))) \<and>
     (\<forall>s. fst (bp_open api NVS_READWRITE s)) \<and>
     (\<forall>s. cur s \<noteq> (Map.empty, Map.empty) \<longrightarrow> fst (bp_open api NVS_READONLY s)) \<and>
     (\<forall>s. same_flash cur stored s (bp_close api s)) \<and>
     (\<forall>k n s. same_flash cur stored s (snd (bp_get_str api k n s)) \<and> fst (bp_get_str api k n s) =
        (case fst (cur s) k of None \<Rightarrow> None | Some t \<Rightarrow> if length t < n then Some t else None)) \<and>
     (\<forall>k s. same_flash cur stored s (snd (bp_get_u8 api k s)) \<and> fst (bp_get_u8 api k s) = snd (cur s) k) \<and>
     (\<forall>k t s. fst (bp_set_str api k (Some t) s) \<and>
        cur (snd (bp_set_str api k (Some t) s)) = ((fst (cur s))(k \<mapsto> t), snd (cur s))) \<and>
     (\<forall>k b s. fst (bp_set_u8 api k b s) \<and>
        cur (snd (bp_set_u8 api k b s)) = (fst (cur s), (snd (cur s))(k \<mapsto> b))) \<and>
     (\<forall>s. cur (snd (bp_commit api s)) = cur s \<and> stored (snd (bp_commit api s)) = cur s) \<and>
     (\<forall>s. cur (reboot s) = stored s \<and> stored (reboot s) = stored s)"

text \<open>A store of two layers: sets change the first, a commit copies it to the second, a restart copies it back.  An
  empty namespace does not open for reading.\<close>

record map_flash =
  mf_cur :: bp_view
  mf_stored :: bp_view

definition map_flash_reboot :: "map_flash \<Rightarrow> map_flash" where
  "map_flash_reboot s = s\<lparr> mf_cur := mf_stored s \<rparr>"

definition map_flash_empty :: map_flash where
  "map_flash_empty = \<lparr> mf_cur = (Map.empty, Map.empty), mf_stored = (Map.empty, Map.empty) \<rparr>"

definition map_bp_nvs :: "map_flash bp32_nvs" where
  "map_bp_nvs = \<lparr> bp_open = (\<lambda>md s. (md = NVS_READWRITE \<or> mf_cur s \<noteq> (Map.empty, Map.empty), s)),
     bp_get_u8 = (\<lambda>k s. (snd (mf_cur s) k, s)),
     bp_set_u8 = (\<lambda>k b s. (True, s\<lparr> mf_cur := (fst (mf_cur s), (snd (mf_cur s))(k \<mapsto> b)) \<rparr>)),
     bp_get_u32 = (\<lambda>k s. (None, s)), bp_set_u32 = (\<lambda>k b s. (False, s)),
     bp_get_str = (\<lambda>k n s. (case fst (mf_cur s) k of None \<Rightarrow> None | Some t \<Rightarrow> if length t < n then Some t else None, s)),
     bp_set_str = (\<lambda>k t s. case t of None \<Rightarrow> (False, s)
        | Some u \<Rightarrow> (True, s\<lparr> mf_cur := ((fst (mf_cur s))(k \<mapsto> u), snd (mf_cur s)) \<rparr>)),
     bp_commit = (\<lambda>s. (True, s\<lparr> mf_stored := mf_cur s \<rparr>)), bp_close = (\<lambda>s. s) \<rparr>"

lemma map_bp_nvs_keeps: "bp_keeps map_bp_nvs map_flash_reboot mf_cur mf_stored"
  by (simp add: bp_keeps_def same_flash_def map_bp_nvs_def map_flash_reboot_def)

lemma property_table:
  "get_property UNI_PROPERTY_IDX_ALLOWLIST_LIST = Some (properties ! 1)"
  "get_property UNI_PROPERTY_IDX_ALLOWLIST_ENABLED = Some (properties ! 0)"
  "get_property UNI_PROPERTY_IDX_GAP_LEVEL = Some (properties ! 4)"
  by (simp_all add: get_property_def UNI_PROPERTY_IDX_LAST_def UNI_PROPERTY_IDX_ALLOWLIST_LIST_def
      UNI_PROPERTY_IDX_ALLOWLIST_ENABLED_def UNI_PROPERTY_IDX_GAP_LEVEL_def)

lemma property_entries:
  "prop_kind (properties ! 1) = UNI_PROPERTY_TYPE_STRING" "prop_name (properties ! 1) = ''bp.bt.allowlist''"
  "\<not> prop_read_only (properties ! 1)" "default_value (properties ! 1) = number_value 0"
  "prop_kind (properties ! 0) = UNI_PROPERTY_TYPE_BOOL" "prop_name (properties ! 0) = ''bp.bt.allow_en''"
  "\<not> prop_read_only (properties ! 0)" "default_value (properties ! 0) = number_value 0"
  "prop_kind (properties ! 4) = UNI_PROPERTY_TYPE_U8" "prop_name (properties ! 4) = ''bp.gap.level''"
  "\<not> prop_read_only (properties ! 4)" "default_value (properties ! 4) = number_value 2"
  by (simp_all add: properties_def)

text \<open>Setting and getting a string or a byte.  What was set is stored, since the code commits it.\<close>

lemma set_string_property:
  assumes "bp_keeps api reboot cur stored" "get_property idx = Some p" "prop_kind p = UNI_PROPERTY_TYPE_STRING"
    "\<not> prop_read_only p" "pv_str v = Some t"
  shows "cur (uni_property_set api idx v s) = ((fst (cur s))(prop_name p \<mapsto> t), snd (cur s))"
    "stored (uni_property_set api idx v s) = cur (uni_property_set api idx v s)"
  using assms unfolding bp_keeps_def same_flash_def
  by (auto simp: uni_property_set_def uni_property_set_with_property_def write_property_def split_beta Let_def)

lemma set_byte_property:
  assumes "bp_keeps api reboot cur stored" "get_property idx = Some p"
    "prop_kind p \<in> {UNI_PROPERTY_TYPE_BOOL, UNI_PROPERTY_TYPE_U8}" "\<not> prop_read_only p"
  shows "cur (uni_property_set api idx v s) = (fst (cur s), (snd (cur s))(prop_name p \<mapsto> pv_u8 v))"
    "stored (uni_property_set api idx v s) = cur (uni_property_set api idx v s)"
  using assms unfolding bp_keeps_def same_flash_def
  by (auto simp: uni_property_set_def uni_property_set_with_property_def write_property_def split_beta Let_def)

text \<open>A store that does not open for reading is empty, so the default is returned either way.\<close>

lemma closed_empty:
  "bp_keeps api reboot cur stored \<Longrightarrow> \<not> fst (bp_open api NVS_READONLY s) \<Longrightarrow> cur s = (Map.empty, Map.empty)"
  unfolding bp_keeps_def by blast

lemma get_string_property:
  assumes "bp_keeps api reboot cur stored" "get_property idx = Some p" "prop_kind p = UNI_PROPERTY_TYPE_STRING"
  shows "fst (uni_property_get api idx junk s) =
      (case fst (cur s) (prop_name p) of None \<Rightarrow> default_value p
       | Some t \<Rightarrow> if length t < PROPERTY_STRING_MAX_LEN - 1 then junk\<lparr> pv_str := Some t \<rparr> else default_value p)"
    "same_flash cur stored s (snd (uni_property_get api idx junk s))"
  using assms closed_empty [OF assms(1), of s] unfolding bp_keeps_def same_flash_def
  by (auto simp: uni_property_get_def uni_property_get_with_property_def read_property_def split_beta Let_def map_prod_def
      split: option.splits)

lemma get_byte_property:
  assumes "bp_keeps api reboot cur stored" "get_property idx = Some p"
    "prop_kind p \<in> {UNI_PROPERTY_TYPE_BOOL, UNI_PROPERTY_TYPE_U8}"
  shows "fst (uni_property_get api idx junk s) =
      (case snd (cur s) (prop_name p) of None \<Rightarrow> default_value p | Some b \<Rightarrow> pv_set_u8 b junk)"
    "same_flash cur stored s (snd (uni_property_get api idx junk s))"
  using assms closed_empty [OF assms(1), of s] unfolding bp_keeps_def same_flash_def
  by (auto simp: uni_property_get_def uni_property_get_with_property_def read_property_def split_beta Let_def map_prod_def
      split: option.splits)

end
