(* ===== verification/Uni_Allowlist.thy ===== *)
theory Uni_Allowlist
  imports Uni_Property Hid_Device
begin

text \<open>
  The list of Bluetooth addresses that may connect: \<^verbatim>\<open>src/components/bluepad32/bt/uni_bt_allowlist.c\<close>, with the text
  form of an address from \<^verbatim>\<open>src/components/btstack/src/btstack_util.c\<close>.  The list is an array of
  \<^verbatim>\<open>CONFIG_BLUEPAD32_MAX_ALLOWLIST\<close> addresses, four by default, in which the zero address marks a free entry; it is
  kept in a property as one string.
\<close>

section \<open>Addresses as text\<close>

definition char_for_nibble :: "u8 \<Rightarrow> char" where
  "char_for_nibble nibble = (if nibble < 16 then ''0123456789ABCDEF'' ! unat nibble else CHR ''?'')"

definition char_for_high_nibble :: "u8 \<Rightarrow> char" where
  "char_for_high_nibble v = char_for_nibble (drop_bit 4 v AND 0x0F)"

definition char_for_low_nibble :: "u8 \<Rightarrow> char" where
  "char_for_low_nibble v = char_for_nibble (v AND 0x0F)"

text \<open>The delimiter after the last byte is overwritten by the terminating zero.\<close>

definition bd_addr_to_str_with_delimiter :: "bytes \<Rightarrow> char \<Rightarrow> string" where
  "bd_addr_to_str_with_delimiter addr delimiter =
     butlast (concat (map (\<lambda>b. [char_for_high_nibble b, char_for_low_nibble b, delimiter]) addr))"

definition bd_addr_to_str :: "bytes \<Rightarrow> string" where
  "bd_addr_to_str addr = bd_addr_to_str_with_delimiter addr (CHR '':'')"

text \<open>A negative result is \<^const>\<open>None\<close>.\<close>

definition nibble_for_char :: "char \<Rightarrow> nat option" where
  "nibble_for_char c =
     (let n = of_char c :: nat
      in if 48 \<le> n \<and> n \<le> 57 then Some (n - 48)
         else if 97 \<le> n \<and> n \<le> 102 then Some (n - 97 + 10)
         else if 65 \<le> n \<and> n \<le> 70 then Some (n - 65 + 10)
         else None)"

text \<open>The characters of a C string; behind the last one is a zero.\<close>

definition char_at :: "string \<Rightarrow> nat \<Rightarrow> char" where
  "char_at s i = (if i < length s then s ! i else char_of (0 :: nat))"

definition scan_hex_byte :: "string \<Rightarrow> u8 option" where
  "scan_hex_byte s =
     Option.bind (nibble_for_char (char_at s 0)) (\<lambda>upper.
       map_option (\<lambda>lower. of_nat (16 * upper + lower)) (nibble_for_char (char_at s 1)))"

definition is_separator :: "char \<Rightarrow> bool" where
  "is_separator c \<longleftrightarrow> c = CHR '':'' \<or> c = CHR ''-'' \<or> c = CHR '' ''"

text \<open>The loop over the six bytes; the last one needs no separator.\<close>

fun sscanf_bytes :: "nat \<Rightarrow> string \<Rightarrow> bytes option" where
  "sscanf_bytes 0 s = Some []"
| "sscanf_bytes (Suc n) s =
     (case scan_hex_byte s of None \<Rightarrow> None
      | Some b \<Rightarrow>
          let rest = drop 2 s
          in map_option (\<lambda>bs. b # bs)
               (sscanf_bytes n (if n > 0 \<and> is_separator (char_at rest 0) then drop 1 rest else rest)))"

definition sscanf_bd_addr :: "string \<Rightarrow> bytes option" where
  "sscanf_bd_addr s = sscanf_bytes 6 s"

section \<open>The list\<close>

record allowlist =
  addr_allow_list :: "bytes list"
  enforced :: bool

text \<open>The array of characters the list is written into; \<^const>\<open>None\<close> is a write behind it.\<close>

definition allowlist_buffer_size :: nat where "allowlist_buffer_size = 128"

definition strcat :: "string \<Rightarrow> string \<Rightarrow> string option" where
  "strcat dst src = (if length dst + length src + 1 > allowlist_buffer_size then None else Some (dst @ src))"

fun append_addresses :: "bytes list \<Rightarrow> string \<Rightarrow> string option" where
  "append_addresses [] str = Some str"
| "append_addresses (a # as) str =
     (if a = zero_addr then append_addresses as str
      else Option.bind (strcat str (bd_addr_to_str a)) (\<lambda>str1.
             Option.bind (strcat str1 '','') (append_addresses as)))"

text \<open>An operation works on the list and the property store; \<open>junk\<close> is the value on the stack.\<close>

definition update_allowlist_to_property ::
  "'s bp32_nvs \<Rightarrow> uni_property_value \<Rightarrow> allowlist \<times> 's \<Rightarrow> (allowlist \<times> 's) option" where
  "update_allowlist_to_property api junk = (\<lambda>(al, s).
     map_option (\<lambda>str. (al, uni_property_set api UNI_PROPERTY_IDX_ALLOWLIST_LIST (junk\<lparr> pv_str := Some str \<rparr>) s))
       (append_addresses (addr_allow_list al) []))"

definition is_address_in_allowlist :: "bytes \<Rightarrow> allowlist \<Rightarrow> bool" where
  "is_address_in_allowlist addr al \<longleftrightarrow> addr \<in> set (addr_allow_list al)"

definition uni_bt_allowlist_is_allowed_addr :: "bytes \<Rightarrow> allowlist \<Rightarrow> bool" where
  "uni_bt_allowlist_is_allowed_addr addr al = (if \<not> enforced al then True else is_address_in_allowlist addr al)"

definition position :: "bytes \<Rightarrow> bytes list \<Rightarrow> nat option" where
  "position a as = List.find (\<lambda>i. as ! i = a) [0..<length as]"

definition uni_bt_allowlist_add_addr ::
  "'s bp32_nvs \<Rightarrow> uni_property_value \<Rightarrow> bytes \<Rightarrow> allowlist \<times> 's \<Rightarrow> (bool \<times> allowlist \<times> 's) option" where
  "uni_bt_allowlist_add_addr api junk addr = (\<lambda>(al, s).
     if is_address_in_allowlist addr al then Some (False, al, s)
     else case position zero_addr (addr_allow_list al) of
         None \<Rightarrow> Some (False, al, s)
       | Some i \<Rightarrow> map_option (\<lambda>w. (True, w))
           (update_allowlist_to_property api junk (al\<lparr> addr_allow_list := (addr_allow_list al)[i := addr] \<rparr>, s)))"

definition uni_bt_allowlist_remove_addr ::
  "'s bp32_nvs \<Rightarrow> uni_property_value \<Rightarrow> bytes \<Rightarrow> allowlist \<times> 's \<Rightarrow> (bool \<times> allowlist \<times> 's) option" where
  "uni_bt_allowlist_remove_addr api junk addr = (\<lambda>(al, s).
     case position addr (addr_allow_list al) of
         None \<Rightarrow> Some (False, al, s)
       | Some i \<Rightarrow> map_option (\<lambda>w. (True, w))
           (update_allowlist_to_property api junk (al\<lparr> addr_allow_list := (addr_allow_list al)[i := zero_addr] \<rparr>, s)))"

definition uni_bt_allowlist_remove_all ::
  "'s bp32_nvs \<Rightarrow> uni_property_value \<Rightarrow> allowlist \<times> 's \<Rightarrow> (bool \<times> allowlist \<times> 's) option" where
  "uni_bt_allowlist_remove_all api junk = (\<lambda>(al, s).
     map_option (\<lambda>w. (True, w))
       (update_allowlist_to_property api junk (al\<lparr> addr_allow_list := map (\<lambda>_. zero_addr) (addr_allow_list al) \<rparr>, s)))"

definition uni_bt_allowlist_set_enabled ::
  "'s bp32_nvs \<Rightarrow> uni_property_value \<Rightarrow> bool \<Rightarrow> allowlist \<times> 's \<Rightarrow> allowlist \<times> 's" where
  "uni_bt_allowlist_set_enabled api junk b = (\<lambda>(al, s).
     if b \<noteq> enforced al
     then (al\<lparr> enforced := b \<rparr>,
           uni_property_set api UNI_PROPERTY_IDX_ALLOWLIST_ENABLED (pv_set_u8 (if b then 1 else 0) junk) s)
     else (al, s))"

text \<open>Reading the list back, address by address.\<close>

function parse_allowlist ::
  "'s bp32_nvs \<Rightarrow> uni_property_value \<Rightarrow> string \<Rightarrow> nat \<Rightarrow> allowlist \<times> 's \<Rightarrow> (allowlist \<times> 's) option" where
  "parse_allowlist api junk str offset w =
     (if offset < length str then
        case sscanf_bd_addr (drop offset str) of None \<Rightarrow> Some w
        | Some addr \<Rightarrow> Option.bind (uni_bt_allowlist_add_addr api junk addr w)
            (\<lambda>r. parse_allowlist api junk str (offset + (6 * 2 + 5 + 1)) (snd r))
      else Some w)"
  by pat_completeness auto
termination by (relation "measure (\<lambda>(api, junk, str, offset, w). length str - offset)") auto

declare parse_allowlist.simps [simp del]

definition update_allowlist_from_property ::
  "'s bp32_nvs \<Rightarrow> uni_property_value \<Rightarrow> allowlist \<times> 's \<Rightarrow> (allowlist \<times> 's) option" where
  "update_allowlist_from_property api junk = (\<lambda>(al, s).
     let (v, s1) = uni_property_get api UNI_PROPERTY_IDX_ALLOWLIST_LIST junk s
     in case pv_str v of None \<Rightarrow> Some (al, s1) | Some str \<Rightarrow> parse_allowlist api junk str 0 (al, s1))"

definition uni_bt_allowlist_init ::
  "'s bp32_nvs \<Rightarrow> uni_property_value \<Rightarrow> allowlist \<times> 's \<Rightarrow> (allowlist \<times> 's) option" where
  "uni_bt_allowlist_init api junk = (\<lambda>(al, s).
     let (v, s1) = uni_property_get api UNI_PROPERTY_IDX_ALLOWLIST_ENABLED junk s
     in update_allowlist_from_property api junk (al\<lparr> enforced := pv_u8 v \<noteq> 0 \<rparr>, s1))"

text \<open>The statics at boot.\<close>

definition allowlist_boot :: "nat \<Rightarrow> allowlist" where
  "allowlist_boot n = \<lparr> addr_allow_list = replicate n zero_addr, enforced = False \<rparr>"

section \<open>Laws\<close>

text \<open>The text of an address is read back.\<close>

lemma nibble_text:
  assumes "n < 16"
  shows "nibble_for_char (char_for_nibble (of_nat n)) = Some n" "\<not> is_separator (char_for_nibble (of_nat n))"
proof -
  have "n \<in> {0, 1, 2, 3, 4, 5, 6, 7, 8, 9, 10, 11, 12, 13, 14, 15}" using assms unfolding insert_iff empty_iff by presburger
  then show "nibble_for_char (char_for_nibble (of_nat n)) = Some n" "\<not> is_separator (char_for_nibble (of_nat n))"
    by (auto simp: char_for_nibble_def nibble_for_char_def is_separator_def)
qed

lemma scan_byte_text: "scan_hex_byte (char_for_high_nibble b # char_for_low_nibble b # rest) = Some b"
  "\<not> is_separator (char_for_high_nibble b)"
proof -
  have u: "unat b < 256" using unsigned_less [of b, where ?'a = nat] by simp
  have h: "drop_bit 4 b AND 0x0F = of_nat (unat b div 16)" and l: "b AND 0x0F = of_nat (unat b mod 16)"
  proof -
    have m: "(0x0F :: u8) = mask 4" by (simp add: mask_eq_exp_minus_1)
    have d: "unat (drop_bit 4 b) = unat b div 16" using unat_drop_bit_eq [of 4 b] drop_bit_eq_div [of 4 "unat b"] by simp
    have "unat (drop_bit 4 b AND mask 4) = take_bit 4 (unat (drop_bit 4 b))" "unat (b AND mask 4) = take_bit 4 (unat b)"
      by (simp_all only: unsigned_take_bit_eq flip: take_bit_eq_mask)
    then have "unat (drop_bit 4 b AND mask 4) = unat b div 16" "unat (b AND mask 4) = unat b mod 16"
      using u unfolding d by (simp_all add: take_bit_eq_mod)
    then show "drop_bit 4 b AND 0x0F = of_nat (unat b div 16)" "b AND 0x0F = of_nat (unat b mod 16)"
      using u unfolding m word_unat_eq_iff unat_of_nat by simp_all
  qed
  show "scan_hex_byte (char_for_high_nibble b # char_for_low_nibble b # rest) = Some b"
  proof -
    have "16 * (unat b div 16) + unat b mod 16 = unat b" by simp
    then have "(of_nat (16 * (unat b div 16) + unat b mod 16) :: u8) = of_nat (unat b)" by (simp only:)
    also have "\<dots> = b" by simp
    finally have e: "16 * of_nat (unat b div 16) + of_nat (unat b mod 16) = b"
      by (simp only: of_nat_add of_nat_mult of_nat_numeral)
    show ?thesis
      using u by (simp add: e scan_hex_byte_def char_at_def char_for_high_nibble_def char_for_low_nibble_def h l nibble_text)
  qed
  show "\<not> is_separator (char_for_high_nibble b)"
    using u by (simp add: char_for_high_nibble_def h nibble_text)
qed

lemma six_bytes:
  assumes "length a = 6"
  obtains a0 a1 a2 a3 a4 a5 where "a = [a0, a1, a2, a3, a4, a5 :: u8]"
proof -
  have "length a = Suc (Suc (Suc (Suc (Suc (Suc 0)))))" using assms by simp
  then show ?thesis using that unfolding length_Suc_conv by auto
qed

lemma address_text:
  assumes "length a = 6"
  shows "sscanf_bd_addr (bd_addr_to_str a @ rest) = Some a" "length (bd_addr_to_str a) = 17"
proof -
  obtain a0 a1 a2 a3 a4 a5 where a: "a = [a0, a1, a2, a3, a4, a5]" using six_bytes [OF assms] .
  have s: "sscanf_bytes (Suc n) (char_for_high_nibble b # char_for_low_nibble b # CHR '':'' # t) =
      map_option (\<lambda>bs. b # bs) (sscanf_bytes n (if n > 0 then t else CHR '':'' # t))" for n b t
    by (simp add: scan_byte_text char_at_def is_separator_def)
  have e: "sscanf_bytes (Suc 0) (char_for_high_nibble b # char_for_low_nibble b # t) = Some [b]" for b t
    by (simp add: scan_byte_text)
  have n: "(6 :: nat) = Suc (Suc (Suc (Suc (Suc (Suc 0)))))" by simp
  show "sscanf_bd_addr (bd_addr_to_str a @ rest) = Some a"
    unfolding sscanf_bd_addr_def bd_addr_to_str_def bd_addr_to_str_with_delimiter_def a n
    by (simp add: s e del: sscanf_bytes.simps)
  show "length (bd_addr_to_str a) = 17"
    by (simp add: bd_addr_to_str_def bd_addr_to_str_with_delimiter_def a)
qed

text \<open>The text of a list, in which the free entries do not appear.\<close>

definition list_text :: "bytes list \<Rightarrow> string" where
  "list_text as = concat (map (\<lambda>a. bd_addr_to_str a @ '','') (filter (\<lambda>a. a \<noteq> zero_addr) as))"

lemma list_text_simps [simp]:
  "list_text [] = []" "list_text (a # as) = (if a = zero_addr then list_text as else bd_addr_to_str a @ '','' @ list_text as)"
  by (simp_all add: list_text_def)

lemma list_text_filter: "list_text (filter (\<lambda>a. a \<noteq> zero_addr) as) = list_text as"
  by (simp add: list_text_def)

lemma length_list_text: "\<forall>a\<in>set as. length a = 6 \<Longrightarrow> length (list_text as) \<le> 18 * length as"
  by (induction as) (auto simp: address_text(2))

lemma append_addresses_text:
  "\<forall>a\<in>set as. length a = 6 \<Longrightarrow> length str + 18 * length as < allowlist_buffer_size \<Longrightarrow>
     append_addresses as str = Some (str @ list_text as)"
proof (induction as arbitrary: str)
  case (Cons a as)
  then show ?case by (auto simp: strcat_def address_text(2))
qed simp

text \<open>A list whose entries are addresses, of which the used ones differ, and that fits the buffer.\<close>

definition list_ok :: "bytes list \<Rightarrow> bool" where
  "list_ok as \<longleftrightarrow> length as \<le> 7 \<and> (\<forall>a\<in>set as. length a = 6) \<and> distinct (filter (\<lambda>a. a \<noteq> zero_addr) as)"

lemma length_zero_addr [simp]: "length zero_addr = 6"
  by (simp add: zero_addr_def)

lemma position_Some: "position a as = Some i \<Longrightarrow> i < length as \<and> as ! i = a"
  by (auto simp: position_def find_Some_iff)

lemma position_None: "position a as = None \<longleftrightarrow> a \<notin> set as"
  by (auto simp: position_def find_None_iff in_set_conv_nth)

lemma position_first:
  assumes "a \<notin> set xs"
  shows "position a (xs @ a # ys) = Some (length xs)"
proof (cases "position a (xs @ a # ys)")
  case None
  then show ?thesis unfolding position_None by simp
next
  case (Some i)
  then have i: "i < length (xs @ a # ys)" "(xs @ a # ys) ! i = a" using position_Some by blast+
  have first: "(xs @ a # ys) ! j \<noteq> a" if "j < i" for j
    using Some i(1) that unfolding position_def find_Some_iff by (auto simp del: upt_Suc)
  have "\<not> i < length xs" using i(2) assms by (metis nth_append nth_mem)
  moreover have "\<not> length xs < i" by (rule notI) (use first [of "length xs"] in simp)
  ultimately show ?thesis using Some by simp
qed

lemma filter_update_free:
  assumes "i < length as" "as ! i = zero_addr"
  shows "filter (\<lambda>a. a \<noteq> zero_addr) (as[i := x]) =
    filter (\<lambda>a. a \<noteq> zero_addr) (take i as) @ (if x = zero_addr then [] else [x]) @ filter (\<lambda>a. a \<noteq> zero_addr) (drop (Suc i) as)"
    and "filter (\<lambda>a. a \<noteq> zero_addr) as = filter (\<lambda>a. a \<noteq> zero_addr) (take i as) @ filter (\<lambda>a. a \<noteq> zero_addr) (drop (Suc i) as)"
proof -
  show "filter (\<lambda>a. a \<noteq> zero_addr) (as[i := x]) =
    filter (\<lambda>a. a \<noteq> zero_addr) (take i as) @ (if x = zero_addr then [] else [x]) @ filter (\<lambda>a. a \<noteq> zero_addr) (drop (Suc i) as)"
    using assms(1) by (simp add: upd_conv_take_nth_drop)
  have "filter (\<lambda>a. a \<noteq> zero_addr) (take i as @ as ! i # drop (Suc i) as) =
      filter (\<lambda>a. a \<noteq> zero_addr) (take i as) @ filter (\<lambda>a. a \<noteq> zero_addr) (drop (Suc i) as)"
    using assms(2) by simp
  then show "filter (\<lambda>a. a \<noteq> zero_addr) as = filter (\<lambda>a. a \<noteq> zero_addr) (take i as) @ filter (\<lambda>a. a \<noteq> zero_addr) (drop (Suc i) as)"
    by (simp only: id_take_nth_drop [OF assms(1), symmetric])
qed

lemma list_ok_add:
  assumes "list_ok as" "i < length as" "as ! i = zero_addr" "a \<notin> set as" "length a = 6"
  shows "list_ok (as[i := a])"
proof -
  have "set (as[i := a]) \<subseteq> insert a (set as)" by (rule set_update_subset_insert)
  moreover have "set (take i as) \<subseteq> set as" "set (drop (Suc i) as) \<subseteq> set as"
    by (rule set_take_subset, rule set_drop_subset)
  ultimately show ?thesis
    using assms(1,4,5) filter_update_free(2) [OF assms(2,3)] unfolding list_ok_def filter_update_free(1) [OF assms(2,3)]
    by (auto simp: distinct_append)
qed

lemma list_ok_remove:
  assumes "list_ok as" "i < length as"
  shows "list_ok (as[i := zero_addr])"
proof -
  have "filter (\<lambda>a. a \<noteq> zero_addr) as = filter (\<lambda>a. a \<noteq> zero_addr) (take i as @ as ! i # drop (Suc i) as)"
    using id_take_nth_drop [OF assms(2)] by simp
  then have "distinct (filter (\<lambda>a. a \<noteq> zero_addr) (take i as) @ filter (\<lambda>a. a \<noteq> zero_addr) (drop (Suc i) as))"
    using assms(1) by (auto simp: list_ok_def split: if_splits)
  moreover have "set (as[i := zero_addr]) \<subseteq> insert zero_addr (set as)" by (rule set_update_subset_insert)
  ultimately show ?thesis
    using assms unfolding list_ok_def by (auto simp: upd_conv_take_nth_drop)
qed

text \<open>Writing the list: the store then holds its text.\<close>

lemma update_to_property:
  assumes "bp_keeps api reboot cur stored" "list_ok (addr_allow_list al)"
  shows "\<exists>s'. update_allowlist_to_property api junk (al, s) = Some (al, s') \<and>
    cur s' = ((fst (cur s))(''bp.bt.allowlist'' \<mapsto> list_text (addr_allow_list al)), snd (cur s)) \<and> stored s' = cur s'"
proof -
  have "append_addresses (addr_allow_list al) [] = Some (list_text (addr_allow_list al))"
    using append_addresses_text [of "addr_allow_list al" "[]"] assms(2)
    by (simp add: list_ok_def allowlist_buffer_size_def)
  then show ?thesis
    using set_string_property [OF assms(1) property_table(1) property_entries(1) property_entries(3),
        of "junk\<lparr> pv_str := Some (list_text (addr_allow_list al)) \<rparr>"]
    by (simp add: update_allowlist_to_property_def property_entries [unfolded One_nat_def])
qed

text \<open>Reading the text of a list back into an array that has room for it.\<close>

lemma parse_text:
  assumes "bp_keeps api reboot cur stored" "list_ok (xs @ ys @ replicate m zero_addr)" "zero_addr \<notin> set xs" "zero_addr \<notin> set ys"
    "addr_allow_list al = xs @ replicate (length ys + m) zero_addr" "str = list_text xs @ list_text ys"
  shows "\<exists>s'. parse_allowlist api junk str (length (list_text xs)) (al, s) =
      Some (al\<lparr> addr_allow_list := xs @ ys @ replicate m zero_addr \<rparr>, s') \<and> snd (cur s') = snd (cur s)"
  using assms
proof (induction ys arbitrary: xs al s)
  case Nil
  then have "al\<lparr> addr_allow_list := xs @ replicate m zero_addr \<rparr> = al" by simp
  with Nil show ?case by (subst parse_allowlist.simps) simp
next
  case (Cons y ys)
  have y: "length y = 6" "y \<noteq> zero_addr" "y \<notin> set xs" using Cons.prems by (auto simp: list_ok_def)
  have d: "drop (length (list_text xs)) str = bd_addr_to_str y @ '','' @ list_text ys" using Cons.prems y by simp
  have lt: "length (list_text xs) < length str" using Cons.prems y by simp
  let ?z = "replicate (Suc (length ys + m)) zero_addr"
  have al: "addr_allow_list al = xs @ ?z" using Cons.prems(5) by simp
  have nin: "\<not> is_address_in_allowlist y al" using y by (simp add: is_address_in_allowlist_def al)
  have pos: "position zero_addr (addr_allow_list al) = Some (length xs)"
    unfolding al using Cons.prems(3) by (simp add: position_first)
  let ?al = "al\<lparr> addr_allow_list := (xs @ [y]) @ replicate (length ys + m) zero_addr \<rparr>"
  have upd: "al\<lparr> addr_allow_list := (addr_allow_list al)[length xs := y] \<rparr> = ?al"
    unfolding al by (simp add: list_update_append)
  have ok: "list_ok ((xs @ [y]) @ ys @ replicate m zero_addr)" using Cons.prems(2) by simp
  have okl: "list_ok (addr_allow_list ?al)"
    using ok by (auto simp: list_ok_def)
  obtain s1 where s1: "uni_bt_allowlist_add_addr api junk y (al, s) = Some (True, ?al, s1)" "snd (cur s1) = snd (cur s)"
    using update_to_property [OF assms(1) okl, of junk s] nin pos
    by (auto simp: uni_bt_allowlist_add_addr_def upd)
  obtain s2 where s2: "parse_allowlist api junk str (length (list_text (xs @ [y]))) (?al, s1) =
      Some (?al\<lparr> addr_allow_list := (xs @ [y]) @ ys @ replicate m zero_addr \<rparr>, s2)" "snd (cur s2) = snd (cur s1)"
    using Cons.IH [OF assms(1) ok, of ?al s1] Cons.prems(3,4,6) y by (auto simp: list_text_def)
  have len: "length (list_text xs) + (6 * 2 + 5 + 1) = length (list_text (xs @ [y]))"
    using y by (simp add: list_text_def address_text(2))
  show ?case
    using s2 by (subst parse_allowlist.simps) (simp only: lt d address_text(1) [OF y(1)] s1 len if_True
        option.case bind.bind_lunit snd_conv, auto simp: s1(2))
qed

section \<open>Surviving a reboot\<close>

text \<open>What the console can do to the list.\<close>

datatype allow_op = AddAddr bytes | RemoveAddr bytes | RemoveAll | SetEnabled bool

fun allow_step ::
  "'s bp32_nvs \<Rightarrow> uni_property_value \<Rightarrow> allow_op \<Rightarrow> allowlist \<times> 's \<Rightarrow> (allowlist \<times> 's) option" where
  "allow_step api junk (AddAddr a) w = map_option snd (uni_bt_allowlist_add_addr api junk a w)"
| "allow_step api junk (RemoveAddr a) w = map_option snd (uni_bt_allowlist_remove_addr api junk a w)"
| "allow_step api junk RemoveAll w = map_option snd (uni_bt_allowlist_remove_all api junk w)"
| "allow_step api junk (SetEnabled b) w = Some (uni_bt_allowlist_set_enabled api junk b w)"

fun allow_run ::
  "'s bp32_nvs \<Rightarrow> (uni_property_value \<times> allow_op) list \<Rightarrow> allowlist \<times> 's \<Rightarrow> (allowlist \<times> 's) option" where
  "allow_run api [] w = Some w"
| "allow_run api ((junk, x) # xs) w = Option.bind (allow_step api junk x w) (allow_run api xs)"

text \<open>The store agrees with the variables; a key never written stands for the default.\<close>

definition in_sync :: "('s \<Rightarrow> bp_view) \<Rightarrow> ('s \<Rightarrow> bp_view) \<Rightarrow> nat \<Rightarrow> allowlist \<times> 's \<Rightarrow> bool" where
  "in_sync cur stored n = (\<lambda>(al, s). list_ok (addr_allow_list al) \<and> length (addr_allow_list al) = n \<and>
     stored s = cur s \<and>
     (fst (cur s) ''bp.bt.allowlist'' = Some (list_text (addr_allow_list al)) \<or>
      fst (cur s) ''bp.bt.allowlist'' = None \<and> addr_allow_list al = replicate n zero_addr) \<and>
     (case snd (cur s) ''bp.bt.allow_en'' of None \<Rightarrow> \<not> enforced al | Some b \<Rightarrow> enforced al = (b \<noteq> 0)))"

lemma update_in_sync:
  assumes "bp_keeps api reboot cur stored" "in_sync cur stored n (al, s)" "list_ok as" "length as = n"
  shows "\<exists>s'. update_allowlist_to_property api junk (al\<lparr> addr_allow_list := as \<rparr>, s) = Some (al\<lparr> addr_allow_list := as \<rparr>, s') \<and>
    in_sync cur stored n (al\<lparr> addr_allow_list := as \<rparr>, s')"
  using update_to_property [OF assms(1), of "al\<lparr> addr_allow_list := as \<rparr>" junk s] assms(2-4)
  by (auto simp: in_sync_def split: option.splits)

lemma zero_list_ok: "n \<le> 7 \<Longrightarrow> list_ok (replicate n zero_addr)"
  by (auto simp: list_ok_def)

lemma pv_u8_set [simp]: "pv_u8 (pv_set_u8 b v) = b"
proof -
  have m: "(0xFF :: u32) = mask 8" by (simp add: mask_eq_exp_minus_1)
  show ?thesis
    by (rule bit_word_eqI) (auto simp: pv_u8_def pv_set_u8_def m bit_simps bit_to_word)
qed

lemma step_in_sync:
  assumes "bp_keeps api reboot cur stored" "in_sync cur stored n (al, s)" "n \<le> 7" "\<And>a. x = AddAddr a \<Longrightarrow> length a = 6"
  shows "\<exists>w'. allow_step api junk x (al, s) = Some w' \<and> in_sync cur stored n w'"
proof (cases x)
  case (AddAddr a)
  have l: "list_ok (addr_allow_list al)" "length (addr_allow_list al) = n" using assms(2) by (simp_all add: in_sync_def)
  show ?thesis
  proof (cases "is_address_in_allowlist a al \<or> position zero_addr (addr_allow_list al) = None")
    case True
    with AddAddr assms(2) show ?thesis by (auto simp: uni_bt_allowlist_add_addr_def)
  next
    case False
    then obtain i where i: "position zero_addr (addr_allow_list al) = Some i" "a \<notin> set (addr_allow_list al)"
      by (auto simp: is_address_in_allowlist_def)
    have "list_ok ((addr_allow_list al)[i := a])"
      using list_ok_add [OF l(1) _ _ i(2) assms(4) [OF AddAddr]] position_Some [OF i(1)] by blast
    with update_in_sync [OF assms(1,2), of "(addr_allow_list al)[i := a]" junk] i l AddAddr show ?thesis
      by (auto simp: uni_bt_allowlist_add_addr_def is_address_in_allowlist_def)
  qed
next
  case (RemoveAddr a)
  have l: "list_ok (addr_allow_list al)" "length (addr_allow_list al) = n" using assms(2) by (simp_all add: in_sync_def)
  show ?thesis
  proof (cases "position a (addr_allow_list al)")
    case None
    with RemoveAddr assms(2) show ?thesis by (simp add: uni_bt_allowlist_remove_addr_def)
  next
    case (Some i)
    have "list_ok ((addr_allow_list al)[i := zero_addr])"
      using list_ok_remove [OF l(1)] position_Some [OF Some] by blast
    with update_in_sync [OF assms(1,2), of "(addr_allow_list al)[i := zero_addr]" junk] Some l RemoveAddr show ?thesis
      by (auto simp: uni_bt_allowlist_remove_addr_def)
  qed
next
  case RemoveAll
  have "map (\<lambda>_. zero_addr) (addr_allow_list al) = replicate n zero_addr"
    using assms(2) by (simp add: in_sync_def map_replicate_const)
  with update_in_sync [OF assms(1,2) zero_list_ok [OF assms(3)], of junk] RemoveAll show ?thesis
    by (auto simp: uni_bt_allowlist_remove_all_def)
next
  case (SetEnabled b)
  have k: "prop_kind (properties ! 0) \<in> {UNI_PROPERTY_TYPE_BOOL, UNI_PROPERTY_TYPE_U8}" by (simp add: property_entries)
  show ?thesis
    using assms(2) SetEnabled set_byte_property [OF assms(1) property_table(2) k property_entries(7)]
    by (auto simp: uni_bt_allowlist_set_enabled_def in_sync_def property_entries)
qed

lemma run_in_sync:
  assumes "bp_keeps api reboot cur stored" "n \<le> 7" "\<forall>a. AddAddr a \<in> snd ` set xs \<longrightarrow> length a = 6" "in_sync cur stored n w"
  shows "\<exists>w'. allow_run api xs w = Some w' \<and> in_sync cur stored n w'"
  using assms(3,4)
proof (induction xs arbitrary: w)
  case (Cons x xs)
  obtain junk y where x: "x = (junk, y)" by fastforce
  obtain al s where w: "w = (al, s)" by fastforce
  have "length a = 6" if "y = AddAddr a" for a using Cons.prems(1) x that by auto
  from step_in_sync [OF assms(1) Cons.prems(2) [unfolded w] assms(2), where x = y and junk = junk] this obtain w1
    where "allow_step api junk y (al, s) = Some w1" "in_sync cur stored n w1" by blast
  moreover have "\<forall>a. AddAddr a \<in> snd ` set xs \<longrightarrow> length a = 6" using Cons.prems(1) by simp
  ultimately show ?case using Cons.IH by (simp add: x w)
qed simp

lemma pv_u8_zero: "pv_u8 \<lparr> pv_u32 = 0, pv_str = t \<rparr> = 0"
  by (simp add: pv_u8_def to_u8_def)

text \<open>Reading the properties at boot restores what was in force.\<close>

lemma init_restores:
  assumes "bp_keeps api reboot cur stored" "in_sync cur stored n (al, s)" "n \<le> 7"
  shows "\<exists>al' s'. uni_bt_allowlist_init api junk (allowlist_boot n, s) = Some (al', s') \<and> enforced al' = enforced al \<and>
    (\<forall>a. a \<noteq> zero_addr \<longrightarrow> (a \<in> set (addr_allow_list al')) = (a \<in> set (addr_allow_list al)))"
proof -
  let ?as = "addr_allow_list al" and ?key = "''bp.bt.allowlist''"
  have k: "prop_kind (properties ! 0) \<in> {UNI_PROPERTY_TYPE_BOOL, UNI_PROPERTY_TYPE_U8}" by (simp add: property_entries)
  obtain v s1 where g: "uni_property_get api UNI_PROPERTY_IDX_ALLOWLIST_ENABLED junk s = (v, s1)" by fastforce
  have v: "(pv_u8 v \<noteq> 0) = enforced al" "cur s1 = cur s"
    using get_byte_property [OF assms(1) property_table(2) k, where junk = junk and s = s] g assms(2)
    by (auto simp: in_sync_def same_flash_def property_entries number_value_def pv_u8_zero split: option.splits)
  obtain u s2 where g2: "uni_property_get api UNI_PROPERTY_IDX_ALLOWLIST_LIST junk s1 = (u, s2)" by fastforce
  have l: "list_ok ?as" "length ?as = n" using assms(2) by (simp_all add: in_sync_def)
  have "length (list_text ?as) \<le> 18 * length ?as" using l(1) by (intro length_list_text) (simp add: list_ok_def)
  then have short: "length (list_text ?as) < PROPERTY_STRING_MAX_LEN - 1"
    using l assms(3) by (simp add: PROPERTY_STRING_MAX_LEN_def)
  note get = get_string_property [OF assms(1) property_table(1) property_entries(1), where junk = junk and s = s1, unfolded property_entries]
  show ?thesis
  proof (cases "fst (cur s) ?key")
    case None
    then have "pv_str u = None" "?as = replicate n zero_addr"
      using get(1) g2 v assms(2) by (simp_all add: in_sync_def number_value_def)
    then show ?thesis
      using g g2 v by (simp add: uni_bt_allowlist_init_def update_allowlist_from_property_def allowlist_boot_def)
  next
    case (Some t)
    then have u: "pv_str u = Some (list_text ?as)"
      using get(1) g2 v short assms(2) by (auto simp: in_sync_def)
    let ?ys = "filter (\<lambda>a. a \<noteq> zero_addr) ?as"
    define m where "m = n - length ?ys"
    have m: "length ?ys + m = n" using length_filter_le [of "\<lambda>a. a \<noteq> zero_addr" ?as] l(2) by (simp add: m_def)
    have ok: "list_ok ([] @ ?ys @ replicate m zero_addr)"
      using l(1) m assms(3) by (auto simp: list_ok_def)
    have nz: "zero_addr \<notin> set ([] :: bytes list)" "zero_addr \<notin> set ?ys" by simp_all
    let ?al = "\<lparr> addr_allow_list = replicate n zero_addr, enforced = enforced al \<rparr>"
    have start: "addr_allow_list ?al = [] @ replicate (length ?ys + m) zero_addr" by (simp add: m)
    have text_eq: "list_text ?as = list_text [] @ list_text ?ys" by (simp add: list_text_filter)
    obtain s' where "parse_allowlist api junk (list_text ?as) (length (list_text [])) (?al, s2) =
        Some (?al\<lparr> addr_allow_list := [] @ ?ys @ replicate m zero_addr \<rparr>, s')"
      using parse_text [OF assms(1) ok nz start text_eq, of junk s2] by blast
    then show ?thesis
      using g g2 v u by (simp add: uni_bt_allowlist_init_def update_allowlist_from_property_def allowlist_boot_def)
  qed
qed

text \<open>C39: The allow list survives a reboot.  On a store that behaves as the SDK documents it (writes do not fail, only a
  commit makes a value last, a restart drops the rest) and has none of the list's properties, after any sequence of
  additions, removals and switches in an array of at most seven addresses, no write leaves the buffer the list is
  written into, and initialising from the store as a restart leaves it gives variables that allow exactly the same
  addresses.\<close>

theorem allowlist_survives_reboot:
  assumes "bp_keeps api reboot cur stored" "n \<le> 7" "\<forall>a. AddAddr a \<in> snd ` set xs \<longrightarrow> length a = 6"
    and "fst (stored s0) ''bp.bt.allowlist'' = None" "snd (stored s0) ''bp.bt.allow_en'' = None"
  shows "\<exists>al s al' s'. allow_run api xs (allowlist_boot n, reboot s0) = Some (al, s) \<and>
    uni_bt_allowlist_init api junk (allowlist_boot n, reboot s) = Some (al', s') \<and>
    (\<forall>a. a \<noteq> zero_addr \<longrightarrow> uni_bt_allowlist_is_allowed_addr a al' = uni_bt_allowlist_is_allowed_addr a al)"
proof -
  have b: "cur (reboot s) = stored s \<and> stored (reboot s) = stored s" for s
    using assms(1) by (simp add: bp_keeps_def)
  have "in_sync cur stored n (allowlist_boot n, reboot s0)"
    using assms(2,4,5) b [of s0] by (simp add: in_sync_def allowlist_boot_def zero_list_ok)
  then obtain al s where r: "allow_run api xs (allowlist_boot n, reboot s0) = Some (al, s)" "in_sync cur stored n (al, s)"
    using run_in_sync [OF assms(1-3), of "(allowlist_boot n, reboot s0)"] by auto
  have "in_sync cur stored n (al, reboot s)" using r(2) b [of s] by (simp add: in_sync_def)
  with r(1) init_restores [OF assms(1) _ assms(2), of al "reboot s" junk] show ?thesis
    by (auto simp: uni_bt_allowlist_is_allowed_addr_def is_address_in_allowlist_def)
qed

theorem allowlist_survives_reboot_witness:
  "\<exists>al s al' s'. allow_run map_bp_nvs [(number_value 7, AddAddr [1, 2, 3, 4, 5, 6]), (number_value 0, SetEnabled True)]
       (allowlist_boot 4, map_flash_reboot map_flash_empty) = Some (al, s) \<and>
     uni_bt_allowlist_init map_bp_nvs (number_value 9) (allowlist_boot 4, map_flash_reboot s) = Some (al', s') \<and>
     (\<forall>a. a \<noteq> zero_addr \<longrightarrow> uni_bt_allowlist_is_allowed_addr a al' = uni_bt_allowlist_is_allowed_addr a al)"
  by (rule allowlist_survives_reboot [OF map_bp_nvs_keeps]) (simp_all add: map_flash_empty_def)

text \<open>The security level read after it was set has its upper three bytes from the stack: the property is a byte,
  which is all that is read into an uninitialised value, and the caller takes the value's 32 bits.\<close>

theorem gap_level_reads_stack:
  assumes "bp_keeps api reboot cur stored"
  shows "fst (uni_bt_get_gap_security_level api junk (uni_bt_set_gap_security_level api gap junk' s)) =
    (pv_u32 junk AND NOT 0xFF) OR to_u32 (to_u8 gap)"
proof -
  have k: "prop_kind (properties ! 4) \<in> {UNI_PROPERTY_TYPE_BOOL, UNI_PROPERTY_TYPE_U8}" by (simp add: property_entries)
  show ?thesis
    using get_byte_property(1) [OF assms property_table(3) k] set_byte_property(1) [OF assms property_table(3) k property_entries(11)]
    by (simp add: uni_bt_get_gap_security_level_def uni_bt_set_gap_security_level_def property_entries map_prod_def split_beta
        pv_set_u8_def pv_u8_def)
qed

theorem gap_level_reads_stack_witness:
  "fst (uni_bt_get_gap_security_level map_bp_nvs (number_value 0xABCDEF00)
     (uni_bt_set_gap_security_level map_bp_nvs 2 (number_value 0) map_flash_empty)) = 0xABCDEF02"
  unfolding gap_level_reads_stack [OF map_bp_nvs_keeps] number_value_def by code_simp

end
