(* ===== verification/Uni_Bt_Sdp.thy ===== *)
theory Uni_Bt_Sdp
  imports Hid_Lifecycle Uni_Allowlist Sdp_Util
begin

text \<open>
  Service discovery of a BR/EDR gamepad and the connection state machine it drives:
  \<^verbatim>\<open>src/components/bluepad32/bt/uni_bt_sdp.c\<close> and \<^verbatim>\<open>uni_bt_bredr_process_fsm\<close> of \<^verbatim>\<open>bt/uni_bt_bredr.c\<close>, with the
  guess of a controller from its name (\<^verbatim>\<open>uni_hid_device.c\<close>, \<^verbatim>\<open>parser/uni_hid_parser_ds3.c\<close>,
  \<^verbatim>\<open>parser/uni_hid_parser_switch.c\<close>).

  The state is that of the device table, the variables of the discovery, and whether BTstack's SDP client
  (\<^verbatim>\<open>src/components/btstack/src/classic/sdp_client.c\<close>) is busy and which of the two result functions it calls.
  \<^const>\<open>None\<close> as a result is the firmware's end: a failed assertion, a write outside an array or a loop that never
  ends.
\<close>

datatype sdp_handler = SDP_PID_QUERY_RESULT | SDP_HID_QUERY_RESULT

record bt =
  bp :: bp32
  sdp_device :: "nat option"
  sdp_query_timer :: "nat option"
  sdp_attribute_value :: bytes
  sdp_client :: "sdp_handler option"
  bt_allow_incoming_connections :: bool
  bt_allowlist :: allowlist

text \<open>
  What an event finds outside: the table of known controllers, the parsers' functions, the answers of BTstack
  (a new channel's identifier, or \<^const>\<open>None\<close> when there is no memory for one), the host's address, and what
  uninitialised memory holds.
\<close>

record bt_env =
  be_controllers :: "(u32 \<times> uni_controller_type) list"
  be_setup :: "parser_name \<Rightarrow> nat \<Rightarrow> bp32 \<Rightarrow> bp32 option"
  be_input_report :: "nat \<Rightarrow> bytes \<Rightarrow> bp32 \<Rightarrow> bp32 option"
  be_feature_report :: "parser_name \<Rightarrow> nat \<Rightarrow> bytes \<Rightarrow> bp32 \<Rightarrow> bp32 option"
  be_channel :: "u16 option"
  be_sdp_channel :: bool
  be_local_addr :: bytes
  be_iterator :: des_iterator
  be_memory :: memory

section \<open>Working on the device table\<close>

definition upd_bp :: "(bp32 \<Rightarrow> bp32) \<Rightarrow> bt \<Rightarrow> bt" where
  "upd_bp f w = w\<lparr> bp := f (bp w) \<rparr>"

definition try_bp :: "(bp32 \<Rightarrow> bp32 option) \<Rightarrow> bt \<Rightarrow> bt option" where
  "try_bp f w = map_option (\<lambda>b. w\<lparr> bp := b \<rparr>) (f (bp w))"

definition device :: "bt \<Rightarrow> nat \<Rightarrow> uni_hid_device" where
  "device w i = dev (bp w) i"

definition upd_device :: "nat \<Rightarrow> (uni_hid_device \<Rightarrow> uni_hid_device) \<Rightarrow> bt \<Rightarrow> bt" where
  "upd_device i f = upd_bp (upd_dev i f)"

definition try_device :: "nat \<Rightarrow> (uni_hid_device \<Rightarrow> uni_hid_device option) \<Rightarrow> bt \<Rightarrow> bt option" where
  "try_device i f w = map_option (\<lambda>d. upd_device i (\<lambda>_. d) w) (f (device w i))"

definition set_conn_state :: "nat \<Rightarrow> uni_bt_conn_state \<Rightarrow> bt \<Rightarrow> bt" where
  "set_conn_state i s = upd_bp (upd_conn i (uni_bt_conn_set_state s))"

definition emit_bt :: "hid_effect \<Rightarrow> bt \<Rightarrow> bt" where
  "emit_bt e = upd_bp (emit_hid e)"

section \<open>Guessing a controller from its name\<close>

definition DUALSHOCK3_VID :: u16 where "DUALSHOCK3_VID = 0x054c"

definition DUALSHOCK3_PID :: u16 where "DUALSHOCK3_PID = 0x0268"

text \<open>Marking a clone in the parser's private data is left out.\<close>

definition uni_hid_parser_ds3_does_name_match :: "uni_hid_device \<Rightarrow> string \<Rightarrow> bool \<times> uni_hid_device" where
  "uni_hid_parser_ds3_does_name_match d name =
     (if name = ''Navigation Controller'' \<or> take 15 name = ''PLAYSTATION(R)3''
      then (True, uni_hid_device_set_product_id DUALSHOCK3_PID (uni_hid_device_set_vendor_id DUALSHOCK3_VID d))
      else (False, d))"

definition switch_names :: "(string \<times> u16 \<times> u16) list" where
  "switch_names = [(''Pro Controller'', 0x057e, 0x2009), (''Joy-Con (L)'', 0x057e, 0x2006),
     (''Joy-Con (R)'', 0x057e, 0x2007), (''SNES Controller'', 0x057e, 0x2017)]"

definition uni_hid_parser_switch_does_name_match :: "uni_hid_device \<Rightarrow> string \<Rightarrow> bool \<times> uni_hid_device" where
  "uni_hid_parser_switch_does_name_match d name =
     (case map_of switch_names name of None \<Rightarrow> (False, d)
      | Some (vid, pid) \<Rightarrow> (True, uni_hid_device_set_product_id pid (uni_hid_device_set_vendor_id vid d)))"

definition uni_hid_device_guess_controller_type_from_name ::
  "(u32 \<times> uni_controller_type) list \<Rightarrow> uni_hid_device \<Rightarrow> string option \<Rightarrow> (bool \<times> uni_hid_device) option" where
  "uni_hid_device_guess_controller_type_from_name arrControllers d name =
     (case name of None \<Rightarrow> Some (False, d)
      | Some s \<Rightarrow>
          let (m1, d1) = uni_hid_parser_ds3_does_name_match d s;
              (m2, d2) = (if m1 then (m1, d1) else uni_hid_parser_switch_does_name_match d1 s)
          in if m2 then map_option (\<lambda>d3. (True, d3)) (uni_hid_device_guess_controller_type_from_pid_vid arrControllers d2)
             else Some (False, d2))"

section \<open>Queries\<close>

definition MAX_ATTRIBUTE_VALUE_SIZE :: nat where "MAX_ATTRIBUTE_VALUE_SIZE = 512"

definition BLUETOOTH_SERVICE_CLASS_PNP_INFORMATION :: u16 where "BLUETOOTH_SERVICE_CLASS_PNP_INFORMATION = 0x1200"

definition BLUETOOTH_SERVICE_CLASS_HUMAN_INTERFACE_DEVICE_SERVICE :: u16 where
  "BLUETOOTH_SERVICE_CLASS_HUMAN_INTERFACE_DEVICE_SERVICE = 0x1124"

text \<open>
  The SDP client takes one query at a time; it is busy from the moment it takes one, also when the channel for it
  cannot be created.
\<close>

definition sdp_client_query_uuid16 :: "bt_env \<Rightarrow> sdp_handler \<Rightarrow> bytes \<Rightarrow> u16 \<Rightarrow> bt \<Rightarrow> bool \<times> bt" where
  "sdp_client_query_uuid16 env h addr uuid w =
     (if sdp_client w \<noteq> None then (False, w)
      else (be_sdp_channel env, emit_bt (SdpQuery addr uuid) (w\<lparr> sdp_client := Some h \<rparr>)))"

definition uni_bt_sdp_query_start_vid_pid :: "bt_env \<Rightarrow> nat \<Rightarrow> bt \<Rightarrow> bt option" where
  "uni_bt_sdp_query_start_vid_pid env i w =
     (let w1 = set_conn_state i UNI_BT_CONN_STATE_SDP_VENDOR_REQUESTED w;
          (ok, w2) = sdp_client_query_uuid16 env SDP_PID_QUERY_RESULT (btaddr (conn (device w1 i)))
            BLUETOOTH_SERVICE_CLASS_PNP_INFORMATION w1
      in if \<not> ok then try_bp (remove_device i) w2 else Some w2)"

text \<open>Adding a timer that is in the run loop already fails an assertion of BTstack.\<close>

definition uni_bt_sdp_query_start :: "bt_env \<Rightarrow> nat \<Rightarrow> bt \<Rightarrow> bt option" where
  "uni_bt_sdp_query_start env i w =
     (if sdp_device w \<noteq> None then try_bp (remove_device i) w
      else if sdp_query_timer w \<noteq> None then None
      else uni_bt_sdp_query_start_vid_pid env i (w\<lparr> sdp_device := Some i, sdp_query_timer := Some i \<rparr>))"

text \<open>\<open>fsm\<close> is \<^verbatim>\<open>uni_bt_bredr_process_fsm\<close>, which calls these functions and is called by them.\<close>

definition uni_bt_sdp_query_end :: "(nat \<Rightarrow> bt \<Rightarrow> bt option) \<Rightarrow> nat \<Rightarrow> bt \<Rightarrow> bt option" where
  "uni_bt_sdp_query_end fsm i w =
     fsm i ((set_conn_state i UNI_BT_CONN_STATE_SDP_HID_DESCRIPTOR_FETCHED w)\<lparr> sdp_device := None, sdp_query_timer := None \<rparr>)"

definition uni_bt_sdp_query_start_hid_descriptor ::
  "(nat \<Rightarrow> bt \<Rightarrow> bt option) \<Rightarrow> bt_env \<Rightarrow> nat \<Rightarrow> bt \<Rightarrow> bt option" where
  "uni_bt_sdp_query_start_hid_descriptor fsm env i w =
     (if \<not> uni_hid_device_does_require_hid_descriptor (device w i) then uni_bt_sdp_query_end fsm i w
      else if sdp_device w = None then Some w
      else
        let w1 = set_conn_state i UNI_BT_CONN_STATE_SDP_HID_DESCRIPTOR_REQUESTED w;
            (ok, w2) = sdp_client_query_uuid16 env SDP_HID_QUERY_RESULT (btaddr (conn (device w1 i)))
              BLUETOOTH_SERVICE_CLASS_HUMAN_INTERFACE_DEVICE_SERVICE w1
        in if \<not> ok then try_bp (remove_device i) (w2\<lparr> sdp_query_timer := None \<rparr>) else Some w2)"

section \<open>The connection state machine\<close>

definition BLUETOOTH_PSM_HID_CONTROL :: u16 where "BLUETOOTH_PSM_HID_CONTROL = 0x11"

definition BLUETOOTH_PSM_HID_INTERRUPT :: u16 where "BLUETOOTH_PSM_HID_INTERRUPT = 0x13"

definition l2cap_create_control_connection :: "bt_env \<Rightarrow> nat \<Rightarrow> bt \<Rightarrow> bt" where
  "l2cap_create_control_connection env i w =
     (let w1 = emit_bt (L2capCreateChannel (btaddr (conn (device w i))) BLUETOOTH_PSM_HID_CONTROL) w
      in case be_channel env of None \<Rightarrow> w1
         | Some cid \<Rightarrow> set_conn_state i UNI_BT_CONN_STATE_L2CAP_CONTROL_CONNECTION_REQUESTED
             (upd_bp (upd_conn i (\<lambda>c. c\<lparr> control_cid := cid \<rparr>)) w1))"

definition l2cap_create_interrupt_connection :: "bt_env \<Rightarrow> nat \<Rightarrow> bt \<Rightarrow> bt" where
  "l2cap_create_interrupt_connection env i w =
     (let w1 = emit_bt (L2capCreateChannel (btaddr (conn (device w i))) BLUETOOTH_PSM_HID_INTERRUPT) w
      in case be_channel env of None \<Rightarrow> w1
         | Some cid \<Rightarrow> set_conn_state i UNI_BT_CONN_STATE_L2CAP_INTERRUPT_CONNECTION_REQUESTED
             (upd_bp (upd_conn i (\<lambda>c. c\<lparr> interrupt_cid := cid \<rparr>)) w1))"

definition UNI_BT_CLOCK_OFFSET_VALID :: u16 where "UNI_BT_CLOCK_OFFSET_VALID = 0x8000"

text \<open>Asking for the name arms a timer of the device; arming it twice fails an assertion.\<close>

definition request_name :: "nat \<Rightarrow> bt \<Rightarrow> bt option" where
  "request_name i w =
     (let c = conn (device w i);
          e = (if clock_offset c AND UNI_BT_CLOCK_OFFSET_VALID \<noteq> 0
               then GapRemoteNameRequest (btaddr c) (page_scan_repetition_mode c) (clock_offset c)
               else GapRemoteNameRequest (btaddr c) 2 0);
          w1 = set_conn_state i UNI_BT_CONN_STATE_REMOTE_NAME_INQUIRED (emit_bt e w)
      in if inquiry_remote_name_timer (device w1 i) then None
         else Some (upd_device i (\<lambda>d. d\<lparr> inquiry_remote_name_timer := True \<rparr>) w1))"

definition set_ready :: "bt_env \<Rightarrow> nat \<Rightarrow> bt \<Rightarrow> bt option" where
  "set_ready env i = try_bp (uni_hid_device_set_ready (be_setup env) (Some i))"

text \<open>The state \<^verbatim>\<open>REMOTE_NAME_FETCHED\<close>.\<close>

definition fsm_name_fetched :: "bt_env \<Rightarrow> nat \<Rightarrow> bt \<Rightarrow> bt option" where
  "fsm_name_fetched env i w =
     (if dev_name (device w i) = ''Wireless Controller''
      then uni_bt_sdp_query_start env i (upd_device i (\<lambda>d. d\<lparr> sdp_query_type := SDP_QUERY_BEFORE_CONNECT \<rparr>) w)
      else
        Option.bind (uni_hid_device_guess_controller_type_from_name (be_controllers env) (device w i)
            (Some (dev_name (device w i)))) (\<lambda>(guessed, d).
          let w1 = upd_device i (\<lambda>_. d) w;
              w2 = (if guessed
                    then set_conn_state i UNI_BT_CONN_STATE_SDP_HID_DESCRIPTOR_FETCHED
                      (upd_device i (\<lambda>d. d\<lparr> sdp_query_type := SDP_QUERY_NOT_NEEDED \<rparr>) w1)
                    else w1)
          in if uni_hid_device_is_incoming (device w2 i)
             then if sdp_query_type (device w2 i) = SDP_QUERY_NOT_NEEDED then set_ready env i w2
                  else uni_bt_sdp_query_start env i w2
             else Some (l2cap_create_control_connection env i w2)))"

text \<open>The state \<^verbatim>\<open>SDP_HID_DESCRIPTOR_FETCHED\<close>.\<close>

definition fsm_descriptor_fetched :: "bt_env \<Rightarrow> nat \<Rightarrow> bt \<Rightarrow> bt option" where
  "fsm_descriptor_fetched env i w =
     (if uni_hid_device_is_incoming (device w i) then set_ready env i w
      else if sdp_query_type (device w i) = SDP_QUERY_BEFORE_CONNECT
      then Some (l2cap_create_control_connection env i w)
      else set_ready env i w)"

definition fsm_body :: "(nat \<Rightarrow> bt \<Rightarrow> bt option) \<Rightarrow> bt_env \<Rightarrow> nat \<Rightarrow> bt \<Rightarrow> bt option" where
  "fsm_body fsm env i w =
     (let d = device w i; st = uni_bt_conn_get_state (conn d)
      in if \<not> uni_hid_device_has_name d \<and>
            (st = UNI_BT_CONN_STATE_DEVICE_DISCOVERED \<or> st = UNI_BT_CONN_STATE_L2CAP_INTERRUPT_CONNECTED)
         then request_name i w
         else if st = UNI_BT_CONN_STATE_REMOTE_NAME_FETCHED then fsm_name_fetched env i w
         else if st = UNI_BT_CONN_STATE_SDP_VENDOR_FETCHED
         then uni_bt_sdp_query_start_hid_descriptor fsm env i w
         else if st = UNI_BT_CONN_STATE_SDP_HID_DESCRIPTOR_FETCHED then fsm_descriptor_fetched env i w
         else if uni_hid_device_is_incoming d then Some w
         else if st = UNI_BT_CONN_STATE_L2CAP_CONTROL_CONNECTED
         then Some (l2cap_create_interrupt_connection env i w)
         else if st = UNI_BT_CONN_STATE_L2CAP_INTERRUPT_CONNECTED
         then if sdp_query_type d = SDP_QUERY_AFTER_CONNECT then uni_bt_sdp_query_start env i w
              else set_ready env i w
         else Some w)"

text \<open>The machine calls itself through the end of a query, at most once.\<close>

fun process_fsm :: "nat \<Rightarrow> bt_env \<Rightarrow> nat \<Rightarrow> bt \<Rightarrow> bt option" where
  "process_fsm 0 env i w = None"
| "process_fsm (Suc n) env i w = fsm_body (process_fsm n env) env i w"

definition uni_bt_bredr_process_fsm :: "bt_env \<Rightarrow> nat option \<Rightarrow> bt \<Rightarrow> bt option" where
  "uni_bt_bredr_process_fsm env d w = (case d of None \<Rightarrow> Some w | Some i \<Rightarrow> process_fsm 2 env i w)"

section \<open>Results\<close>

text \<open>An attribute arrives byte by byte; the last byte hands the buffer over.\<close>

datatype sdp_event =
    SdpAttributeByte (sdp_attribute_length: u16) (sdp_data_offset: u16) (sdp_data: u8) (sdp_attribute_id: u16)
  | SdpQueryComplete

definition sdp_attribute_byte :: "u16 \<Rightarrow> u16 \<Rightarrow> u8 \<Rightarrow> (bt \<Rightarrow> bt option) \<Rightarrow> bt \<Rightarrow> bt option" where
  "sdp_attribute_byte len offset b use w =
     (if unat len \<le> MAX_ATTRIBUTE_VALUE_SIZE
      then if unat offset \<ge> MAX_ATTRIBUTE_VALUE_SIZE then None
           else let w1 = w\<lparr> sdp_attribute_value := (sdp_attribute_value w)[unat offset := b] \<rparr>
                in if offset + 1 = len then use w1 else Some w1
      else Some w)"

definition attribute_memory :: "bt_env \<Rightarrow> bt \<Rightarrow> memory" where
  "attribute_memory env w a = (if a < length (sdp_attribute_value w) then sdp_attribute_value w ! a else be_memory env a)"

definition BLUETOOTH_ATTRIBUTE_VENDOR_ID :: u16 where "BLUETOOTH_ATTRIBUTE_VENDOR_ID = 0x0201"

definition BLUETOOTH_ATTRIBUTE_PRODUCT_ID :: u16 where "BLUETOOTH_ATTRIBUTE_PRODUCT_ID = 0x0202"

definition BLUETOOTH_ATTRIBUTE_HID_DESCRIPTOR_LIST :: u16 where "BLUETOOTH_ATTRIBUTE_HID_DESCRIPTOR_LIST = 0x0206"

definition string_bytes :: "memory \<Rightarrow> nat \<Rightarrow> bytes" where
  "string_bytes m element =
     map (\<lambda>k. m (element + unat (de_get_header_size m element) + k)) [0..<unat (de_get_data_size m element)]"

text \<open>The strings of one descriptor entry, then the entries of the list.\<close>

partial_function (option) descriptor_strings ::
  "memory \<Rightarrow> des_iterator \<Rightarrow> uni_hid_device \<Rightarrow> uni_hid_device option" where
  "descriptor_strings m it d =
     (if des_iterator_has_more it
      then Option.bind
        (if des_iterator_get_type m it \<noteq> DE_STRING then Some d
         else uni_hid_device_set_hid_descriptor (string_bytes m (it_address it)) d)
        (\<lambda>d1. descriptor_strings m (des_iterator_next m it) d1)
      else Some d)"

partial_function (option) descriptor_list ::
  "memory \<Rightarrow> des_iterator \<Rightarrow> des_iterator \<Rightarrow> uni_hid_device \<Rightarrow> uni_hid_device option" where
  "descriptor_list m inner it d =
     (if des_iterator_has_more it
      then Option.bind
        (if des_iterator_get_type m it \<noteq> DE_DES then Some d
         else descriptor_strings m (snd (des_iterator_init m (it_address it) inner)) d)
        (\<lambda>d1. descriptor_list m inner (des_iterator_next m it) d1)
      else Some d)"

declare descriptor_strings.simps [code] descriptor_list.simps [code]

text \<open>The iterators are uninitialised locals, and what initialising them returns is not looked at.\<close>

definition read_hid_descriptor :: "bt_env \<Rightarrow> nat \<Rightarrow> bt \<Rightarrow> bt option" where
  "read_hid_descriptor env i w =
     (let m = attribute_memory env w
      in try_device i (descriptor_list m (be_iterator env) (snd (des_iterator_init m 0 (be_iterator env)))) w)"

definition uni_handle_sdp_hid_query_result :: "bt_env \<Rightarrow> sdp_event \<Rightarrow> bt \<Rightarrow> bt option" where
  "uni_handle_sdp_hid_query_result env e w =
     (case sdp_device w of None \<Rightarrow> Some w
      | Some i \<Rightarrow>
          (case e of
             SdpAttributeByte len offset b attr \<Rightarrow>
               sdp_attribute_byte len offset b
                 (\<lambda>w1. if attr = BLUETOOTH_ATTRIBUTE_HID_DESCRIPTOR_LIST then read_hid_descriptor env i w1 else Some w1) w
           | SdpQueryComplete \<Rightarrow> uni_bt_sdp_query_end (process_fsm 2 env) i w))"

definition read_id :: "bt_env \<Rightarrow> u16 \<Rightarrow> nat \<Rightarrow> bt \<Rightarrow> bt option" where
  "read_id env attr i w =
     Some (case de_element_get_uint16 (attribute_memory env w) 0 of None \<Rightarrow> w
           | Some id16 \<Rightarrow>
               if attr = BLUETOOTH_ATTRIBUTE_VENDOR_ID then upd_device i (uni_hid_device_set_vendor_id id16) w
               else if attr = BLUETOOTH_ATTRIBUTE_PRODUCT_ID then upd_device i (uni_hid_device_set_product_id id16) w
               else w)"

definition uni_handle_sdp_pid_query_result :: "bt_env \<Rightarrow> sdp_event \<Rightarrow> bt \<Rightarrow> bt option" where
  "uni_handle_sdp_pid_query_result env e w =
     (case sdp_device w of None \<Rightarrow> Some w
      | Some i \<Rightarrow>
          (case e of
             SdpAttributeByte len offset b attr \<Rightarrow> sdp_attribute_byte len offset b (read_id env attr i) w
           | SdpQueryComplete \<Rightarrow>
               Option.bind (try_device i (uni_hid_device_guess_controller_type_from_pid_vid (be_controllers env)) w)
                 (\<lambda>w1. uni_bt_bredr_process_fsm env (Some i)
                    (set_conn_state i UNI_BT_CONN_STATE_SDP_VENDOR_FETCHED w1))))"

text \<open>The SDP client reports to the function of the query, free again when the query is complete.\<close>

definition sdp_client_event :: "bt_env \<Rightarrow> sdp_event \<Rightarrow> bt \<Rightarrow> bt option" where
  "sdp_client_event env e w =
     (case sdp_client w of None \<Rightarrow> Some w
      | Some h \<Rightarrow>
          let w1 = (if e = SdpQueryComplete then w\<lparr> sdp_client := None \<rparr> else w)
          in case h of SDP_PID_QUERY_RESULT \<Rightarrow> uni_handle_sdp_pid_query_result env e w1
             | SDP_HID_QUERY_RESULT \<Rightarrow> uni_handle_sdp_hid_query_result env e w1)"

text \<open>The timer's context is the device the query was started for.\<close>

definition sdp_query_timeout :: "bt \<Rightarrow> bt" where
  "sdp_query_timeout w =
     (case sdp_query_timer w of None \<Rightarrow> w
      | Some d \<Rightarrow>
          let w1 = w\<lparr> sdp_query_timer := None \<rparr>
          in if sdp_device w1 = None then w1 else if Some d \<noteq> sdp_device w1 then w1 else w1\<lparr> sdp_device := None \<rparr>)"

section \<open>Depth of the machine\<close>

text \<open>Two levels are enough: the end of a query leaves a state from which no query ends.\<close>

lemma device_simps [simp]:
  "device (w\<lparr> sdp_device := x \<rparr>) i = device w i" "device (w\<lparr> sdp_query_timer := t \<rparr>) i = device w i"
  "device (w\<lparr> sdp_attribute_value := v \<rparr>) i = device w i" "device (w\<lparr> sdp_client := c \<rparr>) i = device w i"
  by (simp_all add: device_def)

lemma state_after_set:
  "i < length (g_devices (bp w)) \<Longrightarrow> uni_bt_conn_get_state (conn (device (set_conn_state i s w) i)) = s"
  by (simp add: device_def set_conn_state_def upd_bp_def upd_conn_def uni_bt_conn_get_state_def uni_bt_conn_set_state_def)

lemma fsm_body_again:
  "uni_bt_conn_get_state (conn (device v i)) \<noteq> UNI_BT_CONN_STATE_SDP_VENDOR_FETCHED \<Longrightarrow> fsm_body f env i v = fsm_body g env i v"
  by (simp add: fsm_body_def Let_def)

lemma query_end_again:
  assumes "i < length (g_devices (bp w))"
  shows "uni_bt_sdp_query_end (fsm_body f env) i w = uni_bt_sdp_query_end (fsm_body g env) i w"
  unfolding uni_bt_sdp_query_end_def by (rule fsm_body_again) (simp add: state_after_set assms)

lemma process_fsm_depth:
  assumes "i < length (g_devices (bp w))"
  shows "process_fsm (Suc (Suc n)) env i w = process_fsm 2 env i w"
proof -
  have body: "process_fsm (Suc k) env = fsm_body (process_fsm k env) env" for k by (intro ext) simp
  have hid: "uni_bt_sdp_query_start_hid_descriptor (fsm_body f env) env i w =
      uni_bt_sdp_query_start_hid_descriptor (fsm_body g env) env i w" for f g
    unfolding uni_bt_sdp_query_start_hid_descriptor_def query_end_again [OF assms, of f env g] ..
  have "fsm_body (fsm_body f env) env i w = fsm_body (fsm_body g env) env i w" for f g
    unfolding fsm_body_def [of "fsm_body f env"] fsm_body_def [of "fsm_body g env"] hid [of f g] ..
  then show ?thesis unfolding numeral_2_eq_2 body by blast
qed

end
