(* ===== verification/Uni_Bt_Table.thy ===== *)
theory Uni_Bt_Table
  imports Seats Hid_Device_Laws Uni_Bt_Sdp
begin

text \<open>
  The device table under the connection machine: the seats of theory \<^verbatim>\<open>Seats\<close> together with the timers of the
  devices.  Every operation the connection machine performs on the table keeps them.
\<close>

section \<open>The table with its timers\<close>

text \<open>
  A device on its way to readiness has its connection timer running, and a device about to be asked for its name is not
  waiting for the name already; the descriptor has its buffer.
\<close>

definition asks_name :: "uni_bt_conn_state \<Rightarrow> bool" where
  "asks_name s \<longleftrightarrow> s = UNI_BT_CONN_STATE_DEVICE_DISCOVERED \<or> s = UNI_BT_CONN_STATE_L2CAP_INTERRUPT_CONNECTED"

definition slot_ok :: "uni_hid_device \<Rightarrow> bool" where
  "slot_ok d \<longleftrightarrow>
     (btaddr (conn d) \<noteq> zero_addr \<and> conn_state (conn d) \<noteq> UNI_BT_CONN_STATE_DEVICE_READY \<longrightarrow> connection_timer d) \<and>
     (\<not> uni_hid_device_has_name d \<and> asks_name (conn_state (conn d)) \<longrightarrow> \<not> inquiry_remote_name_timer d) \<and>
     length (hid_descriptor d) = HID_MAX_DESCRIPTOR_LEN"

definition table_ok :: "nat \<Rightarrow> bp32 \<Rightarrow> bool" where
  "table_ok n b \<longleftrightarrow> seats_ok b \<and> length (g_devices b) = n \<and> (\<forall>i < n. slot_ok (dev b i))"

lemma table_okD:
  assumes "table_ok n b"
  shows "seats_ok b" "length (g_devices b) = n" "i < n \<Longrightarrow> slot_ok (dev b i)"
  using assms by (simp_all add: table_ok_def)

text \<open>A change of a device that leaves what the seats depend on, and its timers' rules.\<close>

lemma table_ok_upd:
  assumes "table_ok n b" "i < n" "dev_view (f (dev b i)) = dev_view (dev b i)" "slot_ok (f (dev b i))"
  shows "table_ok n (upd_dev i f b)"
  using assms seats_ok_upd_dev [of b i f] by (auto simp: table_ok_def dev_upd_dev)

lemma table_ok_same: "same_table b b' \<Longrightarrow> table_ok n b \<Longrightarrow> table_ok n b'"
  using same_table_seats [of b b'] by (auto simp: table_ok_def same_table_def dev_def)

lemma table_ok_emit [simp]: "table_ok n (emit_hid e b) = table_ok n b"
  by (simp add: table_ok_def)

lemma table_ok_boot: "table_ok n (bp32_boot n gap)"
proof -
  have "slot_ok (dev (bp32_boot n gap) i)" if "i < n" for i
    using that by (simp add: bp32_boot_def arduino_init_def uni_hid_device_setup_def dev_def slot_ok_def
        uni_hid_device_init_def uni_hid_device_zero_def uni_bt_conn_init_def uni_bt_conn_zero_def)
  then show ?thesis by (simp add: table_ok_def seats_ok_boot length_boot)
qed

text \<open>A device on its way changes its state.\<close>

lemma table_ok_state:
  assumes t: "table_ok n b" and i: "i < n" "conn_state (conn (dev b i)) \<noteq> UNI_BT_CONN_STATE_DEVICE_READY"
    and s: "s \<noteq> UNI_BT_CONN_STATE_DEVICE_READY"
      "asks_name s \<Longrightarrow> uni_hid_device_has_name (dev b i) \<or> \<not> inquiry_remote_name_timer (dev b i)"
  shows "table_ok n (upd_conn i (uni_bt_conn_set_state s) b)"
proof -
  have "allowed (EvLink i s) b" using t i s by (simp add: table_ok_def)
  with seats_ok_step [OF table_okD(1) [OF t]] have "seats_ok (upd_conn i (uni_bt_conn_set_state s) b)" by fastforce
  moreover have "slot_ok (dev (upd_conn i (uni_bt_conn_set_state s) b) j)" if "j < n" for j
    using t i s that by (cases "j = i")
      (auto simp: upd_conn_def table_ok_def slot_ok_def uni_bt_conn_set_state_def uni_hid_device_has_name_def)
  ultimately show ?thesis using t by (simp add: table_ok_def upd_conn_def)
qed

lemma table_ok_create:
  assumes t: "table_ok n b" and c: "uni_hid_device_create a b = (d, b')"
  shows "table_ok n b' \<and> (\<forall>i. d = Some i \<longrightarrow> i < n \<and> dev b' i =
    uni_hid_device_zero\<lparr> conn := uni_bt_conn_zero\<lparr> btaddr := a \<rparr>, connection_timer := True \<rparr>)"
proof -
  let ?z = "uni_hid_device_zero\<lparr> conn := uni_bt_conn_zero\<lparr> btaddr := a \<rparr>, connection_timer := True \<rparr>"
  have s: "seats_ok b'" using seats_ok_create [OF table_okD(1) [OF t], of a] c by simp
  have z: "slot_ok ?z" by (simp add: slot_ok_def uni_hid_device_zero_def uni_bt_conn_zero_def asks_name_def)
  show ?thesis
  proof (cases "find_dev (\<lambda>d. btaddr (conn d) = zero_addr) b")
    case None
    then show ?thesis using c t by (simp add: uni_hid_device_create_def)
  next
    case (Some k)
    have k: "k < n" using find_dev_Some [OF Some] t by (simp add: table_ok_def)
    have d: "d = Some k" using c Some by (simp add: uni_hid_device_create_def)
    have j: "length (g_devices b') = n" "dev b' j = (if j = k then ?z else dev b j)" for j
      using c Some k t by (auto simp: uni_hid_device_create_def start_connection_timeout_def dev_upd_dev table_ok_def)
    show ?thesis using s j z t d k by (simp add: table_ok_def)
  qed
qed

lemma init_slot_ok: "slot_ok uni_hid_device_init"
  by (simp add: slot_ok_def uni_hid_device_init_def uni_hid_device_zero_def uni_bt_conn_init_def uni_bt_conn_zero_def)

lemma remove_slot:
  assumes t: "seats_ok b" "length (g_devices b) = n" "\<And>j. j < n \<Longrightarrow> j \<noteq> i \<Longrightarrow> slot_ok (dev b j)" and i: "i < n"
  shows "\<exists>b'. remove_device i b = Some b' \<and> table_ok n b' \<and> dev b' i = uni_hid_device_init"
proof -
  have l: "i < length (g_devices b)" using t i by simp
  obtain b' where b: "remove_device i b = Some b'" "seats_ok b'" using seats_ok_remove [OF t(1) l] by blast
  have g: "g_devices b' = (g_devices b)[i := uni_hid_device_init]" using remove_effect [OF t(1) l] b(1) by auto
  have d: "dev b' j = (if j = i then uni_hid_device_init else dev b j)" for j
    using g l by (simp add: dev_def nth_list_update)
  have "table_ok n b'" using t b(2) g d init_slot_ok by (simp add: table_ok_def)
  with b d show ?thesis by auto
qed

lemma table_ok_remove:
  "table_ok n b \<Longrightarrow> i < n \<Longrightarrow> \<exists>b'. remove_device i b = Some b' \<and> table_ok n b' \<and> dev b' i = uni_hid_device_init"
  by (rule remove_slot) (simp_all add: table_ok_def)

lemma connect_frame:
  assumes "i < length (g_devices b)" "\<not> connected (conn (dev b i))"
  shows "uni_hid_device_connect (Some i) b =
    upd_dev i (\<lambda>d. d\<lparr> conn := (conn d)\<lparr> connected := True \<rparr>, platform_data := \<lparr> controller_idx = -1 \<rparr> \<rparr>) b"
  using assms by (simp add: uni_hid_device_connect_def uni_hid_device_on_connected_def upd_conn_def
        arduino_on_device_connected_def set_controller_idx_def upd_dev_def dev_def
        uni_bt_conn_set_connected_def UNI_ARDUINO_GAMEPAD_INVALID_def)

lemma table_ok_connect:
  assumes t: "table_ok n b" and i: "i < n" "btaddr (conn (dev b i)) \<noteq> zero_addr" "\<not> connected (conn (dev b i))"
  shows "table_ok n (uni_hid_device_connect (Some i) b)"
proof -
  have l: "i < length (g_devices b)" using t i by (simp add: table_ok_def)
  have "allowed (EvConnect i) b" using l i by simp
  from seats_ok_connect [OF table_okD(1) [OF t] this] have "seats_ok (uni_hid_device_connect (Some i) b)" .
  moreover have "slot_ok (dev (uni_hid_device_connect (Some i) b) j)" if "j < n" for j
    using t l that unfolding connect_frame [OF l i(3)] by (cases "j = i")
      (auto simp: table_ok_def slot_ok_def uni_hid_device_has_name_def)
  ultimately show ?thesis using t by (simp add: table_ok_def connect_frame [OF l i(3)])
qed

lemma take_seat_frame:
  assumes "i < length (g_devices b)"
  shows "length (g_devices (take_seat i b)) = length (g_devices b) \<and> (\<forall>j. j \<noteq> i \<longrightarrow> dev (take_seat i b) j = dev b j) \<and>
    (\<exists>p. dev (take_seat i b) i = (dev b i)\<lparr> platform_data := p \<rparr>)"
  using assms by (cases "first_free_seat b")
    (auto simp: take_seat_def Let_def set_controller_idx_def upd_dev_def upd_seat_def dev_def
      intro: exI [of _ "platform_data (g_devices b ! i)"])

lemma set_ready_frame:
  assumes t: "table_ok n b" and i: "i < n"
    and r: "uni_hid_device_set_ready_complete (Some i) b = Some (ok, b')"
  shows "length (g_devices b') = n \<and> (\<forall>j < n. slot_ok (dev b' j))"
proof (cases "conn_state (conn (dev b i)) = UNI_BT_CONN_STATE_DEVICE_READY")
  case True
  with t r show ?thesis by (auto simp: uni_hid_device_set_ready_complete_def uni_bt_conn_get_state_def table_ok_def)
next
  case False
  define b1 where "b1 = upd_dev i (\<lambda>d. d\<lparr> connection_timer := False \<rparr>) b"
  obtain e b2 where a: "arduino_on_device_ready i b1 = (e, b2)" by fastforce
  have s1: "seats_ok b1" "i < length (g_devices b1)"
    using t i by (auto simp: b1_def table_ok_def dev_view_def intro: seats_ok_upd_dev)
  have r': "if e \<noteq> UNI_ERROR_SUCCESS then remove_device i b2 = Some b'
    else b' = upd_conn i (uni_bt_conn_set_state UNI_BT_CONN_STATE_DEVICE_READY) b2"
    using r False a by (auto simp: uni_hid_device_set_ready_complete_def uni_bt_conn_get_state_def Let_def b1_def [symmetric]
        split: if_splits)
  have d1: "dev b1 j = dev b j" if "j \<noteq> i" for j using that by (simp add: b1_def)
  show ?thesis
  proof (cases "e = UNI_ERROR_SUCCESS")
    case True
    have f: "length (g_devices b2) = length (g_devices b1) \<and> (\<forall>j. j \<noteq> i \<longrightarrow> dev b2 j = dev b1 j) \<and>
        (\<exists>p. dev b2 i = (dev b1 i)\<lparr> platform_data := p \<rparr>)"
      using a True take_seat_frame [OF s1(2)] by (auto simp: arduino_on_device_ready_def Let_def split: if_splits option.splits)
    have i1: "dev b1 i = (dev b i)\<lparr> connection_timer := False \<rparr>" using s1(2) by (simp add: b1_def)
    have "slot_ok (dev b' j)" if "j < n" for j
      using t i that f r' True d1 i1 s1(2) by (cases "j = i")
        (auto simp: table_ok_def slot_ok_def upd_conn_def uni_bt_conn_set_state_def asks_name_def)
    with f r' True t show ?thesis by (simp add: upd_conn_def table_ok_def b1_def)
  next
    case False
    then have b2: "b2 = b1" using a by (auto simp: arduino_on_device_ready_def Let_def split: if_splits option.splits prod.splits)
    have "g_devices b' = (g_devices b1)[i := uni_hid_device_init]"
      using remove_effect [OF s1] r' False b2 by auto
    then show ?thesis using t d1 s1(2) init_slot_ok
      by (auto simp: table_ok_def dev_def nth_list_update b1_def)
  qed
qed

lemma table_ok_ready:
  assumes t: "table_ok n b" and i: "i < n"
  shows "\<exists>ok b'. uni_hid_device_set_ready_complete (Some i) b = Some (ok, b') \<and> table_ok n b'"
  using seats_ok_ready [of b i] set_ready_frame [OF t i] t i unfolding table_ok_def by blast

lemma table_ok_quiet:
  assumes "table_ok n b" "seats_ok b'" "length (g_devices b') = n"
    "\<And>j. j < n \<Longrightarrow> slot_ok (dev b' j) = slot_ok (dev b j)"
  shows "table_ok n b'"
  using assms by (simp add: table_ok_def)

text \<open>Reports do not concern the timers.\<close>

definition quiet :: "bp32 \<Rightarrow> bp32 \<Rightarrow> bool" where
  "quiet b b' \<longleftrightarrow> length (g_devices b') = length (g_devices b) \<and> (\<forall>j. slot_ok (dev b' j) = slot_ok (dev b j))"

lemma quiet_refl [simp, intro]: "quiet b b"
  by (simp add: quiet_def)

lemma quiet_trans: "quiet a b \<Longrightarrow> quiet b c \<Longrightarrow> quiet a c"
  by (simp add: quiet_def)

lemma quiet_same: "same_table b b' \<Longrightarrow> quiet b b'"
  by (simp add: quiet_def same_table_def dev_def)

lemma quiet_upd: "slot_ok (f (dev b i)) = slot_ok (dev b i) \<Longrightarrow> quiet b (upd_dev i f b)"
  by (cases "i < length (g_devices b)") (simp_all add: quiet_def dev_upd_dev, simp add: upd_dev_def dev_def list_update_beyond)

lemma quiet_seat: "quiet b (upd_seat k f b)"
  by (simp add: quiet_def)

lemma slot_ok_fields:
  "slot_ok (d\<lparr> controller := c \<rparr>) = slot_ok d" "slot_ok (d\<lparr> misc_button_wait_delay := x \<rparr>) = slot_ok d"
  "slot_ok (d\<lparr> misc_button_wait_release := x \<rparr>) = slot_ok d" "slot_ok (d\<lparr> misc_button_delay_timer := t \<rparr>) = slot_ok d"
  "slot_ok (d\<lparr> outgoing_buffer := q \<rparr>) = slot_ok d" "slot_ok (d\<lparr> platform_data := p \<rparr>) = slot_ok d"
  "slot_ok (d\<lparr> sdp_query_type := y \<rparr>) = slot_ok d"
  by (simp_all add: slot_ok_def uni_hid_device_has_name_def)

lemma quiet_data: "quiet b (arduino_on_controller_data i c b)"
  using quiet_trans [OF quiet_same quiet_seat] same_table_process quiet_same
  by (auto simp: arduino_on_controller_data_def process_pending_requests_def Let_def)

lemma quiet_misc: "quiet b (process_misc_button_home i (process_misc_button_system i b))"
proof -
  have h: "quiet v (process_misc_button_home i v)" for v
    by (simp add: process_misc_button_home_def Let_def slot_ok_fields quiet_upd)
  have w: "quiet v (emit_hid e (upd_dev i f v))" if "slot_ok (f (dev v i)) = slot_ok (dev v i)" for v e f
    by (rule quiet_trans [OF quiet_upd quiet_same [OF same_table_emit]]) (rule that)
  have "quiet v (process_misc_button_system i v)" for v
    unfolding process_misc_button_system_def Let_def
    by (simp add: slot_ok_fields quiet_upd w quiet_trans [OF w quiet_upd])
  with h show ?thesis using quiet_trans by blast
qed

lemma table_ok_data:
  assumes t: "table_ok n b" and i: "i < n"
  shows "table_ok n (uni_hid_device_process_controller i b)"
proof -
  have "quiet b (uni_hid_device_process_controller i b)"
    unfolding uni_hid_device_process_controller_def Let_def
    by (simp add: slot_ok_fields quiet_trans [OF quiet_data quiet_misc]
        quiet_trans [OF quiet_upd quiet_trans [OF quiet_data quiet_misc]])
  with t i seats_ok_data [of b i] show ?thesis by (auto simp: table_ok_def quiet_def)
qed

text \<open>What the set-up of a device may do to it besides.\<close>

definition keeps :: "uni_hid_device \<Rightarrow> uni_hid_device \<Rightarrow> bool" where
  "keeps d d' \<longleftrightarrow> dev_view d' = dev_view d \<and> conn_state (conn d') = conn_state (conn d) \<and>
     connection_timer d' = connection_timer d \<and> inquiry_remote_name_timer d' = inquiry_remote_name_timer d \<and>
     (uni_hid_device_has_name d \<longrightarrow> uni_hid_device_has_name d') \<and>
     length (hid_descriptor d') = length (hid_descriptor d)"

lemma keeps_same [simp, intro]: "keeps d d"
  by (simp add: keeps_def)

lemma keeps_then: "keeps a b \<Longrightarrow> keeps b c \<Longrightarrow> keeps a c"
  by (simp add: keeps_def)

lemma keeps_slot: "keeps d d' \<Longrightarrow> slot_ok d \<Longrightarrow> slot_ok d'"
  by (auto simp: keeps_def slot_ok_def dev_view_def)

lemma table_ok_keeps: "table_ok n b \<Longrightarrow> i < n \<Longrightarrow> keeps (dev b i) (f (dev b i)) \<Longrightarrow> table_ok n (upd_dev i f b)"
  by (rule table_ok_upd) (auto simp: keeps_def table_okD(3) intro: keeps_slot [of "dev b i"])

lemma has_name_or: "f AND FLAGS_HAS_NAME \<noteq> 0 \<Longrightarrow> (f OR g) AND FLAGS_HAS_NAME \<noteq> (0::u32)"
  by (simp add: bit.conj_disj_distrib2 or_eq_0_iff)

lemma keeps_ids: "keeps d (uni_hid_device_set_vendor_id v d)" "keeps d (uni_hid_device_set_product_id p d)"
  using has_name_or by (auto simp: uni_hid_device_set_vendor_id_def uni_hid_device_set_product_id_def keeps_def
      dev_view_def uni_hid_device_has_name_def)

lemma keeps_name: "keeps d (uni_hid_device_set_name s d)"
  using has_name_or by (auto simp: uni_hid_device_set_name_def keeps_def dev_view_def uni_hid_device_has_name_def
      split: option.splits)

lemma keeps_descriptor:
  assumes "uni_hid_device_set_hid_descriptor desc d = Some d'"
  shows "keeps d d'"
  using assms has_name_or by (auto simp: uni_hid_device_set_hid_descriptor_def keeps_def dev_view_def Let_def
      uni_hid_device_has_name_def split: if_splits)

lemma keeps_ids2: "keeps d (uni_hid_device_set_product_id p (uni_hid_device_set_vendor_id v d))"
  using keeps_then [OF keeps_ids] .

lemma keeps_guess:
  assumes "uni_hid_device_guess_controller_type_from_pid_vid cs d = Some d'"
  shows "keeps d d'"
proof (cases "uni_hid_device_has_controller_type d")
  case True
  with assms show ?thesis by (simp add: uni_hid_device_guess_controller_type_from_pid_vid_def)
next
  case False
  then obtain ty d1 where g: "guessed_type cs d = Some (ty, d1)" and d': "d' = d1\<lparr> controller_subtype := 0,
      report_parser := parser_for ty (vendor_id d1) (product_id d1), controller_type := ty,
      flags := flags d1 OR FLAGS_HAS_CONTROLLER_TYPE \<rparr>"
    using assms by (auto simp: uni_hid_device_guess_controller_type_from_pid_vid_def)
  have x: "keeps d d2" if "uni_hid_parser_xboxone_does_name_match d s = Some (m, d2)" for s m d2
    using that keeps_then [OF keeps_ids2 keeps_descriptor]
    by (auto simp: uni_hid_parser_xboxone_does_name_match_def Let_def split: option.splits if_splits)
  have "keeps d d1" using g x by (auto simp: guessed_type_def Let_def split: if_splits)
  moreover have "keeps d1 d'"
    using has_name_or by (simp add: d' keeps_def dev_view_def uni_hid_device_has_name_def)
  ultimately show ?thesis by (rule keeps_then)
qed

lemma guess_total:
  assumes "length (hid_descriptor d) = HID_MAX_DESCRIPTOR_LEN"
  shows "\<exists>d'. uni_hid_device_guess_controller_type_from_pid_vid cs d = Some d'"
  using guessed_type_total [OF assms, of cs] by (auto simp: uni_hid_device_guess_controller_type_from_pid_vid_def)

lemma guess_name:
  assumes "length (hid_descriptor d) = HID_MAX_DESCRIPTOR_LEN"
  shows "\<exists>m d'. uni_hid_device_guess_controller_type_from_name cs d s = Some (m, d') \<and> keeps d d'"
proof (cases s)
  case None
  then show ?thesis by (auto simp: uni_hid_device_guess_controller_type_from_name_def)
next
  case (Some nm)
  obtain m1 d1 where 1: "uni_hid_parser_ds3_does_name_match d nm = (m1, d1)" by fastforce
  obtain m2 d2 where 2: "(if m1 then (m1, d1) else uni_hid_parser_switch_does_name_match d1 nm) = (m2, d2)" by fastforce
  have k1: "keeps d d1" using 1 keeps_ids2 by (auto simp: uni_hid_parser_ds3_does_name_match_def split: if_splits)
  have "keeps d1 d2" using 2 keeps_ids2
    by (auto simp: uni_hid_parser_switch_does_name_match_def split: if_splits option.splits)
  then have k2: "keeps d d2" using k1 keeps_then by blast
  then have "length (hid_descriptor d2) = HID_MAX_DESCRIPTOR_LEN" using assms by (simp add: keeps_def)
  then obtain d3 where "uni_hid_device_guess_controller_type_from_pid_vid cs d2 = Some d3" using guess_total by blast
  with k2 keeps_guess [OF this] 1 2 Some show ?thesis
    by (cases m2) (auto simp: uni_hid_device_guess_controller_type_from_name_def intro: keeps_then)
qed

end
