(* ===== verification/Uni_Bt_Discovery.thy ===== *)
theory Uni_Bt_Discovery
  imports Uni_Bt_Table
begin

text \<open>
  The invariant of the connection machine, the contract of the parsers with it (the locale \<^verbatim>\<open>bt_parsers\<close>), and the
  proof that service discovery and the state machine of a device keep the invariant and always come back.
\<close>

section \<open>The machine's invariant\<close>

definition bt_ok :: "nat \<Rightarrow> bt \<Rightarrow> bool" where
  "bt_ok n w \<longleftrightarrow> table_ok n (bp w) \<and> length (sdp_attribute_value w) = MAX_ATTRIBUTE_VALUE_SIZE \<and>
     (sdp_device w = None \<longrightarrow> sdp_query_timer w = None) \<and> (\<forall>i. sdp_device w = Some i \<longrightarrow> i < n)"

definition fine :: "nat \<Rightarrow> bt option \<Rightarrow> bool" where
  "fine n r \<longleftrightarrow> (\<exists>w. r = Some w \<and> bt_ok n w)"

text \<open>A device that may still change its state.\<close>

definition on_the_way :: "nat \<Rightarrow> nat \<Rightarrow> bt \<Rightarrow> bool" where
  "on_the_way n i w \<longleftrightarrow> bt_ok n w \<and> i < n \<and> conn_state (conn (device w i)) \<noteq> UNI_BT_CONN_STATE_DEVICE_READY"

lemma fine_Some [simp]: "fine n (Some w) = bt_ok n w" "\<not> fine n None"
  by (simp_all add: fine_def)

lemma bt_ok_upd: "bt_ok n w \<Longrightarrow> table_ok n (f (bp w)) \<Longrightarrow> bt_ok n (upd_bp f w)"
  by (simp add: bt_ok_def upd_bp_def)

lemma bt_ok_table: "bt_ok n w \<Longrightarrow> table_ok n (bp w)"
  by (simp add: bt_ok_def)

lemma fine_try:
  assumes "bt_ok n w" "\<exists>b. f (bp w) = Some b \<and> table_ok n b"
  shows "fine n (try_bp f w)"
  using assms by (auto simp: try_bp_def bt_ok_def)

lemma fine_remove: "bt_ok n w \<Longrightarrow> i < n \<Longrightarrow> fine n (try_bp (remove_device i) w)"
  using table_ok_remove [OF bt_ok_table] by (blast intro: fine_try)

lemma bt_ok_emit [simp]: "bt_ok n (emit_bt e w) = bt_ok n w"
  by (simp add: emit_bt_def upd_bp_def bt_ok_def)

lemma device_emit [simp]: "device (emit_bt e w) i = device w i"
  by (simp add: emit_bt_def upd_bp_def device_def)

lemma on_the_way_emit [simp]: "on_the_way n i (emit_bt e w) = on_the_way n i w"
  by (simp add: on_the_way_def)

lemma bt_ok_client [simp]: "bt_ok n (w\<lparr> sdp_client := c \<rparr>) = bt_ok n w"
  by (simp add: bt_ok_def)

lemma bt_ok_keeps:
  assumes "bt_ok n w" "i < n" "keeps (device w i) (f (device w i))"
  shows "bt_ok n (upd_device i f w)"
  using assms table_ok_keeps [OF bt_ok_table] by (auto simp: upd_device_def device_def intro: bt_ok_upd)

lemma device_upd:
  assumes "bt_ok n w" "i < n"
  shows "device (upd_device i f w) j = (if j = i then f (device w i) else device w j)"
    "device (upd_bp (upd_conn i g) w) j = (if j = i then (device w i)\<lparr> conn := g (conn (device w i)) \<rparr> else device w j)"
  using assms by (simp_all add: bt_ok_def table_ok_def upd_device_def upd_bp_def device_def dev_upd_dev upd_conn_def)

lemma way_keeps:
  assumes "on_the_way n i w" "keeps (device w i) (f (device w i))"
  shows "on_the_way n i (upd_device i f w)"
  using assms by (auto simp: on_the_way_def bt_ok_keeps device_upd keeps_def)

text \<open>Identifiers of channels and what an inquiry tells are not looked at.\<close>

lemma bt_ok_conn:
  assumes "bt_ok n w" "i < n" "\<And>c. btaddr (f c) = btaddr c \<and> connected (f c) = connected c \<and> conn_state (f c) = conn_state c"
  shows "bt_ok n (upd_bp (upd_conn i f) w)"
proof -
  have "keeps d (d\<lparr> conn := f (conn d) \<rparr>)" for d :: uni_hid_device
    using assms(3) by (simp add: keeps_def dev_view_def uni_hid_device_has_name_def)
  then show ?thesis using assms(1,2) table_ok_keeps [OF bt_ok_table]
    by (auto simp: upd_conn_def intro!: bt_ok_upd)
qed

lemma way_conn:
  assumes "on_the_way n i w" "\<And>c. btaddr (f c) = btaddr c \<and> connected (f c) = connected c \<and> conn_state (f c) = conn_state c"
  shows "on_the_way n i (upd_bp (upd_conn i f) w)"
  using assms by (auto simp: on_the_way_def bt_ok_conn device_upd)

lemma way_state:
  assumes "on_the_way n i w" "s \<noteq> UNI_BT_CONN_STATE_DEVICE_READY"
    "asks_name s \<Longrightarrow> uni_hid_device_has_name (device w i) \<or> \<not> inquiry_remote_name_timer (device w i)"
  shows "on_the_way n i (set_conn_state i s w)"
proof -
  have "bt_ok n (set_conn_state i s w)"
    unfolding set_conn_state_def using assms
    by (intro bt_ok_upd table_ok_state) (auto simp: on_the_way_def device_def bt_ok_table)
  then show ?thesis using assms device_upd(2) [of n w i "uni_bt_conn_set_state s" i]
    by (simp add: on_the_way_def set_conn_state_def uni_bt_conn_set_state_def)
qed

lemma way_quiet_state:
  "on_the_way n i w \<Longrightarrow> s \<noteq> UNI_BT_CONN_STATE_DEVICE_READY \<Longrightarrow> \<not> asks_name s \<Longrightarrow> on_the_way n i (set_conn_state i s w)"
  by (blast intro: way_state)

lemma device_state:
  assumes "on_the_way n i w"
  shows "device (set_conn_state i s w) j =
    (if j = i then (device w i)\<lparr> conn := uni_bt_conn_set_state s (conn (device w i)) \<rparr> else device w j)"
  using assms by (auto simp: on_the_way_def set_conn_state_def device_upd)

lemma way_ok: "on_the_way n i w \<Longrightarrow> bt_ok n w" "on_the_way n i w \<Longrightarrow> i < n"
  by (simp_all add: on_the_way_def)

lemma way_sdp:
  "on_the_way n i w \<Longrightarrow> on_the_way n i (w\<lparr> sdp_device := Some i, sdp_query_timer := t \<rparr>)"
  "on_the_way n i w \<Longrightarrow> on_the_way n i (w\<lparr> sdp_device := None, sdp_query_timer := None \<rparr>)"
  "on_the_way n i (w\<lparr> sdp_client := c \<rparr>) = on_the_way n i w"
  by (auto simp: on_the_way_def bt_ok_def)

lemma way_query_type: "on_the_way n i w \<Longrightarrow> on_the_way n i (upd_device i (\<lambda>d. d\<lparr> sdp_query_type := q \<rparr>) w)"
  by (erule way_keeps) (simp add: keeps_def dev_view_def uni_hid_device_has_name_def)

section \<open>Discovery keeps it\<close>

lemma way_query:
  "on_the_way n i w \<Longrightarrow> sdp_client_query_uuid16 env h a u w = (ok, w') \<Longrightarrow> on_the_way n i w'"
  by (auto simp: sdp_client_query_uuid16_def way_sdp split: if_splits)

lemma fine_vid_pid:
  assumes "on_the_way n i w"
  shows "fine n (uni_bt_sdp_query_start_vid_pid env i w)"
proof -
  let ?w = "set_conn_state i UNI_BT_CONN_STATE_SDP_VENDOR_REQUESTED w"
  have "on_the_way n i ?w" using assms by (intro way_quiet_state) (simp_all add: asks_name_def)
  then have ok: "bt_ok n (snd (sdp_client_query_uuid16 env h a u ?w))" for h a u
    using way_ok(1) [OF way_query] by (metis prod.collapse)
  show ?thesis using ok fine_remove [OF ok way_ok(2) [OF assms]]
    by (simp add: uni_bt_sdp_query_start_vid_pid_def Let_def split_beta)
qed

text \<open>The timer of a query runs only during it, so starting a query never fails an assertion.\<close>

lemma fine_query_start:
  assumes "on_the_way n i w"
  shows "fine n (uni_bt_sdp_query_start env i w)"
proof (cases "sdp_device w")
  case None
  then have "sdp_query_timer w = None" using assms by (simp add: on_the_way_def bt_ok_def)
  with None show ?thesis using fine_vid_pid way_sdp(1) [OF assms] by (simp add: uni_bt_sdp_query_start_def)
next
  case (Some k)
  with assms show ?thesis by (simp add: uni_bt_sdp_query_start_def fine_remove way_ok)
qed

lemma fine_end:
  assumes "on_the_way n i w"
    "\<And>v. on_the_way n i v \<Longrightarrow> uni_bt_conn_get_state (conn (device v i)) = UNI_BT_CONN_STATE_SDP_HID_DESCRIPTOR_FETCHED \<Longrightarrow> fine n (fsm i v)"
  shows "fine n (uni_bt_sdp_query_end fsm i w)"
proof -
  have "on_the_way n i (set_conn_state i UNI_BT_CONN_STATE_SDP_HID_DESCRIPTOR_FETCHED w)"
    using assms(1) by (intro way_quiet_state) (simp_all add: asks_name_def)
  then show ?thesis unfolding uni_bt_sdp_query_end_def
    using way_sdp(2) by (intro assms(2)) (simp_all add: device_state [OF assms(1)] uni_bt_conn_set_state_def uni_bt_conn_get_state_def)
qed

lemma fine_start_hid:
  assumes w: "on_the_way n i w"
    and f: "\<And>v. on_the_way n i v \<Longrightarrow> uni_bt_conn_get_state (conn (device v i)) = UNI_BT_CONN_STATE_SDP_HID_DESCRIPTOR_FETCHED \<Longrightarrow> fine n (fsm i v)"
  shows "fine n (uni_bt_sdp_query_start_hid_descriptor fsm env i w)"
proof -
  let ?w = "set_conn_state i UNI_BT_CONN_STATE_SDP_HID_DESCRIPTOR_REQUESTED w"
  have "on_the_way n i ?w" using w by (intro way_quiet_state) (simp_all add: asks_name_def)
  then have ok: "on_the_way n i (snd (sdp_client_query_uuid16 env h a u ?w))" for h a u
    using way_query by (metis prod.collapse)
  have t: "bt_ok n (v\<lparr> sdp_query_timer := None \<rparr>)" if "on_the_way n i v" for v
    using that by (simp add: on_the_way_def bt_ok_def)
  have e: "fine n (uni_bt_sdp_query_end fsm i w)" by (rule fine_end [OF w]) (rule f)
  show ?thesis using way_ok(1) [OF ok] fine_remove [OF t [OF ok] way_ok(2) [OF w]] e way_ok(1) [OF w]
    by (simp add: uni_bt_sdp_query_start_hid_descriptor_def Let_def split_beta)
qed

lemma ok_channel:
  assumes "on_the_way n i w"
  shows "bt_ok n (l2cap_create_control_connection env i w)" "bt_ok n (l2cap_create_interrupt_connection env i w)"
proof -
  have c: "on_the_way n i (upd_bp (upd_conn i (\<lambda>c. c\<lparr> control_cid := x \<rparr>)) (emit_bt e w))"
    "on_the_way n i (upd_bp (upd_conn i (\<lambda>c. c\<lparr> interrupt_cid := x \<rparr>)) (emit_bt e w))" for x e
    using assms by (simp_all add: way_conn)
  show "bt_ok n (l2cap_create_control_connection env i w)"
    using assms way_ok(1) [OF way_quiet_state [OF c(1)]]
    by (simp add: l2cap_create_control_connection_def Let_def asks_name_def way_ok(1) [OF assms] split: option.splits)
  show "bt_ok n (l2cap_create_interrupt_connection env i w)"
    using assms way_ok(1) [OF way_quiet_state [OF c(2)]]
    by (simp add: l2cap_create_interrupt_connection_def Let_def asks_name_def way_ok(1) [OF assms] split: option.splits)
qed

lemma fine_request_name:
  assumes w: "on_the_way n i w" and free: "\<not> inquiry_remote_name_timer (device w i)"
  shows "fine n (request_name i w)"
proof -
  have "on_the_way n i (set_conn_state i UNI_BT_CONN_STATE_REMOTE_NAME_INQUIRED (emit_bt e w))" for e
    using w by (intro way_quiet_state) (simp_all add: asks_name_def)
  then have s: "bt_ok n (set_conn_state i UNI_BT_CONN_STATE_REMOTE_NAME_INQUIRED (emit_bt e w))"
    "device (set_conn_state i UNI_BT_CONN_STATE_REMOTE_NAME_INQUIRED (emit_bt e w)) i =
      (device w i)\<lparr> conn := uni_bt_conn_set_state UNI_BT_CONN_STATE_REMOTE_NAME_INQUIRED (conn (device w i)) \<rparr>" for e
    using way_ok(1) device_state [of n i "emit_bt e w"] w by (auto simp: way_state)
  have "bt_ok n (upd_device i (\<lambda>d. d\<lparr> inquiry_remote_name_timer := True \<rparr>)
      (set_conn_state i UNI_BT_CONN_STATE_REMOTE_NAME_INQUIRED (emit_bt e w)))" for e
    unfolding upd_device_def using s(1) [of e] s(2) [of e] way_ok(2) [OF w] table_okD(3) [OF bt_ok_table [OF s(1) [of e]], of i]
    by (intro bt_ok_upd table_ok_upd)
      (simp_all add: bt_ok_table dev_view_def slot_ok_def asks_name_def device_def uni_hid_device_has_name_def
        uni_bt_conn_set_state_def)
  then show ?thesis using free s(2) by (simp add: request_name_def Let_def)
qed

section \<open>What the parsers promise\<close>

text \<open>
  The functions of a parser (set-up, input report, feature report) come back and leave the table sound.  They are
  given an existing device.
\<close>

locale bt_parsers =
  fixes env :: bt_env and n :: nat
  assumes setup_keeps: "table_ok n b \<Longrightarrow> i < n \<Longrightarrow> \<exists>b'. be_setup env p i b = Some b' \<and> table_ok n b'"
    and input_keeps: "table_ok n b \<Longrightarrow> i < n \<Longrightarrow> \<exists>b'. be_input_report env i r b = Some b' \<and> table_ok n b'"
    and feature_keeps: "table_ok n b \<Longrightarrow> i < n \<Longrightarrow> \<exists>b'. be_feature_report env p i r b = Some b' \<and> table_ok n b'"
begin

lemma fine_set_ready:
  assumes w: "on_the_way n i w"
  shows "fine n (set_ready env i w)"
proof -
  let ?b = "upd_conn i (uni_bt_conn_set_state UNI_BT_CONN_STATE_DEVICE_PENDING_READY) (bp w)"
  have i: "i < n" and t: "table_ok n (bp w)" using w by (simp_all add: on_the_way_def bt_ok_def)
  have "on_the_way n i (set_conn_state i UNI_BT_CONN_STATE_DEVICE_PENDING_READY w)"
    using w by (intro way_quiet_state) (simp_all add: asks_name_def)
  then have b: "table_ok n ?b" by (simp add: on_the_way_def bt_ok_def set_conn_state_def upd_bp_def)
  obtain ok b1 where r: "uni_hid_device_set_ready_complete (Some i) ?b = Some (ok, b1)" "table_ok n b1"
    using table_ok_ready [OF b i] by blast
  have "\<exists>b'. uni_hid_device_set_ready (be_setup env) (Some i) (bp w) = Some b' \<and> table_ok n b'"
    using t r setup_keeps [OF b i]
    by (auto simp: uni_hid_device_set_ready_def Let_def split: option.splits)
  then show ?thesis unfolding set_ready_def by (intro fine_try way_ok(1) [OF w])
qed

lemma fine_name_fetched:
  assumes w: "on_the_way n i w"
  shows "fine n (fsm_name_fetched env i w)"
proof (cases "dev_name (device w i) = ''Wireless Controller''")
  case True
  show ?thesis using True fine_query_start [OF way_query_type [OF w]] by (simp add: fsm_name_fetched_def)
next
  case False
  have "length (hid_descriptor (device w i)) = HID_MAX_DESCRIPTOR_LEN"
    using table_okD(3) [OF bt_ok_table [OF way_ok(1) [OF w]] way_ok(2) [OF w]] by (simp add: slot_ok_def device_def)
  then obtain m d where g: "uni_hid_device_guess_controller_type_from_name (be_controllers env) (device w i)
      (Some (dev_name (device w i))) = Some (m, d)" "keeps (device w i) d"
    using guess_name by blast
  define w1 where "w1 = upd_device i (\<lambda>_. d) w"
  define w2 where "w2 = (if m then set_conn_state i UNI_BT_CONN_STATE_SDP_HID_DESCRIPTOR_FETCHED
      (upd_device i (\<lambda>d. d\<lparr> sdp_query_type := SDP_QUERY_NOT_NEEDED \<rparr>) w1) else w1)"
  have w1: "on_the_way n i w1" unfolding w1_def by (rule way_keeps [OF w g(2)])
  have w2: "on_the_way n i w2" using way_quiet_state [OF way_query_type [OF w1]] w1 by (simp add: w2_def asks_name_def)
  show ?thesis using False g(1) fine_set_ready [OF w2] fine_query_start [OF w2] ok_channel(1) [OF w2]
    by (simp add: fsm_name_fetched_def w1_def [symmetric] w2_def [symmetric])
qed

lemma fine_descriptor_fetched: "on_the_way n i w \<Longrightarrow> fine n (fsm_descriptor_fetched env i w)"
  by (simp add: fsm_descriptor_fetched_def fine_set_ready ok_channel(1))

lemma fine_fsm_body:
  assumes w: "on_the_way n i w"
    and f: "\<And>v. on_the_way n i v \<Longrightarrow> uni_bt_conn_get_state (conn (device v i)) = UNI_BT_CONN_STATE_SDP_HID_DESCRIPTOR_FETCHED \<Longrightarrow> fine n (fsm i v)"
  shows "fine n (fsm_body fsm env i w)"
proof -
  have "slot_ok (device w i)"
    using table_okD(3) [OF bt_ok_table [OF way_ok(1) [OF w]] way_ok(2) [OF w]] by (simp add: device_def)
  then have free: "\<not> inquiry_remote_name_timer (device w i)"
    if "\<not> uni_hid_device_has_name (device w i)" "asks_name (conn_state (conn (device w i)))"
    using that by (simp add: slot_ok_def)
  have h: "fine n (uni_bt_sdp_query_start_hid_descriptor fsm env i w)" by (rule fine_start_hid [OF w]) (rule f)
  show ?thesis
    using fine_request_name [OF w] free fine_name_fetched [OF w] h fine_descriptor_fetched [OF w] way_ok(1) [OF w]
      ok_channel(2) [OF w] fine_query_start [OF w] fine_set_ready [OF w]
    by (simp add: fsm_body_def Let_def asks_name_def uni_bt_conn_get_state_def)
qed

lemma fine_fsm:
  assumes w: "on_the_way n i w"
  shows "fine n (process_fsm 2 env i w)"
proof -
  have "fine n (fsm_body (process_fsm 0 env) env i v)"
    if v: "on_the_way n i v" "uni_bt_conn_get_state (conn (device v i)) = UNI_BT_CONN_STATE_SDP_HID_DESCRIPTOR_FETCHED" for v
    using v fine_descriptor_fetched [OF v(1)] by (simp add: fsm_body_def Let_def)
  then show ?thesis using fine_fsm_body [OF w, of "process_fsm 1 env"] by (simp add: numeral_2_eq_2)
qed

lemma fine_bredr_fsm: "on_the_way n i w \<Longrightarrow> fine n (uni_bt_bredr_process_fsm env (Some i) w)"
  using fine_fsm by (simp add: uni_bt_bredr_process_fsm_def)

text \<open>A ready device is left alone.\<close>

lemma fine_fsm_ready:
  "bt_ok n w \<Longrightarrow> conn_state (conn (device w i)) = UNI_BT_CONN_STATE_DEVICE_READY \<Longrightarrow> fine n (uni_bt_bredr_process_fsm env (Some i) w)"
  by (simp add: uni_bt_bredr_process_fsm_def numeral_2_eq_2 fsm_body_def Let_def uni_bt_conn_get_state_def)

end

end
