(* ===== verification/Uni_Bt.thy ===== *)
theory Uni_Bt
  imports Uni_Bt_Sdp
begin

text \<open>
  The Bluetooth events of a BR/EDR gamepad: the handlers of \<^verbatim>\<open>src/components/bluepad32/bt/uni_bt_bredr.c\<close> and the
  dispatch, the disconnections and the command queue of \<^verbatim>\<open>bt/uni_bt.c\<close>.  A handler gets the fields it reads from
  the event's packet.  \<^const>\<open>None\<close> is the firmware's end, as in theory \<^verbatim>\<open>Uni_Bt_Sdp\<close>.  The configuration is that of
  \<^verbatim>\<open>sdkconfig.defaults\<close>: GAP security is on, so a completed connection asks for nothing more.
\<close>

definition device_for :: "bytes \<Rightarrow> bt \<Rightarrow> nat option" where
  "device_for addr w = uni_hid_device_get_instance_for_address addr (bp w)"

definition create_device :: "bytes \<Rightarrow> bt \<Rightarrow> nat option \<times> bt" where
  "create_device addr w = map_prod id (\<lambda>b. w\<lparr> bp := b \<rparr>) (uni_hid_device_create addr (bp w))"

definition fake_name :: string where "fake_name = ''Controller without name''"

section \<open>L2CAP\<close>

definition bredr_accept_control :: "nat \<Rightarrow> u16 \<Rightarrow> u16 \<Rightarrow> bt \<Rightarrow> bt" where
  "bredr_accept_control i channel h w =
     upd_device i (uni_hid_device_set_incoming True)
       (upd_bp (upd_conn i (\<lambda>c. c\<lparr> control_cid := channel \<rparr>))
         (upd_device i (uni_hid_device_set_connection_handle h) (emit_bt (L2capAcceptConnection channel) w)))"

definition bredr_incoming_psm :: "u16 \<Rightarrow> u16 \<Rightarrow> u16 \<Rightarrow> bytes \<Rightarrow> nat option \<Rightarrow> bt \<Rightarrow> bt" where
  "bredr_incoming_psm channel psm h addr d w =
     (if psm = BLUETOOTH_PSM_HID_CONTROL
      then (case d of Some i \<Rightarrow> bredr_accept_control i channel h w
            | None \<Rightarrow>
                (case create_device addr w of
                   (None, w1) \<Rightarrow> emit_bt (L2capDeclineConnection channel) w1
                 | (Some i, w1) \<Rightarrow> bredr_accept_control i channel h w1))
      else if psm = BLUETOOTH_PSM_HID_INTERRUPT
      then (case d of None \<Rightarrow> emit_bt (L2capDeclineConnection channel) w
            | Some i \<Rightarrow> emit_bt (L2capAcceptConnection channel)
                (upd_bp (upd_conn i (\<lambda>c. c\<lparr> interrupt_cid := channel \<rparr>)) w))
      else w)"

definition uni_bt_bredr_on_l2cap_incoming_connection :: "u16 \<Rightarrow> u16 \<Rightarrow> u16 \<Rightarrow> bytes \<Rightarrow> bt \<Rightarrow> bt option" where
  "uni_bt_bredr_on_l2cap_incoming_connection channel psm h addr w =
     (if \<not> bt_allow_incoming_connections w then Some (emit_bt (L2capDeclineConnection channel) w)
      else if \<not> uni_bt_allowlist_is_allowed_addr addr (bt_allowlist w)
      then Some (emit_bt (L2capDeclineConnection channel) w)
      else case device_for addr w of
          None \<Rightarrow> Some (bredr_incoming_psm channel psm h addr None w)
        | Some i \<Rightarrow>
            if conn_state (conn (device w i)) = UNI_BT_CONN_STATE_DEVICE_READY
            then map_option (bredr_incoming_psm channel psm h addr None) (try_bp (remove_device i) w)
            else Some (bredr_incoming_psm channel psm h addr (Some i) w))"

definition bredr_opened_psm :: "nat \<Rightarrow> u16 \<Rightarrow> u16 \<Rightarrow> bt \<Rightarrow> bt" where
  "bredr_opened_psm i psm local_cid w =
     (if psm = BLUETOOTH_PSM_HID_CONTROL
      then set_conn_state i UNI_BT_CONN_STATE_L2CAP_CONTROL_CONNECTED
             (upd_bp (upd_conn i (\<lambda>c. c\<lparr> control_cid := local_cid \<rparr>)) w)
      else if psm = BLUETOOTH_PSM_HID_INTERRUPT
      then upd_bp (uni_hid_device_connect (Some i))
             (set_conn_state i UNI_BT_CONN_STATE_L2CAP_INTERRUPT_CONNECTED
               (upd_bp (upd_conn i (\<lambda>c. c\<lparr> interrupt_cid := local_cid \<rparr>)) w))
      else w)"

definition uni_bt_bredr_on_l2cap_channel_opened :: "bt_env \<Rightarrow> u8 \<Rightarrow> bytes \<Rightarrow> u16 \<Rightarrow> u16 \<Rightarrow> bt \<Rightarrow> bt option" where
  "uni_bt_bredr_on_l2cap_channel_opened env status addr psm local_cid w =
     (case device_for addr w of None \<Rightarrow> Some w
      | Some i \<Rightarrow>
          if status \<noteq> 0
          then try_bp (remove_device i) (emit_bt (GapDropLinkKey (btaddr (conn (device w i)))) w)
          else uni_bt_bredr_process_fsm env (Some i) (bredr_opened_psm i psm local_cid w))"

definition uni_bt_bredr_on_l2cap_channel_closed :: "u16 \<Rightarrow> bt \<Rightarrow> bt option" where
  "uni_bt_bredr_on_l2cap_channel_closed local_cid w =
     (case uni_hid_device_get_instance_for_cid local_cid (bp w) of None \<Rightarrow> Some w
      | Some i \<Rightarrow> try_bp (remove_device i) w)"

text \<open>The first byte of a report is the transaction type, DATA and INPUT together.\<close>

definition HID_DATA_INPUT :: u8 where "HID_DATA_INPUT = 0xa1"

definition uni_bt_bredr_on_l2cap_data_packet :: "bt_env \<Rightarrow> u16 \<Rightarrow> bytes \<Rightarrow> bt \<Rightarrow> bt option" where
  "uni_bt_bredr_on_l2cap_data_packet env channel packet w =
     (case uni_hid_device_get_instance_for_cid channel (bp w) of None \<Rightarrow> Some w
      | Some i \<Rightarrow>
          if length packet < 2 then Some w
          else if channel = control_cid (conn (device w i))
          then (case rp_parse_feature_report (report_parser (device w i)) of None \<Rightarrow> Some w
                | Some p \<Rightarrow> try_bp (be_feature_report env p i (drop 1 packet)) w)
          else if channel \<noteq> interrupt_cid (conn (device w i)) then Some w
          else if packet ! 0 \<noteq> HID_DATA_INPUT then Some w
          else map_option (upd_bp (uni_hid_device_process_controller i)) (try_bp (be_input_report env i (drop 1 packet)) w))"

section \<open>Discovery and connection\<close>

text \<open>The name is copied into a buffer of 241 bytes.\<close>

definition uni_bt_bredr_on_gap_inquiry_result ::
  "bt_env \<Rightarrow> bytes \<Rightarrow> u8 \<Rightarrow> u16 \<Rightarrow> u32 \<Rightarrow> u8 option \<Rightarrow> string option \<Rightarrow> bt \<Rightarrow> bt option" where
  "uni_bt_bredr_on_gap_inquiry_result env addr psrm offset c r name w =
     (let r1 = (case r of None \<Rightarrow> 255 | Some v \<Rightarrow> v);
          name_buffer = (case name of None \<Rightarrow> [] | Some s \<Rightarrow> s)
      in if length name_buffer > HID_MAX_NAME_LEN then None
         else if uni_hid_device_on_device_discovered (uni_bt_allowlist_is_allowed_addr addr (bt_allowlist w)) (to_u16 c) r1
              \<noteq> UNI_ERROR_SUCCESS then Some w
         else case device_for addr w of
             Some i \<Rightarrow>
               if conn_state (conn (device w i)) = UNI_BT_CONN_STATE_DEVICE_READY then Some w
               else uni_bt_bredr_process_fsm env (Some i) w
           | None \<Rightarrow>
               (case create_device addr w of (None, w1) \<Rightarrow> Some w1
                | (Some i, w1) \<Rightarrow>
                    let w2 = upd_device i (uni_hid_device_set_cod c) (set_conn_state i UNI_BT_CONN_STATE_DEVICE_DISCOVERED w1);
                        w3 = upd_bp (upd_conn i (\<lambda>cn. cn\<lparr> page_scan_repetition_mode := psrm,
                               clock_offset := offset OR UNI_BT_CLOCK_OFFSET_VALID, rssi := r1 \<rparr>)) w2;
                        w4 = (if name_buffer \<noteq> [] \<and> \<not> uni_hid_device_has_name (device w3 i)
                              then set_conn_state i UNI_BT_CONN_STATE_REMOTE_NAME_FETCHED
                                     (upd_device i (uni_hid_device_set_name (Some name_buffer)) w3)
                              else w3)
                    in uni_bt_bredr_process_fsm env (Some i) w4))"

definition uni_bt_bredr_on_hci_connection_request :: "bytes \<Rightarrow> u32 \<Rightarrow> bt \<Rightarrow> bt" where
  "uni_bt_bredr_on_hci_connection_request addr c w =
     (let (d, w1) = (case device_for addr w of Some i \<Rightarrow> (Some i, w) | None \<Rightarrow> create_device addr w)
      in case d of None \<Rightarrow> w1
         | Some i \<Rightarrow> upd_device i (uni_hid_device_set_incoming True) (upd_device i (uni_hid_device_set_cod c) w1))"

definition uni_bt_bredr_on_hci_connection_complete :: "u8 \<Rightarrow> bytes \<Rightarrow> u16 \<Rightarrow> bt \<Rightarrow> bt" where
  "uni_bt_bredr_on_hci_connection_complete status addr h w =
     (if status \<noteq> 0 then w
      else case device_for addr w of None \<Rightarrow> w
         | Some i \<Rightarrow> upd_device i (uni_hid_device_set_connection_handle h) w)"

definition UNI_BT_COD_MINOR_KEYBOARD_AND_MICE :: u32 where "UNI_BT_COD_MINOR_KEYBOARD_AND_MICE = 0xc0"

definition uni_bt_bredr_on_hci_pin_code_request :: "bt_env \<Rightarrow> bytes \<Rightarrow> bt \<Rightarrow> bt" where
  "uni_bt_bredr_on_hci_pin_code_request env addr w =
     (let is_mouse_or_keyboard = (case device_for addr w of None \<Rightarrow> False
            | Some i \<Rightarrow> cod (device w i) AND UNI_BT_COD_MAJOR_MASK = UNI_BT_COD_MAJOR_PERIPHERAL \<and>
                cod (device w i) AND UNI_BT_COD_MINOR_KEYBOARD_AND_MICE \<noteq> 0)
      in if is_mouse_or_keyboard then emit_bt (GapPinCodeResponse addr [0x30, 0x30, 0x30, 0x30]) w
         else emit_bt (GapPinCodeResponse addr (rev (be_local_addr env))) w)"

text \<open>A name that cannot be fetched is replaced; the timer is removed in either case.\<close>

definition uni_bt_bredr_on_hci_remote_name_request_complete ::
  "bt_env \<Rightarrow> u8 \<Rightarrow> bytes \<Rightarrow> string \<Rightarrow> bt \<Rightarrow> bt option" where
  "uni_bt_bredr_on_hci_remote_name_request_complete env status addr remote_name w =
     (case device_for addr w of None \<Rightarrow> Some w
      | Some i \<Rightarrow>
          let name = (if status \<noteq> 0 then fake_name else remote_name);
              w1 = upd_device i (uni_hid_device_set_name (Some name)) w;
              st = uni_bt_conn_get_state (conn (device w1 i))
          in map_option (upd_device i (\<lambda>d. d\<lparr> inquiry_remote_name_timer := False \<rparr>))
               (if st \<noteq> UNI_BT_CONN_STATE_DEVICE_PENDING_READY \<and> st \<noteq> UNI_BT_CONN_STATE_DEVICE_READY
                then uni_bt_bredr_process_fsm env (Some i) (set_conn_state i UNI_BT_CONN_STATE_REMOTE_NAME_FETCHED w1)
                else Some w1))"

definition inquiry_remote_name_timeout_callback :: "bt_env \<Rightarrow> nat \<Rightarrow> bt \<Rightarrow> bt option" where
  "inquiry_remote_name_timeout_callback env i w =
     uni_bt_bredr_process_fsm env (Some i)
       (set_conn_state i UNI_BT_CONN_STATE_REMOTE_NAME_FETCHED
         (upd_device i (uni_hid_device_set_name (Some fake_name)) w))"

section \<open>Links\<close>

text \<open>The LE part of a disconnection only resumes the scan.\<close>

definition on_hci_disconnection_complete :: "u16 \<Rightarrow> bt \<Rightarrow> bt option" where
  "on_hci_disconnection_complete h w =
     (case uni_hid_device_get_instance_for_connection_handle h (bp w) of None \<Rightarrow> Some w
      | Some i \<Rightarrow> try_bp (remove_device i) w)"

definition on_rssi_measurement :: "u16 \<Rightarrow> u8 \<Rightarrow> bt \<Rightarrow> bt" where
  "on_rssi_measurement h r w =
     (case uni_hid_device_get_instance_for_connection_handle h (bp w) of None \<Rightarrow> w
      | Some i \<Rightarrow> upd_bp (upd_conn i (\<lambda>c. c\<lparr> rssi := r \<rparr>)) w)"

definition on_can_send_now :: "bool \<Rightarrow> u16 \<Rightarrow> bt \<Rightarrow> bt" where
  "on_can_send_now busy local_cid w =
     (case uni_hid_device_get_instance_for_cid local_cid (bp w) of None \<Rightarrow> w
      | Some i \<Rightarrow> upd_bp (uni_hid_device_send_queued_reports busy (Some i)) w)"

definition uni_bt_allow_incoming_connections :: "bool \<Rightarrow> bt \<Rightarrow> bt" where
  "uni_bt_allow_incoming_connections allow w = w\<lparr> bt_allow_incoming_connections := allow \<rparr>"

section \<open>The events\<close>

datatype bt_event =
    GapInquiryResult bytes u8 u16 u32 "u8 option" "string option"
  | HciConnectionRequest bytes u32
  | HciConnectionComplete u8 bytes u16
  | HciDisconnectionComplete u16
  | HciPinCodeRequest bytes
  | HciRemoteNameComplete u8 bytes string
  | L2capCanSendNow bool u16
  | L2capIncoming u16 u16 u16 bytes
  | L2capOpened u8 bytes u16 u16
  | L2capClosed u16
  | L2capData u16 bytes
  | GapRssi u16 u8
  | SdpEvent sdp_event
  | SdpTimer
  | NameTimer nat
  | ConnectionTimer nat
  | SetupDone nat
  | DisconnectCommand u16
  | AllowIncoming bool
  | AppRequest int pending_request_cmd
  | AppPoll int

text \<open>A timer that fires has been taken out of the run loop; \<^verbatim>\<open>CMD_DISCONNECT_DEVICE\<close> names a device by its index.\<close>

fun bt_step :: "bt_env \<Rightarrow> bt_event \<Rightarrow> bt \<Rightarrow> bt option" where
  "bt_step env (GapInquiryResult a psrm offset c r name) w =
     uni_bt_bredr_on_gap_inquiry_result env a psrm offset c r name w"
| "bt_step env (HciConnectionRequest a c) w = Some (uni_bt_bredr_on_hci_connection_request a c w)"
| "bt_step env (HciConnectionComplete st a h) w = Some (uni_bt_bredr_on_hci_connection_complete st a h w)"
| "bt_step env (HciDisconnectionComplete h) w = on_hci_disconnection_complete h w"
| "bt_step env (HciPinCodeRequest a) w = Some (uni_bt_bredr_on_hci_pin_code_request env a w)"
| "bt_step env (HciRemoteNameComplete st a name) w =
     uni_bt_bredr_on_hci_remote_name_request_complete env st a name w"
| "bt_step env (L2capCanSendNow busy cid) w = Some (on_can_send_now busy cid w)"
| "bt_step env (L2capIncoming ch psm h a) w = uni_bt_bredr_on_l2cap_incoming_connection ch psm h a w"
| "bt_step env (L2capOpened st a psm cid) w = uni_bt_bredr_on_l2cap_channel_opened env st a psm cid w"
| "bt_step env (L2capClosed cid) w = uni_bt_bredr_on_l2cap_channel_closed cid w"
| "bt_step env (L2capData ch packet) w = uni_bt_bredr_on_l2cap_data_packet env ch packet w"
| "bt_step env (GapRssi h r) w = Some (on_rssi_measurement h r w)"
| "bt_step env (SdpEvent e) w = sdp_client_event env e w"
| "bt_step env SdpTimer w = Some (sdp_query_timeout w)"
| "bt_step env (NameTimer i) w =
     inquiry_remote_name_timeout_callback env i (upd_device i (\<lambda>d. d\<lparr> inquiry_remote_name_timer := False \<rparr>) w)"
| "bt_step env (ConnectionTimer i) w =
     try_bp (device_connection_timeout i) (upd_device i (\<lambda>d. d\<lparr> connection_timer := False \<rparr>) w)"
| "bt_step env (SetupDone i) w = try_bp (\<lambda>b. map_option snd (uni_hid_device_set_ready_complete (Some i) b)) w"
| "bt_step env (DisconnectCommand idx) w =
     (case uni_hid_device_get_instance_for_idx (uint idx) (bp w) of None \<Rightarrow> Some w
      | Some i \<Rightarrow> try_bp (remove_device i) w)"
| "bt_step env (AllowIncoming b) w = Some (uni_bt_allow_incoming_connections b w)"
| "bt_step env (AppRequest k c) w = Some (upd_bp (\<lambda>b. snd (queue_request k c b)) w)"
| "bt_step env (AppPoll k) w = Some (upd_bp (\<lambda>b. snd (snd (arduino_get_controller_data k b))) w)"

definition bt_boot :: "nat \<Rightarrow> (u16 \<Rightarrow> gap_connection_type) \<Rightarrow> allowlist \<Rightarrow> bt" where
  "bt_boot n gap al = \<lparr> bp = bp32_boot n gap, sdp_device = None, sdp_query_timer = None,
     sdp_attribute_value = replicate MAX_ATTRIBUTE_VALUE_SIZE 0, sdp_client = None,
     bt_allow_incoming_connections = True, bt_allowlist = al \<rparr>"

section \<open>Commands from other threads\<close>

text \<open>
  A command is posted into one of eight records, which BTstack keeps in a list until its thread runs them; a record that
  is in the list already is not added again, but its command is overwritten.
\<close>

definition CMD_CALLBACK_MAX :: nat where "CMD_CALLBACK_MAX = 8"

record cmd_queue =
  cmd_callback_registration :: "u32 list"
  cmd_callback_idx :: nat
  cmd_pending :: "nat list"

definition cmd_boot :: cmd_queue where
  "cmd_boot = \<lparr> cmd_callback_registration = replicate CMD_CALLBACK_MAX 0, cmd_callback_idx = 0, cmd_pending = [] \<rparr>"

definition get_next_callback_registration :: "cmd_queue \<Rightarrow> nat" where
  "get_next_callback_registration q = (cmd_callback_idx q + 1) mod CMD_CALLBACK_MAX"

definition post_command :: "u32 \<Rightarrow> cmd_queue \<Rightarrow> cmd_queue" where
  "post_command c q =
     (let k = get_next_callback_registration q
      in q\<lparr> cmd_callback_idx := k, cmd_callback_registration := (cmd_callback_registration q)[k := c],
           cmd_pending := (if k \<in> set (cmd_pending q) then cmd_pending q else cmd_pending q @ [k]) \<rparr>)"

text \<open>The run loop takes all of them in order and hands each its record's command.\<close>

definition run_commands :: "cmd_queue \<Rightarrow> u32 list \<times> cmd_queue" where
  "run_commands q = (map (\<lambda>k. cmd_callback_registration q ! k) (cmd_pending q), q\<lparr> cmd_pending := [] \<rparr>)"

definition CMD_DISCONNECT_DEVICE :: u32 where "CMD_DISCONNECT_DEVICE = 5"

definition uni_bt_disconnect_device_safe :: "u32 \<Rightarrow> cmd_queue \<Rightarrow> cmd_queue" where
  "uni_bt_disconnect_device_safe idx q = post_command (CMD_DISCONNECT_DEVICE OR push_bit 16 idx) q"

text \<open>The command and its argument; the command that concerns the table is the disconnection.\<close>

definition cmd_code :: "u32 \<Rightarrow> u16" where
  "cmd_code ctx = to_u16 (ctx AND 0xffff)"

definition cmd_args :: "u32 \<Rightarrow> u16" where
  "cmd_args ctx = to_u16 (drop_bit 16 ctx AND 0xffff)"

definition cmd_callback :: "bt_env \<Rightarrow> u32 \<Rightarrow> bt \<Rightarrow> bt option" where
  "cmd_callback env ctx w = (if cmd_code ctx = 5 then bt_step env (DisconnectCommand (cmd_args ctx)) w else Some w)"

end
