(* ===== verification/Uni_Bt_Laws.thy ===== *)
theory Uni_Bt_Laws
  imports Uni_Bt_Discovery Uni_Bt Pad_Parsers
begin

text \<open>
  The event handlers keep the invariant of the connection machine: the seats agree, a slot is free, ready or on a running
  timer, and the firmware survives every event that is not excluded by \<^verbatim>\<open>bt_guard\<close>.  The contract of the parsers
  is met by the Atari joystick.
\<close>

section \<open>The handlers keep it\<close>

lemma bt_ok_boot: "bt_ok n (bt_boot n gap al)"
  by (simp add: bt_ok_def bt_boot_def table_ok_boot)

lemma device_for_Some:
  assumes "bt_ok n w" "device_for a w = Some i"
  shows "i < n" "btaddr (conn (device w i)) = a"
  using find_dev_Some [of _ "bp w" i] assms
  by (auto simp: device_for_def uni_hid_device_get_instance_for_address_def bt_ok_def table_ok_def device_def dest: find_dev_Some)

lemma found_device:
  assumes "bt_ok n w"
  shows "uni_hid_device_get_instance_for_cid c (bp w) = Some i \<Longrightarrow> i < n"
    "uni_hid_device_get_instance_for_connection_handle h (bp w) = Some i \<Longrightarrow> i < n"
    "uni_hid_device_get_instance_for_idx k (bp w) = Some i \<Longrightarrow> i < n"
  using assms find_dev_Some
  by (auto simp: uni_hid_device_get_instance_for_cid_def uni_hid_device_get_instance_for_connection_handle_def
      uni_hid_device_get_instance_for_idx_def bt_ok_def table_ok_def split: if_splits)

lemma created:
  assumes "bt_ok n w" "create_device a w = (d, w')"
  shows "bt_ok n w'" "d = Some i \<Longrightarrow> i < n \<and> device w' i =
    uni_hid_device_zero\<lparr> conn := uni_bt_conn_zero\<lparr> btaddr := a \<rparr>, connection_timer := True \<rparr>"
  using assms table_ok_create [OF bt_ok_table [OF assms(1)], of a]
  by (auto simp: create_device_def bt_ok_def device_def map_prod_def split: prod.splits)

lemma keeps_marks: "keeps d (uni_hid_device_set_incoming t d)" "keeps d (uni_hid_device_set_connection_handle h d)"
  by (simp_all add: uni_hid_device_set_incoming_def uni_hid_device_set_connection_handle_def
      keeps_def dev_view_def uni_hid_device_has_name_def)

lemma has_name_cod: "f AND FLAGS_HAS_NAME \<noteq> 0 \<Longrightarrow> (f AND NOT FLAGS_HAS_COD) AND FLAGS_HAS_NAME \<noteq> (0::u32)"
proof -
  have "NOT FLAGS_HAS_COD AND FLAGS_HAS_NAME = FLAGS_HAS_NAME" by (simp add: FLAGS_HAS_COD_def FLAGS_HAS_NAME_def)
  then show "f AND FLAGS_HAS_NAME \<noteq> 0 \<Longrightarrow> (f AND NOT FLAGS_HAS_COD) AND FLAGS_HAS_NAME \<noteq> 0"
    by (simp add: and.assoc)
qed

lemma keeps_cod: "keeps d (uni_hid_device_set_cod c d)"
  using has_name_or has_name_cod by (auto simp: uni_hid_device_set_cod_def keeps_def dev_view_def uni_hid_device_has_name_def)

lemma ok_accept:
  assumes "bt_ok n w" "i < n"
  shows "bt_ok n (bredr_accept_control i ch h w)"
  unfolding bredr_accept_control_def using assms
  by (intro bt_ok_keeps bt_ok_conn keeps_marks) simp_all

lemma ok_incoming:
  assumes w: "bt_ok n w" and d: "\<And>i. d = Some i \<Longrightarrow> i < n"
  shows "bt_ok n (bredr_incoming_psm ch psm h a d w)"
proof -
  obtain k w1 where c: "create_device a w = (k, w1)" by fastforce
  note k = created [OF w c]
  show ?thesis
    using w d k c by (auto simp: bredr_incoming_psm_def bt_ok_conn intro!: ok_accept split: option.splits)
qed

lemma ok_incoming_known:
  "bt_ok n w \<Longrightarrow> bt_ok n (bredr_incoming_psm ch psm h a None w)"
  "bt_ok n w \<Longrightarrow> i < n \<Longrightarrow> bt_ok n (bredr_incoming_psm ch psm h a (Some i) w)"
  by (rule ok_incoming; simp)+

lemma fine_map: "fine n r \<Longrightarrow> (\<And>w. bt_ok n w \<Longrightarrow> bt_ok n (f w)) \<Longrightarrow> fine n (map_option f r)"
  by (auto simp: fine_def)

lemma fine_incoming:
  assumes w: "bt_ok n w"
  shows "fine n (uni_bt_bredr_on_l2cap_incoming_connection ch psm h a w)"
proof (cases "device_for a w")
  case None
  then show ?thesis using w by (simp add: uni_bt_bredr_on_l2cap_incoming_connection_def ok_incoming_known)
next
  case (Some i)
  have "fine n (map_option (bredr_incoming_psm ch psm h a None) (try_bp (remove_device i) w))"
    using fine_remove [OF w device_for_Some(1) [OF w Some]] by (rule fine_map) (simp add: ok_incoming_known)
  with Some w device_for_Some [OF w Some] show ?thesis
    by (simp add: uni_bt_bredr_on_l2cap_incoming_connection_def ok_incoming_known)
qed

lemma ok_connection_request:
  assumes w: "bt_ok n w"
  shows "bt_ok n (uni_bt_bredr_on_hci_connection_request a c w)"
proof -
  have m: "bt_ok n (upd_device i (uni_hid_device_set_incoming True) (upd_device i (uni_hid_device_set_cod c) v))"
    if "bt_ok n v" "i < n" for i v
    using that by (intro bt_ok_keeps keeps_marks keeps_cod)
  obtain k w1 where cr: "create_device a w = (k, w1)" by fastforce
  show ?thesis using m w created [OF w cr] device_for_Some [OF w]
    by (auto simp: uni_bt_bredr_on_hci_connection_request_def cr split: option.splits)
qed

lemma ok_connection_complete: "bt_ok n w \<Longrightarrow> bt_ok n (uni_bt_bredr_on_hci_connection_complete st a h w)"
  by (auto simp: uni_bt_bredr_on_hci_connection_complete_def intro!: bt_ok_keeps keeps_marks dest: device_for_Some
      split: option.splits)

lemma ok_rssi: "bt_ok n w \<Longrightarrow> bt_ok n (on_rssi_measurement h r w)"
  by (auto simp: on_rssi_measurement_def intro!: bt_ok_conn dest: found_device split: option.splits)

context bt_parsers begin

text \<open>A result with a status closes the device; an opened channel moves it on.\<close>

lemma fine_opened:
  assumes w: "bt_ok n w"
    and g: "\<And>i. st = 0 \<Longrightarrow> device_for a w = Some i \<Longrightarrow> conn_state (conn (device w i)) \<noteq> UNI_BT_CONN_STATE_DEVICE_READY \<and>
      (psm = BLUETOOTH_PSM_HID_INTERRUPT \<longrightarrow> a \<noteq> zero_addr \<and> \<not> connected (conn (device w i)) \<and>
        (uni_hid_device_has_name (device w i) \<or> \<not> inquiry_remote_name_timer (device w i)))"
  shows "fine n (uni_bt_bredr_on_l2cap_channel_opened env st a psm cid w)"
proof (cases "device_for a w")
  case None
  then show ?thesis using w by (simp add: uni_bt_bredr_on_l2cap_channel_opened_def)
next
  case (Some i)
  note d = device_for_Some [OF w Some]
  show ?thesis
  proof (cases "st = 0")
    case False
    then show ?thesis using Some w d by (simp add: uni_bt_bredr_on_l2cap_channel_opened_def fine_remove)
  next
    case True
    then have way: "on_the_way n i w" using g Some w d by (simp add: on_the_way_def)
    let ?c = "upd_bp (upd_conn i (\<lambda>c. c\<lparr> control_cid := cid \<rparr>)) w"
    let ?i = "upd_bp (upd_conn i (\<lambda>c. c\<lparr> interrupt_cid := cid \<rparr>)) w"
    have c: "on_the_way n i (set_conn_state i UNI_BT_CONN_STATE_L2CAP_CONTROL_CONNECTED ?c)"
      using way by (intro way_quiet_state way_conn) (simp_all add: asks_name_def)
    have "on_the_way n i (upd_bp (uni_hid_device_connect (Some i)) (set_conn_state i UNI_BT_CONN_STATE_L2CAP_INTERRUPT_CONNECTED ?i))"
      if psm: "psm = BLUETOOTH_PSM_HID_INTERRUPT"
    proof -
      let ?s = "set_conn_state i UNI_BT_CONN_STATE_L2CAP_INTERRUPT_CONNECTED ?i"
      have i: "on_the_way n i ?i" using way by (intro way_conn) simp_all
      have di: "device ?i i = (device w i)\<lparr> conn := (conn (device w i))\<lparr> interrupt_cid := cid \<rparr> \<rparr>"
        by (simp add: device_upd [OF w d(1)])
      have s: "on_the_way n i ?s"
        by (rule way_state [OF i]) (use g [OF True Some] psm in \<open>simp_all add: di uni_hid_device_has_name_def\<close>)
      have ds: "device ?s i = (device w i)\<lparr> conn := (conn (device w i))\<lparr> interrupt_cid := cid,
          conn_state := UNI_BT_CONN_STATE_L2CAP_INTERRUPT_CONNECTED \<rparr> \<rparr>"
        by (simp add: device_state [OF i] di uni_bt_conn_set_state_def)
      have l: "i < length (g_devices (bp ?s))" using way_ok [OF s] by (simp add: bt_ok_def table_ok_def)
      have nc: "\<not> connected (conn (dev (bp ?s) i))" "btaddr (conn (dev (bp ?s) i)) \<noteq> zero_addr"
        using g [OF True Some] psm ds d by (simp_all add: device_def)
      have "bt_ok n (upd_bp (uni_hid_device_connect (Some i)) ?s)"
        using table_ok_connect [OF bt_ok_table [OF way_ok(1) [OF s]] d(1) nc(2,1)] way_ok(1) [OF s] by (rule bt_ok_upd [rotated])
      moreover have "conn_state (conn (device (upd_bp (uni_hid_device_connect (Some i)) ?s) i)) = UNI_BT_CONN_STATE_L2CAP_INTERRUPT_CONNECTED"
        using l nc(1) ds by (simp add: device_def upd_bp_def connect_frame)
      ultimately show ?thesis using d by (simp add: on_the_way_def)
    qed
    then have "on_the_way n i (bredr_opened_psm i psm cid w)" using c way by (simp add: bredr_opened_psm_def)
    then show ?thesis using Some True by (simp add: uni_bt_bredr_on_l2cap_channel_opened_def fine_bredr_fsm)
  qed
qed

lemma fine_closed:
  assumes "bt_ok n w"
  shows "fine n (uni_bt_bredr_on_l2cap_channel_closed cid w)"
  using assms found_device(1) [OF assms]
  by (auto simp: uni_bt_bredr_on_l2cap_channel_closed_def intro!: fine_remove split: option.splits)

lemma fine_disconnection:
  assumes "bt_ok n w"
  shows "fine n (on_hci_disconnection_complete h w)"
  using assms found_device(2) [OF assms]
  by (auto simp: on_hci_disconnection_complete_def intro!: fine_remove split: option.splits)

lemma fine_data:
  assumes w: "bt_ok n w"
  shows "fine n (uni_bt_bredr_on_l2cap_data_packet env ch packet w)"
proof (cases "uni_hid_device_get_instance_for_cid ch (bp w)")
  case None
  then show ?thesis using w by (simp add: uni_bt_bredr_on_l2cap_data_packet_def)
next
  case (Some i)
  have i: "i < n" by (rule found_device(1) [OF w Some])
  have f: "fine n (try_bp (be_feature_report env p i r) w)" for p r
    using feature_keeps [OF bt_ok_table [OF w] i] by (intro fine_try [OF w])
  have "fine n (try_bp (be_input_report env i r) w)" for r
    using input_keeps [OF bt_ok_table [OF w] i] by (intro fine_try [OF w])
  then have "fine n (map_option (upd_bp (uni_hid_device_process_controller i)) (try_bp (be_input_report env i r) w))" for r
    by (rule fine_map) (simp add: bt_ok_upd bt_ok_table table_ok_data i)
  with f w show ?thesis
    by (simp add: uni_bt_bredr_on_l2cap_data_packet_def Some split: option.splits)
qed

end

text \<open>Walking a descriptor changes no more than the descriptor.\<close>

lemma keeps_strings: "descriptor_strings m it d = Some d' \<Longrightarrow> keeps d d'"
proof (induction rule: descriptor_strings.raw_induct [rotated 1, consumes 1])
  case (1 walk m it d d')
  show ?case
  proof (cases "des_iterator_has_more it")
    case True
    then obtain d1 where d1: "(if des_iterator_get_type m it \<noteq> DE_STRING then Some d
        else uni_hid_device_set_hid_descriptor (string_bytes m (it_address it)) d) = Some d1"
      "walk m (des_iterator_next m it) d1 = Some d'"
      using 1 by (auto simp: bind_eq_Some_conv)
    have "keeps d d1" using d1(1) keeps_descriptor by (auto split: if_splits)
    with 1(1) [OF d1(2)] show ?thesis by (blast intro: keeps_then)
  next
    case False
    with 1 show ?thesis by auto
  qed
qed

lemma keeps_list: "descriptor_list m inner it d = Some d' \<Longrightarrow> keeps d d'"
proof (induction rule: descriptor_list.raw_induct [rotated 1, consumes 1])
  case (1 walk m inner it d d')
  show ?case
  proof (cases "des_iterator_has_more it")
    case True
    then obtain d1 where d1: "(if des_iterator_get_type m it \<noteq> DE_DES then Some d
        else descriptor_strings m (snd (des_iterator_init m (it_address it) inner)) d) = Some d1"
      "walk m inner (des_iterator_next m it) d1 = Some d'"
      using 1 by (auto simp: bind_eq_Some_conv)
    have "keeps d d1" using d1(1) keeps_strings by (auto split: if_splits)
    with 1(1) [OF d1(2)] show ?thesis by (blast intro: keeps_then)
  next
    case False
    with 1 show ?thesis by auto
  qed
qed

lemma fine_try_device:
  assumes "bt_ok n w" "i < n" "f (device w i) \<noteq> None" "\<And>d. f (device w i) = Some d \<Longrightarrow> keeps (device w i) d"
  shows "fine n (try_device i f w)"
  using assms by (auto simp: try_device_def intro!: bt_ok_keeps)

lemma ok_buffer: "bt_ok n w \<Longrightarrow> bt_ok n (w\<lparr> sdp_attribute_value := (sdp_attribute_value w)[k := x] \<rparr>)"
  by (simp add: bt_ok_def)

lemma fine_attribute:
  assumes "bt_ok n w" "unat len \<le> MAX_ATTRIBUTE_VALUE_SIZE \<Longrightarrow> unat k < MAX_ATTRIBUTE_VALUE_SIZE"
    "unat len \<le> MAX_ATTRIBUTE_VALUE_SIZE \<Longrightarrow> k + 1 = len \<Longrightarrow>
      fine n (f (w\<lparr> sdp_attribute_value := (sdp_attribute_value w)[unat k := x] \<rparr>))"
  shows "fine n (sdp_attribute_byte len k x f w)"
  using assms by (auto simp: sdp_attribute_byte_def Let_def ok_buffer)

lemma fine_read_id: "bt_ok n w \<Longrightarrow> i < n \<Longrightarrow> fine n (read_id env attr i w)"
  by (auto simp: read_id_def intro!: bt_ok_keeps keeps_ids split: option.splits)

lemma fine_read_descriptor:
  assumes "bt_ok n w" "i < n" "read_hid_descriptor env i w \<noteq> None"
  shows "fine n (read_hid_descriptor env i w)"
  using assms unfolding read_hid_descriptor_def Let_def
  by (intro fine_try_device keeps_list) (auto simp: try_device_def)

lemma ok_timeout: "bt_ok n w \<Longrightarrow> bt_ok n (sdp_query_timeout w)"
  by (auto simp: sdp_query_timeout_def Let_def bt_ok_def split: option.splits)

lemma fine_connection_timer:
  assumes w: "bt_ok n w" and i: "i < n"
  shows "fine n (try_bp (device_connection_timeout i) (upd_device i (\<lambda>d. d\<lparr> connection_timer := False \<rparr>) w))"
proof -
  let ?b = "upd_dev i (\<lambda>d. d\<lparr> connection_timer := False \<rparr>) (bp w)"
  have t: "table_ok n (bp w)" using w by (rule bt_ok_table)
  have s: "seats_ok ?b" "length (g_devices ?b) = n" "j < n \<Longrightarrow> j \<noteq> i \<Longrightarrow> slot_ok (dev ?b j)" for j
    using t i by (auto simp: table_ok_def dev_view_def intro!: seats_ok_upd_dev)
  have b: "bp (upd_device i (\<lambda>d. d\<lparr> connection_timer := False \<rparr>) w) = ?b" by (simp add: upd_device_def upd_bp_def)
  have "\<exists>b'. device_connection_timeout i ?b = Some b' \<and> table_ok n b'"
  proof (cases "conn_state (conn (dev ?b i)) = UNI_BT_CONN_STATE_DEVICE_READY")
    case True
    then have "slot_ok (dev ?b i)" using t i by (auto simp: table_ok_def slot_ok_def uni_hid_device_has_name_def asks_name_def)
    then have "slot_ok (dev ?b j)" if "j < n" for j using s(3) that by (cases "j = i") auto
    with s(1,2) have "table_ok n ?b" by (simp add: table_ok_def)
    with True show ?thesis by (simp add: device_connection_timeout_def)
  next
    case False
    with remove_slot [OF s i] show ?thesis by (auto simp: device_connection_timeout_def)
  qed
  then show ?thesis using w by (auto simp: try_bp_def b bt_ok_def upd_device_def upd_bp_def)
qed

lemma quiet_send: "quiet b (uni_hid_device_send_queued_reports busy (Some i) b)"
proof -
  have r: "quiet v (uni_hid_device_send_report busy (Some i) cid rep v)" for v cid rep
    by (auto simp: uni_hid_device_send_report_def Let_def slot_ok_fields split: option.splits prod.splits
        intro!: quiet_upd quiet_same [OF same_table_emit])
  show ?thesis
    by (auto simp: uni_hid_device_send_queued_reports_def Let_def split: prod.splits option.splits
        intro!: quiet_upd quiet_trans [OF quiet_upd r] slot_ok_fields)
qed

lemma ok_send:
  assumes w: "bt_ok n w"
  shows "bt_ok n (on_can_send_now busy cid w)"
proof (cases "uni_hid_device_get_instance_for_cid cid (bp w)")
  case None
  then show ?thesis using w by (simp add: on_can_send_now_def)
next
  case (Some i)
  have i: "i < n" by (rule found_device(1) [OF w Some])
  have u: "seats_ok (upd_dev i (\<lambda>d. d\<lparr> outgoing_buffer := q \<rparr>) b)" if "seats_ok b" "i < length (g_devices b)" for b q
    using that by (intro seats_ok_upd_dev) (simp_all add: dev_view_def)
  have r: "seats_ok (uni_hid_device_send_report busy (Some i) c rep b)" if b: "seats_ok b" "i < length (g_devices b)" for b c rep
  proof -
    have "seats_ok (upd_dev i f b)" if "\<And>d. dev_view (f d) = dev_view d" for f
      using b that by (intro seats_ok_upd_dev) simp_all
    then show ?thesis using b by (simp add: uni_hid_device_send_report_def dev_view_def)
  qed
  have t: "table_ok n (bp w)" using w by (rule bt_ok_table)
  have "seats_ok (uni_hid_device_send_queued_reports busy (Some i) (bp w))"
    using t i u r by (auto simp: uni_hid_device_send_queued_reports_def Let_def table_ok_def split: prod.splits option.splits)
  with t quiet_send [of "bp w" busy i] have "table_ok n (uni_hid_device_send_queued_reports busy (Some i) (bp w))"
    by (simp add: table_ok_def quiet_def)
  with Some w show ?thesis by (simp add: on_can_send_now_def bt_ok_upd)
qed

section \<open>The machine\<close>

text \<open>
  What is asked of the events.  A channel is reported open once, to a device that is not ready and, for the interrupt
  channel, is not waiting for its name; an attribute's bytes lie inside their attribute, a descriptor can be read
  through, and a query does not end for a device that is ready already; a timer belongs to an existing device.
\<close>

fun bt_guard :: "nat \<Rightarrow> bt_env \<Rightarrow> bt_event \<Rightarrow> bt \<Rightarrow> bool" where
  "bt_guard n env (GapInquiryResult a psrm offset c r name) w \<longleftrightarrow>
     (case name of None \<Rightarrow> True | Some s \<Rightarrow> length s \<le> HID_MAX_NAME_LEN)"
| "bt_guard n env (L2capOpened st a psm cid) w \<longleftrightarrow>
     (case device_for a w of None \<Rightarrow> True
      | Some i \<Rightarrow> st = 0 \<longrightarrow> conn_state (conn (device w i)) \<noteq> UNI_BT_CONN_STATE_DEVICE_READY \<and>
          (psm = BLUETOOTH_PSM_HID_INTERRUPT \<longrightarrow> a \<noteq> zero_addr \<and> \<not> connected (conn (device w i)) \<and>
            (uni_hid_device_has_name (device w i) \<or> \<not> inquiry_remote_name_timer (device w i))))"
| "bt_guard n env (SdpEvent e) w \<longleftrightarrow>
     (case sdp_device w of None \<Rightarrow> True
      | Some i \<Rightarrow>
          (case e of
             SdpAttributeByte len k x attr \<Rightarrow> unat len \<le> MAX_ATTRIBUTE_VALUE_SIZE \<longrightarrow>
               unat k < MAX_ATTRIBUTE_VALUE_SIZE \<and>
               read_hid_descriptor env i (w\<lparr> sdp_attribute_value := (sdp_attribute_value w)[unat k := x] \<rparr>) \<noteq> None
           | SdpQueryComplete \<Rightarrow> conn_state (conn (device w i)) \<noteq> UNI_BT_CONN_STATE_DEVICE_READY))"
| "bt_guard n env (NameTimer i) w \<longleftrightarrow> i < n \<and> conn_state (conn (device w i)) \<noteq> UNI_BT_CONN_STATE_DEVICE_READY"
| "bt_guard n env (ConnectionTimer i) w \<longleftrightarrow> i < n"
| "bt_guard n env (SetupDone i) w \<longleftrightarrow> i < n"
| "bt_guard n env e w \<longleftrightarrow> True"

lemma ok_untimed:
  assumes w: "bt_ok n w"
  shows "bt_ok n (upd_device i (\<lambda>d. d\<lparr> inquiry_remote_name_timer := False \<rparr>) w)"
proof (cases "i < n")
  case True
  have t: "table_ok n (bp w)" using w by (rule bt_ok_table)
  have "table_ok n (upd_dev i (\<lambda>d. d\<lparr> inquiry_remote_name_timer := False \<rparr>) (bp w))"
    using t True table_okD(3) [OF t True] by (intro table_ok_upd) (auto simp: dev_view_def slot_ok_def uni_hid_device_has_name_def)
  with w show ?thesis by (simp add: upd_device_def bt_ok_upd)
next
  case False
  then have "upd_dev i f (bp w) = bp w" for f using bt_ok_table [OF w] by (simp add: upd_dev_def table_ok_def list_update_beyond)
  with w show ?thesis by (simp add: upd_device_def bt_ok_upd bt_ok_table)
qed

lemma way_untimed:
  "on_the_way n i w \<Longrightarrow> on_the_way n i (upd_device i (\<lambda>d. d\<lparr> inquiry_remote_name_timer := False \<rparr>) w)"
  by (auto simp: on_the_way_def ok_untimed device_upd)

lemma way_fetched:
  assumes "on_the_way n i w"
  shows "on_the_way n i (set_conn_state i UNI_BT_CONN_STATE_REMOTE_NAME_FETCHED (upd_device i (uni_hid_device_set_name s) w))"
  by (intro way_quiet_state way_keeps keeps_name assms) (simp_all add: asks_name_def)

context bt_parsers begin

lemma fine_name_timer:
  assumes "bt_ok n w" "i < n" "conn_state (conn (device w i)) \<noteq> UNI_BT_CONN_STATE_DEVICE_READY"
  shows "fine n (bt_step env (NameTimer i) w)"
  using assms unfolding bt_step.simps inquiry_remote_name_timeout_callback_def
  by (intro fine_bredr_fsm way_fetched way_untimed) (simp add: on_the_way_def)

lemma fine_remote_name:
  assumes w: "bt_ok n w"
  shows "fine n (uni_bt_bredr_on_hci_remote_name_request_complete env st a name w)"
proof (cases "device_for a w")
  case None
  then show ?thesis using w by (simp add: uni_bt_bredr_on_hci_remote_name_request_complete_def)
next
  case (Some i)
  have i: "i < n" by (rule device_for_Some(1) [OF w Some])
  let ?name = "Some (if st \<noteq> 0 then fake_name else name)"
  let ?w = "upd_device i (uni_hid_device_set_name ?name) w"
  have ok: "bt_ok n ?w" by (intro bt_ok_keeps keeps_name w i)
  have "fine n (uni_bt_bredr_process_fsm env (Some i) (set_conn_state i UNI_BT_CONN_STATE_REMOTE_NAME_FETCHED ?w))"
    if "uni_bt_conn_get_state (conn (device ?w i)) \<noteq> UNI_BT_CONN_STATE_DEVICE_READY"
    using ok i that by (intro fine_bredr_fsm way_quiet_state) (simp_all add: on_the_way_def uni_bt_conn_get_state_def asks_name_def)
  with ok have "fine n (if uni_bt_conn_get_state (conn (device ?w i)) \<noteq> UNI_BT_CONN_STATE_DEVICE_PENDING_READY \<and>
      uni_bt_conn_get_state (conn (device ?w i)) \<noteq> UNI_BT_CONN_STATE_DEVICE_READY
    then uni_bt_bredr_process_fsm env (Some i) (set_conn_state i UNI_BT_CONN_STATE_REMOTE_NAME_FETCHED ?w) else Some ?w)"
    by simp
  from fine_map [OF this ok_untimed] show ?thesis
    by (simp only: uni_bt_bredr_on_hci_remote_name_request_complete_def Some Let_def option.case)
qed

lemma fine_inquiry:
  assumes w: "bt_ok n w" and g: "bt_guard n env (GapInquiryResult a psrm offset c r name) w"
  shows "fine n (uni_bt_bredr_on_gap_inquiry_result env a psrm offset c r name w)"
proof (cases "device_for a w")
  case (Some i)
  have "fine n (uni_bt_bredr_process_fsm env (Some i) w)"
    if "conn_state (conn (device w i)) \<noteq> UNI_BT_CONN_STATE_DEVICE_READY"
    using that w device_for_Some(1) [OF w Some] by (intro fine_bredr_fsm) (simp add: on_the_way_def)
  with Some w g show ?thesis
    by (simp add: uni_bt_bredr_on_gap_inquiry_result_def Let_def split: option.splits)
next
  case None
  obtain d w1 where c1: "create_device a w = (d, w1)" by fastforce
  note cr = created [OF w c1]
  have "fine n (uni_bt_bredr_process_fsm env (Some i) v)"
    if d: "d = Some i" and v: "v = (let w2 = upd_device i (uni_hid_device_set_cod c) (set_conn_state i UNI_BT_CONN_STATE_DEVICE_DISCOVERED w1);
          w3 = upd_bp (upd_conn i (\<lambda>cn. cn\<lparr> page_scan_repetition_mode := psrm, clock_offset := o1, rssi := r1 \<rparr>)) w2
      in if nb \<noteq> [] \<and> \<not> uni_hid_device_has_name (device w3 i)
         then set_conn_state i UNI_BT_CONN_STATE_REMOTE_NAME_FETCHED (upd_device i (uni_hid_device_set_name (Some nb)) w3)
         else w3)" for i o1 r1 nb v
  proof -
    have i: "on_the_way n i w1" "\<not> inquiry_remote_name_timer (device w1 i)"
      using cr(1) cr(2) [OF d] by (simp_all add: on_the_way_def uni_bt_conn_zero_def uni_hid_device_zero_def)
    have s: "on_the_way n i (set_conn_state i UNI_BT_CONN_STATE_DEVICE_DISCOVERED w1)"
      using i by (intro way_state) simp_all
    define w3 where "w3 = upd_bp (upd_conn i (\<lambda>cn. cn\<lparr> page_scan_repetition_mode := psrm, clock_offset := o1, rssi := r1 \<rparr>))
      (upd_device i (uni_hid_device_set_cod c) (set_conn_state i UNI_BT_CONN_STATE_DEVICE_DISCOVERED w1))"
    have w3: "on_the_way n i w3"
      unfolding w3_def by (intro way_conn way_keeps keeps_cod s) simp
    have "on_the_way n i v"
      using w3 way_fetched [OF w3, of "Some nb"] by (simp add: v Let_def w3_def [symmetric])
    then show ?thesis by (rule fine_bredr_fsm)
  qed
  with None w g cr(1) show ?thesis
    by (simp add: uni_bt_bredr_on_gap_inquiry_result_def Let_def c1 split: option.splits)
qed

end

context bt_parsers begin

lemma fine_pid_result:
  assumes w: "bt_ok n w" and g: "bt_guard n env (SdpEvent e) w"
  shows "fine n (uni_handle_sdp_pid_query_result env e w)"
proof (cases "sdp_device w")
  case None
  with w show ?thesis by (simp add: uni_handle_sdp_pid_query_result_def)
next
  case (Some i)
  have i: "i < n" using w Some by (simp add: bt_ok_def)
  show ?thesis
  proof (cases e)
    case (SdpAttributeByte len k x attr)
    with Some w g i show ?thesis
      by (auto simp: uni_handle_sdp_pid_query_result_def intro!: fine_attribute fine_read_id ok_buffer)
  next
    case SdpQueryComplete
    have "length (hid_descriptor (device w i)) = HID_MAX_DESCRIPTOR_LEN"
      using table_okD(3) [OF bt_ok_table [OF w] i] by (simp add: slot_ok_def device_def)
    then obtain d where d: "uni_hid_device_guess_controller_type_from_pid_vid (be_controllers env) (device w i) = Some d"
      using guess_total by blast
    have way: "on_the_way n i w" using w i g Some SdpQueryComplete by (simp add: on_the_way_def)
    have "on_the_way n i (set_conn_state i UNI_BT_CONN_STATE_SDP_VENDOR_FETCHED (upd_device i (\<lambda>_. d) w))"
      using way keeps_guess [OF d] by (intro way_quiet_state way_keeps) (simp_all add: asks_name_def)
    with Some SdpQueryComplete d show ?thesis
      by (simp add: uni_handle_sdp_pid_query_result_def try_device_def fine_bredr_fsm)
  qed
qed

lemma fine_hid_result:
  assumes w: "bt_ok n w" and g: "bt_guard n env (SdpEvent e) w"
  shows "fine n (uni_handle_sdp_hid_query_result env e w)"
proof (cases "sdp_device w")
  case None
  with w show ?thesis by (simp add: uni_handle_sdp_hid_query_result_def)
next
  case (Some i)
  have i: "i < n" using w Some by (simp add: bt_ok_def)
  show ?thesis
  proof (cases e)
    case (SdpAttributeByte len k x attr)
    have "fine n (sdp_attribute_byte len k x
        (\<lambda>v. if attr = BLUETOOTH_ATTRIBUTE_HID_DESCRIPTOR_LIST then read_hid_descriptor env i v else Some v) w)"
      using w i g Some SdpAttributeByte fine_read_descriptor [OF ok_buffer [OF w] i]
      by (intro fine_attribute [OF w]) (simp_all add: ok_buffer)
    with Some SdpAttributeByte show ?thesis by (simp add: uni_handle_sdp_hid_query_result_def)
  next
    case SdpQueryComplete
    have "on_the_way n i w" using w i g Some SdpQueryComplete by (simp add: on_the_way_def)
    then have "fine n (uni_bt_sdp_query_end (process_fsm 2 env) i w)" by (rule fine_end) (rule fine_fsm)
    with Some SdpQueryComplete show ?thesis by (simp add: uni_handle_sdp_hid_query_result_def)
  qed
qed

lemma fine_sdp:
  assumes w: "bt_ok n w" and g: "bt_guard n env (SdpEvent e) w"
  shows "fine n (sdp_client_event env e w)"
proof -
  define v where "v = (if e = SdpQueryComplete then w\<lparr> sdp_client := None \<rparr> else w)"
  have v: "bt_ok n v" "bt_guard n env (SdpEvent e) v"
  proof -
    show "bt_ok n v" using w by (simp add: v_def)
    show "bt_guard n env (SdpEvent e) v"
    proof (cases "e = SdpQueryComplete")
      case True
      with g show ?thesis by (cases "sdp_device w") (simp_all add: v_def)
    next
      case False
      with g show ?thesis unfolding v_def by (simp only: if_False)
    qed
  qed
  show ?thesis unfolding sdp_client_event_def Let_def v_def [symmetric]
    using w fine_pid_result [OF v] fine_hid_result [OF v] by (simp split: option.split sdp_handler.split)
qed

lemma same_table_ok: "bt_ok n w \<Longrightarrow> same_table (bp w) (f (bp w)) \<Longrightarrow> bt_ok n (upd_bp f w)"
  using table_ok_same bt_ok_table by (blast intro: bt_ok_upd)

lemma step_fine:
  assumes w: "bt_ok n w" and g: "bt_guard n env e w"
  shows "fine n (bt_step env e w)"
proof (cases e)
  case (DisconnectCommand k)
  with w found_device(3) [OF w] show ?thesis by (auto intro!: fine_remove split: option.splits)
next
  case (SetupDone i)
  with w g table_ok_ready [OF bt_ok_table [OF w], of i] show ?thesis by (fastforce intro: fine_try)
next
  case (AppRequest k c)
  with w show ?thesis by (auto simp: queue_request_def xQueueSendToBack_def same_table_def intro!: same_table_ok)
next
  case (AppPoll k)
  have "table_ok n (snd (snd (arduino_get_controller_data k (bp w))))"
    using bt_ok_table [OF w] by (auto simp: table_ok_def arduino_get_controller_data_def Let_def intro!: seats_ok_upd_seat)
  with AppPoll w show ?thesis by (simp add: bt_ok_upd)
next
  case (NameTimer i)
  with w g fine_name_timer show ?thesis by (simp del: bt_step.simps)
next
  case (L2capOpened st a psm cid)
  with w g show ?thesis by (auto intro!: fine_opened)
next
  case (ConnectionTimer i)
  with w g show ?thesis by (simp add: fine_connection_timer)
next
  case (AllowIncoming b)
  with w show ?thesis by (simp add: uni_bt_allow_incoming_connections_def bt_ok_def)
next
  case (HciPinCodeRequest a)
  with w show ?thesis by (simp add: uni_bt_bredr_on_hci_pin_code_request_def Let_def)
qed (use w g in \<open>simp_all add: fine_inquiry fine_remote_name fine_incoming fine_closed fine_disconnection fine_data
  fine_sdp fine_connection_timer ok_connection_request ok_connection_complete ok_rssi ok_send ok_timeout del: bt_guard.simps\<close>)

end

text \<open>The states the firmware reaches from boot.\<close>

inductive bt_reach :: "nat \<Rightarrow> bt \<Rightarrow> bool" for n where
  bt_reach_boot: "bt_reach n (bt_boot n gap al)"
| bt_reach_step: "bt_reach n w \<Longrightarrow> bt_parsers env n \<Longrightarrow> bt_guard n env e w \<Longrightarrow> bt_step env e w = Some w' \<Longrightarrow> bt_reach n w'"

lemma bt_reach_ok: "bt_reach n w \<Longrightarrow> bt_ok n w"
proof (induction rule: bt_reach.induct)
  case (bt_reach_boot gap al)
  show ?case by (rule bt_ok_boot)
next
  case (bt_reach_step w env e w')
  then show ?case using bt_parsers.step_fine [OF bt_reach_step.hyps(2) bt_reach_step.IH bt_reach_step.hyps(3)] by simp
qed

section \<open>A parser that keeps the contract\<close>

text \<open>
  The Atari joystick: its set-up only completes, its report is parsed as a whole, feature reports do not concern it.  A
  report with a hat position its table does not have is passed over.
\<close>

definition atari_input_report :: "nat \<Rightarrow> bytes \<Rightarrow> bp32 \<Rightarrow> bp32 option" where
  "atari_input_report i r b =
     Some (upd_dev i (\<lambda>d. d\<lparr> controller :=
       (case uni_hid_parser_atari_parse_input_report r (uni_hid_parser_atari_init_report (controller d)) of
          None \<Rightarrow> controller d | Some c \<Rightarrow> c) \<rparr>) b)"

definition atari_env :: bt_env where
  "atari_env = \<lparr> be_controllers = [], be_setup = \<lambda>p i b. map_option snd (uni_hid_device_set_ready_complete (Some i) b),
     be_input_report = atari_input_report, be_feature_report = \<lambda>p i r b. Some b, be_channel = Some 0x41,
     be_sdp_channel = True, be_local_addr = [1, 2, 3, 4, 5, 6],
     be_iterator = \<lparr> it_element = 0, it_pos = 0, it_length = 0 \<rparr>, be_memory = \<lambda>a. 0 \<rparr>"

lemma table_ok_atari: "table_ok n b \<Longrightarrow> i < n \<Longrightarrow> \<exists>b'. atari_input_report i r b = Some b' \<and> table_ok n b'"
  using table_okD(3) [of n b i] by (auto simp: atari_input_report_def dev_view_def slot_ok_fields intro!: table_ok_upd)

interpretation atari: bt_parsers atari_env n for n
  using table_ok_ready table_ok_atari by unfold_locales (fastforce simp: atari_env_def)+

section \<open>A gamepad without a name\<close>

text \<open>
  A table of two; an inquiry finds a gamepad that does not tell its name, and it is asked for it.
\<close>

definition pad_addr :: bytes where "pad_addr = [0x11, 0x22, 0x33, 0x44, 0x55, 0x66]"

definition booted :: bt where "booted = bt_boot 2 (\<lambda>h. GAP_CONNECTION_INVALID) (allowlist_boot 4)"

definition pad_found :: bt_event where "pad_found = GapInquiryResult pad_addr 1 0 0x2508 (Some 200) None"

lemma pad_supported: "uni_hid_device_on_device_discovered True (to_u16 (0x2508::u32)) 200 = UNI_ERROR_SUCCESS"
  by code_simp

lemma fsm_twice: "process_fsm 2 env = fsm_body (process_fsm 1 env) env"
  by (intro ext) (simp add: numeral_2_eq_2)

lemma upto_two: "[0..<2] = [0, 1::nat]"
  by (simp add: upt_rec)

lemmas event_defs = bt_boot_def bp32_boot_def arduino_init_def uni_hid_device_setup_def
  uni_bt_bredr_on_gap_inquiry_result_def Let_def HID_MAX_NAME_LEN_def allowlist_boot_def uni_bt_allowlist_is_allowed_addr_def
  device_for_def create_device_def uni_hid_device_get_instance_for_address_def find_dev_def dev_def
  uni_hid_device_is_virtual_device_def uni_hid_device_init_def uni_hid_device_zero_def uni_bt_conn_init_def
  uni_bt_conn_zero_def zero_addr_def uni_hid_device_create_def start_connection_timeout_def upd_dev_def
  set_conn_state_def upd_device_def upd_bp_def upd_conn_def uni_bt_conn_set_state_def uni_hid_device_set_cod_def
  uni_hid_device_has_name_def uni_bt_bredr_process_fsm_def fsm_twice fsm_body_def device_def uni_bt_conn_get_state_def
  request_name_def emit_bt_def emit_hid_def FLAGS_HAS_COD_def FLAGS_HAS_NAME_def

lemma pad_asked:
  obtains w where "bt_step atari_env pad_found booted = Some w" "device_for pad_addr w = Some 0"
    "inquiry_remote_name_timer (device w 0)" "\<not> connected (conn (device w 0))"
    "\<not> uni_hid_device_has_name (device w 0)" "btaddr (conn (device w 0)) \<noteq> zero_addr"
    "conn_state (conn (device w 0)) \<noteq> UNI_BT_CONN_STATE_DEVICE_READY"
  by (simp add: booted_def pad_found_def pad_addr_def pad_supported upto_two event_defs)

lemma booted_reach: "bt_reach 2 booted"
  unfolding booted_def by (rule bt_reach_boot)

lemma pad_reach: "bt_step atari_env pad_found booted = Some w \<Longrightarrow> bt_reach 2 w"
  using bt_reach_step [OF booted_reach atari.bt_parsers_axioms, of pad_found w] by (simp add: pad_found_def)

section \<open>The ring of commands\<close>

definition ring_ok :: "cmd_queue \<Rightarrow> bool" where
  "ring_ok q \<longleftrightarrow> cmd_pending q = [] \<and> length (cmd_callback_registration q) = CMD_CALLBACK_MAX \<and>
     cmd_callback_idx q < CMD_CALLBACK_MAX"

lemma ring_ok_boot: "ring_ok cmd_boot"
  by (simp add: ring_ok_def cmd_boot_def CMD_CALLBACK_MAX_def)

lemma wrapped_eq:
  "(if r + a < 8 then r + a else r + a - 8) = (if r + b < 8 then r + b else r + b - 8) \<Longrightarrow> a < 8 \<Longrightarrow> b < 8 \<Longrightarrow> r < 8 \<Longrightarrow> a = (b::nat)"
  by (cases "r + a < 8"; cases "r + b < 8"; simp only: if_True if_False; linarith)

lemma mod8_wrap:
  assumes "c < 8"
  shows "(x + c) mod 8 = (if x mod 8 + c < 8 then x mod 8 + c else x mod 8 + c - (8::nat))"
proof -
    have e: "(x + c) mod 8 = (x mod 8 + c) mod 8" by (simp add: mod_simps)
    have l: "x mod 8 < 8" by simp
    show ?thesis
    proof (cases "x mod 8 + c < 8")
      case True
      then show ?thesis unfolding e by simp
    next
      case False
      then have "(x mod 8 + c) mod 8 = (x mod 8 + c - 8) mod 8" by (simp add: le_mod_geq)
      also have "\<dots> = x mod 8 + c - 8" using assms l by (intro mod_less) arith
      finally show ?thesis using False unfolding e by simp
    qed
qed

lemma slots_differ:
  assumes "a < 8" "b < 8"
  shows "(i + 1 + a) mod 8 = (i + 1 + b) mod (8::nat) \<longleftrightarrow> a = b"
  using wrapped_eq [OF _ assms, of "(i + 1) mod 8"] unfolding mod8_wrap [OF assms(1)] mod8_wrap [OF assms(2)] by auto

lemma posted:
  assumes q: "ring_ok q"
  shows "length cs \<le> 8 \<Longrightarrow>
    cmd_pending (fold post_command cs q) = map (\<lambda>k. (cmd_callback_idx q + 1 + k) mod 8) [0..<length cs] \<and>
    cmd_callback_idx (fold post_command cs q) = (cmd_callback_idx q + length cs) mod 8 \<and>
    length (cmd_callback_registration (fold post_command cs q)) = 8 \<and>
    (\<forall>k < length cs. cmd_callback_registration (fold post_command cs q) ! ((cmd_callback_idx q + 1 + k) mod 8) = cs ! k)"
proof (induction cs rule: rev_induct)
  case Nil
  then show ?case using q by (simp add: ring_ok_def CMD_CALLBACK_MAX_def)
next
  case (snoc c cs)
  let ?q = "fold post_command cs q"
  let ?n = "(cmd_callback_idx q + 1 + length cs) mod 8"
  have IH: "cmd_pending ?q = map (\<lambda>k. (cmd_callback_idx q + 1 + k) mod 8) [0..<length cs]"
    "cmd_callback_idx ?q = (cmd_callback_idx q + length cs) mod 8" "length (cmd_callback_registration ?q) = 8"
    "\<forall>k < length cs. cmd_callback_registration ?q ! ((cmd_callback_idx q + 1 + k) mod 8) = cs ! k"
    using snoc by simp_all
  have n: "get_next_callback_registration ?q = ?n"
    using IH(2) by (simp add: get_next_callback_registration_def CMD_CALLBACK_MAX_def mod_simps)
  have new: "?n \<noteq> (cmd_callback_idx q + 1 + k) mod 8" if "k < length cs" for k
    using slots_differ [of "length cs" k "cmd_callback_idx q"] that snoc.prems by auto
  then have "?n \<notin> set (cmd_pending ?q)" unfolding IH(1) by (simp add: image_iff)
  then have "fold post_command (cs @ [c]) q = ?q\<lparr> cmd_callback_idx := ?n,
      cmd_callback_registration := (cmd_callback_registration ?q)[?n := c], cmd_pending := cmd_pending ?q @ [?n] \<rparr>"
    by (simp add: post_command_def Let_def n)
  then show ?case using IH new by (auto simp: nth_append less_Suc_eq nth_list_update)
qed

section \<open>Properties\<close>



text \<open>C18: A gamepad that connects while it is asked for its name ends the firmware.  In every reachable state, when the
  interrupt channel opens to a device whose name is not known yet and whose name request is under way, the timer of the
  request is added a second time and BTstack's run loop fails its assertion.\<close>

theorem name_timer_added_twice:
  assumes "bt_reach n w" "device_for a w = Some i" "\<not> connected (conn (device w i))"
    "\<not> uni_hid_device_has_name (device w i)" "inquiry_remote_name_timer (device w i)"
  shows "bt_step env (L2capOpened 0 a BLUETOOTH_PSM_HID_INTERRUPT cid) w = None"
proof -
  have i: "i < length (g_devices (bp w))"
    using device_for_Some(1) [OF bt_reach_ok [OF assms(1)] assms(2)] bt_reach_ok [OF assms(1)] by (simp add: bt_ok_def table_ok_def)
  let ?w = "bredr_opened_psm i BLUETOOTH_PSM_HID_INTERRUPT cid w"
  have d: "device ?w i = (device w i)\<lparr> conn := (conn (device w i))\<lparr> interrupt_cid := cid,
      conn_state := UNI_BT_CONN_STATE_L2CAP_INTERRUPT_CONNECTED, connected := True \<rparr>,
      platform_data := \<lparr> controller_idx = -1 \<rparr> \<rparr>" "i < length (g_devices (bp ?w))"
    using i assms(3) by (simp_all add: bredr_opened_psm_def BLUETOOTH_PSM_HID_INTERRUPT_def BLUETOOTH_PSM_HID_CONTROL_def
        device_def upd_bp_def set_conn_state_def upd_conn_def connect_frame uni_bt_conn_set_state_def)
  have "request_name i ?w = None"
    using assms(5) d by (simp add: request_name_def Let_def device_def set_conn_state_def upd_bp_def upd_conn_def
        emit_bt_def uni_bt_conn_set_state_def)
  with assms(2,4) d(1) show ?thesis
    by (simp add: uni_bt_bredr_on_l2cap_channel_opened_def uni_bt_bredr_process_fsm_def numeral_2_eq_2 fsm_body_def
        Let_def uni_bt_conn_get_state_def uni_hid_device_has_name_def)
qed



theorem name_timer_added_twice_witness:
  "\<exists>w. bt_step atari_env pad_found booted = Some w \<and>
    bt_step atari_env (L2capOpened 0 pad_addr BLUETOOTH_PSM_HID_INTERRUPT 0x41) w = None"
proof -
  obtain w where w: "bt_step atari_env pad_found booted = Some w" "device_for pad_addr w = Some 0"
    "\<not> connected (conn (device w 0))" "\<not> uni_hid_device_has_name (device w 0)" "inquiry_remote_name_timer (device w 0)"
    by (rule pad_asked)
  show ?thesis using name_timer_added_twice [OF pad_reach [OF w(1)] w(2-5)] w(1) by blast
qed



text \<open>C38: Commands posted to the Bluetooth thread run in order, up to eight at a time.  From an empty queue, whatever the
  position in the ring, up to eight posted commands are all run, once and in the order they were posted; a ninth one
  before the run takes the record of the first, which is lost and replaced by it.\<close>

theorem commands_in_order:
  assumes "ring_ok q"
  shows "(length cs \<le> 8 \<longrightarrow> fst (run_commands (fold post_command cs q)) = cs) \<and>
    (length cs = 8 \<longrightarrow> fst (run_commands (post_command c (fold post_command cs q))) = c # drop 1 cs)"
proof -
  note p = posted [OF assms, of cs]
  let ?q = "fold post_command cs q"
  have run: "fst (run_commands ?q) = cs" if "length cs \<le> 8"
    using p [OF that] by (auto simp: run_commands_def intro!: nth_equalityI)
  have "fst (run_commands (post_command c ?q)) = c # drop 1 cs" if n: "length cs = 8"
  proof -
    have i: "get_next_callback_registration ?q = (cmd_callback_idx q + 1) mod 8"
      using p n by (simp add: get_next_callback_registration_def CMD_CALLBACK_MAX_def mod_simps)
    have pend: "cmd_pending ?q = map (\<lambda>k. (cmd_callback_idx q + 1 + k) mod 8) [0..<8]" using p n by simp
    then have "(cmd_callback_idx q + 1) mod 8 \<in> set (cmd_pending ?q)" unfolding pend by (auto simp: image_iff intro!: bexI [of _ "0::nat"])
    then have pc: "run_commands (post_command c ?q) = (map (\<lambda>k. (cmd_callback_registration ?q)[(cmd_callback_idx q + 1) mod 8 := c] ! k)
        (cmd_pending ?q), (post_command c ?q)\<lparr> cmd_pending := [] \<rparr>)"
      by (simp add: run_commands_def post_command_def Let_def i)
    have reg: "cmd_callback_registration ?q ! ((cmd_callback_idx q + 1 + k) mod 8) = cs ! k" if "k < 8" for k
      using p n that by simp
    have "fst (run_commands (post_command c ?q)) ! k = (c # drop 1 cs) ! k" if k: "k < 8" for k
    proof (cases "k = 0")
      case True
      then show ?thesis using p n by (simp add: pc pend)
    next
      case False
      then have "(cmd_callback_idx q + 1 + k) mod 8 \<noteq> (cmd_callback_idx q + 1) mod 8"
        using slots_differ [of k 0 "cmd_callback_idx q"] k by simp
      then have "fst (run_commands (post_command c ?q)) ! k = cs ! k"
        using reg [OF k] k by (simp add: pc pend)
      with False n k show ?thesis by (simp add: nth_Cons')
    qed
    then show ?thesis using n by (intro nth_equalityI) (simp_all add: pc pend)
  qed
  with run show ?thesis by blast
qed

theorem commands_in_order_witness:
  "fst (run_commands (fold post_command [1, 2, 3, 4, 5, 6, 7, 8] cmd_boot)) = [1, 2, 3, 4, 5, 6, 7, 8] \<and>
   fst (run_commands (post_command 9 (fold post_command [1, 2, 3, 4, 5, 6, 7, 8] cmd_boot))) = [9, 2, 3, 4, 5, 6, 7, 8]"
  using commands_in_order [OF ring_ok_boot, of "[1, 2, 3, 4, 5, 6, 7, 8]" 9] by simp

end
