(* ===== verification/Spec2Isabelle.thy ===== *)
theory Spec2Isabelle
  imports Failsafe Bayang Nfe_Profile Nrf24 Xn297 Control_Mapping Telemetry_Laws Uni_Controller Hid_Parser_Laws Uni_Hid_Parser Pad_Parsers Xboxone Stadia Hid_Device_Laws Seats Gamepad Transmitter Pc_Export Sdp_Laws Uni_Bt_Laws
begin

text \<open>
  The ESP32 transmitter for NFE Silverware quadcopters, as a library of theories.

  \<^bold>\<open>The program.\<close>  A Bluetooth gamepad is read by Bluepad32 (\<^verbatim>\<open>src/components/bluepad32\<close>, on the Bluetooth
  stack \<^verbatim>\<open>src/components/btstack\<close>): a report of a device is taken apart with the device's HID descriptor, a
  parser of its model fills a controller structure, buttons are remapped, and the Arduino platform
  (\<^verbatim>\<open>src/components/bluepad32_arduino\<close>) puts the result into one of its seats.  The application
  (\<^verbatim>\<open>src/main\<close>) polls the seats, keeps one gamepad, and every cycle of its control task feeds the safety state
  machine, updates switches and gestures, chooses a packet, sends it through an nRF24L01+ that speaks the XN297
  protocol with Bayang packets, and decodes the telemetry that comes back in the receive window.  State changes
  become events on a console, cues on a light and a buzzer and, in the build for a PC, framed records on the serial
  line.  Settings live in non-volatile storage.

  \<^bold>\<open>Theories and sources.\<close>  Every theory follows the order of its source file, one definition per function and
  under the function's name; a class or a group of static variables is a record.

  \<^item> \<^verbatim>\<open>Tx_Prelude\<close>: names of the machine integers, word, list and option lemmas, the collections \<open>tx_defs\<close> and
    \<open>tx_inv\<close>.  \<^verbatim>\<open>F32\<close>: IEEE single precision by correct rounding of rationals, stated as a locale of a rounding
    function and interpreted on it.
  \<^item> Radio: \<^verbatim>\<open>Nrf24\<close> (\<^verbatim>\<open>radio/nrf24.cpp\<close>; the board is a log of SPI bytes and pin writes and a stream of answers),
    \<^verbatim>\<open>Xn297\<close> (\<^verbatim>\<open>xn297.cpp\<close>), \<^verbatim>\<open>Bayang\<close> (\<^verbatim>\<open>bayang.cpp\<close>), \<^verbatim>\<open>Nfe_Profile\<close> (\<^verbatim>\<open>nfe_silverware_profile.cpp\<close>).
    \<^verbatim>\<open>Radio_Trace\<close> relates operations to the payloads they put on the air.
  \<^item> Safety: \<^verbatim>\<open>Failsafe\<close> (\<^verbatim>\<open>safety/failsafe.cpp\<close>), \<^verbatim>\<open>Prearm_Guard\<close> (\<^verbatim>\<open>safety/prearm_guard.cpp\<close>).
  \<^item> Gamepad: \<^verbatim>\<open>Control_Mapping\<close> and \<^verbatim>\<open>Gamepad\<close> (\<^verbatim>\<open>gamepad/*.cpp\<close>), over \<^verbatim>\<open>Bp32_Arduino\<close>
    (\<^verbatim>\<open>ArduinoBluepad32.cpp\<close>, \<^verbatim>\<open>ArduinoController.cpp\<close>) and \<^verbatim>\<open>Arduino_Platform\<close> (\<^verbatim>\<open>arduino_platform.c\<close>).
  \<^item> Telemetry: \<^verbatim>\<open>Telemetry\<close>, \<^verbatim>\<open>Telemetry_Laws\<close> (\<^verbatim>\<open>telemetry/telemetry.cpp\<close>); for the PC \<^verbatim>\<open>Pc_Protocol\<close>,
    \<^verbatim>\<open>Pc_Protocol_Laws\<close>, \<^verbatim>\<open>Pc_State\<close>, \<^verbatim>\<open>Pc_Export\<close> (\<^verbatim>\<open>telemetry/pc_telemetry_*.cpp\<close>).
  \<^item> \<^verbatim>\<open>Settings\<close> (\<^verbatim>\<open>storage/*.cpp\<close>), \<^verbatim>\<open>Feedback\<close> (\<^verbatim>\<open>feedback/*.cpp\<close>), \<^verbatim>\<open>Console\<close> (\<^verbatim>\<open>console/console.cpp\<close>).
  \<^item> The task: \<^verbatim>\<open>Control_Task\<close> (\<^verbatim>\<open>app_main.cpp\<close>) composes the components above into \<open>control_cycle\<close>, a pass of
    the loop, and \<open>tx_reach\<close>, the states of the task after set-up and any number of passes.  \<^verbatim>\<open>Control_Loops\<close>
    proves its polling loops end, \<^verbatim>\<open>Control_Laws\<close> and \<^verbatim>\<open>Control_Safety\<close> what a pass does, and \<^verbatim>\<open>Transmitter\<close>
    states the properties of the whole.
  \<^item> Bluepad32: \<^verbatim>\<open>Circular_Buffer\<close> (\<^verbatim>\<open>uni_circular_buffer.c\<close>), \<^verbatim>\<open>Hid_Device\<close>, \<^verbatim>\<open>Hid_Lifecycle\<close>, \<^verbatim>\<open>Hid_Device_Laws\<close>,
    \<^verbatim>\<open>Seats\<close> (\<^verbatim>\<open>uni_hid_device.c\<close> with the connection record and the platform callbacks), \<^verbatim>\<open>Uni_Controller\<close>
    (\<^verbatim>\<open>controller/uni_gamepad.c\<close>), \<^verbatim>\<open>Uni_Hid_Parser\<close>, \<^verbatim>\<open>Pad_Parsers\<close>, \<^verbatim>\<open>Rumble_Driver\<close>, \<^verbatim>\<open>Xboxone\<close>, \<^verbatim>\<open>Stadia\<close>
    (\<^verbatim>\<open>parser/uni_hid_parser*.c\<close>), \<^verbatim>\<open>Uni_Property\<close> (\<^verbatim>\<open>uni_property.c\<close>, \<^verbatim>\<open>arch/uni_property_esp32.c\<close>).
  \<^item> Bluetooth of Bluepad32: \<^verbatim>\<open>Uni_Allowlist\<close> (\<^verbatim>\<open>bt/uni_bt_allowlist.c\<close>), \<^verbatim>\<open>Uni_Bt_Sdp\<close> (\<^verbatim>\<open>bt/uni_bt_sdp.c\<close> and the state
    machine of \<^verbatim>\<open>bt/uni_bt_bredr.c\<close>), \<^verbatim>\<open>Uni_Bt\<close> (the handlers of \<^verbatim>\<open>bt/uni_bt_bredr.c\<close> and the dispatch and commands of
    \<^verbatim>\<open>bt/uni_bt.c\<close>): \<open>bt_step\<close> is one event, \<open>bt_reach\<close> the states from boot.  \<^verbatim>\<open>Uni_Bt_Table\<close>, \<^verbatim>\<open>Uni_Bt_Discovery\<close> and
    \<^verbatim>\<open>Uni_Bt_Laws\<close> prove their invariant: of the device table, of discovery, of the handlers.
  \<^item> BTstack: \<^verbatim>\<open>Hid_Parser\<close>, \<^verbatim>\<open>Hid_Parser_Laws\<close> (\<^verbatim>\<open>btstack_hid_parser.c\<close>), \<^verbatim>\<open>Sdp_Util\<close>, \<^verbatim>\<open>Sdp_Laws\<close>
    (\<^verbatim>\<open>classic/sdp_util.c\<close>).

  \<^bold>\<open>Interfaces.\<close>  A locale states what a client relies on and is interpreted on the model of the code that
  provides it: \<open>report_queue\<close> (the queue of outgoing reports, by the circular buffer), \<open>latched_selection\<close> (a switch
  toggled by a button, by the five switches of the profile), \<open>pad_parser\<close> (a table of usages, by the tables of
  seven gamepads), \<open>rumble_driver\<close> (a rumble with timers, by the Xbox and Stadia drivers), \<open>framing\<close> (a wire
  format, by the PC protocol), \<open>rounding\<close> (by single precision), \<open>bt_parsers\<close> (what the parsers may do to the device
  table, by the Atari joystick).

  \<^bold>\<open>What the lemmas show.\<close>  The failsafe machine moves only along its edges (\<open>fs_edge\<close>), and the control task
  moves it the same way; a packet with motor channels is sent only in the active state, which is reached only
  through an unlock and a confirmed configuration; a gamepad silent for the timeout or a radio that fails repeatedly
  ends it.  Packets, telemetry pages, PC records, settings and mappings survive their round trips.  The optimised
  or in-place routines (the CRC, the byte stuffing, the circular buffer, the export queue) agree with reference
  definitions.  Seats, the platform's counter and the table of devices agree after every sequence of connections
  and disconnections.  The Bluetooth handlers keep that agreement and the rule that an occupied slot is ready or on a
  running timer, and they return after every event their guard \<open>bt_guard\<close> admits.  Fields of a HID report, attributes of an SDP record and the axes of every pad are what their
  encodings say.  Where the code fails, the failure is a theorem: reads past a truncated report, a seat leaked by a
  repeated connection, a hostile search pattern that never ends, a name timer that is added twice.

  \<^bold>\<open>Time, fuel and bounds.\<close>  The clock, the radio's answers, and what other tasks do are inputs of a step.
  An event of the Bluetooth machine that ends the firmware (a failed assertion, a write outside an array, a loop without
  end) is \<^const>\<open>None\<close>.  The state machine of a device calls itself through the end of a query; two levels are enough, as
  \<open>process_fsm_depth\<close> proves.  The polling loops of the task are functions with a measure: the time left to the deadline, under a clock that never
  goes back and advances by a pass's delay.  The recursion over the virtual children of a device takes the number of
  devices plus one as fuel, since a child is another slot of the table.  The walks over SDP sequences may run
  forever and are partial functions in which \<^const>\<open>None\<close> is a walk without end; the search for a UUID takes the depth of
  nesting as fuel, which the sequence's length bounds.  Machine integers are words of their width; where an
  \<^verbatim>\<open>int\<close> of the source cannot leave its range it is an \<^typ>\<open>int\<close>.  An assertion, an abort or a read outside an array is
  an error value.

  \<^bold>\<open>Builds.\<close>  \<^verbatim>\<open>config.h\<close> selects text output or the telemetry of a PC.  \<^verbatim>\<open>Control_Task\<close> and \<^verbatim>\<open>Console\<close> are the text
  build, where the export's calls are empty; \<^verbatim>\<open>Pc_State\<close> and \<^verbatim>\<open>Pc_Export\<close> are the other one.

  \<^bold>\<open>Not modelled.\<close>  The text the console prints (formatting of floats by \<^verbatim>\<open>printf\<close>); logging and dump functions.
  The parsers of gamepads other than the listed ones, and the boards and consoles Bluepad32 supports beside Arduino:
  the transmitter is made for an Xbox gamepad.  Of the Bluetooth code the LE transport (\<^verbatim>\<open>bt/uni_bt_le.c\<close>), the BLE service, the
  start of the stack, the scan and the listing of keys, which sequence requests to the stack; in the connection machine
  the timers inside a parser's private data and the delay timer of the system button, whose removal with their device the
  code leaves out.  The stack itself apart from the files above and the rule that its SDP client takes one query at a
  time: vendored code; its calls are parameters or entries of a log.  The ESP-IDF and Arduino libraries are not part of the repository: their storage
  and queues are parameters with their documented laws.  The Python ground station and the host tests are not part of
  the firmware.
\<close>

end
